(* ===== verification/Nightjar_Base.thy ===== *)
theory Nightjar_Base
  imports Main "HOL-Library.Word" "HOL-Library.Multiset"
begin

text \<open>
  The prelude of the development: the names of the model's basic types, the fact
  collections, the list and multiset lemmas every component shares, and the model of
  Go's \<^verbatim>\<open>sort.Slice\<close> with the contract its documentation promises, stated as a
  locale. Clients of sorting prove their facts from the contract alone.
\<close>

section \<open>Types shared by every component\<close>

text \<open>
  \<^verbatim>\<open>common.Address\<close> is a 20-byte array, \<^verbatim>\<open>common.Hash\<close> a 32-byte array,
  \<^verbatim>\<open>uint64\<close>, \<^verbatim>\<open>uint32\<close> and \<^verbatim>\<open>uint8\<close> are kept at their width. Go strings
  and byte slices are both sequences of bytes, as \<^typ>\<open>string\<close> is.
  \<^verbatim>\<open>*big.Int\<close> is unbounded: \<^typ>\<open>int\<close>, and \<^typ>\<open>int option\<close> where the code
  tests for a nil pointer.
\<close>

type_synonym address = "160 word"
type_synonym hash = "256 word"
type_synonym u64 = "64 word"
type_synonym u32 = "32 word"
type_synonym u8 = "8 word"
type_synonym bytes = string

text \<open>Errors are their text, as \<^verbatim>\<open>error\<close> values are in the code.\<close>

type_synonym err = string

named_theorems matching_simps \<open>unfolding rules of the matching engine\<close>
named_theorems handler_defs \<open>definitions of the enclave's handlers\<close>
named_theorems check_defs \<open>definitions of the deployment checks\<close>

section \<open>Error results\<close>

text \<open>Sequencing of fallible calls: the first error is returned as it is.\<close>

definition and_then :: "'e + 'a \<Rightarrow> ('a \<Rightarrow> 'e + 'b) \<Rightarrow> 'e + 'b" where
  "and_then r f = (case r of Inl e \<Rightarrow> Inl e | Inr a \<Rightarrow> f a)"

lemma and_then_simps [simp]:
  "and_then (Inl e) f = Inl e"
  "and_then (Inr a) f = f a"
  by (simp_all add: and_then_def)

lemma and_then_Inr_iff:
  "and_then r f = Inr b \<longleftrightarrow> (\<exists>a. r = Inr a \<and> f a = Inr b)"
  by (cases r) auto

lemma and_then_Inl_iff:
  "and_then r f = Inl e \<longleftrightarrow> r = Inl e \<or> (\<exists>a. r = Inr a \<and> f a = Inl e)"
  by (cases r) auto

text \<open>Rewording an error, as \<^verbatim>\<open>fmt.Errorf("...: %w", err)\<close> does.\<close>

definition map_err :: "('e \<Rightarrow> 'f) \<Rightarrow> 'e + 'a \<Rightarrow> 'f + 'a" where
  "map_err g r = (case r of Inl e \<Rightarrow> Inl (g e) | Inr a \<Rightarrow> Inr a)"

lemma map_err_simps [simp]:
  "map_err g (Inl e) = Inl (g e)"
  "map_err g (Inr a) = Inr a"
  by (simp_all add: map_err_def)

lemma map_err_Inr_iff [simp]: "map_err g r = Inr a \<longleftrightarrow> r = Inr a"
  by (cases r) auto

text \<open>
  The same for calls that also change a state, which an error leaves as it was when it
  occurred.
\<close>

definition then_do :: "('e + 'a) \<times> 'w \<Rightarrow> ('a \<Rightarrow> 'w \<Rightarrow> ('e + 'b) \<times> 'w) \<Rightarrow> ('e + 'b) \<times> 'w" where
  "then_do rw f = (case rw of (Inl e, w) \<Rightarrow> (Inl e, w) | (Inr a, w) \<Rightarrow> f a w)"

lemma then_do_simps [simp]:
  "then_do (Inl e, w) f = (Inl e, w)"
  "then_do (Inr a, w) f = f a w"
  by (simp_all add: then_do_def)

lemma then_do_cases:
  assumes "then_do rw f = (r, w')"
  obtains e where "rw = (Inl e, w')" "r = Inl e" | a w1 where "rw = (Inr a, w1)" "f a w1 = (r, w')"
  using assms by (auto simp: then_do_def split: prod.splits sum.splits)

section \<open>Lists and multisets\<close>

lemma sum_list_mset_cong:
  fixes f :: "'a \<Rightarrow> int"
  shows "mset xs = mset ys \<Longrightarrow> sum_list (map f xs) = sum_list (map f ys)"
  using sum_mset_sum_list [of "map f xs"] sum_mset_sum_list [of "map f ys"] by simp

lemma sum_list_mono_filter:
  fixes f :: "'a \<Rightarrow> int"
  assumes "\<And>x. x \<in> set xs \<Longrightarrow> 0 \<le> f x"
    and "\<And>x. x \<in> set xs \<Longrightarrow> P x \<Longrightarrow> Q x"
  shows "sum_list (map f (filter P xs)) \<le> sum_list (map f (filter Q xs))"
  using assms
proof (induction xs)
  case Nil
  then show ?case by simp
next
  case (Cons x xs)
  have "sum_list (map f (filter P xs)) \<le> sum_list (map f (filter Q xs))"
    by (rule Cons.IH) (use Cons.prems in auto)
  moreover have "0 \<le> f x" using Cons.prems(1) by simp
  moreover have "P x \<Longrightarrow> Q x" using Cons.prems(2) by simp
  ultimately show ?case by auto
qed

lemma sum_list_filter_nonneg:
  fixes f :: "'a \<Rightarrow> int"
  assumes "\<And>x. x \<in> set xs \<Longrightarrow> 0 \<le> f x"
  shows "0 \<le> sum_list (map f (filter P xs))"
  by (rule sum_list_nonneg) (use assms in auto)

lemma sum_list_pos_iff_nonempty:
  fixes f :: "'a \<Rightarrow> int"
  assumes "\<And>x. x \<in> set xs \<Longrightarrow> 0 < f x"
  shows "0 < sum_list (map f xs) \<longleftrightarrow> xs \<noteq> []"
  using assms by (induction xs) (auto intro: add_pos_nonneg simp: order_less_imp_le sum_list_nonneg)

lemma sum_list_filter_split:
  fixes f :: "'a \<Rightarrow> int"
  shows "sum_list (map f xs) = sum_list (map f (filter P xs)) + sum_list (map f (filter (\<lambda>x. \<not> P x) xs))"
  by (induction xs) auto

section \<open>Sorting a slice\<close>

text \<open>
  \<^verbatim>\<open>sort.Slice(x, less)\<close> permutes \<open>x\<close> in place so that it is ordered by
  \<open>lt\<close>, which has to be a strict weak order; it does not promise to keep equal
  elements in their order.
\<close>

definition strict_weak :: "('a \<Rightarrow> 'a \<Rightarrow> bool) \<Rightarrow> bool" where
  "strict_weak lt \<longleftrightarrow>
     (\<forall>x. \<not> lt x x) \<and>
     (\<forall>x y z. lt x y \<longrightarrow> lt y z \<longrightarrow> lt x z) \<and>
     (\<forall>x y z. \<not> lt x y \<longrightarrow> \<not> lt y z \<longrightarrow> \<not> lt x z)"

lemma strict_weak_asym: "strict_weak lt \<Longrightarrow> lt x y \<Longrightarrow> \<not> lt y x"
  unfolding strict_weak_def by metis

lemma strict_weak_trans: "strict_weak lt \<Longrightarrow> lt x y \<Longrightarrow> lt y z \<Longrightarrow> lt x z"
  unfolding strict_weak_def by metis

lemma strict_weak_neg_trans:
  "strict_weak lt \<Longrightarrow> \<not> lt x y \<Longrightarrow> \<not> lt y z \<Longrightarrow> \<not> lt x z"
  unfolding strict_weak_def by metis

definition total_on_list :: "('a \<Rightarrow> 'a \<Rightarrow> bool) \<Rightarrow> 'a list \<Rightarrow> bool" where
  "total_on_list lt xs \<longleftrightarrow> (\<forall>x \<in> set xs. \<forall>y \<in> set xs. x \<noteq> y \<longrightarrow> lt x y \<or> lt y x)"

text \<open>Two orderings of the same elements agree when the order is total on them.\<close>

lemma sorted_wrt_unique:
  assumes "sorted_wrt R xs" "sorted_wrt R ys" "mset xs = mset ys"
    and "\<And>x y. x \<in> set xs \<Longrightarrow> y \<in> set xs \<Longrightarrow> R x y \<Longrightarrow> R y x \<Longrightarrow> x = y"
  shows "xs = ys"
  using assms
proof (induction xs arbitrary: ys)
  case Nil
  then show ?case by simp
next
  case (Cons x xs)
  from Cons.prems(3) obtain y ys' where ys: "ys = y # ys'"
    by (cases ys) auto
  have sets: "set (x # xs) = set ys"
    using Cons.prems(3) by (metis set_mset_mset)
  have "x = y"
  proof (rule ccontr)
    assume ne: "x \<noteq> y"
    then have "x \<in> set ys'" and "y \<in> set xs" using sets ys by auto
    then have "R x y" and "R y x" using Cons.prems(1,2) ys by auto
    moreover have "x \<in> set (x # xs)" "y \<in> set (x # xs)" using sets ys by auto
    ultimately show False using Cons.prems(4) ne by blast
  qed
  moreover have "xs = ys'"
    by (rule Cons.IH) (use Cons.prems ys \<open>x = y\<close> in auto)
  ultimately show ?case using ys by simp
qed

text \<open>The interface: what a client of \<^verbatim>\<open>sort.Slice\<close> may rely on, and what follows.\<close>

locale slice_sort =
  fixes sort_slice :: "('a \<Rightarrow> 'a \<Rightarrow> bool) \<Rightarrow> 'a list \<Rightarrow> 'a list"
  assumes perm: "mset (sort_slice lt xs) = mset xs"
    and ordered: "strict_weak lt \<Longrightarrow> sorted_wrt (\<lambda>x y. \<not> lt y x) (sort_slice lt xs)"
begin

lemma set_sort [simp]: "set (sort_slice lt xs) = set xs"
  by (metis perm set_mset_mset)

lemma length_sort [simp]: "length (sort_slice lt xs) = length xs"
  by (metis perm size_mset)

lemma sum_sort: "sum_list (map f (sort_slice lt xs)) = (sum_list (map f xs) :: int)"
  by (rule sum_list_mset_cong) (rule perm)

lemma sort_determined:
  assumes "strict_weak lt" "total_on_list lt xs"
    and "mset ys = mset xs" "sorted_wrt (\<lambda>x y. \<not> lt y x) ys"
  shows "sort_slice lt xs = ys"
proof (rule sorted_wrt_unique [where R = "\<lambda>x y. \<not> lt y x"])
  show "sorted_wrt (\<lambda>x y. \<not> lt y x) (sort_slice lt xs)"
    using assms(1) by (rule ordered)
  show "mset (sort_slice lt xs) = mset ys"
    by (simp add: perm assms(3))
qed (use assms in \<open>auto simp: total_on_list_def\<close>)

lemma sort_arrival_independent:
  assumes "strict_weak lt" "total_on_list lt xs" "mset xs = mset ys"
  shows "sort_slice lt xs = sort_slice lt ys"
  by (rule sort_determined [OF assms(1,2)]) (simp_all add: perm assms ordered)

end

text \<open>
  The model's own sort, an insertion sort by the comparison the code passes: it meets
  the contract, and by \<open>sort_determined\<close> any other sort that meets it returns the same
  list wherever the comparison is total.
\<close>

fun insert_by :: "('a \<Rightarrow> 'a \<Rightarrow> bool) \<Rightarrow> 'a \<Rightarrow> 'a list \<Rightarrow> 'a list" where
  "insert_by lt x [] = [x]"
| "insert_by lt x (y # ys) = (if lt y x then y # insert_by lt x ys else x # y # ys)"

fun go_sort :: "('a \<Rightarrow> 'a \<Rightarrow> bool) \<Rightarrow> 'a list \<Rightarrow> 'a list" where
  "go_sort lt [] = []"
| "go_sort lt (x # xs) = insert_by lt x (go_sort lt xs)"

lemma mset_insert_by: "mset (insert_by lt x xs) = add_mset x (mset xs)"
  by (induction xs) auto

lemma set_insert_by: "set (insert_by lt x xs) = insert x (set xs)"
  by (induction xs) auto

lemma sorted_insert_by:
  assumes "strict_weak lt" "sorted_wrt (\<lambda>x y. \<not> lt y x) xs"
  shows "sorted_wrt (\<lambda>x y. \<not> lt y x) (insert_by lt x xs)"
  using assms(2)
proof (induction xs)
  case Nil
  then show ?case by simp
next
  case (Cons y ys)
  show ?case
  proof (cases "lt y x")
    case True
    then have "\<not> lt x y" by (rule strict_weak_asym [OF assms(1)])
    then show ?thesis using True Cons by (auto simp: set_insert_by)
  next
    case False
    have "\<not> lt z x" if "z \<in> set ys" for z
    proof -
      have "\<not> lt z y" using Cons.prems that by simp
      then show ?thesis by (rule strict_weak_neg_trans [OF assms(1) _ False])
    qed
    then show ?thesis using False Cons by auto
  qed
qed

lemma mset_go_sort: "mset (go_sort lt xs) = mset xs"
  by (induction xs) (auto simp: mset_insert_by)

lemma sorted_go_sort: "strict_weak lt \<Longrightarrow> sorted_wrt (\<lambda>x y. \<not> lt y x) (go_sort lt xs)"
  by (induction xs) (auto simp: sorted_insert_by)

interpretation gosort: slice_sort go_sort
  by unfold_locales (simp_all add: mset_go_sort sorted_go_sort)

lemma strict_weak_less: "strict_weak ((<) :: int \<Rightarrow> int \<Rightarrow> bool)"
  by (auto simp: strict_weak_def)

lemma total_less: "total_on_list ((<) :: int \<Rightarrow> int \<Rightarrow> bool) xs"
  by (auto simp: total_on_list_def)

lemma sorted_go_sort_int: "sorted (go_sort (<) (xs :: int list))"
  using gosort.ordered [OF strict_weak_less, of xs] by (simp add: not_less)

end
