(* ===== verification/Go_Std.thy ===== *)
theory Go_Std
  imports Nightjar_Base
begin

text \<open>
  The parts of Go's standard library the program's decisions rest on, as functions on
  byte strings: decimal conversion (\<^verbatim>\<open>big.Int.String\<close>, \<^verbatim>\<open>big.Int.SetString(s, 10)\<close>,
  \<^verbatim>\<open>strconv.Atoi\<close>, \<^verbatim>\<open>strconv.ParseUint(s, 10, 64)\<close>), Euclidean division of
  \<^verbatim>\<open>big.Int\<close>, \<^verbatim>\<open>strings.TrimSpace\<close>, \<^verbatim>\<open>Split\<close>, \<^verbatim>\<open>SplitN(s, sep, 2)\<close>,
  \<^verbatim>\<open>HasPrefix\<close>, \<^verbatim>\<open>TrimPrefix\<close>, \<^verbatim>\<open>Contains\<close>, \<^verbatim>\<open>hex.DecodeString\<close>,
  \<^verbatim>\<open>hex.EncodeToString\<close> and the lines of a \<^verbatim>\<open>bufio.Scanner\<close>. The lemmas give
  the decimal and hexadecimal round trips.
\<close>

section \<open>Decimal numbers\<close>

definition code_of :: "char \<Rightarrow> nat" where
  "code_of c = of_char c"

definition digit_char :: "nat \<Rightarrow> char" where
  "digit_char d = char_of (48 + d)"

definition digit_val :: "char \<Rightarrow> nat option" where
  "digit_val c = (if 48 \<le> code_of c \<and> code_of c \<le> 57 then Some (code_of c - 48) else None)"

lemma code_of_digit_char: "d < 10 \<Longrightarrow> code_of (digit_char d) = 48 + d"
  by (simp add: code_of_def digit_char_def)

lemma digit_val_digit_char [simp]: "d < 10 \<Longrightarrow> digit_val (digit_char d) = Some d"
  by (simp add: digit_val_def code_of_digit_char)

text \<open>The digits of a natural number, most significant first; zero is one digit.\<close>

fun dec_nat :: "nat \<Rightarrow> string" where
  "dec_nat n = (if n < 10 then [digit_char n] else dec_nat (n div 10) @ [digit_char (n mod 10)])"

declare dec_nat.simps [simp del]

text \<open>\<^verbatim>\<open>big.Int.String\<close>, and \<^verbatim>\<open>%d\<close> of any integer.\<close>

definition big_string :: "int \<Rightarrow> string" where
  "big_string i = (if i < 0 then CHR ''-'' # dec_nat (nat (- i)) else dec_nat (nat i))"

fun scan_digits :: "nat \<Rightarrow> string \<Rightarrow> nat option" where
  "scan_digits acc [] = Some acc"
| "scan_digits acc (c # cs) =
     (case digit_val c of None \<Rightarrow> None | Some d \<Rightarrow> scan_digits (10 * acc + d) cs)"

text \<open>At least one digit, and nothing but digits.\<close>

definition scan_nat :: "string \<Rightarrow> nat option" where
  "scan_nat s = (if s = [] then None else scan_digits 0 s)"

text \<open>
  \<^verbatim>\<open>new(big.Int).SetString(s, 10)\<close>: an optional sign and decimal digits to the end of
  the string. Underscores and prefixes are only read with base 0.
\<close>

fun big_set_string :: "string \<Rightarrow> int option" where
  "big_set_string [] = None"
| "big_set_string (c # cs) =
     (if c = CHR ''-'' then map_option (\<lambda>n. - int n) (scan_nat cs)
      else if c = CHR ''+'' then map_option int (scan_nat cs)
      else map_option int (scan_nat (c # cs)))"

text \<open>\<^verbatim>\<open>strconv.Atoi\<close> on a 64-bit platform: the same syntax, with a range check.\<close>

definition go_atoi :: "string \<Rightarrow> int option" where
  "go_atoi s = (case big_set_string s of
      None \<Rightarrow> None
    | Some i \<Rightarrow> if - (2 ^ 63) \<le> i \<and> i < 2 ^ 63 then Some i else None)"

text \<open>\<^verbatim>\<open>strconv.ParseUint(s, 10, 64)\<close> takes no sign.\<close>

definition go_parse_uint64 :: "string \<Rightarrow> u64 option" where
  "go_parse_uint64 s = (case scan_nat s of
      None \<Rightarrow> None
    | Some n \<Rightarrow> if n < 2 ^ 64 then Some (of_nat n) else None)"

lemma dec_nat_nonempty [simp]: "dec_nat n \<noteq> []"
  by (subst dec_nat.simps) simp

lemma scan_digits_append:
  "scan_digits acc (xs @ ys) = Option.bind (scan_digits acc xs) (\<lambda>a. scan_digits a ys)"
  by (induction acc xs rule: scan_digits.induct) (auto split: option.splits)

lemma scan_digits_dec_nat [simp]: "scan_digits 0 (dec_nat n) = Some n"
proof (induction n rule: dec_nat.induct)
  case (1 n)
  show ?case
  proof (cases "n < 10")
    case True
    then show ?thesis by (subst dec_nat.simps) simp
  next
    case False
    with 1 have "scan_digits 0 (dec_nat (n div 10)) = Some (n div 10)" by simp
    with False show ?thesis by (subst dec_nat.simps) (simp add: scan_digits_append)
  qed
qed

lemma scan_nat_dec_nat [simp]: "scan_nat (dec_nat n) = Some n"
  by (simp add: scan_nat_def)

lemma dec_nat_digits: "\<forall>c \<in> set (dec_nat n). digit_val c \<noteq> None"
proof (induction n rule: dec_nat.induct)
  case (1 n)
  then show ?case by (subst dec_nat.simps) auto
qed

lemma dec_nat_hd: "dec_nat n = c # cs \<Longrightarrow> c \<noteq> CHR ''-'' \<and> c \<noteq> CHR ''+''"
proof -
  assume eq: "dec_nat n = c # cs"
  then have "digit_val c \<noteq> None" using dec_nat_digits [of n] by simp
  moreover have "digit_val CHR ''-'' = None" "digit_val CHR ''+'' = None"
    by (simp_all add: digit_val_def code_of_def)
  ultimately show ?thesis by auto
qed

lemma big_set_string_dec_nat [simp]: "big_set_string (dec_nat n) = Some (int n)"
  by (cases "dec_nat n") (auto dest: dec_nat_hd simp flip: scan_nat_dec_nat [of n])

lemma big_set_string_big_string [simp]: "big_set_string (big_string i) = Some i"
  by (simp add: big_string_def)

lemma big_string_inj: "big_string i = big_string j \<Longrightarrow> i = j"
  by (metis big_set_string_big_string option.inject)

lemma big_string_eq_iff [simp]: "big_string i = big_string j \<longleftrightarrow> i = j"
  using big_string_inj by blast

lemma go_parse_uint64_dec_nat: "n < 2 ^ 64 \<Longrightarrow> go_parse_uint64 (dec_nat n) = Some (of_nat n)"
  by (simp add: go_parse_uint64_def)

lemma go_atoi_big_string: "- (2 ^ 63) \<le> i \<Longrightarrow> i < 2 ^ 63 \<Longrightarrow> go_atoi (big_string i) = Some i"
  by (simp add: go_atoi_def)

text \<open>
  \<^verbatim>\<open>big.Int.Div\<close> and \<^verbatim>\<open>Mod\<close> are Euclidean: the remainder is never negative. With
  the positive divisors of this program they are \<open>div\<close> and \<open>mod\<close>.
\<close>

definition big_div :: "int \<Rightarrow> int \<Rightarrow> int" where
  "big_div x y = (if 0 \<le> y then x div y else - (x div (- y)))"

definition big_mod :: "int \<Rightarrow> int \<Rightarrow> int" where
  "big_mod x y = x mod \<bar>y\<bar>"

lemma big_div_pos [simp]: "0 \<le> y \<Longrightarrow> big_div x y = x div y"
  by (simp add: big_div_def)

lemma big_mod_pos [simp]: "0 \<le> y \<Longrightarrow> big_mod x y = x mod y"
  by (simp add: big_mod_def)

lemma big_div_mod: "y \<noteq> 0 \<Longrightarrow> y * big_div x y + big_mod x y = x \<and> 0 \<le> big_mod x y \<and> big_mod x y < \<bar>y\<bar>"
proof (cases "0 \<le> y")
  case True
  assume "y \<noteq> 0"
  with True show ?thesis by simp
next
  case False
  then have "(- y) * (x div (- y)) + x mod (- y) = x" by (simp only: mult_div_mod_eq)
  with False show ?thesis by (simp add: big_div_def big_mod_def)
qed

section \<open>Strings\<close>

definition has_prefix :: "string \<Rightarrow> string \<Rightarrow> bool" where
  "has_prefix s p \<longleftrightarrow> take (length p) s = p"

definition has_suffix :: "string \<Rightarrow> string \<Rightarrow> bool" where
  "has_suffix s p \<longleftrightarrow> has_prefix (rev s) (rev p)"

definition trim_prefix :: "string \<Rightarrow> string \<Rightarrow> string" where
  "trim_prefix s p = (if has_prefix s p then drop (length p) s else s)"

fun contains :: "string \<Rightarrow> string \<Rightarrow> bool" where
  "contains [] p = (p = [])"
| "contains (c # cs) p = (has_prefix (c # cs) p \<or> contains cs p)"

text \<open>\<^verbatim>\<open>strings.Split(s, sep)\<close> for a one-character separator.\<close>

fun split_on :: "char \<Rightarrow> string \<Rightarrow> string list" where
  "split_on sep [] = [[]]"
| "split_on sep (c # cs) =
     (if c = sep then [] # split_on sep cs
      else (case split_on sep cs of [] \<Rightarrow> [[c]] | w # ws \<Rightarrow> (c # w) # ws))"

text \<open>
  \<^verbatim>\<open>strings.SplitN(s, sep, 2)\<close>: the text before the first separator, and the text
  after it where there is one (\<open>None\<close> when the result has one part only).
\<close>

fun split_n2 :: "char \<Rightarrow> string \<Rightarrow> string \<times> string option" where
  "split_n2 sep [] = ([], None)"
| "split_n2 sep (c # cs) =
     (if c = sep then ([], Some cs)
      else (case split_n2 sep cs of (a, b) \<Rightarrow> (c # a, b)))"

text \<open>
  The UTF-8 encodings of the code points \<^verbatim>\<open>unicode.IsSpace\<close> accepts, which
  \<^verbatim>\<open>strings.TrimSpace\<close> removes from both ends.
\<close>

definition space_runes :: "string list" where
  "space_runes =
     [[char_of (9::nat)], [char_of (10::nat)], [char_of (11::nat)], [char_of (12::nat)],
      [char_of (13::nat)], [CHR '' ''],
      [char_of (0xC2::nat), char_of (0x85::nat)], [char_of (0xC2::nat), char_of (0xA0::nat)],
      [char_of (0xE1::nat), char_of (0x9A::nat), char_of (0x80::nat)]]
     @ map (\<lambda>n. [char_of (0xE2::nat), char_of (0x80::nat), char_of (n::nat)])
         [0x80, 0x81, 0x82, 0x83, 0x84, 0x85, 0x86, 0x87, 0x88, 0x89, 0x8A, 0xA8, 0xA9, 0xAF]
     @ [[char_of (0xE2::nat), char_of (0x81::nat), char_of (0x9F::nat)],
        [char_of (0xE3::nat), char_of (0x80::nat), char_of (0x80::nat)]]"

function trim_with :: "string list \<Rightarrow> string \<Rightarrow> string" where
  "trim_with ws s =
     (case find (\<lambda>w. w \<noteq> [] \<and> has_prefix s w) ws of
        None \<Rightarrow> s
      | Some w \<Rightarrow> trim_with ws (drop (length w) s))"
  by pat_completeness auto
termination
proof (relation "measure (\<lambda>(ws, s). length s)", goal_cases)
  case 1
  show ?case by simp
next
  case (2 ws s w)
  then have "w \<noteq> []" and "take (length w) s = w"
    by (auto simp: find_Some_iff has_prefix_def)
  then have "0 < length w" and "s \<noteq> []" by auto
  then show ?case by simp
qed

declare trim_with.simps [simp del]

definition trim_left :: "string \<Rightarrow> string" where
  "trim_left s = trim_with space_runes s"

definition trim_right :: "string \<Rightarrow> string" where
  "trim_right s = rev (trim_with (map rev space_runes) (rev s))"

definition trim_space :: "string \<Rightarrow> string" where
  "trim_space s = trim_right (trim_left s)"

lemma trim_with_suffix: "\<exists>p. s = p @ trim_with ws s"
proof (induction ws s rule: trim_with.induct)
  case (1 ws s)
  show ?case
  proof (cases "find (\<lambda>w. w \<noteq> [] \<and> has_prefix s w) ws")
    case None
    then show ?thesis by (subst trim_with.simps) simp
  next
    case (Some w)
    with 1 obtain p where "drop (length w) s = p @ trim_with ws (drop (length w) s)" by blast
    then have "s = (take (length w) s @ p) @ trim_with ws (drop (length w) s)"
      by (metis append_assoc append_take_drop_id)
    moreover have "trim_with ws s = trim_with ws (drop (length w) s)"
      using Some by (subst trim_with.simps) simp
    ultimately show ?thesis by metis
  qed
qed

lemma trim_with_fixed: "(\<And>w. w \<in> set ws \<Longrightarrow> w = [] \<or> \<not> has_prefix s w) \<Longrightarrow> trim_with ws s = s"
  by (subst trim_with.simps) (auto split: option.splits simp: find_Some_iff in_set_conv_nth)

text \<open>Text that begins and ends with visible ASCII is left as it is.\<close>

definition visible :: "char \<Rightarrow> bool" where
  "visible c \<longleftrightarrow> 33 \<le> code_of c \<and> code_of c \<le> 126"

lemma space_runes_invisible: "w \<in> set space_runes \<Longrightarrow> w \<noteq> [] \<and> \<not> visible (hd w) \<and> \<not> visible (last w)"
  by (auto simp: space_runes_def visible_def code_of_def)

lemma trim_space_visible:
  assumes "s = [] \<or> (visible (hd s) \<and> visible (last s))"
  shows "trim_space s = s"
proof (cases "s = []")
  case True
  have "trim_with ws [] = []" for ws
    by (subst trim_with.simps) (auto split: option.splits simp: find_Some_iff has_prefix_def)
  then show ?thesis by (simp add: True trim_space_def trim_left_def trim_right_def)
next
  case False
  then have v: "visible (hd s)" "visible (last s)" using assms by simp_all
  have hd_eq: "hd w = hd t" if "has_prefix t w" "w \<noteq> []" for t w
    using that by (metis has_prefix_def hd_take length_greater_0_conv)
  have "trim_left s = s"
    unfolding trim_left_def
    by (rule trim_with_fixed) (use hd_eq v space_runes_invisible in \<open>metis\<close>)
  moreover have "trim_with (map rev space_runes) (rev s) = rev s"
  proof (rule trim_with_fixed)
    fix w assume "w \<in> set (map rev space_runes)"
    then have "\<not> visible (hd w)" using space_runes_invisible by (auto simp: hd_rev)
    moreover have "visible (hd (rev s))" using v False by (simp add: hd_rev)
    ultimately show "w = [] \<or> \<not> has_prefix (rev s) w" using hd_eq by metis
  qed
  ultimately show ?thesis by (simp add: trim_space_def trim_right_def)
qed

section \<open>Hexadecimal\<close>

definition hex_val :: "char \<Rightarrow> nat option" where
  "hex_val c =
     (let n = code_of c in
      if 48 \<le> n \<and> n \<le> 57 then Some (n - 48)
      else if 97 \<le> n \<and> n \<le> 102 then Some (n - 87)
      else if 65 \<le> n \<and> n \<le> 70 then Some (n - 55)
      else None)"

definition hex_char :: "nat \<Rightarrow> char" where
  "hex_char d = (if d < 10 then char_of (48 + d) else char_of (87 + d))"

text \<open>\<^verbatim>\<open>hex.EncodeToString\<close> and \<^verbatim>\<open>hex.DecodeString\<close> (an odd length is an error).\<close>

text \<open>
  \<^verbatim>\<open>%q\<close>: control characters, the quote and the backslash escaped; text beyond ASCII is left
  as it is.
\<close>

definition quote_char :: "char \<Rightarrow> string" where
  "quote_char c =
     (if c = CHR 0x22 \<or> c = CHR 0x5C then [CHR 0x5C, c]
      else if c = CHR 0x07 then [CHR 0x5C, CHR ''a''] else if c = CHR 0x08 then [CHR 0x5C, CHR ''b'']
      else if c = CHR 0x0C then [CHR 0x5C, CHR ''f''] else if c = CHR 0x0A then [CHR 0x5C, CHR ''n'']
      else if c = CHR 0x0D then [CHR 0x5C, CHR ''r''] else if c = CHR 0x09 then [CHR 0x5C, CHR ''t'']
      else if c = CHR 0x0B then [CHR 0x5C, CHR ''v'']
      else if code_of c < 32 \<or> code_of c = 127
        then [CHR 0x5C, CHR ''x'', hex_char (code_of c div 16), hex_char (code_of c mod 16)]
      else [c])"

definition go_quote :: "string \<Rightarrow> string" where
  "go_quote s = CHR 0x22 # concat (map quote_char s) @ [CHR 0x22]"


fun hex_encode :: "bytes \<Rightarrow> string" where
  "hex_encode [] = []"
| "hex_encode (b # bs) = hex_char (code_of b div 16) # hex_char (code_of b mod 16) # hex_encode bs"

fun hex_decode :: "string \<Rightarrow> bytes option" where
  "hex_decode [] = Some []"
| "hex_decode [c] = None"
| "hex_decode (c # d # cs) =
     (case hex_val c of None \<Rightarrow> None | Some a \<Rightarrow>
      (case hex_val d of None \<Rightarrow> None | Some b \<Rightarrow>
        map_option (\<lambda>bs. char_of (16 * a + b) # bs) (hex_decode cs)))"

lemma code_of_bound: "code_of c < 256"
  by (simp add: code_of_def of_char_of [symmetric])

lemma hex_val_hex_char [simp]: "d < 16 \<Longrightarrow> hex_val (hex_char d) = Some d"
  by (simp add: hex_val_def hex_char_def code_of_def Let_def)

lemma hex_decode_encode: "hex_decode (hex_encode bs) = Some bs"
proof (induction bs)
  case Nil
  then show ?case by simp
next
  case (Cons b bs)
  have "code_of b div 16 < 16" and "code_of b mod 16 < 16"
    using code_of_bound [of b] by auto
  moreover have "char_of (16 * (code_of b div 16) + code_of b mod 16) = b"
    by (simp add: code_of_def)
  ultimately show ?case using Cons by simp
qed

lemma length_hex_encode [simp]: "length (hex_encode bs) = 2 * length bs"
  by (induction bs) auto

text \<open>
  The regular expressions \<^verbatim>\<open>^0x[0-9a-fA-F]{n}$\<close> of the checks: the prefix and
  exactly \<open>n\<close> hexadecimal digits.
\<close>

definition match_0x_hex :: "nat \<Rightarrow> string \<Rightarrow> bool" where
  "match_0x_hex n s \<longleftrightarrow>
     has_prefix s ''0x'' \<and> length s = n + 2 \<and> list_all (\<lambda>c. hex_val c \<noteq> None) (drop 2 s)"

section \<open>Lines of a file\<close>

text \<open>
  \<^verbatim>\<open>bufio.Scanner\<close> with its default split: lines without their newline and without
  one trailing carriage return, no line after a final newline. The scanner gives up,
  silently here because the code never asks for \<^verbatim>\<open>Err\<close>, at a line that does not fit
  its buffer of 65536 bytes.
\<close>

fun raw_lines :: "string \<Rightarrow> string list" where
  "raw_lines [] = []"
| "raw_lines (c # cs) =
     (if c = char_of (10::nat) then [] # raw_lines cs
      else (case cs of [] \<Rightarrow> [[c]]
            | d # ds \<Rightarrow> (if d = char_of (10::nat) then [c] # raw_lines ds
                else (case raw_lines cs of [] \<Rightarrow> [[c]] | w # ws \<Rightarrow> (c # w) # ws))))"

definition drop_cr :: "string \<Rightarrow> string" where
  "drop_cr s = (if s \<noteq> [] \<and> last s = char_of (13::nat) then butlast s else s)"

definition scan_lines :: "string \<Rightarrow> string list" where
  "scan_lines s = map drop_cr (takeWhile (\<lambda>l. length l < 65536) (raw_lines s))"

text \<open>A file of one visible line without a final newline.\<close>

lemma visible_not_control: "visible c \<Longrightarrow> c \<noteq> char_of (10::nat) \<and> c \<noteq> char_of (13::nat)"
  by (auto simp: visible_def code_of_def)

lemma raw_lines_visible: "list_all visible s \<Longrightarrow> s \<noteq> [] \<Longrightarrow> raw_lines s = [s]"
proof (induction s)
  case (Cons c cs)
  then show ?case by (cases cs) (auto dest: visible_not_control)
qed simp

lemma scan_lines_visible:
  assumes "list_all visible s" "s \<noteq> []" "length s < 65536"
  shows "scan_lines s = [s]"
proof -
  have "visible (last s)" using assms(1,2) by (simp add: list_all_iff)
  then have "drop_cr s = s" by (auto simp: drop_cr_def dest: visible_not_control)
  then show ?thesis using assms by (simp add: scan_lines_def raw_lines_visible)
qed

end
