(* ===== verification/Go_Json.thy ===== *)
theory Go_Json
  imports Go_Std
begin

text \<open>
  \<^verbatim>\<open>encoding/json\<close> as the program uses it: the syntax accepted by
  \<^verbatim>\<open>json.Decoder.Decode\<close> (the first value of the input, whatever follows it), field
  matching, and the text \<^verbatim>\<open>json.Marshal\<close> produces for the message structs. A byte
  slice travels as base64. Strings are byte strings; escapes and invalid UTF-8 are handled
  as the decoder does, so that the terms of an order are those the decoder hands over.
\<close>

section \<open>Base64\<close>

definition b64_char :: "nat \<Rightarrow> char" where
  "b64_char n =
     (if n < 26 then char_of (65 + n) else if n < 52 then char_of (71 + n)
      else if n < 62 then char_of (n - 4) else if n = 62 then CHR ''+'' else CHR ''/'')"

definition b64_val :: "char \<Rightarrow> nat option" where
  "b64_val c =
     (let n = code_of c in
      if 65 \<le> n \<and> n \<le> 90 then Some (n - 65)
      else if 97 \<le> n \<and> n \<le> 122 then Some (n - 71)
      else if 48 \<le> n \<and> n \<le> 57 then Some (n + 4)
      else if n = 43 then Some 62 else if n = 47 then Some 63 else None)"

fun base64 :: "bytes \<Rightarrow> string" where
  "base64 [] = []"
| "base64 [a] =
     [b64_char (code_of a div 4), b64_char (code_of a mod 4 * 16), CHR ''='', CHR ''='']"
| "base64 [a, b] =
     [b64_char (code_of a div 4), b64_char (code_of a mod 4 * 16 + code_of b div 16),
      b64_char (code_of b mod 16 * 4), CHR ''='']"
| "base64 (a # b # c # rest) =
     b64_char (code_of a div 4) # b64_char (code_of a mod 4 * 16 + code_of b div 16) #
     b64_char (code_of b mod 16 * 4 + code_of c div 64) # b64_char (code_of c mod 64) # base64 rest"

text \<open>\<^verbatim>\<open>base64.StdEncoding.Decode\<close>: newlines are skipped, padding is required, spare bits are not checked.\<close>

fun b64_groups :: "string \<Rightarrow> bytes option" where
  "b64_groups [] = Some []"
| "b64_groups (p # q # r # s # rest) =
     (case (b64_val p, b64_val q) of
        (Some a, Some b) \<Rightarrow>
          (if r = CHR ''='' \<and> s = CHR ''='' \<and> rest = [] then Some [char_of (a * 4 + b div 16)]
           else (case b64_val r of
              None \<Rightarrow> None
            | Some c \<Rightarrow>
                (if s = CHR ''='' \<and> rest = []
                 then Some [char_of (a * 4 + b div 16), char_of (b mod 16 * 16 + c div 4)]
                 else (case b64_val s of
                    None \<Rightarrow> None
                  | Some d \<Rightarrow> map_option
                      (\<lambda>bs. char_of (a * 4 + b div 16) # char_of (b mod 16 * 16 + c div 4) #
                            char_of (c mod 4 * 64 + d) # bs) (b64_groups rest)))))
      | _ \<Rightarrow> None)"
| "b64_groups _ = None"

definition base64_decode :: "string \<Rightarrow> bytes option" where
  "base64_decode s = b64_groups (filter (\<lambda>c. code_of c \<noteq> 10 \<and> code_of c \<noteq> 13) s)"

lemma b64_val_char [simp]: "n < 64 \<Longrightarrow> b64_val (b64_char n) = Some n"
  by (auto simp: b64_val_def b64_char_def code_of_def Let_def)

lemma b64_char_not_special:
  assumes "n < 64"
  shows "b64_char n \<noteq> CHR ''=''" "code_of (b64_char n) \<noteq> 10" "code_of (b64_char n) \<noteq> 13"
proof -
  have "b64_val (b64_char n) = Some n" using assms by simp
  moreover have "b64_val CHR ''='' = None" by (simp add: b64_val_def code_of_def)
  moreover have "code_of (b64_char n) = 10 \<Longrightarrow> b64_val (b64_char n) = None"
    "code_of (b64_char n) = 13 \<Longrightarrow> b64_val (b64_char n) = None" by (simp_all add: b64_val_def)
  ultimately show "b64_char n \<noteq> CHR ''=''" "code_of (b64_char n) \<noteq> 10" "code_of (b64_char n) \<noteq> 13"
    by auto
qed

lemma b64_parts: "code_of a div 4 < 64" "code_of a mod 4 * 16 + code_of b div 16 < 64"
    "code_of a mod 4 * 16 < 64" "code_of b mod 16 * 4 + code_of c div 64 < 64"
    "code_of b mod 16 * 4 < 64" "code_of c mod 64 < 64"
proof -
  have "code_of a < 256" "code_of b < 256" "code_of c < 256" by (rule code_of_bound)+
  then have d: "code_of b div 16 < 16" "code_of c div 64 < 4" by auto
  moreover have m: "code_of a mod 4 < 4" "code_of b mod 16 < 16" by auto
  ultimately show "code_of a mod 4 * 16 + code_of b div 16 < 64"
    "code_of b mod 16 * 4 + code_of c div 64 < 64"
    "code_of a mod 4 * 16 < 64" "code_of b mod 16 * 4 < 64" by linarith+
  show "code_of a div 4 < 64" using \<open>code_of a < 256\<close> by auto
  show "code_of c mod 64 < 64" by simp
qed

lemma char_of_code_of [simp]: "char_of (code_of c) = c"
  by (simp add: code_of_def)

lemma b64_bytes:
  assumes "x < 16" and "y < 4"
  shows "code_of a div 4 * 4 + (code_of a mod 4 * 16 + x) div 16 = code_of a"
    and "(code_of a mod 4 * 16 + code_of b div 16) mod 16 * 16 + (code_of b mod 16 * 4 + y) div 4 = code_of b"
    and "(code_of b mod 16 * 4 + code_of c div 64) mod 4 * 64 + code_of c mod 64 = code_of c"
proof -
  have bound: "code_of b div 16 < 16" "code_of c div 64 < 4"
    using code_of_bound [of b] code_of_bound [of c] by auto
  have "(code_of a mod 4 * 16 + x) div 16 = code_of a mod 4"
    "(code_of b mod 16 * 4 + y) div 4 = code_of b mod 16"
    "(code_of a mod 4 * 16 + code_of b div 16) mod 16 = code_of b div 16"
    "(code_of b mod 16 * 4 + code_of c div 64) mod 4 = code_of c div 64"
  proof -
    have q: "(k * d + r) div d = k" "(k * d + r) mod d = r" if "r < d" for k d r :: nat
      using that by simp_all
    have four: "k * 16 = (k * 4) * 4" for k :: nat by simp
    show "(code_of a mod 4 * 16 + x) div 16 = code_of a mod 4" using assms(1) by (rule q)
    show "(code_of b mod 16 * 4 + y) div 4 = code_of b mod 16" using assms(2) by (rule q)
    show "(code_of a mod 4 * 16 + code_of b div 16) mod 16 = code_of b div 16" using bound(1) by (rule q)
    show "(code_of b mod 16 * 4 + code_of c div 64) mod 4 = code_of c div 64" using bound(2) by (rule q)
  qed
  then show "code_of a div 4 * 4 + (code_of a mod 4 * 16 + x) div 16 = code_of a"
    "(code_of a mod 4 * 16 + code_of b div 16) mod 16 * 16 + (code_of b mod 16 * 4 + y) div 4 = code_of b"
    "(code_of b mod 16 * 4 + code_of c div 64) mod 4 * 64 + code_of c mod 64 = code_of c"
    by (simp_all only: div_mult_mod_eq)
qed

lemma b64_groups_base64: "b64_groups (base64 bs) = Some bs"
proof (induction bs rule: base64.induct)
  case 1
  then show ?case by simp
next
  case (2 a)
  show ?case using b64_bytes(1) [of 0 0 a] by (simp add: b64_parts)
next
  case (3 a b)
  have "code_of b div 16 < 16" using code_of_bound [of b] by auto
  then show ?case
    using b64_bytes(1) [of "code_of b div 16" 0 a] b64_bytes(2) [of 0 0 a b]
    by (simp add: b64_char_not_special b64_parts)
next
  case (4 a b c rest)
  have "code_of b div 16 < 16" "code_of c div 64 < 4"
    using code_of_bound [of b] code_of_bound [of c] by auto
  then show ?case
    using 4 b64_bytes(1) [of "code_of b div 16" 0 a] b64_bytes(2) [of 0 "code_of c div 64" a b]
      b64_bytes(3) [of 0 0 b c]
    by (simp add: b64_char_not_special b64_parts)
qed

lemma base64_no_newline: "filter (\<lambda>c. code_of c \<noteq> 10 \<and> code_of c \<noteq> 13) (base64 bs) = base64 bs"
proof (induction bs rule: base64.induct)
  case (4 a b c rest)
  then show ?case by (simp add: b64_char_not_special b64_parts)
qed (simp_all add: b64_char_not_special b64_parts, simp_all add: code_of_def)

lemma base64_decode_encode [simp]: "base64_decode (base64 bs) = Some bs"
  by (simp add: base64_decode_def base64_no_newline b64_groups_base64)

section \<open>Tokens\<close>

datatype tok =
    TObjOpen | TObjClose | TArrOpen | TArrClose | TComma | TColon
  | TStr string | TNum string | TTrue | TFalse | TNull | TBad

text \<open>The length of the valid UTF-8 sequence at the head of a byte string, 0 if there is none.\<close>

definition in_range :: "nat \<Rightarrow> nat \<Rightarrow> char \<Rightarrow> bool" where
  "in_range lo hi c \<longleftrightarrow> lo \<le> code_of c \<and> code_of c \<le> hi"

definition utf8_len :: "string \<Rightarrow> nat" where
  "utf8_len s =
     (let at = (\<lambda>i lo hi. i < length s \<and> in_range lo hi (s ! i));
          cont = (\<lambda>i. at i 0x80 0xBF)
      in if at 0 0 0x7F then 1
         else if at 0 0xC2 0xDF \<and> cont 1 then 2
         else if at 0 0xE0 0xE0 \<and> at 1 0xA0 0xBF \<and> cont 2 then 3
         else if (at 0 0xE1 0xEC \<or> at 0 0xEE 0xEF) \<and> cont 1 \<and> cont 2 then 3
         else if at 0 0xED 0xED \<and> at 1 0x80 0x9F \<and> cont 2 then 3
         else if at 0 0xF0 0xF0 \<and> at 1 0x90 0xBF \<and> cont 2 \<and> cont 3 then 4
         else if at 0 0xF1 0xF3 \<and> cont 1 \<and> cont 2 \<and> cont 3 then 4
         else if at 0 0xF4 0xF4 \<and> at 1 0x80 0x8F \<and> cont 2 \<and> cont 3 then 4
         else 0)"

definition utf8_encode :: "nat \<Rightarrow> string" where
  "utf8_encode r =
     (if r < 0x80 then [char_of r]
      else if r < 0x800 then [char_of (0xC0 + r div 64), char_of (0x80 + r mod 64)]
      else if r < 0x10000 then
        [char_of (0xE0 + r div 4096), char_of (0x80 + r div 64 mod 64), char_of (0x80 + r mod 64)]
      else [char_of (0xF0 + r div 262144), char_of (0x80 + r div 4096 mod 64),
            char_of (0x80 + r div 64 mod 64), char_of (0x80 + r mod 64)])"

definition replacement :: string where "replacement = utf8_encode 0xFFFD"

definition hex4 :: "string \<Rightarrow> nat option" where
  "hex4 s = (if length s < 4 then None else
     (case (hex_val (s ! 0), hex_val (s ! 1), hex_val (s ! 2), hex_val (s ! 3)) of
        (Some a, Some b, Some c, Some d) \<Rightarrow> Some (((a * 16 + b) * 16 + c) * 16 + d)
      | _ \<Rightarrow> None))"

text \<open>A second escaped half after a high surrogate completes a code point.\<close>

definition surrogate_pair :: "nat \<Rightarrow> string \<Rightarrow> nat option" where
  "surrogate_pair r s =
     (if 0xD800 \<le> r \<and> r < 0xDC00 \<and> has_prefix s [CHR 0x5C, CHR ''u''] then
        (case hex4 (drop 2 s) of
           Some r2 \<Rightarrow> if 0xDC00 \<le> r2 \<and> r2 < 0xE000 then Some ((r - 0xD800) * 1024 + (r2 - 0xDC00) + 0x10000) else None
         | None \<Rightarrow> None)
      else None)"

definition escape_char :: "char \<Rightarrow> char option" where
  "escape_char e =
     (if e = CHR 0x22 \<or> e = CHR 0x5C \<or> e = CHR ''/'' then Some e
      else if e = CHR ''b'' then Some (char_of (8::nat))
      else if e = CHR ''f'' then Some (char_of (12::nat))
      else if e = CHR ''n'' then Some (char_of (10::nat))
      else if e = CHR ''r'' then Some (char_of (13::nat))
      else if e = CHR ''t'' then Some (char_of (9::nat)) else None)"

definition prepend :: "string \<Rightarrow> (string \<times> string) option \<Rightarrow> (string \<times> string) option" where
  "prepend p r = map_option (\<lambda>(v, rest). (p @ v, rest)) r"

text \<open>The value of a string literal after its opening quote, and the input after it.\<close>

fun lex_string :: "string \<Rightarrow> (string \<times> string) option" where
  "lex_string [] = None"
| "lex_string (c # cs) =
     (if c = CHR 0x22 then Some ([], cs)
      else if c = CHR 0x5C then
        (case cs of
           [] \<Rightarrow> None
         | e # es \<Rightarrow>
            (case escape_char e of
               Some x \<Rightarrow> prepend [x] (lex_string es)
             | None \<Rightarrow>
                 if e = CHR ''u'' then
                   (case hex4 es of
                      None \<Rightarrow> None
                    | Some r \<Rightarrow>
                       (case surrogate_pair r (drop 4 es) of
                          Some cp \<Rightarrow> prepend (utf8_encode cp) (lex_string (drop 10 es))
                        | None \<Rightarrow> prepend
                            (if 0xD800 \<le> r \<and> r < 0xE000 then replacement else utf8_encode r)
                            (lex_string (drop 4 es))))
                 else None))
      else if code_of c < 32 then None
      else (case utf8_len (c # cs) of
              0 \<Rightarrow> prepend replacement (lex_string cs)
            | Suc k \<Rightarrow> prepend (c # take k cs) (lex_string (drop k cs))))"

definition is_digit :: "char \<Rightarrow> bool" where
  "is_digit c \<longleftrightarrow> digit_val c \<noteq> None"

text \<open>A number literal: sign, integer part without leading zeros, fraction, exponent.\<close>

definition lex_int_part :: "string \<Rightarrow> (string \<times> string) option" where
  "lex_int_part s =
     (case s of [] \<Rightarrow> None
      | c # cs \<Rightarrow> if c = CHR ''0'' then Some ([c], cs)
          else if is_digit c then Some (c # takeWhile is_digit cs, dropWhile is_digit cs)
          else None)"

definition lex_digits :: "string \<Rightarrow> (string \<times> string) option" where
  "lex_digits s = (if takeWhile is_digit s = [] then None
     else Some (takeWhile is_digit s, dropWhile is_digit s))"

definition lex_frac :: "string \<Rightarrow> (string \<times> string) option" where
  "lex_frac s = (case s of [] \<Rightarrow> Some ([], [])
     | c # cs \<Rightarrow> if c = CHR ''.'' then prepend [c] (lex_digits cs) else Some ([], s))"

definition lex_exp :: "string \<Rightarrow> (string \<times> string) option" where
  "lex_exp s = (case s of [] \<Rightarrow> Some ([], [])
     | c # cs \<Rightarrow>
        if c = CHR ''e'' \<or> c = CHR ''E'' then
          (case cs of [] \<Rightarrow> None
           | d # ds \<Rightarrow> if d = CHR ''+'' \<or> d = CHR ''-'' then prepend [c, d] (lex_digits ds)
                        else prepend [c] (lex_digits cs))
        else Some ([], s))"

definition lex_number :: "string \<Rightarrow> (string \<times> string) option" where
  "lex_number s =
     (let sign = (if has_prefix s ''-'' then ''-'' else []) in
      Option.bind (lex_int_part (drop (length sign) s)) (\<lambda>(i, r1).
      Option.bind (lex_frac r1) (\<lambda>(f, r2).
      Option.bind (lex_exp r2) (\<lambda>(e, r3). Some (sign @ i @ f @ e, r3)))))"

definition json_space :: "char \<Rightarrow> bool" where
  "json_space c \<longleftrightarrow> code_of c \<in> {32, 9, 10, 13}"

definition punct :: "char \<Rightarrow> tok option" where
  "punct c =
     (if c = CHR 0x7B then Some TObjOpen else if c = CHR 0x7D then Some TObjClose
      else if c = CHR 0x5B then Some TArrOpen else if c = CHR 0x5D then Some TArrClose
      else if c = CHR '','' then Some TComma else if c = CHR '':'' then Some TColon else None)"

text \<open>One token and the rest of the input; white space has been skipped.\<close>

definition next_tok :: "string \<Rightarrow> tok \<times> string" where
  "next_tok s =
     (case s of [] \<Rightarrow> (TBad, [])
      | c # cs \<Rightarrow>
        (case punct c of Some t \<Rightarrow> (t, cs)
         | None \<Rightarrow>
           if c = CHR 0x22 then (case lex_string cs of Some (v, r) \<Rightarrow> (TStr v, r) | None \<Rightarrow> (TBad, []))
           else if c = CHR ''-'' \<or> is_digit c then
             (case lex_number s of Some (v, r) \<Rightarrow> (TNum v, r) | None \<Rightarrow> (TBad, []))
           else if has_prefix s ''true'' then (TTrue, drop 4 s)
           else if has_prefix s ''false'' then (TFalse, drop 5 s)
           else if has_prefix s ''null'' then (TNull, drop 4 s)
           else (TBad, [])))"

text \<open>The tokens of the input up to the first error; every token consumes a byte.\<close>

fun lex_fuel :: "nat \<Rightarrow> string \<Rightarrow> tok list" where
  "lex_fuel 0 s = []"
| "lex_fuel (Suc n) s =
     (case dropWhile json_space s of
        [] \<Rightarrow> []
      | c # cs \<Rightarrow> (case next_tok (c # cs) of (t, r) \<Rightarrow> t # lex_fuel n r))"

definition lex :: "string \<Rightarrow> tok list" where
  "lex s = lex_fuel (Suc (length s)) s"

section \<open>Values\<close>

datatype json =
    JNull
  | JBool bool
  | JNum string
  | JStr string
  | JArr "json list"
  | JObj "(string \<times> json) list"

text \<open>
  The decoder's pushdown automaton: what is expected next, and the containers still open
  (\<open>FObj\<close> holds the pairs read and the key whose value is next). Nesting deeper than
  10000 is an error.
\<close>

datatype phase = PValue | PArrFirst | PAfterElem | PKeyFirst | PKey | PColon | PAfterPair

datatype frame = FArr "json list" | FObj "(string \<times> json) list" string

type_synonym pda = "phase \<times> frame list"

definition max_nesting :: nat where "max_nesting = 10000"

definition complete :: "json \<Rightarrow> frame list \<Rightarrow> json + pda" where
  "complete v stk =
     (case stk of
        [] \<Rightarrow> Inl v
      | FArr vs # stk' \<Rightarrow> Inr (PAfterElem, FArr (vs @ [v]) # stk')
      | FObj kvs k # stk' \<Rightarrow> Inr (PAfterPair, FObj (kvs @ [(k, v)]) k # stk'))"

definition push :: "phase \<Rightarrow> frame \<Rightarrow> frame list \<Rightarrow> (json + pda) option" where
  "push ph f stk = (if length stk < max_nesting then Some (Inr (ph, f # stk)) else None)"

definition begin_value :: "tok \<Rightarrow> frame list \<Rightarrow> (json + pda) option" where
  "begin_value t stk =
     (case t of
        TObjOpen \<Rightarrow> push PKeyFirst (FObj [] []) stk
      | TArrOpen \<Rightarrow> push PArrFirst (FArr []) stk
      | TStr s \<Rightarrow> Some (complete (JStr s) stk)
      | TNum s \<Rightarrow> Some (complete (JNum s) stk)
      | TTrue \<Rightarrow> Some (complete (JBool True) stk)
      | TFalse \<Rightarrow> Some (complete (JBool False) stk)
      | TNull \<Rightarrow> Some (complete JNull stk)
      | _ \<Rightarrow> None)"

definition close_array :: "frame list \<Rightarrow> (json + pda) option" where
  "close_array stk = (case stk of FArr vs # stk' \<Rightarrow> Some (complete (JArr vs) stk') | _ \<Rightarrow> None)"

definition close_object :: "frame list \<Rightarrow> (json + pda) option" where
  "close_object stk = (case stk of FObj kvs k # stk' \<Rightarrow> Some (complete (JObj kvs) stk') | _ \<Rightarrow> None)"

definition read_key :: "tok \<Rightarrow> frame list \<Rightarrow> (json + pda) option" where
  "read_key t stk =
     (case t of
        TStr s \<Rightarrow> (case stk of FObj kvs k # stk' \<Rightarrow> Some (Inr (PColon, FObj kvs s # stk')) | _ \<Rightarrow> None)
      | _ \<Rightarrow> None)"

definition pda_step :: "phase \<Rightarrow> frame list \<Rightarrow> tok \<Rightarrow> (json + pda) option" where
  "pda_step ph stk t =
     (case ph of
        PValue \<Rightarrow> begin_value t stk
      | PArrFirst \<Rightarrow> if t = TArrClose then close_array stk else begin_value t stk
      | PAfterElem \<Rightarrow> if t = TArrClose then close_array stk
                     else if t = TComma then Some (Inr (PValue, stk)) else None
      | PKeyFirst \<Rightarrow> if t = TObjClose then close_object stk else read_key t stk
      | PKey \<Rightarrow> read_key t stk
      | PColon \<Rightarrow> if t = TColon then Some (Inr (PValue, stk)) else None
      | PAfterPair \<Rightarrow> if t = TObjClose then close_object stk
                     else if t = TComma then Some (Inr (PKey, stk)) else None)"

fun pda_run :: "phase \<Rightarrow> frame list \<Rightarrow> tok list \<Rightarrow> json option" where
  "pda_run ph stk [] = None"
| "pda_run ph stk (t # ts) =
     (case pda_step ph stk t of
        None \<Rightarrow> None
      | Some (Inl v) \<Rightarrow> Some v
      | Some (Inr (ph', stk')) \<Rightarrow> pda_run ph' stk' ts)"

definition json_parse :: "string \<Rightarrow> json option" where
  "json_parse s = pda_run PValue [] (lex s)"

section \<open>Struct fields\<close>

text \<open>
  A key names the field it equals, else the field it equals up to case. Case folding
  takes the long s and the Kelvin sign to their ASCII letters.
\<close>

definition upper :: "char \<Rightarrow> char" where
  "upper c = (if 97 \<le> code_of c \<and> code_of c \<le> 122 then char_of (code_of c - 32) else c)"

fun fold_name :: "string \<Rightarrow> string" where
  "fold_name [] = []"
| "fold_name (c # cs) =
     (if has_prefix (c # cs) [char_of (0xC5::nat), char_of (0xBF::nat)] then CHR ''S'' # fold_name (drop 1 cs)
      else if has_prefix (c # cs) [char_of (0xE2::nat), char_of (0x84::nat), char_of (0xAA::nat)]
        then CHR ''K'' # fold_name (drop 2 cs)
      else upper c # fold_name cs)"

definition json_field :: "string list \<Rightarrow> string \<Rightarrow> string option" where
  "json_field names key =
     (case find (\<lambda>n. n = key) names of
        Some n \<Rightarrow> Some n
      | None \<Rightarrow> find (\<lambda>n. fold_name n = fold_name key) names)"

text \<open>Decoding into a string, an unsigned 8-bit number, a byte slice; null leaves the old value.\<close>

definition json_to_string :: "json \<Rightarrow> string \<Rightarrow> string option" where
  "json_to_string v old = (case v of JStr s \<Rightarrow> Some s | JNull \<Rightarrow> Some old | _ \<Rightarrow> None)"

definition json_to_u8 :: "json \<Rightarrow> 8 word \<Rightarrow> 8 word option" where
  "json_to_u8 v old =
     (case v of
        JNum s \<Rightarrow> (case go_parse_uint64 s of
            Some n \<Rightarrow> if n \<le> 255 then Some (ucast n) else None
          | None \<Rightarrow> None)
      | JNull \<Rightarrow> Some old
      | _ \<Rightarrow> None)"

fun bytes_of_array :: "json list \<Rightarrow> bytes option" where
  "bytes_of_array [] = Some []"
| "bytes_of_array (v # vs) =
     (case json_to_u8 v 0 of
        None \<Rightarrow> None
      | Some b \<Rightarrow> map_option (\<lambda>bs. char_of (unat b) # bs) (bytes_of_array vs))"

definition json_to_bytes :: "json \<Rightarrow> bytes option" where
  "json_to_bytes v =
     (case v of
        JStr s \<Rightarrow> base64_decode s
      | JNull \<Rightarrow> Some []
      | JArr vs \<Rightarrow> bytes_of_array vs
      | _ \<Rightarrow> None)"

section \<open>Producing text\<close>

definition json_quote :: "string \<Rightarrow> string" where
  "json_quote s = CHR 0x22 # s @ [CHR 0x22]"

fun join :: "string \<Rightarrow> string list \<Rightarrow> string" where
  "join sep [] = []"
| "join sep [x] = x"
| "join sep (x # y # xs) = x @ sep @ join sep (y # xs)"

definition json_object :: "(string \<times> string) list \<Rightarrow> string" where
  "json_object kvs = CHR 0x7B # join '','' (map (\<lambda>(k, v). json_quote k @ '':'' @ v) kvs) @ [CHR 0x7D]"

definition json_array :: "string list \<Rightarrow> string" where
  "json_array vs = CHR 0x5B # join '','' vs @ [CHR 0x5D]"

end
