(* ===== verification/Json_Facts.thy ===== *)
theory Json_Facts
  imports Go_Json
begin

text \<open>
  Facts of the JSON model: the lexer's fuel is enough (so \<open>lex\<close> has the recursion of the
  real scanner), plain text between quotes is read back unchanged, and numbers are read to
  the first byte that cannot continue them.
\<close>

section \<open>Every token consumes input\<close>

lemma prepend_Some [simp]:
  "prepend p r = Some (v, s) \<longleftrightarrow> (\<exists>w. r = Some (w, s) \<and> v = p @ w)"
  by (cases r) (auto simp: prepend_def)

text \<open>After the opening byte the lexer goes on with what is left of the rest.\<close>

lemma lex_string_tail:
  assumes "lex_string (c # cs) = Some (v, r)" "c \<noteq> CHR 0x22"
  shows "\<exists>k w. lex_string (drop k cs) = Some (w, r)"
proof (cases "c = CHR 0x5C")
  case True
  then obtain e es where cs: "cs = e # es" using assms by (cases cs) auto
  show ?thesis
  proof (cases "escape_char e")
    case (Some x)
    then have "\<exists>w. lex_string (drop 1 cs) = Some (w, r)" using assms True cs by auto
    then show ?thesis by blast
  next
    case None
    then obtain h where u: "e = CHR ''u''" and h: "hex4 es = Some h"
      using assms cs True by (auto split: if_splits option.splits)
    show ?thesis
    proof (cases "surrogate_pair h (drop 4 es)")
      case (Some cp)
      then have "\<exists>w. lex_string (drop (Suc 10) cs) = Some (w, r)" using assms True None u h cs by auto
      then show ?thesis by blast
    next
      case no: None
      then have "\<exists>w. lex_string (drop (Suc 4) cs) = Some (w, r)" using assms True None u h cs by auto
      then show ?thesis by blast
    qed
  qed
next
  case False
  then have lo: "\<not> code_of c < 32" using assms by auto
  show ?thesis
  proof (cases "utf8_len (c # cs)")
    case 0
    then have "\<exists>w. lex_string (drop 0 cs) = Some (w, r)" using assms False lo by auto
    then show ?thesis by blast
  next
    case (Suc k)
    then have "\<exists>w. lex_string (drop k cs) = Some (w, r)" using assms False lo by auto
    then show ?thesis by blast
  qed
qed

lemma lex_string_shorter: "lex_string s = Some (v, r) \<Longrightarrow> length r < length s"
proof (induction "length s" arbitrary: s v rule: less_induct)
  case less
  then obtain c cs where s: "s = c # cs" by (cases s) auto
  show ?case
  proof (cases "c = CHR 0x22")
    case True
    then show ?thesis using less.prems s by simp
  next
    case False
    then obtain k w where kw: "lex_string (drop k cs) = Some (w, r)"
      using lex_string_tail less.prems s by blast
    have "length r < length (drop k cs)" by (rule less.hyps [OF _ kw]) (simp add: s)
    then show ?thesis by (simp add: s)
  qed
qed

lemma dropWhile_le: "length (dropWhile P s) \<le> length s"
  by (induction s) auto

lemma lex_digits_shorter: "lex_digits s = Some (v, r) \<Longrightarrow> length r \<le> length s"
  by (auto simp: lex_digits_def dropWhile_le split: if_splits)

lemma lex_frac_shorter: "lex_frac s = Some (v, r) \<Longrightarrow> length r \<le> length s"
  by (auto simp: lex_frac_def split: list.splits if_splits dest!: lex_digits_shorter)

lemma lex_exp_shorter: "lex_exp s = Some (v, r) \<Longrightarrow> length r \<le> length s"
  by (auto simp: lex_exp_def split: list.splits if_splits dest!: lex_digits_shorter)

lemma lex_int_part_shorter: "lex_int_part s = Some (v, r) \<Longrightarrow> length r < length s"
  by (auto simp: lex_int_part_def dropWhile_le less_Suc_eq_le split: list.splits if_splits)

lemma lex_number_shorter: "lex_number s = Some (v, r) \<Longrightarrow> length r < length s"
  by (auto simp: lex_number_def Let_def bind_eq_Some_conv
      dest!: lex_int_part_shorter lex_frac_shorter lex_exp_shorter split: if_splits)

lemma next_tok_shorter: "next_tok (c # cs) = (t, r) \<Longrightarrow> length r \<le> length cs"
  by (auto simp: next_tok_def split: option.splits if_splits
      dest!: lex_string_shorter lex_number_shorter)

section \<open>The fuel is enough\<close>

lemma lex_fuel_enough: "length s < n \<Longrightarrow> length s < m \<Longrightarrow> lex_fuel n s = lex_fuel m s"
proof (induction n arbitrary: s m)
  case 0
  then show ?case by simp
next
  case (Suc n)
  then obtain m' where m: "m = Suc m'" by (cases m) auto
  show ?case
  proof (cases "dropWhile json_space s")
    case Nil
    show ?thesis by (simp only: m lex_fuel.simps Nil list.case)
  next
    case (Cons c cs)
    have "length (c # cs) \<le> length s" using dropWhile_le [of json_space s] Cons by simp
    moreover obtain t r where tr: "next_tok (c # cs) = (t, r)" by (cases "next_tok (c # cs)")
    ultimately have "length r < n" "length r < m'"
      using next_tok_shorter [OF tr] Suc.prems m by auto
    then show ?thesis using Suc.IH [of r m'] by (simp add: m Cons tr)
  qed
qed

lemma lex_rec:
  "lex [] = []"
  "json_space c \<Longrightarrow> lex (c # cs) = lex cs"
  "\<not> json_space c \<Longrightarrow> next_tok (c # cs) = (t, r) \<Longrightarrow> lex (c # cs) = t # lex r"
proof -
  show "lex [] = []" by (simp add: lex_def)
  show "lex (c # cs) = lex cs" if "json_space c"
  proof -
    have "lex (c # cs) = lex_fuel (Suc (Suc (length cs))) cs" using that by (simp add: lex_def)
    also have "\<dots> = lex cs" unfolding lex_def by (rule lex_fuel_enough) simp_all
    finally show ?thesis .
  qed
  show "lex (c # cs) = t # lex r" if "\<not> json_space c" "next_tok (c # cs) = (t, r)"
    using that next_tok_shorter [OF that(2)] lex_fuel_enough [of r "Suc (length cs)" "Suc (length r)"]
    by (simp add: lex_def)
qed

section \<open>Reading back what was written\<close>

text \<open>Text \<^verbatim>\<open>json.Marshal\<close> puts between quotes as it is: printable ASCII it does not escape.\<close>

definition plain_char :: "char \<Rightarrow> bool" where
  "plain_char c \<longleftrightarrow> in_range 32 126 c \<and>
     c \<notin> {CHR 0x22, CHR 0x5C, CHR ''<'', CHR ''>'', CHR 0x26}"

definition plain :: "string \<Rightarrow> bool" where
  "plain s \<longleftrightarrow> list_all plain_char s"

lemma plain_simps [simp]: "plain []" "plain (c # s) \<longleftrightarrow> plain_char c \<and> plain s"
    "plain (s @ t) \<longleftrightarrow> plain s \<and> plain t"
  by (auto simp: plain_def)

lemma lex_string_plain: "plain s \<Longrightarrow> lex_string (s @ CHR 0x22 # rest) = Some (s, rest)"
proof (induction s)
  case Nil
  then show ?case by simp
next
  case (Cons c s)
  then have c: "c \<noteq> CHR 0x22" "c \<noteq> CHR 0x5C" "\<not> code_of c < 32" "code_of c \<le> 127"
    by (auto simp: plain_char_def in_range_def)
  then have "utf8_len (c # s @ CHR 0x22 # rest) = 1" by (simp add: utf8_len_def in_range_def)
  then show ?case using Cons c by simp
qed

lemma punct_not_space: "punct c = Some t \<Longrightarrow> \<not> json_space c"
  by (auto simp: punct_def json_space_def code_of_def split: if_splits)

lemma lex_punct: "punct c = Some t \<Longrightarrow> lex (c # cs) = t # lex cs"
  by (rule lex_rec(3)) (auto simp: next_tok_def dest: punct_not_space)

lemma lex_puncts [simp]:
  "lex (CHR 0x7B # cs) = TObjOpen # lex cs" "lex (CHR 0x7D # cs) = TObjClose # lex cs"
  "lex (CHR 0x5B # cs) = TArrOpen # lex cs" "lex (CHR 0x5D # cs) = TArrClose # lex cs"
  "lex (CHR '','' # cs) = TComma # lex cs" "lex (CHR '':'' # cs) = TColon # lex cs"
  by (simp_all add: lex_punct punct_def)

lemma lex_quote [simp]: "plain s \<Longrightarrow> lex (json_quote s @ rest) = TStr s # lex rest"
proof -
  assume "plain s"
  moreover have "next_tok (json_quote s @ rest) =
      (case lex_string (s @ CHR 0x22 # rest) of Some (v, r) \<Rightarrow> (TStr v, r) | None \<Rightarrow> (TBad, []))"
    by (simp add: next_tok_def json_quote_def punct_def)
  moreover have "\<not> json_space CHR 0x22" by (simp add: json_space_def code_of_def)
  ultimately show ?thesis using lex_rec(3) by (simp add: json_quote_def lex_string_plain)
qed

lemma digit_plain: "is_digit c \<Longrightarrow> plain_char c"
  by (auto simp: is_digit_def digit_val_def plain_char_def in_range_def code_of_def split: if_splits)

lemma dec_nat_all_digits: "list_all is_digit (dec_nat n)"
  using dec_nat_digits [of n] by (simp add: is_digit_def list_all_iff)

lemma plain_dec_nat [simp]: "plain (dec_nat n)"
  using dec_nat_all_digits [of n] digit_plain by (auto simp: plain_def list_all_iff)

lemma plain_big_string [simp]: "plain (big_string i)"
  by (simp add: big_string_def plain_char_def in_range_def code_of_def)

lemma is_digit_digit_char: "d < 10 \<Longrightarrow> is_digit (digit_char d)"
  by (simp add: is_digit_def)

lemma digit_char_0: "digit_char 0 = CHR ''0''"
proof -
  have "code_of CHR ''0'' = 48" by (simp add: code_of_def)
  then show ?thesis using char_of_code_of [of "CHR ''0''"] by (simp add: digit_char_def)
qed

lemma digit_char_5: "digit_char 5 = CHR ''5''"
proof -
  have "code_of CHR ''5'' = 53" by (simp add: code_of_def)
  then show ?thesis using char_of_code_of [of "CHR ''5''"] by (simp add: digit_char_def)
qed

lemma digit_char_0_iff: "d < 10 \<Longrightarrow> digit_char d = CHR ''0'' \<longleftrightarrow> d = 0"
proof
  assume "d < 10" "digit_char d = CHR ''0''"
  then have "code_of CHR ''0'' = 48 + d" using code_of_digit_char by metis
  then show "d = 0" by (simp add: code_of_def)
qed (simp add: digit_char_0)

lemma dec_nat_no_leading_zero: "0 < n \<Longrightarrow> dec_nat n = c # cs \<Longrightarrow> c \<noteq> CHR ''0''"
proof (induction n arbitrary: c cs rule: dec_nat.induct)
  case (1 n)
  show ?case
  proof (cases "n < 10")
    case True
    then show ?thesis using 1 dec_nat.simps [of n] by (auto simp: digit_char_0_iff)
  next
    case False
    then obtain d ds where d: "dec_nat (n div 10) = d # ds" by (cases "dec_nat (n div 10)") auto
    then have "d \<noteq> CHR ''0''" using "1.IH" [OF False] False by simp
    then show ?thesis using "1.prems"(2) False d dec_nat.simps [of n] by simp
  qed
qed

text \<open>A number ends where a byte other than a digit, a point or an exponent follows.\<close>

definition ends_number :: "string \<Rightarrow> bool" where
  "ends_number s \<longleftrightarrow> (case s of [] \<Rightarrow> True
     | c # cs \<Rightarrow> \<not> is_digit c \<and> c \<noteq> CHR ''.'' \<and> c \<noteq> CHR ''e'' \<and> c \<noteq> CHR ''E'')"

lemma span_digits:
  assumes "list_all is_digit ds" "ends_number rest"
  shows "takeWhile is_digit (ds @ rest) = ds" "dropWhile is_digit (ds @ rest) = rest"
  using assms by (induction ds) (auto simp: ends_number_def split: list.splits)

lemma lex_int_part_dec_nat:
  assumes "ends_number rest"
  shows "lex_int_part (dec_nat n @ rest) = Some (dec_nat n, rest)"
proof (cases "n = 0")
  case True
  then show ?thesis by (simp add: dec_nat.simps [of 0] lex_int_part_def digit_char_0)
next
  case False
  then obtain c cs where c: "dec_nat n = c # cs" by (cases "dec_nat n") auto
  then have "c \<noteq> CHR ''0''" "list_all is_digit (c # cs)"
    using dec_nat_no_leading_zero [of n c cs] False dec_nat_all_digits [of n] by simp_all
  then show ?thesis using span_digits [OF _ assms, of cs] by (simp add: c lex_int_part_def)
qed

lemma lex_number_dec_nat: "ends_number rest \<Longrightarrow> lex_number (dec_nat n @ rest) = Some (dec_nat n, rest)"
proof -
  assume e: "ends_number rest"
  obtain c cs where c: "dec_nat n = c # cs" by (cases "dec_nat n") auto
  then have "c \<noteq> CHR ''-''" using dec_nat_hd by blast
  then have "\<not> has_prefix (dec_nat n @ rest) ''-''" by (simp add: c has_prefix_def)
  moreover have "lex_frac rest = Some ([], rest)" "lex_exp rest = Some ([], rest)"
    using e by (auto simp: ends_number_def lex_frac_def lex_exp_def split: list.splits)
  ultimately show ?thesis by (simp add: lex_number_def lex_int_part_dec_nat [OF e])
qed

lemma lex_dec_nat [simp]: "ends_number rest \<Longrightarrow> lex (dec_nat n @ rest) = TNum (dec_nat n) # lex rest"
proof -
  assume e: "ends_number rest"
  obtain c cs where c: "dec_nat n = c # cs" by (cases "dec_nat n") auto
  then have dig: "is_digit c" using dec_nat_all_digits [of n] by simp
  then have "punct c = None" "c \<noteq> CHR 0x22" "\<not> json_space c"
    by (auto simp: is_digit_def digit_val_def punct_def json_space_def code_of_def split: if_splits)
  then have "next_tok (c # cs @ rest) = (TNum (dec_nat n), rest)"
    using lex_number_dec_nat [OF e, of n] dig by (simp add: next_tok_def c)
  then show ?thesis using lex_rec(3) [OF \<open>\<not> json_space c\<close>] by (simp add: c)
qed

lemma ends_number_simps [simp]:
  "ends_number (CHR '','' # cs)" "ends_number (CHR 0x7D # cs)" "ends_number (CHR 0x5D # cs)" "ends_number []"
  by (simp_all add: ends_number_def is_digit_def digit_val_def code_of_def)

lemma lex_big_string [simp]: "ends_number rest \<Longrightarrow> lex (big_string i @ rest) = TNum (big_string i) # lex rest"
proof (cases "i < 0")
  case True
  assume e: "ends_number rest"
  let ?n = "nat (- i)"
  have "lex_frac rest = Some ([], rest)" "lex_exp rest = Some ([], rest)"
    using e by (auto simp: ends_number_def lex_frac_def lex_exp_def split: list.splits)
  then have "lex_number (CHR ''-'' # dec_nat ?n @ rest) = Some (CHR ''-'' # dec_nat ?n, rest)"
    by (simp add: lex_number_def has_prefix_def lex_int_part_dec_nat [OF e])
  then have "next_tok (CHR ''-'' # dec_nat ?n @ rest) = (TNum (CHR ''-'' # dec_nat ?n), rest)"
    by (simp add: next_tok_def punct_def)
  moreover have "\<not> json_space CHR ''-''" by (simp add: json_space_def code_of_def)
  ultimately show ?thesis using True lex_rec(3) by (simp add: big_string_def)
qed (simp add: big_string_def)

lemma lex_bool [simp]:
  "lex (CHR ''t'' # CHR ''r'' # CHR ''u'' # CHR ''e'' # rest) = TTrue # lex rest"
  "lex (CHR ''f'' # CHR ''a'' # CHR ''l'' # CHR ''s'' # CHR ''e'' # rest) = TFalse # lex rest"
  by (rule lex_rec(3); simp add: next_tok_def json_space_def punct_def is_digit_def digit_val_def code_of_def has_prefix_def)+

lemma json_field_exact: "key \<in> set names \<Longrightarrow> json_field names key = Some key"
proof -
  assume "key \<in> set names"
  then have "find (\<lambda>n. n = key) names = Some key" by (induction names) auto
  then show ?thesis by (simp add: json_field_def)
qed

lemmas plain_eval = plain_char_def in_range_def code_of_def

lemmas pda_simps = pda_step_def begin_value_def close_array_def close_object_def read_key_def
  complete_def push_def max_nesting_def

end
