(* ===== verification/Wire_Types.thy ===== *)
theory Wire_Types
  imports Go_Std
begin

text \<open>
  The wire types of \<^verbatim>\<open>go/pkg/types/types.go\<close>. Field names carry a prefix per
  struct, since Go's structs share names (\<^verbatim>\<open>Trader\<close>, \<^verbatim>\<open>BatchID\<close>) that HOL
  selectors cannot. The ABI encoder of go-ethereum is a parameter of
  \<open>EncodeSettlement\<close>.
\<close>

section \<open>Fixed point and sides\<close>

definition PriceScale :: int where
  "PriceScale = 10 ^ 18"

lemma PriceScale_pos [simp]: "0 < PriceScale" "0 \<le> PriceScale" "PriceScale \<noteq> 0"
  by (simp_all add: PriceScale_def)

text \<open>\<^verbatim>\<open>type Side uint8\<close>: any byte can arrive, two of them are named.\<close>

type_synonym side = u8

definition SideBuy :: side where "SideBuy = 0"
definition SideSell :: side where "SideSell = 1"

lemma sides_distinct [simp]: "SideBuy \<noteq> SideSell" "SideSell \<noteq> SideBuy"
  by (simp_all add: SideBuy_def SideSell_def)

section \<open>Messages\<close>

record SealedOrder =
  so_trader :: string
  so_side :: side
  so_limit_price :: string
  so_size :: string
  so_nonce :: string

record SubmitOrderRequest =
  sr_order_id :: u64
  sr_batch_id :: u64
  sr_trader :: address
  sr_ciphertext :: bytes

record SubmitOrderResponse =
  sa_order_id :: u64
  sa_batch_id :: u64
  sa_accepted :: bool
  sa_book_depth :: nat

record RunBatchRequest =
  rr_batch_id :: u64
  rr_ref_price :: "int option"
  rr_max_deviation_bps :: u32
  rr_chain_id :: int
  rr_venue :: address

record Fill =
  fl_trader :: address
  fl_base_delta :: int
  fl_quote_delta :: int

record RunBatchResponse =
  rb_batch_id :: u64
  rb_clearing_price :: int
  rb_matched_base :: int
  rb_fills :: "Fill list"
  rb_settlement :: bytes
  rb_signature :: bytes
  rb_unmatched :: int

record State =
  st_current_batch_id :: u64
  st_resting_orders :: nat
  st_batches_settled :: u64
  st_last_clearing :: string
  st_last_matched_base :: string

record StateResponse =
  sp_state_version :: hash
  sp_state :: State

section \<open>ABI layouts\<close>

text \<open>
  The types go-ethereum's \<^verbatim>\<open>abi.NewType\<close> is asked for, by name; tuples list their
  components. The layouts are the data of the \<^verbatim>\<open>init\<close> function.
\<close>

datatype abi_type =
    AbiUint nat
  | AbiInt nat
  | AbiAddress
  | AbiBytes
  | AbiTuple "(string \<times> abi_type) list"
  | AbiTuples "(string \<times> abi_type) list"

type_synonym abi_args = "(string \<times> abi_type) list"

definition SubmitOrderMessageArg :: abi_type where
  "SubmitOrderMessageArg = AbiTuple
     [(''orderId'', AbiUint 64), (''batchId'', AbiUint 64), (''trader'', AbiAddress), (''ciphertext'', AbiBytes)]"

definition RunBatchMessageArg :: abi_type where
  "RunBatchMessageArg = AbiTuple
     [(''batchId'', AbiUint 64), (''refPrice'', AbiUint 256), (''maxDeviationBps'', AbiUint 32),
      (''chainId'', AbiUint 256), (''venue'', AbiAddress)]"

definition SettlementArgs :: abi_args where
  "SettlementArgs =
     [(''chainId'', AbiUint 256), (''venue'', AbiAddress), (''batchId'', AbiUint 64),
      (''clearingPrice'', AbiUint 256), (''matchedBase'', AbiUint 256),
      (''fills'', AbiTuples [(''trader'', AbiAddress), (''baseDelta'', AbiInt 256), (''quoteDelta'', AbiInt 256)])]"

text \<open>The range of the numeric types: what a value must satisfy to be representable.\<close>

definition fits :: "abi_type \<Rightarrow> int \<Rightarrow> bool" where
  "fits ty n = (case ty of
      AbiUint w \<Rightarrow> 0 \<le> n \<and> n < 2 ^ w
    | AbiInt w \<Rightarrow> - (2 ^ (w - 1)) \<le> n \<and> n < 2 ^ (w - 1)
    | _ \<Rightarrow> False)"

section \<open>The settlement payload\<close>

text \<open>
  What is packed: chain id, venue, batch id, clearing price, matched base and one tuple
  per fill, in this order. \<open>pack\<close> is go-ethereum's ABI encoder.
\<close>

type_synonym settlement_tuple =
  "int \<times> address \<times> u64 \<times> int \<times> int \<times> (address \<times> int \<times> int) list"

definition EncodeSettlement ::
  "(abi_args \<Rightarrow> settlement_tuple \<Rightarrow> err + bytes) \<Rightarrow> int \<Rightarrow> address \<Rightarrow> u64 \<Rightarrow> int \<Rightarrow> int \<Rightarrow> Fill list \<Rightarrow> err + bytes"
where
  "EncodeSettlement pack chainID venue batchID clearingPrice matchedBase fills =
     (let encoded = map (\<lambda>f. (fl_trader f, fl_base_delta f, fl_quote_delta f)) fills
      in pack SettlementArgs (chainID, venue, batchID, clearingPrice, matchedBase, encoded))"

text \<open>
  An injective encoder makes the signed bytes determine the whole settlement, fills in
  order included.
\<close>

lemma fill_tuple_inj: "inj (\<lambda>f :: Fill. (fl_trader f, fl_base_delta f, fl_quote_delta f))"
  by (rule injI) simp

lemma EncodeSettlement_inj:
  assumes inj: "\<And>t t' b. pack SettlementArgs t = Inr b \<Longrightarrow> pack SettlementArgs t' = Inr b \<Longrightarrow> t = t'"
    and "EncodeSettlement pack c v b p m fs = Inr bs"
    and "EncodeSettlement pack c' v' b' p' m' fs' = Inr bs"
  shows "c = c' \<and> v = v' \<and> b = b' \<and> p = p' \<and> m = m' \<and> fs = fs'"
  using inj [OF assms(2,3) [unfolded EncodeSettlement_def Let_def]]
    map_injective [OF _ fill_tuple_inj, of fs fs'] by auto

end
