(* ===== verification/Ext_Config.thy ===== *)
theory Ext_Config
  imports Go_Std
begin

text \<open>
  \<^verbatim>\<open>go/internal/config/config.go\<close> and the port handling of the entry points
  (\<^verbatim>\<open>go/cmd/docker/main.go\<close>, \<^verbatim>\<open>go/cmd/start-tee/main.go\<close>). The process
  environment is a function; \<^verbatim>\<open>os.Getenv\<close> gives the empty string for an unset name.
\<close>

section \<open>Constants\<close>

definition Version :: string where "Version = ''0.1.0''"
definition OPTypeAuction :: string where "OPTypeAuction = ''AUCTION''"
definition OPCommandSubmitOrder :: string where "OPCommandSubmitOrder = ''SUBMIT_ORDER''"
definition OPCommandRunBatch :: string where "OPCommandRunBatch = ''RUN_BATCH''"

section \<open>Ports\<close>

type_synonym getenv = "string \<Rightarrow> string"

record ports =
  ExtensionPort :: int
  SignPort :: int

definition default_ports :: ports where
  "default_ports = \<lparr>ExtensionPort = 8080, SignPort = 9090\<rparr>"

text \<open>\<^verbatim>\<open>init\<close>: a variable that is set and parses overrides, any other keeps the default.\<close>

definition override_port :: "string \<Rightarrow> int \<Rightarrow> int" where
  "override_port v port = (if v \<noteq> [] then (case go_atoi v of Some n \<Rightarrow> n | None \<Rightarrow> port) else port)"

definition config_init :: "getenv \<Rightarrow> ports \<Rightarrow> ports" where
  "config_init getenv p =
     (let ep = getenv ''EXTENSION_PORT''; sp = getenv ''SIGN_PORT''
      in \<lparr>ExtensionPort = override_port ep (ExtensionPort p),
          SignPort = override_port sp (SignPort p)\<rparr>)"

definition intEnv :: "getenv \<Rightarrow> string \<Rightarrow> int \<Rightarrow> int" where
  "intEnv getenv key fallback = (case go_atoi (getenv key) of Some v \<Rightarrow> v | None \<Rightarrow> fallback)"

text \<open>The three ports \<^verbatim>\<open>cmd/docker\<close> starts the node and the extension with.\<close>

definition docker_ports :: "getenv \<Rightarrow> int \<times> int \<times> int" where
  "docker_ports getenv =
     (let configPort = intEnv getenv ''CONFIG_PORT'' 5501;
          cfg = config_init getenv default_ports
      in (configPort, SignPort cfg, ExtensionPort cfg))"

text \<open>The empty string does not parse, so the two ways of overriding agree.\<close>

lemma go_atoi_Nil [simp]: "go_atoi [] = None"
  by (simp add: go_atoi_def)

lemma override_port_eq: "override_port v port = (case go_atoi v of Some n \<Rightarrow> n | None \<Rightarrow> port)"
  by (simp add: override_port_def)

text \<open>A port set in the environment to a decimal number is used as given, one that is
  unset or does not parse leaves the default, and each of the three ports is overridden by its
  own variable alone.\<close>

theorem docker_ports_env:
  "docker_ports getenv =
     ((case go_atoi (getenv ''CONFIG_PORT'') of Some v \<Rightarrow> v | None \<Rightarrow> 5501),
      (case go_atoi (getenv ''SIGN_PORT'') of Some v \<Rightarrow> v | None \<Rightarrow> 9090),
      (case go_atoi (getenv ''EXTENSION_PORT'') of Some v \<Rightarrow> v | None \<Rightarrow> 8080))"
  by (simp add: docker_ports_def intEnv_def config_init_def override_port_eq default_ports_def Let_def)

end
