(* ===== verification/Matching.thy ===== *)
theory Matching
  imports Wire_Types
begin

text \<open>
  The uniform-price auction of \<^verbatim>\<open>go/internal/matching/matching.go\<close>, function by
  function in the order of the file. \<open>Clear\<close> picks the clearing price among the limit
  prices of the book and allocates the matched volume by price priority. The theories
  \<^verbatim>\<open>Auction\<close> and \<^verbatim>\<open>Allocation\<close> prove what it achieves.
\<close>

section \<open>Orders, settlements, errors\<close>

datatype clear_error = ErrNoCross | ErrOutOfBand

definition clear_error_text :: "clear_error \<Rightarrow> string" where
  "clear_error_text e = (case e of
      ErrNoCross \<Rightarrow> ''no crossing orders in batch''
    | ErrOutOfBand \<Rightarrow> ''clearing price outside oracle band'')"

record Order =
  o_id :: u64
  o_trader :: address
  o_side :: side
  o_limit_price :: int
  o_size :: int

record Settlement =
  s_clearing_price :: int
  s_matched_base :: int
  s_fills :: "Fill list"
  s_unmatched :: int

definition QuoteFor :: "int \<Rightarrow> int \<Rightarrow> int" where
  "QuoteFor base price = big_div (base * price) PriceScale"

definition minBig :: "int \<Rightarrow> int \<Rightarrow> int" where
  "minBig a b = (if a \<le> b then a else b)"

lemma minBig_eq_min [simp]: "minBig = min"
  by (intro ext) (simp add: minBig_def min_def)

section \<open>Candidate prices and depth\<close>

text \<open>
  \<^verbatim>\<open>seen\<close> is keyed by the decimal text of the price, as in the code; \<open>big_string\<close>
  is injective, so this is a set of prices.
\<close>

fun candidate_loop :: "(string \<Rightarrow> bool) \<Rightarrow> int list \<Rightarrow> Order list \<Rightarrow> int list" where
  "candidate_loop seen out [] = out"
| "candidate_loop seen out (ord # orders) =
     (let k = big_string (o_limit_price ord) in
      if \<not> seen k then candidate_loop (seen(k := True)) (out @ [o_limit_price ord]) orders
      else candidate_loop seen out orders)"

definition candidatePrices :: "Order list \<Rightarrow> int list" where
  "candidatePrices orders = go_sort (<) (candidate_loop (\<lambda>_. False) [] orders)"

fun depthAt_loop :: "int \<Rightarrow> int \<Rightarrow> int \<Rightarrow> Order list \<Rightarrow> int \<times> int" where
  "depthAt_loop p demand supply [] = (demand, supply)"
| "depthAt_loop p demand supply (ord # orders) =
     (if o_side ord = SideBuy then
        (if o_limit_price ord \<ge> p then depthAt_loop p (demand + o_size ord) supply orders
         else depthAt_loop p demand supply orders)
      else if o_side ord = SideSell then
        (if o_limit_price ord \<le> p then depthAt_loop p demand (supply + o_size ord) orders
         else depthAt_loop p demand supply orders)
      else depthAt_loop p demand supply orders)"

definition depthAt :: "Order list \<Rightarrow> int \<Rightarrow> int \<times> int" where
  "depthAt orders p = depthAt_loop p 0 0 orders"

section \<open>Choosing the price\<close>

text \<open>
  \<^verbatim>\<open>better(m, i, p, bm, bi, bp, ref)\<close>: more volume, then smaller imbalance, then
  nearer to a positive reference, then the lower price. The reference may be nil.
\<close>

definition better :: "int \<Rightarrow> int \<Rightarrow> int \<Rightarrow> int \<Rightarrow> int \<Rightarrow> int \<Rightarrow> int option \<Rightarrow> bool" where
  "better m i p bm bi bp ref =
     (if m \<noteq> bm then m > bm
      else if i \<noteq> bi then i < bi
      else (case ref of
          Some r \<Rightarrow>
            (if r > 0 \<and> \<bar>p - r\<bar> \<noteq> \<bar>bp - r\<bar> then \<bar>p - r\<bar> < \<bar>bp - r\<bar> else p < bp)
        | None \<Rightarrow> p < bp))"

text \<open>The incumbent: best price, matched volume and imbalance; \<open>None\<close> is a nil \<^verbatim>\<open>bestPrice\<close>.\<close>

type_synonym incumbent = "(int \<times> int \<times> int) option"

definition clear_step :: "Order list \<Rightarrow> int option \<Rightarrow> int \<Rightarrow> incumbent \<Rightarrow> incumbent" where
  "clear_step orders ref p best =
     (case depthAt orders p of (demand, supply) \<Rightarrow>
        let matched = minBig demand supply in
        if matched = 0 then best
        else
          let imbal = \<bar>demand - supply\<bar> in
          (case best of
             None \<Rightarrow> Some (p, matched, imbal)
           | Some (bp, bm, bi) \<Rightarrow>
               if better matched imbal p bm bi bp ref then Some (p, matched, imbal) else best))"

fun best_candidate :: "Order list \<Rightarrow> int option \<Rightarrow> int list \<Rightarrow> incumbent \<Rightarrow> incumbent" where
  "best_candidate orders ref [] best = best"
| "best_candidate orders ref (p # ps) best =
     best_candidate orders ref ps (clear_step orders ref p best)"

text \<open>The tolerance is a \<^verbatim>\<open>uint32\<close>; its conversion to \<^verbatim>\<open>int64\<close> loses nothing.\<close>

definition withinBand :: "int \<Rightarrow> int option \<Rightarrow> u32 \<Rightarrow> bool" where
  "withinBand price ref maxDeviationBps =
     (case ref of
        None \<Rightarrow> True
      | Some r \<Rightarrow>
          if r \<le> 0 then True
          else let diff = \<bar>price - r\<bar>; lhs = diff * 10000; rhs = r * uint maxDeviationBps
               in lhs \<le> rhs)"

section \<open>Allocation\<close>

fun eligible :: "Order list \<Rightarrow> int \<Rightarrow> Order list \<times> Order list" where
  "eligible [] price = ([], [])"
| "eligible (ord # orders) price =
     (case eligible orders price of (buys, sells) \<Rightarrow>
        if o_side ord = SideBuy then
          (if o_limit_price ord \<ge> price then (ord # buys, sells) else (buys, sells))
        else if o_side ord = SideSell then
          (if o_limit_price ord \<le> price then (buys, ord # sells) else (buys, sells))
        else (buys, sells))"

definition buy_before :: "Order \<Rightarrow> Order \<Rightarrow> bool" where
  "buy_before a b =
     (if o_limit_price a \<noteq> o_limit_price b then o_limit_price a > o_limit_price b
      else o_id a < o_id b)"

definition sell_before :: "Order \<Rightarrow> Order \<Rightarrow> bool" where
  "sell_before a b =
     (if o_limit_price a \<noteq> o_limit_price b then o_limit_price a < o_limit_price b
      else o_id a < o_id b)"

text \<open>
  The closure state of \<^verbatim>\<open>allocate\<close>: \<^verbatim>\<open>acc\<close> (the deltas by trader),
  \<^verbatim>\<open>order\<close> (traders in order of first touch) and \<^verbatim>\<open>traded\<close>.
\<close>

record delta =
  d_base :: int
  d_quote :: int

record alloc =
  acc :: "address \<rightharpoonup> delta"
  touched :: "address list"
  traded :: nat

definition touch :: "address \<Rightarrow> alloc \<Rightarrow> alloc" where
  "touch a st =
     (case acc st a of
        Some d \<Rightarrow> st
      | None \<Rightarrow> st\<lparr>acc := (acc st)(a \<mapsto> \<lparr>d_base = 0, d_quote = 0\<rparr>), touched := touched st @ [a]\<rparr>)"

text \<open>The two in-place updates of a trader's delta; the pointer from \<^verbatim>\<open>touch\<close> is never nil.\<close>

definition add_delta :: "address \<Rightarrow> int \<Rightarrow> int \<Rightarrow> alloc \<Rightarrow> alloc" where
  "add_delta a db dq st =
     st\<lparr>acc := (acc st)(a := map_option
         (\<lambda>d. \<lparr>d_base = d_base d + db, d_quote = d_quote d + dq\<rparr>) (acc st a))\<rparr>"

fun fillSide :: "int \<Rightarrow> bool \<Rightarrow> int \<Rightarrow> Order list \<Rightarrow> alloc \<Rightarrow> alloc" where
  "fillSide price buy remaining [] st = st"
| "fillSide price buy remaining (ord # side) st =
     (if remaining = 0 then st
      else
        let take = minBig remaining (o_size ord) in
        if take = 0 then fillSide price buy remaining side st
        else
          let quote = QuoteFor take price;
              st1 = touch (o_trader ord) st;
              st2 = (if buy then add_delta (o_trader ord) take (- quote) st1
                     else add_delta (o_trader ord) (- take) quote st1)
          in fillSide price buy (remaining - take) side (st2\<lparr>traded := traded st2 + 1\<rparr>))"

definition fill_of :: "alloc \<Rightarrow> address \<Rightarrow> Fill" where
  "fill_of st a =
     \<lparr>fl_trader = a, fl_base_delta = d_base (the (acc st a)), fl_quote_delta = d_quote (the (acc st a))\<rparr>"

definition allocate :: "Order list \<Rightarrow> int \<Rightarrow> int \<Rightarrow> Fill list \<times> nat" where
  "allocate orders price volume =
     (case eligible orders price of (buys0, sells0) \<Rightarrow>
        let buys = go_sort buy_before buys0;
            sells = go_sort sell_before sells0;
            st0 = \<lparr>acc = Map.empty, touched = [], traded = 0\<rparr>;
            st1 = fillSide price True volume buys st0;
            st2 = fillSide price False volume sells st1
        in (map (fill_of st2) (touched st2), traded st2))"

section \<open>Clear\<close>

definition Clear :: "Order list \<Rightarrow> int option \<Rightarrow> u32 \<Rightarrow> clear_error + Settlement" where
  "Clear orders refPrice maxDeviationBps =
     (if length orders = 0 then Inl ErrNoCross
      else
        (case best_candidate orders refPrice (candidatePrices orders) None of
           None \<Rightarrow> Inl ErrNoCross
         | Some (bestPrice, bestMatched, bestImbal) \<Rightarrow>
             if bestMatched = 0 then Inl ErrNoCross
             else if \<not> withinBand bestPrice refPrice maxDeviationBps then Inl ErrOutOfBand
             else
               (case allocate orders bestPrice bestMatched of (fills, ntraded) \<Rightarrow>
                  Inr \<lparr>s_clearing_price = bestPrice, s_matched_base = bestMatched,
                       s_fills = fills, s_unmatched = int (length orders) - int ntraded\<rparr>)))"

end
