(* ===== verification/Auction.thy ===== *)
theory Auction
  imports Matching
begin

text \<open>
  What \<open>Clear\<close> achieves as a choice of price: closed forms of depth and eligibility, the
  candidate prices as a set, the order \<open>better\<close> decides by, and from them that the
  clearing price maximises matched volume over every price, that its ties are broken as
  documented, and when the batch is abandoned instead.
\<close>

section \<open>Depth and eligibility in closed form\<close>

definition bids :: "Order list \<Rightarrow> int \<Rightarrow> Order list" where
  "bids orders p = filter (\<lambda>ord. o_side ord = SideBuy \<and> p \<le> o_limit_price ord) orders"

definition asks :: "Order list \<Rightarrow> int \<Rightarrow> Order list" where
  "asks orders p = filter (\<lambda>ord. o_side ord = SideSell \<and> o_limit_price ord \<le> p) orders"

definition demand_at :: "Order list \<Rightarrow> int \<Rightarrow> int" where
  "demand_at orders p = sum_list (map o_size (bids orders p))"

definition supply_at :: "Order list \<Rightarrow> int \<Rightarrow> int" where
  "supply_at orders p = sum_list (map o_size (asks orders p))"

definition matched_at :: "Order list \<Rightarrow> int \<Rightarrow> int" where
  "matched_at orders p = min (demand_at orders p) (supply_at orders p)"

definition imbalance_at :: "Order list \<Rightarrow> int \<Rightarrow> int" where
  "imbalance_at orders p = \<bar>demand_at orders p - supply_at orders p\<bar>"

text \<open>Order sizes are positive; the enclave's parser rejects any other.\<close>

definition sizes_pos :: "Order list \<Rightarrow> bool" where
  "sizes_pos orders \<longleftrightarrow> (\<forall>ord \<in> set orders. 0 < o_size ord)"

lemma depthAt_loop_eq:
  "depthAt_loop p d s orders = (d + demand_at orders p, s + supply_at orders p)"
  by (induction p d s orders rule: depthAt_loop.induct)
    (auto simp: demand_at_def supply_at_def bids_def asks_def)

lemma depthAt_eq [matching_simps]: "depthAt orders p = (demand_at orders p, supply_at orders p)"
  by (simp add: depthAt_def depthAt_loop_eq)

lemma eligible_eq [matching_simps]: "eligible orders p = (bids orders p, asks orders p)"
  by (induction orders p rule: eligible.induct) (auto simp: bids_def asks_def)

lemma set_bids: "ord \<in> set (bids orders p) \<longleftrightarrow>
    ord \<in> set orders \<and> o_side ord = SideBuy \<and> p \<le> o_limit_price ord"
  by (auto simp: bids_def)

lemma set_asks: "ord \<in> set (asks orders p) \<longleftrightarrow>
    ord \<in> set orders \<and> o_side ord = SideSell \<and> o_limit_price ord \<le> p"
  by (auto simp: asks_def)

lemma sizes_pos_bids [simp]: "sizes_pos orders \<Longrightarrow> sizes_pos (bids orders p)"
  by (auto simp: sizes_pos_def set_bids)

lemma sizes_pos_asks [simp]: "sizes_pos orders \<Longrightarrow> sizes_pos (asks orders p)"
  by (auto simp: sizes_pos_def set_asks)

lemma demand_nonneg: "sizes_pos orders \<Longrightarrow> 0 \<le> demand_at orders p"
  unfolding demand_at_def bids_def
  by (rule sum_list_filter_nonneg) (auto simp: sizes_pos_def order_less_imp_le)

lemma supply_nonneg: "sizes_pos orders \<Longrightarrow> 0 \<le> supply_at orders p"
  unfolding supply_at_def asks_def
  by (rule sum_list_filter_nonneg) (auto simp: sizes_pos_def order_less_imp_le)

lemma demand_pos_iff: "sizes_pos orders \<Longrightarrow> 0 < demand_at orders p \<longleftrightarrow> bids orders p \<noteq> []"
  unfolding demand_at_def
  by (rule sum_list_pos_iff_nonempty) (use sizes_pos_bids [of orders p] in \<open>auto simp: sizes_pos_def\<close>)

lemma supply_pos_iff: "sizes_pos orders \<Longrightarrow> 0 < supply_at orders p \<longleftrightarrow> asks orders p \<noteq> []"
  unfolding supply_at_def
  by (rule sum_list_pos_iff_nonempty) (use sizes_pos_asks [of orders p] in \<open>auto simp: sizes_pos_def\<close>)

lemma matched_nonneg: "sizes_pos orders \<Longrightarrow> 0 \<le> matched_at orders p"
  by (simp add: matched_at_def demand_nonneg supply_nonneg)

lemma demand_antimono: "sizes_pos orders \<Longrightarrow> p \<le> q \<Longrightarrow> demand_at orders q \<le> demand_at orders p"
  unfolding demand_at_def bids_def
  by (rule sum_list_mono_filter) (auto simp: sizes_pos_def order_less_imp_le)

lemma supply_mono: "sizes_pos orders \<Longrightarrow> p \<le> q \<Longrightarrow> supply_at orders p \<le> supply_at orders q"
  unfolding supply_at_def asks_def
  by (rule sum_list_mono_filter) (auto simp: sizes_pos_def order_less_imp_le)

section \<open>The candidate prices\<close>

lemma candidate_loop_spec:
  "\<forall>x. seen (big_string x) \<longleftrightarrow> x \<in> set out \<Longrightarrow> distinct out \<Longrightarrow>
   set (candidate_loop seen out orders) = set out \<union> o_limit_price ` set orders \<and>
   distinct (candidate_loop seen out orders)"
proof (induction orders arbitrary: seen out)
  case Nil
  then show ?case by simp
next
  case (Cons ord orders)
  let ?x = "o_limit_price ord"
  show ?case
  proof (cases "seen (big_string ?x)")
    case True
    with Cons.prems(1) have x: "?x \<in> set out" by blast
    from True have step: "candidate_loop seen out (ord # orders) = candidate_loop seen out orders"
      by (simp add: Let_def)
    from Cons.IH [OF Cons.prems] x show ?thesis unfolding step by auto
  next
    case False
    with Cons.prems(1) have x: "?x \<notin> set out" by blast
    define seen' where "seen' = seen(big_string ?x := True)"
    from False have step: "candidate_loop seen out (ord # orders) =
        candidate_loop seen' (out @ [?x]) orders"
      by (simp add: Let_def seen'_def)
    have inv: "\<forall>y. seen' (big_string y) \<longleftrightarrow> y \<in> set (out @ [?x])"
      using Cons.prems(1) by (auto simp: seen'_def)
    have "distinct (out @ [?x])" using x Cons.prems(2) by simp
    from Cons.IH [OF inv this] show ?thesis unfolding step by auto
  qed
qed

lemma set_candidatePrices [simp]: "set (candidatePrices orders) = o_limit_price ` set orders"
  using candidate_loop_spec [of "\<lambda>_. False" "[]" orders] by (simp add: candidatePrices_def)

lemma distinct_candidatePrices: "distinct (candidatePrices orders)"
proof -
  let ?xs = "candidate_loop (\<lambda>_. False) [] orders"
  have "distinct ?xs" using candidate_loop_spec [of "\<lambda>_. False" "[]" orders] by simp
  moreover have "mset (go_sort (<) ?xs) = mset ?xs" by (rule gosort.perm)
  ultimately show ?thesis
    unfolding candidatePrices_def by (metis mset_eq_imp_distinct_iff)
qed

lemma sorted_candidatePrices: "sorted (candidatePrices orders)"
  by (simp add: candidatePrices_def sorted_go_sort_int)

text \<open>The candidates depend on the orders as a set, not on their arrival.\<close>

lemma candidatePrices_cong:
  "set orders = set orders' \<Longrightarrow> candidatePrices orders = candidatePrices orders'"
  by (rule sorted_distinct_set_unique)
    (simp_all add: sorted_candidatePrices distinct_candidatePrices)

section \<open>The order of candidates\<close>

text \<open>\<open>better\<close> on two prices of the same book: a strict order, total on distinct prices.\<close>

definition beats :: "Order list \<Rightarrow> int option \<Rightarrow> int \<Rightarrow> int \<Rightarrow> bool" where
  "beats orders ref p q =
     better (matched_at orders p) (imbalance_at orders p) p
       (matched_at orders q) (imbalance_at orders q) q ref"

lemma better_trans:
  "better m i p m' i' p' ref \<Longrightarrow> better m' i' p' m'' i'' p'' ref \<Longrightarrow> better m i p m'' i'' p'' ref"
  by (auto simp: better_def split: if_splits option.splits)

lemma better_total:
  "p \<noteq> p' \<Longrightarrow> better m i p m' i' p' ref \<or> better m' i' p' m i p ref"
  by (auto simp: better_def split: if_splits option.splits)

lemma better_asym: "better m i p m' i' p' ref \<Longrightarrow> \<not> better m' i' p' m i p ref"
  by (auto simp: better_def split: if_splits option.splits)

lemma beats_trans: "beats orders ref p q \<Longrightarrow> beats orders ref q r \<Longrightarrow> beats orders ref p r"
  unfolding beats_def by (rule better_trans)

lemma beats_total: "p \<noteq> q \<Longrightarrow> beats orders ref p q \<or> beats orders ref q p"
  unfolding beats_def by (rule better_total)

lemma beats_asym: "beats orders ref p q \<Longrightarrow> \<not> beats orders ref q p"
  unfolding beats_def by (rule better_asym)

lemmas beats_order = beats_trans beats_total beats_asym

lemma beats_volume: "beats orders ref p q \<Longrightarrow> matched_at orders q \<le> matched_at orders p"
  by (auto simp: beats_def better_def split: if_splits)

text \<open>
  What \<open>better\<close> decides, in the words of its comment: more volume, then a smaller imbalance,
  then nearer to a positive reference, then the lower price.
\<close>

definition oracle_distance :: "int option \<Rightarrow> int \<Rightarrow> int" where
  "oracle_distance ref p = (case ref of Some r \<Rightarrow> if 0 < r then \<bar>p - r\<bar> else 0 | None \<Rightarrow> 0)"

lemma better_iff:
  "better m i p bm bi bp ref \<longleftrightarrow> bm < m \<or> m = bm \<and> (i < bi \<or> i = bi \<and>
     (oracle_distance ref p < oracle_distance ref bp \<or> oracle_distance ref p = oracle_distance ref bp \<and> p < bp))"
  by (auto simp: better_def oracle_distance_def split: option.splits if_splits)

section \<open>The loop over the candidates\<close>

text \<open>The incumbent after some candidates: the one that beats every other that trades.\<close>

definition incumbent_of :: "Order list \<Rightarrow> int option \<Rightarrow> int set \<Rightarrow> incumbent \<Rightarrow> bool" where
  "incumbent_of orders ref seen best =
     (case best of
        None \<Rightarrow> \<forall>p \<in> seen. matched_at orders p = 0
      | Some (bp, bm, bi) \<Rightarrow>
          bp \<in> seen \<and> bm = matched_at orders bp \<and> bi = imbalance_at orders bp \<and> bm \<noteq> 0 \<and>
          (\<forall>p \<in> seen. p \<noteq> bp \<longrightarrow> matched_at orders p \<noteq> 0 \<longrightarrow> beats orders ref bp p))"

lemma clear_step_eq:
  "clear_step orders ref p best =
     (if matched_at orders p = 0 then best
      else (case best of
          None \<Rightarrow> Some (p, matched_at orders p, imbalance_at orders p)
        | Some (bp, bm, bi) \<Rightarrow>
            if better (matched_at orders p) (imbalance_at orders p) p bm bi bp ref
            then Some (p, matched_at orders p, imbalance_at orders p) else best))"
  unfolding clear_step_def depthAt_eq matched_at_def imbalance_at_def Let_def minBig_eq_min prod.case
  by (rule refl)

lemma clear_step_incumbent:
  assumes inv: "incumbent_of orders ref seen best"
  shows "incumbent_of orders ref (insert p seen) (clear_step orders ref p best)"
proof (cases "matched_at orders p = 0")
  case True
  then have "clear_step orders ref p best = best" by (simp add: clear_step_eq)
  with True inv show ?thesis
    by (auto simp: incumbent_of_def split: option.splits)
next
  case trades: False
  show ?thesis
  proof (cases best)
    case None
    with trades inv show ?thesis by (auto simp: incumbent_of_def clear_step_eq)
  next
    case (Some b)
    obtain bp bm bi where b: "b = (bp, bm, bi)" by (cases b)
    have old: "bp \<in> seen" "bm = matched_at orders bp" "bi = imbalance_at orders bp" "bm \<noteq> 0"
      and best_old: "\<And>q. q \<in> seen \<Longrightarrow> q \<noteq> bp \<Longrightarrow> matched_at orders q \<noteq> 0 \<Longrightarrow> beats orders ref bp q"
      using inv Some b by (auto simp: incumbent_of_def)
    show ?thesis
    proof (cases "beats orders ref p bp")
      case True
      then have step: "clear_step orders ref p best = Some (p, matched_at orders p, imbalance_at orders p)"
        using trades Some b old by (simp add: clear_step_eq beats_def)
      have "beats orders ref p q" if "q \<in> seen" "q \<noteq> p" "matched_at orders q \<noteq> 0" for q
        using True best_old [of q] that by (cases "q = bp") (auto intro: beats_trans)
      then show ?thesis using step trades by (auto simp: incumbent_of_def)
    next
      case False
      then have step: "clear_step orders ref p best = best"
        using trades Some b old by (simp add: clear_step_eq beats_def)
      have "p \<noteq> bp \<Longrightarrow> beats orders ref bp p" using False beats_total by blast
      then show ?thesis using step Some b old best_old by (auto simp: incumbent_of_def)
    qed
  qed
qed

lemma best_candidate_incumbent:
  "incumbent_of orders ref seen best \<Longrightarrow>
   incumbent_of orders ref (seen \<union> set ps) (best_candidate orders ref ps best)"
proof (induction ps arbitrary: seen best)
  case Nil
  then show ?case by simp
next
  case (Cons p ps)
  from Cons.IH [OF clear_step_incumbent [OF Cons.prems, of p]]
  show ?case by simp
qed

lemma best_candidate_spec:
  "incumbent_of orders ref (o_limit_price ` set orders)
     (best_candidate orders ref (candidatePrices orders) None)"
  using best_candidate_incumbent [of orders ref "{}" None "candidatePrices orders"]
  by (simp add: incumbent_of_def)

section \<open>The optimum sits on a candidate\<close>

text \<open>
  At any price where something trades, moving up to the lowest eligible bid keeps the
  demand and cannot lose supply: the comment on \<^verbatim>\<open>candidatePrices\<close>.
\<close>

lemma candidate_dominates:
  assumes pos: "sizes_pos orders" and trades: "0 < matched_at orders p"
  shows "\<exists>c \<in> o_limit_price ` set orders. matched_at orders p \<le> matched_at orders c"
proof -
  let ?L = "o_limit_price ` set (bids orders p)"
  have "bids orders p \<noteq> []"
    using trades demand_pos_iff [OF pos] by (auto simp: matched_at_def)
  then have ne: "?L \<noteq> {}" "finite ?L" by auto
  define c where "c = Min ?L"
  have "c \<in> ?L" unfolding c_def using ne by (rule Min_in [rotated])
  then have c: "p \<le> c" "c \<in> o_limit_price ` set orders" by (auto simp: set_bids)
  have "bids orders c = bids orders p"
    unfolding bids_def
  proof (rule filter_cong [OF refl], rule iffI)
    fix ord assume "ord \<in> set orders" "o_side ord = SideBuy \<and> p \<le> o_limit_price ord"
    then show "o_side ord = SideBuy \<and> c \<le> o_limit_price ord"
      using Min_le [OF ne(2), of "o_limit_price ord"] by (auto simp: c_def set_bids)
  qed (use c in auto)
  then have "demand_at orders c = demand_at orders p" by (simp add: demand_at_def)
  moreover have "supply_at orders p \<le> supply_at orders c" by (rule supply_mono [OF pos c(1)])
  ultimately have "matched_at orders p \<le> matched_at orders c" by (auto simp: matched_at_def)
  with c(2) show ?thesis by blast
qed

definition crosses :: "Order list \<Rightarrow> bool" where
  "crosses orders \<longleftrightarrow>
     (\<exists>b \<in> set orders. \<exists>s \<in> set orders. o_side b = SideBuy \<and> o_side s = SideSell \<and>
        o_limit_price s \<le> o_limit_price b)"

lemma matched_pos_iff:
  "sizes_pos orders \<Longrightarrow> 0 < matched_at orders p \<longleftrightarrow> bids orders p \<noteq> [] \<and> asks orders p \<noteq> []"
  by (auto simp: matched_at_def demand_pos_iff supply_pos_iff)

lemma crosses_iff_matched:
  assumes pos: "sizes_pos orders"
  shows "crosses orders \<longleftrightarrow> (\<exists>p. 0 < matched_at orders p)"
proof
  assume "crosses orders"
  then obtain b s where "b \<in> set orders" "s \<in> set orders" "o_side b = SideBuy"
    "o_side s = SideSell" "o_limit_price s \<le> o_limit_price b"
    by (auto simp: crosses_def)
  then have "b \<in> set (bids orders (o_limit_price b))" "s \<in> set (asks orders (o_limit_price b))"
    by (auto simp: set_bids set_asks)
  then have "0 < matched_at orders (o_limit_price b)" by (auto simp: matched_pos_iff [OF pos])
  then show "\<exists>p. 0 < matched_at orders p" by blast
next
  assume "\<exists>p. 0 < matched_at orders p"
  then obtain p b s where "b \<in> set (bids orders p)" "s \<in> set (asks orders p)"
    by (auto simp: matched_pos_iff [OF pos] neq_Nil_conv) (metis list.set_intros(1))
  then show "crosses orders" by (auto simp: crosses_def set_bids set_asks) (meson order_trans)
qed

end
