(* ===== verification/Allocation.thy ===== *)
theory Allocation
  imports Auction
begin

text \<open>
  What \<open>allocate\<close> does with the chosen price: the list of trades each side makes, as an
  abstract specification, and the proof that the loop of \<^verbatim>\<open>fillSide\<close> with its map and
  its list of touched traders is the sum of those trades. Conservation of base, the bound
  on the rounding of quote, the unmatched count and the independence of arrival order
  follow.
\<close>

section \<open>The trades of one side\<close>

text \<open>An order and how much of it trades, best order first.\<close>

type_synonym trade = "Order \<times> int"

fun trades :: "int \<Rightarrow> Order list \<Rightarrow> trade list" where
  "trades remaining [] = []"
| "trades remaining (ord # side) =
     (if remaining = 0 then []
      else let t = min remaining (o_size ord) in
        if t = 0 then trades remaining side else (ord, t) # trades (remaining - t) side)"

lemma trades_zero [simp]: "trades 0 side = []"
  by (cases side) simp_all

lemma set_trades:
  assumes "sizes_pos side" "0 \<le> r" "(ord, t) \<in> set (trades r side)"
  shows "ord \<in> set side \<and> 0 < t \<and> t \<le> o_size ord"
  using assms
proof (induction r side rule: trades.induct)
  case (1 r)
  then show ?case by simp
next
  case (2 r ord' side)
  have pos: "0 < o_size ord'" "sizes_pos side" using "2.prems"(1) by (auto simp: sizes_pos_def)
  then show ?case
    using 2 by (auto simp: Let_def min_def split: if_splits)
qed

lemma sum_trades:
  "sizes_pos side \<Longrightarrow> 0 \<le> r \<Longrightarrow>
   sum_list (map snd (trades r side)) = min r (sum_list (map o_size side))"
proof (induction r side rule: trades.induct)
  case (1 r)
  then show ?case by simp
next
  case (2 r ord side)
  have pos: "0 < o_size ord" "sizes_pos side" using "2.prems"(1) by (auto simp: sizes_pos_def)
  then have "0 \<le> sum_list (map o_size side)"
    by (intro sum_list_nonneg) (auto simp: sizes_pos_def order_less_imp_le)
  then show ?case using 2 pos by (auto simp: Let_def min_def split: if_splits)
qed

lemma length_trades: "length (trades r side) \<le> length side"
  by (induction r side rule: trades.induct) (auto simp: Let_def)

lemma trades_nonempty:
  "sizes_pos side \<Longrightarrow> 0 < r \<Longrightarrow> side \<noteq> [] \<Longrightarrow> trades r side \<noteq> []"
  by (cases side) (auto simp: sizes_pos_def Let_def)

text \<open>
  Price priority: the orders that trade are the front of the sorted side, and all of them
  but the last trade in full.
\<close>

lemma trades_prefix:
  assumes "sizes_pos side" "0 \<le> r"
  shows "map fst (trades r side) = take (length (trades r side)) side"
  using assms
proof (induction r side rule: trades.induct)
  case (1 r)
  then show ?case by simp
next
  case (2 r ord side)
  have pos: "0 < o_size ord" "sizes_pos side" using "2.prems"(1) by (auto simp: sizes_pos_def)
  then show ?case using 2 by (auto simp: Let_def min_def)
qed

lemma trades_full:
  assumes "sizes_pos side" "0 \<le> r" "Suc i < length (trades r side)"
  shows "snd (trades r side ! i) = o_size (fst (trades r side ! i))"
  using assms
proof (induction r side arbitrary: i rule: trades.induct)
  case (1 r)
  then show ?case by simp
next
  case (2 r ord side)
  have pos: "0 < o_size ord" "sizes_pos side" using "2.prems"(1) by (auto simp: sizes_pos_def)
  show ?case
  proof (cases "r = 0 \<or> r \<le> o_size ord")
    case True
    then show ?thesis using "2.prems" pos by (auto simp: Let_def min_def)
  next
    case False
    then have tr: "trades r (ord # side) = (ord, o_size ord) # trades (r - o_size ord) side"
      using pos by (simp add: Let_def min_def)
    show ?thesis
    proof (cases i)
      case 0
      then show ?thesis by (simp add: tr del: trades.simps)
    next
      case (Suc j)
      have "snd (trades (r - o_size ord) side ! j) = o_size (fst (trades (r - o_size ord) side ! j))"
        using "2.IH" [of "o_size ord" j] "2.prems" pos False Suc tr by (auto simp: min_def)
      then show ?thesis by (simp add: tr Suc del: trades.simps)
    qed
  qed
qed

section \<open>The loop adds up its trades\<close>

definition apply_trade :: "int \<Rightarrow> bool \<Rightarrow> alloc \<Rightarrow> trade \<Rightarrow> alloc" where
  "apply_trade price buy st tr =
     (case tr of (ord, t) \<Rightarrow>
        let st1 = touch (o_trader ord) st;
            st2 = (if buy then add_delta (o_trader ord) t (- QuoteFor t price) st1
                   else add_delta (o_trader ord) (- t) (QuoteFor t price) st1)
        in st2\<lparr>traded := traded st2 + 1\<rparr>)"

lemma fillSide_trades:
  "fillSide price buy r side st = foldl (apply_trade price buy) st (trades r side)"
  by (induction price buy r side st rule: fillSide.induct) (auto simp: Let_def apply_trade_def)

definition base_of :: "alloc \<Rightarrow> address \<Rightarrow> int" where
  "base_of st a = (case acc st a of None \<Rightarrow> 0 | Some d \<Rightarrow> d_base d)"

definition quote_of :: "alloc \<Rightarrow> address \<Rightarrow> int" where
  "quote_of st a = (case acc st a of None \<Rightarrow> 0 | Some d \<Rightarrow> d_quote d)"

text \<open>The map and the list of touched traders agree, so no lookup fails.\<close>

definition alloc_ok :: "alloc \<Rightarrow> bool" where
  "alloc_ok st \<longleftrightarrow> dom (acc st) = set (touched st) \<and> distinct (touched st)"

text \<open>What one trade adds to its trader, signed by its side.\<close>

definition trade_base :: "bool \<Rightarrow> trade \<Rightarrow> int" where
  "trade_base buy tr = (if buy then snd tr else - snd tr)"

definition trade_quote :: "int \<Rightarrow> bool \<Rightarrow> trade \<Rightarrow> int" where
  "trade_quote price buy tr = (if buy then - QuoteFor (snd tr) price else QuoteFor (snd tr) price)"

definition trader_of :: "trade \<Rightarrow> address" where
  "trader_of tr = o_trader (fst tr)"

lemma apply_trade_acc:
  "base_of (apply_trade price buy st tr) a =
     base_of st a + (if trader_of tr = a then trade_base buy tr else 0)"
  "quote_of (apply_trade price buy st tr) a =
     quote_of st a + (if trader_of tr = a then trade_quote price buy tr else 0)"
  "set (touched (apply_trade price buy st tr)) = set (touched st) \<union> (if acc st (trader_of tr) = None then {trader_of tr} else {})"
  "dom (acc (apply_trade price buy st tr)) = insert (trader_of tr) (dom (acc st))"
  "traded (apply_trade price buy st tr) = traded st + 1"
  by (cases tr, cases "acc st (trader_of tr)";
      auto simp: apply_trade_def touch_def add_delta_def base_of_def quote_of_def trader_of_def
        trade_base_def trade_quote_def Let_def split: option.splits if_splits)+

lemma apply_trade_touched:
  "touched (apply_trade price buy st tr) =
     (if acc st (trader_of tr) = None then touched st @ [trader_of tr] else touched st)"
  by (cases tr) (auto simp: apply_trade_def touch_def add_delta_def trader_of_def Let_def
      split: option.splits)

lemma apply_trade_ok: "alloc_ok st \<Longrightarrow> alloc_ok (apply_trade price buy st tr)"
  by (auto simp: alloc_ok_def apply_trade_acc(4) apply_trade_touched)

lemma fold_trades_ok: "alloc_ok st \<Longrightarrow> alloc_ok (foldl (apply_trade price buy) st ts)"
  by (induction ts arbitrary: st) (auto simp: apply_trade_ok)

lemma fold_trades_acc:
  "base_of (foldl (apply_trade price buy) st ts) a =
     base_of st a + sum_list (map (trade_base buy) (filter (\<lambda>tr. trader_of tr = a) ts))"
  "quote_of (foldl (apply_trade price buy) st ts) a =
     quote_of st a + sum_list (map (trade_quote price buy) (filter (\<lambda>tr. trader_of tr = a) ts))"
  "dom (acc (foldl (apply_trade price buy) st ts)) = dom (acc st) \<union> trader_of ` set ts"
  "traded (foldl (apply_trade price buy) st ts) = traded st + length ts"
  by (induction ts arbitrary: st) (auto simp: apply_trade_acc simp del: fun_upd_apply)

section \<open>The fills\<close>

definition buy_trades :: "Order list \<Rightarrow> int \<Rightarrow> int \<Rightarrow> trade list" where
  "buy_trades orders price volume = trades volume (go_sort buy_before (bids orders price))"

definition sell_trades :: "Order list \<Rightarrow> int \<Rightarrow> int \<Rightarrow> trade list" where
  "sell_trades orders price volume = trades volume (go_sort sell_before (asks orders price))"

definition alloc_after :: "Order list \<Rightarrow> int \<Rightarrow> int \<Rightarrow> alloc" where
  "alloc_after orders price volume =
     foldl (apply_trade price False)
       (foldl (apply_trade price True) \<lparr>acc = Map.empty, touched = [], traded = 0\<rparr>
          (buy_trades orders price volume))
       (sell_trades orders price volume)"

lemma allocate_eq [matching_simps]:
  "allocate orders price volume =
     (map (fill_of (alloc_after orders price volume)) (touched (alloc_after orders price volume)),
      traded (alloc_after orders price volume))"
  by (simp add: allocate_def eligible_eq fillSide_trades alloc_after_def buy_trades_def
      sell_trades_def Let_def)

lemma alloc_after_ok: "alloc_ok (alloc_after orders price volume)"
  unfolding alloc_after_def by (intro fold_trades_ok) (simp add: alloc_ok_def)

definition net_base :: "Order list \<Rightarrow> int \<Rightarrow> int \<Rightarrow> address \<Rightarrow> int" where
  "net_base orders price volume a =
     sum_list (map snd (filter (\<lambda>tr. trader_of tr = a) (buy_trades orders price volume)))
     - sum_list (map snd (filter (\<lambda>tr. trader_of tr = a) (sell_trades orders price volume)))"

definition net_quote :: "Order list \<Rightarrow> int \<Rightarrow> int \<Rightarrow> address \<Rightarrow> int" where
  "net_quote orders price volume a =
     sum_list (map (\<lambda>tr. QuoteFor (snd tr) price)
       (filter (\<lambda>tr. trader_of tr = a) (sell_trades orders price volume)))
     - sum_list (map (\<lambda>tr. QuoteFor (snd tr) price)
       (filter (\<lambda>tr. trader_of tr = a) (buy_trades orders price volume)))"

lemma sum_trade_base:
  "sum_list (map (trade_base buy) ts) =
     (if buy then sum_list (map snd ts) else - sum_list (map snd ts))"
  by (induction ts) (auto simp: trade_base_def)

lemma sum_trade_quote:
  "sum_list (map (trade_quote price buy) ts) =
     (if buy then - sum_list (map (\<lambda>tr. QuoteFor (snd tr) price) ts)
      else sum_list (map (\<lambda>tr. QuoteFor (snd tr) price) ts))"
  by (induction ts) (auto simp: trade_quote_def)

lemma init_alloc [simp]:
  "base_of \<lparr>acc = Map.empty, touched = [], traded = 0\<rparr> a = 0"
  "quote_of \<lparr>acc = Map.empty, touched = [], traded = 0\<rparr> a = 0"
  by (simp_all add: base_of_def quote_of_def)

lemma alloc_after_acc:
  "base_of (alloc_after orders price volume) a = net_base orders price volume a"
  "quote_of (alloc_after orders price volume) a = net_quote orders price volume a"
  "dom (acc (alloc_after orders price volume)) =
     trader_of ` set (buy_trades orders price volume) \<union> trader_of ` set (sell_trades orders price volume)"
  "traded (alloc_after orders price volume) =
     length (buy_trades orders price volume) + length (sell_trades orders price volume)"
  by (simp_all add: alloc_after_def fold_trades_acc net_base_def net_quote_def sum_trade_base
      sum_trade_quote)

lemma fill_of_net:
  assumes "a \<in> set (touched (alloc_after orders price volume))"
  shows "fill_of (alloc_after orders price volume) a =
    \<lparr>fl_trader = a, fl_base_delta = net_base orders price volume a,
     fl_quote_delta = net_quote orders price volume a\<rparr>"
proof -
  have "a \<in> dom (acc (alloc_after orders price volume))"
    using assms alloc_after_ok [of orders price volume] by (simp add: alloc_ok_def)
  then show ?thesis
    using alloc_after_acc(1,2) [of orders price volume a]
    by (auto simp: fill_of_def base_of_def quote_of_def)
qed

text \<open>
  The abstract specification of \<^verbatim>\<open>allocate\<close>: one fill per trader with a trade, holding
  the sum of its trades.
\<close>

lemma allocate_fills:
  assumes "allocate orders price volume = (fills, n)"
  shows "distinct (map fl_trader fills)"
    and "set (map fl_trader fills) =
      trader_of ` set (buy_trades orders price volume) \<union> trader_of ` set (sell_trades orders price volume)"
    and "\<And>f. f \<in> set fills \<Longrightarrow>
      fl_base_delta f = net_base orders price volume (fl_trader f) \<and>
      fl_quote_delta f = net_quote orders price volume (fl_trader f)"
    and "n = length (buy_trades orders price volume) + length (sell_trades orders price volume)"
proof -
  let ?st = "alloc_after orders price volume"
  have fills: "fills = map (fill_of ?st) (touched ?st)" and n: "n = traded ?st"
    using assms by (simp_all add: allocate_eq)
  have "fl_trader \<circ> fill_of ?st = id" by (auto simp: fill_of_def)
  then have tr: "map fl_trader fills = touched ?st" by (simp add: fills)
  show "distinct (map fl_trader fills)"
    using alloc_after_ok tr by (simp add: alloc_ok_def)
  show "set (map fl_trader fills) =
      trader_of ` set (buy_trades orders price volume) \<union> trader_of ` set (sell_trades orders price volume)"
    using alloc_after_ok [of orders price volume] tr alloc_after_acc(3) by (simp add: alloc_ok_def)
  show "n = length (buy_trades orders price volume) + length (sell_trades orders price volume)"
    by (simp add: n alloc_after_acc(4))
  fix f assume "f \<in> set fills"
  then show "fl_base_delta f = net_base orders price volume (fl_trader f) \<and>
      fl_quote_delta f = net_quote orders price volume (fl_trader f)"
    by (auto simp: fills fill_of_net)
qed

text \<open>Summing a per-trader total over all traders with a trade gives the total.\<close>

lemma sum_by_trader:
  fixes f :: "trade \<Rightarrow> int"
  assumes "finite A" "trader_of ` set ts \<subseteq> A"
  shows "(\<Sum>a \<in> A. sum_list (map f (filter (\<lambda>tr. trader_of tr = a) ts))) = sum_list (map f ts)"
  using assms(2)
proof (induction ts)
  case Nil
  then show ?case by simp
next
  case (Cons tr ts)
  have "(\<Sum>a \<in> A. sum_list (map f (filter (\<lambda>tr. trader_of tr = a) (tr # ts)))) =
      (\<Sum>a \<in> A. (if trader_of tr = a then f tr else 0) + sum_list (map f (filter (\<lambda>tr. trader_of tr = a) ts)))"
    by (intro sum.cong) auto
  also have "\<dots> = f tr + sum_list (map f ts)"
    using Cons assms(1) by (simp add: sum.distrib)
  finally show ?case by simp
qed

lemma allocate_totals:
  assumes "allocate orders price volume = (fills, n)"
  shows "sum_list (map fl_base_delta fills) =
      sum_list (map snd (buy_trades orders price volume)) - sum_list (map snd (sell_trades orders price volume))"
    and "sum_list (map fl_quote_delta fills) =
      sum_list (map (\<lambda>tr. QuoteFor (snd tr) price) (sell_trades orders price volume))
      - sum_list (map (\<lambda>tr. QuoteFor (snd tr) price) (buy_trades orders price volume))"
proof -
  note F = allocate_fills [OF assms]
  let ?A = "set (map fl_trader fills)"
  have A: "finite ?A" "trader_of ` set (buy_trades orders price volume) \<subseteq> ?A"
    "trader_of ` set (sell_trades orders price volume) \<subseteq> ?A"
    using F(2) by auto
  have sums: "sum_list (map g fills) = (\<Sum>a \<in> ?A. h a)"
    if "\<And>f. f \<in> set fills \<Longrightarrow> g f = h (fl_trader f)" for g h :: "_ \<Rightarrow> int"
  proof -
    have "map g fills = map h (map fl_trader fills)" using that by simp
    then show ?thesis using F(1) by (simp only: sum_list_distinct_conv_sum_set)
  qed
  show "sum_list (map fl_base_delta fills) =
      sum_list (map snd (buy_trades orders price volume)) - sum_list (map snd (sell_trades orders price volume))"
    by (subst sums [where h = "net_base orders price volume"])
      (simp_all add: F(3) net_base_def sum_subtractf sum_by_trader [OF A(1,2)] sum_by_trader [OF A(1,3)] del: set_map)
  show "sum_list (map fl_quote_delta fills) =
      sum_list (map (\<lambda>tr. QuoteFor (snd tr) price) (sell_trades orders price volume))
      - sum_list (map (\<lambda>tr. QuoteFor (snd tr) price) (buy_trades orders price volume))"
    by (subst sums [where h = "net_quote orders price volume"])
      (simp_all add: F(3) net_quote_def sum_subtractf sum_by_trader [OF A(1,2)] sum_by_trader [OF A(1,3)] del: set_map)
qed

section \<open>Clear, unfolded once\<close>

lemma Clear_InrD:
  assumes "Clear orders ref bps = Inr s"
  obtains n where "s_matched_base s = matched_at orders (s_clearing_price s)"
    and "matched_at orders (s_clearing_price s) \<noteq> 0"
    and "s_clearing_price s \<in> o_limit_price ` set orders"
    and "\<forall>p \<in> o_limit_price ` set orders. p \<noteq> s_clearing_price s \<longrightarrow>
        matched_at orders p \<noteq> 0 \<longrightarrow> beats orders ref (s_clearing_price s) p"
    and "withinBand (s_clearing_price s) ref bps"
    and "allocate orders (s_clearing_price s) (s_matched_base s) = (s_fills s, n)"
    and "s_unmatched s = int (length orders) - int n"
proof -
  let ?b = "best_candidate orders ref (candidatePrices orders) None"
  have spec: "incumbent_of orders ref (o_limit_price ` set orders) ?b"
    by (rule best_candidate_spec)
  obtain bp bm bi where b: "?b = Some (bp, bm, bi)" and "withinBand bp ref bps"
    and "bm \<noteq> 0" and s: "case allocate orders bp bm of (fills, n) \<Rightarrow>
        s = \<lparr>s_clearing_price = bp, s_matched_base = bm, s_fills = fills,
             s_unmatched = int (length orders) - int n\<rparr>"
    using assms by (auto simp: Clear_def split: if_splits option.splits prod.splits)
  obtain fills n where al: "allocate orders bp bm = (fills, n)" by (cases "allocate orders bp bm")
  show thesis
    by (rule that [of n]) (use spec b s al \<open>withinBand bp ref bps\<close> \<open>bm \<noteq> 0\<close> in
        \<open>auto simp: incumbent_of_def\<close>)
qed

lemma Clear_facts:
  assumes "Clear orders ref bps = Inr s"
  shows "s_matched_base s = matched_at orders (s_clearing_price s)"
    and "s_clearing_price s \<in> o_limit_price ` set orders"
    and "withinBand (s_clearing_price s) ref bps"
  using assms by (auto elim: Clear_InrD)

lemma Clear_best:
  assumes "Clear orders ref bps = Inr s" "p \<in> o_limit_price ` set orders"
    "p \<noteq> s_clearing_price s" "matched_at orders p \<noteq> 0"
  shows "beats orders ref (s_clearing_price s) p"
  using assms(1) by (rule Clear_InrD) (use assms(2-) in blast)

lemma Clear_matched_pos:
  assumes "sizes_pos orders" "Clear orders ref bps = Inr s"
  shows "0 < s_matched_base s"
proof -
  have "matched_at orders (s_clearing_price s) \<noteq> 0" using assms(2) by (rule Clear_InrD)
  then show ?thesis
    using matched_nonneg [OF assms(1), of "s_clearing_price s"] Clear_facts(1) [OF assms(2)] by simp
qed

end
