(* ===== verification/Clearing.thy ===== *)
theory Clearing
  imports Allocation
begin

text \<open>
  The properties of \<open>Clear\<close>: what a settlement guarantees to the traders in the batch
  and to the contract that re-checks it, and the one guarantee the code's documentation
  claims that it does not give, exact conservation of quote.
\<close>

section \<open>Evaluating a concrete batch\<close>

lemma candidatePrices_eval: "candidatePrices orders = sort (remdups (map o_limit_price orders))"
  by (rule sorted_distinct_set_unique)
    (simp_all add: sorted_candidatePrices distinct_candidatePrices)

definition demo_order :: "u64 \<Rightarrow> address \<Rightarrow> side \<Rightarrow> int \<Rightarrow> int \<Rightarrow> Order" where
  "demo_order i a sd p n = \<lparr>o_id = i, o_trader = a, o_side = sd, o_limit_price = p, o_size = n\<rparr>"

lemma demo_order_simps [simp]:
  "o_id (demo_order i a sd p n) = i"
  "o_trader (demo_order i a sd p n) = a"
  "o_side (demo_order i a sd p n) = sd"
  "o_limit_price (demo_order i a sd p n) = p"
  "o_size (demo_order i a sd p n) = n"
  by (simp_all add: demo_order_def)

lemmas clear_eval = Clear_def candidatePrices_eval clear_step_eq matched_at_def imbalance_at_def
  demand_at_def supply_at_def bids_def asks_def better_def withinBand_def allocate_def eligible_eq
  buy_before_def sell_before_def touch_def add_delta_def fill_of_def QuoteFor_def Let_def

text \<open>
  Bids at 3 and 2 and an ask at 2 trade at 2, the second bid in part; a bid at 1 does not.
\<close>

definition demo_book :: "Order list" where
  "demo_book =
     [demo_order 1 10 SideBuy (3 * PriceScale) 100,
      demo_order 2 11 SideBuy (2 * PriceScale) 50,
      demo_order 3 12 SideSell (2 * PriceScale) 120,
      demo_order 4 13 SideBuy (1 * PriceScale) 999]"

definition demo_settlement :: Settlement where
  "demo_settlement =
     \<lparr>s_clearing_price = 2 * PriceScale, s_matched_base = 120,
      s_fills =
        [\<lparr>fl_trader = 10, fl_base_delta = 100, fl_quote_delta = -200\<rparr>,
         \<lparr>fl_trader = 11, fl_base_delta = 20, fl_quote_delta = -40\<rparr>,
         \<lparr>fl_trader = 12, fl_base_delta = -120, fl_quote_delta = 240\<rparr>],
      s_unmatched = 1\<rparr>"

lemma demo_clear: "Clear demo_book (Some (2 * PriceScale)) 500 = Inr demo_settlement"
  by (simp add: demo_book_def demo_settlement_def clear_eval PriceScale_def)

lemma demo_book_ok: "sizes_pos demo_book" "distinct (map o_id demo_book)"
  by (simp_all add: sizes_pos_def demo_book_def)

section \<open>Volumes and quotes of the two sides\<close>

lemma sizes_pos_sorted: "sizes_pos xs \<Longrightarrow> sizes_pos (go_sort lt xs)"
  by (simp add: sizes_pos_def)

lemma side_volumes:
  assumes pos: "sizes_pos orders" and v: "0 \<le> v" "v \<le> matched_at orders p"
  shows "sum_list (map snd (buy_trades orders p v)) = v"
    and "sum_list (map snd (sell_trades orders p v)) = v"
  using v by (simp_all add: buy_trades_def sell_trades_def sum_trades sizes_pos_sorted pos
      gosort.sum_sort matched_at_def flip: demand_at_def supply_at_def)

lemma buy_tradesD:
  assumes "sizes_pos orders" "0 \<le> v" "tr \<in> set (buy_trades orders p v)"
  shows "fst tr \<in> set orders" "o_side (fst tr) = SideBuy" "p \<le> o_limit_price (fst tr)"
    "0 < snd tr" "snd tr \<le> o_size (fst tr)"
  using set_trades [of "go_sort buy_before (bids orders p)" v "fst tr" "snd tr"] assms
  by (auto simp: buy_trades_def sizes_pos_sorted set_bids)

lemma sell_tradesD:
  assumes "sizes_pos orders" "0 \<le> v" "tr \<in> set (sell_trades orders p v)"
  shows "fst tr \<in> set orders" "o_side (fst tr) = SideSell" "o_limit_price (fst tr) \<le> p"
    "0 < snd tr" "snd tr \<le> o_size (fst tr)"
  using set_trades [of "go_sort sell_before (asks orders p)" v "fst tr" "snd tr"] assms
  by (auto simp: sell_trades_def sizes_pos_sorted set_asks)

lemma trades_of_pos_volume:
  assumes pos: "sizes_pos orders" and "0 < v" "v \<le> matched_at orders p"
  shows "buy_trades orders p v \<noteq> []" "sell_trades orders p v \<noteq> []"
proof -
  have "0 < matched_at orders p" using assms by simp
  then have "bids orders p \<noteq> []" "asks orders p \<noteq> []" by (simp_all add: matched_pos_iff [OF pos])
  then have "go_sort buy_before (bids orders p) \<noteq> []" "go_sort sell_before (asks orders p) \<noteq> []"
    by (metis gosort.length_sort length_0_conv)+
  then show "buy_trades orders p v \<noteq> []" "sell_trades orders p v \<noteq> []"
    using assms(2) by (simp_all add: buy_trades_def sell_trades_def trades_nonempty sizes_pos_sorted pos)
qed

text \<open>Truncation loses less than one unit of quote per trade.\<close>

lemma QuoteFor_bounds:
  "PriceScale * QuoteFor t p \<le> t * p" "t * p \<le> PriceScale * QuoteFor t p + (PriceScale - 1)"
proof -
  have eq: "t * p = PriceScale * (t * p div PriceScale) + t * p mod PriceScale" by simp
  have m: "0 \<le> t * p mod PriceScale" "t * p mod PriceScale \<le> PriceScale - 1"
    using pos_mod_bound [of PriceScale "t * p"] by simp_all
  show "PriceScale * QuoteFor t p \<le> t * p" "t * p \<le> PriceScale * QuoteFor t p + (PriceScale - 1)"
    using eq m unfolding QuoteFor_def big_div_pos [OF PriceScale_pos(2)] by linarith+
qed

lemma quote_sum_bounds:
  "PriceScale * sum_list (map (\<lambda>tr. QuoteFor (snd tr) p) ts) \<le> sum_list (map snd ts) * p"
  "sum_list (map snd ts) * p \<le>
     PriceScale * sum_list (map (\<lambda>tr. QuoteFor (snd tr) p) ts) + int (length ts) * (PriceScale - 1)"
proof (induction ts)
  case Nil
  { case 1 show ?case by simp }
  { case 2 show ?case by simp }
next
  case (Cons tr ts)
  note b = QuoteFor_bounds [of "snd tr" p]
  { case 1 show ?case using Cons.IH(1) b(1) by (simp add: algebra_simps) }
  { case 2 show ?case using Cons.IH(2) b(2) by (simp add: algebra_simps) }
qed

lemma quote_sum_exact:
  assumes "\<And>tr. tr \<in> set ts \<Longrightarrow> PriceScale dvd snd tr * p"
  shows "PriceScale * sum_list (map (\<lambda>tr. QuoteFor (snd tr) p) ts) = sum_list (map snd ts) * p"
  using assms by (induction ts) (auto simp: QuoteFor_def distrib_left distrib_right)

text \<open>All the facts about one settlement that the properties below draw on.\<close>

lemma Clear_trades:
  assumes pos: "sizes_pos orders" and cl: "Clear orders ref bps = Inr s"
  defines "bt \<equiv> buy_trades orders (s_clearing_price s) (s_matched_base s)"
    and "st \<equiv> sell_trades orders (s_clearing_price s) (s_matched_base s)"
  shows "sum_list (map snd bt) = s_matched_base s" "sum_list (map snd st) = s_matched_base s"
    and "bt \<noteq> []" "st \<noteq> []"
    and "sum_list (map fl_base_delta (s_fills s)) = 0"
    and "sum_list (map fl_quote_delta (s_fills s)) =
      sum_list (map (\<lambda>tr. QuoteFor (snd tr) (s_clearing_price s)) st)
      - sum_list (map (\<lambda>tr. QuoteFor (snd tr) (s_clearing_price s)) bt)"
    and "s_unmatched s = int (length orders) - int (length bt + length st)"
    and "set (map fl_trader (s_fills s)) = trader_of ` set bt \<union> trader_of ` set st"
    and "\<And>f. f \<in> set (s_fills s) \<Longrightarrow>
      fl_base_delta f = net_base orders (s_clearing_price s) (s_matched_base s) (fl_trader f) \<and>
      fl_quote_delta f = net_quote orders (s_clearing_price s) (s_matched_base s) (fl_trader f)"
proof -
  obtain n where m: "s_matched_base s = matched_at orders (s_clearing_price s)"
    and al: "allocate orders (s_clearing_price s) (s_matched_base s) = (s_fills s, n)"
    and um: "s_unmatched s = int (length orders) - int n"
    using cl by (rule Clear_InrD)
  have vpos: "0 < s_matched_base s" using pos cl by (rule Clear_matched_pos)
  note vol = side_volumes [OF pos, of "s_matched_base s" "s_clearing_price s"]
  show b: "sum_list (map snd bt) = s_matched_base s" and s: "sum_list (map snd st) = s_matched_base s"
    using vol vpos m by (simp_all add: bt_def st_def)
  show "bt \<noteq> []" "st \<noteq> []"
    using trades_of_pos_volume [OF pos vpos] m by (simp_all add: bt_def st_def)
  show "sum_list (map fl_base_delta (s_fills s)) = 0"
    using allocate_totals(1) [OF al] b s by (simp add: bt_def st_def)
  show "sum_list (map fl_quote_delta (s_fills s)) =
      sum_list (map (\<lambda>tr. QuoteFor (snd tr) (s_clearing_price s)) st)
      - sum_list (map (\<lambda>tr. QuoteFor (snd tr) (s_clearing_price s)) bt)"
    using allocate_totals(2) [OF al] by (simp add: bt_def st_def)
  note F = allocate_fills [OF al]
  show "s_unmatched s = int (length orders) - int (length bt + length st)"
    using um F(4) by (simp add: bt_def st_def)
  show "set (map fl_trader (s_fills s)) = trader_of ` set bt \<union> trader_of ` set st"
    using F(2) by (simp add: bt_def st_def)
  show "\<And>f. f \<in> set (s_fills s) \<Longrightarrow>
      fl_base_delta f = net_base orders (s_clearing_price s) (s_matched_base s) (fl_trader f) \<and>
      fl_quote_delta f = net_quote orders (s_clearing_price s) (s_matched_base s) (fl_trader f)"
    by (rule F(3))
qed

section \<open>The price\<close>

lemma Clear_volume_max:
  assumes "sizes_pos orders" and "Clear orders ref bps = Inr s"
  shows "matched_at orders p \<le> s_matched_base s"
proof -
  note pos = assms(1) and vpos = Clear_matched_pos [OF assms]
  note m = Clear_facts(1) [OF assms(2)] and best = Clear_best [OF assms(2)]
  have "matched_at orders c \<le> s_matched_base s" if "c \<in> o_limit_price ` set orders" for c
    using best [OF that] beats_volume [of orders ref "s_clearing_price s" c] m vpos
    by (cases "c = s_clearing_price s"; cases "matched_at orders c = 0") auto
  then show ?thesis
    using candidate_dominates [OF pos, of p] vpos by (cases "0 < matched_at orders p") force+
qed

text \<open>(C1) The clearing price maximises the matched volume: no integer price at all, on a
  limit price of the book or between two of them, lets more base trade, and the settlement
  reports exactly the volume that crosses at its price, which is positive.\<close>

theorem Clear_maximises_volume:
  assumes "sizes_pos orders" and "Clear orders ref bps = Inr s"
  shows "s_matched_base s =
      minBig (fst (depthAt orders (s_clearing_price s))) (snd (depthAt orders (s_clearing_price s)))
    \<and> 0 < s_matched_base s
    \<and> (\<forall>p. minBig (fst (depthAt orders p)) (snd (depthAt orders p)) \<le> s_matched_base s)"
  using Clear_volume_max [OF assms] Clear_matched_pos [OF assms] Clear_facts(1) [OF assms(2)]
  by (simp add: depthAt_eq matched_at_def)

theorem Clear_maximises_volume_witness:
  "0 < s_matched_base demo_settlement \<and>
   minBig (fst (depthAt demo_book 7)) (snd (depthAt demo_book 7)) \<le> s_matched_base demo_settlement"
  using Clear_maximises_volume [OF demo_book_ok(1) demo_clear] by blast

text \<open>(C11) Ties are broken as documented: against any other limit price of the book the
  clearing price wins by more volume, then by a smaller imbalance, then by being nearer to
  the oracle reference, then by being the lower price.\<close>

theorem Clear_tie_break:
  assumes "sizes_pos orders" and "Clear orders ref bps = Inr s"
    and "p \<in> set (candidatePrices orders)" "p \<noteq> s_clearing_price s"
    and "depthAt orders (s_clearing_price s) = (d, u)" "depthAt orders p = (d', u')"
  shows "s_clearing_price s \<in> set (candidatePrices orders) \<and>
    (min d' u' < min d u \<or> min d u = min d' u' \<and>
      (\<bar>d - u\<bar> < \<bar>d' - u'\<bar> \<or> \<bar>d - u\<bar> = \<bar>d' - u'\<bar> \<and>
        (oracle_distance ref (s_clearing_price s) < oracle_distance ref p \<or>
         oracle_distance ref (s_clearing_price s) = oracle_distance ref p \<and> s_clearing_price s < p)))"
proof -
  note m = Clear_facts(1) [OF assms(2)] and cp = Clear_facts(2) [OF assms(2)]
    and best = Clear_best [OF assms(2)]
  have "beats orders ref (s_clearing_price s) p"
  proof (cases "matched_at orders p = 0")
    case True
    then show ?thesis
      using Clear_matched_pos [OF assms(1,2)] m by (simp add: beats_def better_def)
  qed (use best [of p] assms(3,4) in simp)
  then show ?thesis
    using assms(5,6) cp by (simp add: beats_def better_iff depthAt_eq matched_at_def imbalance_at_def)
qed

theorem Clear_tie_break_witness:
  "s_clearing_price demo_settlement \<in> set (candidatePrices demo_book) \<and> (100::int) < 120"
  using Clear_tie_break [OF demo_book_ok(1) demo_clear, of "3 * PriceScale" 150 120 100 120]
  by (simp add: demo_settlement_def depthAt_eq demand_at_def supply_at_def bids_def asks_def demo_book_def)

lemma no_cross_iff:
  assumes "sizes_pos orders"
  shows "Clear orders ref bps = Inl ErrNoCross \<longleftrightarrow> \<not> crosses orders"
proof -
  let ?b = "best_candidate orders ref (candidatePrices orders) None"
  have spec: "incumbent_of orders ref (o_limit_price ` set orders) ?b" by (rule best_candidate_spec)
  have none: "?b = None \<longleftrightarrow> \<not> crosses orders"
  proof
    assume "?b = None"
    then have "\<forall>p \<in> o_limit_price ` set orders. matched_at orders p = 0"
      using spec by (simp add: incumbent_of_def)
    then show "\<not> crosses orders"
      using candidate_dominates [OF assms] crosses_iff_matched [OF assms] by force
  next
    assume no: "\<not> crosses orders"
    show "?b = None"
    proof (rule ccontr)
      assume "?b \<noteq> None"
      then obtain bp where "matched_at orders bp \<noteq> 0"
        using spec by (auto simp: incumbent_of_def split: option.splits)
      then show False
        using no crosses_iff_matched [OF assms] matched_nonneg [OF assms, of bp]
        by (metis order_le_less)
    qed
  qed
  have "Clear orders ref bps = Inl ErrNoCross \<longleftrightarrow> ?b = None"
    using spec by (auto simp: Clear_def incumbent_of_def split: option.splits prod.splits if_splits)
  then show ?thesis using none by simp
qed

text \<open>The batch is abandoned for want of a cross exactly when no bid in it reaches any
  ask.\<close>

theorem Clear_no_cross_iff:
  assumes "sizes_pos orders"
  shows "Clear orders ref bps = Inl ErrNoCross \<longleftrightarrow>
    (\<forall>b \<in> set orders. \<forall>a \<in> set orders. o_side b = SideBuy \<longrightarrow> o_side a = SideSell \<longrightarrow>
       o_limit_price b < o_limit_price a)"
  using no_cross_iff [OF assms] by (auto simp: crosses_def not_le)

theorem Clear_no_cross_iff_witness:
  "Clear [demo_order 1 10 SideBuy 2 5, demo_order 2 11 SideSell 3 5] None 0 = Inl ErrNoCross"
  by (subst Clear_no_cross_iff) (simp_all add: sizes_pos_def)

text \<open>The price that beats every other limit price of the book. A book that crosses has exactly one.\<close>

definition best_price :: "Order list \<Rightarrow> int option \<Rightarrow> int \<Rightarrow> bool" where
  "best_price orders ref p \<longleftrightarrow>
     p \<in> o_limit_price ` set orders \<and> 0 < matched_at orders p
     \<and> (\<forall>q \<in> o_limit_price ` set orders. q \<noteq> p \<longrightarrow> beats orders ref p q)"

lemma best_price_candidate:
  assumes pos: "sizes_pos orders"
  shows "(case best_candidate orders ref (candidatePrices orders) None of
      None \<Rightarrow> \<forall>p. \<not> best_price orders ref p
    | Some (bp, bm, bi) \<Rightarrow> best_price orders ref bp \<and> bm = matched_at orders bp)"
proof (cases "best_candidate orders ref (candidatePrices orders) None")
  case None
  then show ?thesis using best_candidate_spec [of orders ref] by (auto simp: incumbent_of_def best_price_def)
next
  case (Some t)
  obtain bp bm bi where t: "t = (bp, bm, bi)" by (cases t)
  have spec: "bp \<in> o_limit_price ` set orders" "bm = matched_at orders bp" "bm \<noteq> 0"
    "\<And>q. q \<in> o_limit_price ` set orders \<Longrightarrow> q \<noteq> bp \<Longrightarrow> matched_at orders q \<noteq> 0 \<Longrightarrow> beats orders ref bp q"
    using best_candidate_spec [of orders ref] Some t by (auto simp: incumbent_of_def)
  have "0 < matched_at orders bp" using spec(2,3) matched_nonneg [OF pos, of bp] by simp
  moreover from this have "beats orders ref bp q" if "q \<in> o_limit_price ` set orders" "q \<noteq> bp" for q
    using spec(4) [OF that] by (cases "matched_at orders q = 0") (auto simp: beats_def better_def)
  ultimately show ?thesis using Some t spec(1,2) by (simp add: best_price_def)
qed

lemma best_price_unique:
  assumes "best_price orders ref p" "best_price orders ref q"
  shows "p = q"
proof (rule ccontr)
  assume "p \<noteq> q"
  then have "beats orders ref p q" "beats orders ref q p" using assms by (auto simp: best_price_def)
  then show False by (simp add: beats_asym)
qed

lemma Clear_at_best:
  assumes pos: "sizes_pos orders" and best: "best_price orders ref p"
  shows "if withinBand p ref bps then \<exists>s. Clear orders ref bps = Inr s \<and> s_clearing_price s = p
    else Clear orders ref bps = Inl ErrOutOfBand"
proof -
  obtain bm bi where b: "best_candidate orders ref (candidatePrices orders) None = Some (p, bm, bi)" "bm = matched_at orders p"
  proof (cases "best_candidate orders ref (candidatePrices orders) None")
    case None
    then show ?thesis using best_price_candidate [OF pos, of ref] best by simp
  next
    case (Some t)
    obtain bp bm bi where t: "t = (bp, bm, bi)" by (cases t)
    then have "best_price orders ref bp" "bm = matched_at orders bp"
      using best_price_candidate [OF pos, of ref] Some by simp_all
    then show ?thesis using that Some t best_price_unique [OF best] by simp
  qed
  moreover have "orders \<noteq> []" "0 < matched_at orders p" using best by (auto simp: best_price_def)
  ultimately show ?thesis by (auto simp: Clear_def split: prod.splits)
qed

lemma crosses_best_price:
  assumes pos: "sizes_pos orders"
  shows "crosses orders \<longleftrightarrow> (\<exists>p. best_price orders ref p)"
proof
  assume "crosses orders"
  then have "Clear orders ref 0 \<noteq> Inl ErrNoCross" using no_cross_iff [OF pos] by simp
  then show "\<exists>p. best_price orders ref p"
    using best_price_candidate [OF pos, of ref] by (auto simp: Clear_def split: if_splits option.splits)
qed (use crosses_iff_matched [OF pos] in \<open>auto simp: best_price_def\<close>)

lemma settled_in_band:
  assumes "sizes_pos orders" and "0 < r"
  shows "case Clear orders (Some r) bps of
      Inr s \<Rightarrow> \<bar>s_clearing_price s - r\<bar> * 10000 \<le> r * uint bps
    | Inl ErrOutOfBand \<Rightarrow>
        \<exists>p \<in> set (candidatePrices orders). r * uint bps < \<bar>p - r\<bar> * 10000 \<and>
          (\<forall>q. matched_at orders q \<le> matched_at orders p)
    | Inl ErrNoCross \<Rightarrow> \<not> crosses orders"
proof (cases "Clear orders (Some r) bps")
  case (Inr s)
  then have "withinBand (s_clearing_price s) (Some r) bps" by (rule Clear_facts(3))
  with Inr assms(2) show ?thesis by (simp add: withinBand_def Let_def)
next
  case (Inl e)
  show ?thesis
  proof (cases e)
    case ErrNoCross
    then have "\<not> crosses orders"
      using Inl no_cross_iff [OF assms(1)] by simp
    then show ?thesis using Inl ErrNoCross by simp
  next
    case ErrOutOfBand
    let ?b = "best_candidate orders (Some r) (candidatePrices orders) None"
    have spec: "incumbent_of orders (Some r) (o_limit_price ` set orders) ?b" by (rule best_candidate_spec)
    obtain bp bm bi where b: "?b = Some (bp, bm, bi)" "bm \<noteq> 0" "\<not> withinBand bp (Some r) bps"
      using Inl ErrOutOfBand by (auto simp: Clear_def split: if_splits option.splits prod.splits)
    have bp: "bp \<in> set (candidatePrices orders)" "bm = matched_at orders bp"
      and best: "\<And>p. p \<in> o_limit_price ` set orders \<Longrightarrow> p \<noteq> bp \<Longrightarrow> matched_at orders p \<noteq> 0 \<Longrightarrow>
          beats orders (Some r) bp p"
      using spec b(1) by (auto simp: incumbent_of_def)
    have "0 < matched_at orders bp"
      using b(2) bp(2) matched_nonneg [OF assms(1), of bp] by simp
    moreover have "matched_at orders c \<le> matched_at orders bp" if "c \<in> o_limit_price ` set orders" for c
      using best [OF that] beats_volume [of orders "Some r" bp c] calculation
      by (cases "c = bp"; cases "matched_at orders c = 0") auto
    ultimately have "matched_at orders q \<le> matched_at orders bp" for q
      using candidate_dominates [OF assms(1), of q] by (cases "0 < matched_at orders q") force+
    moreover have "r * uint bps < \<bar>bp - r\<bar> * 10000"
      using b(3) assms(2) by (simp add: withinBand_def Let_def)
    ultimately show ?thesis using Inl ErrOutOfBand bp(1) by auto
  qed
qed

text \<open>(C9) The oracle band, with a positive reference. A settled price deviates from it by at
  most the tolerance. A book that crosses has one best price, and that price alone decides:
  within the tolerance the batch settles at it, and outside it the batch is refused as out of
  band, whatever other price would have been inside. A book is refused for want of a cross
  only where it has none.\<close>

theorem Clear_oracle_band:
  assumes "sizes_pos orders" and "0 < r"
  shows "(case Clear orders (Some r) bps of
      Inr s \<Rightarrow> \<bar>s_clearing_price s - r\<bar> * 10000 \<le> r * uint bps
    | Inl ErrOutOfBand \<Rightarrow>
        \<exists>p \<in> set (candidatePrices orders). r * uint bps < \<bar>p - r\<bar> * 10000 \<and>
          (\<forall>q. matched_at orders q \<le> matched_at orders p)
    | Inl ErrNoCross \<Rightarrow> \<not> crosses orders)
    \<and> (crosses orders \<longrightarrow> (\<exists>p. best_price orders (Some r) p))
    \<and> (\<forall>p. best_price orders (Some r) p \<longrightarrow>
        (if \<bar>p - r\<bar> * 10000 \<le> r * uint bps then \<exists>s. Clear orders (Some r) bps = Inr s \<and> s_clearing_price s = p
         else Clear orders (Some r) bps = Inl ErrOutOfBand))"
proof -
  have "withinBand p (Some r) bps \<longleftrightarrow> \<bar>p - r\<bar> * 10000 \<le> r * uint bps" for p
    using assms(2) by (simp add: withinBand_def Let_def)
  then show ?thesis
    using settled_in_band [OF assms] crosses_best_price [OF assms(1), of "Some r"] Clear_at_best [OF assms(1), of "Some r" _ bps]
    by simp
qed

theorem Clear_oracle_band_witness:
  "\<bar>s_clearing_price demo_settlement - 2 * PriceScale\<bar> * 10000 \<le> 2 * PriceScale * uint (500 :: u32)"
  using Clear_oracle_band [OF demo_book_ok(1), of "2 * PriceScale" 500] by (simp add: demo_clear)

section \<open>Conservation\<close>

text \<open>The trades of the traders who have a fill are all the trades, counted trader by trader.\<close>

definition bought_by :: "Order list \<Rightarrow> Settlement \<Rightarrow> address \<Rightarrow> int" where
  "bought_by orders s a =
     sum_list (map snd (filter (\<lambda>tr. trader_of tr = a) (buy_trades orders (s_clearing_price s) (s_matched_base s))))"

definition sold_by :: "Order list \<Rightarrow> Settlement \<Rightarrow> address \<Rightarrow> int" where
  "sold_by orders s a =
     sum_list (map snd (filter (\<lambda>tr. trader_of tr = a) (sell_trades orders (s_clearing_price s) (s_matched_base s))))"

lemma sum_over_fills:
  fixes h :: "address \<Rightarrow> int"
  assumes "Clear orders ref bps = Inr s" and "\<And>f. f \<in> set (s_fills s) \<Longrightarrow> g f = h (fl_trader f)"
  shows "sum_list (map g (s_fills s)) = (\<Sum>a \<in> fl_trader ` set (s_fills s). h a)"
proof -
  obtain n where al: "allocate orders (s_clearing_price s) (s_matched_base s) = (s_fills s, n)"
    using assms(1) by (rule Clear_InrD)
  have "map g (s_fills s) = map h (map fl_trader (s_fills s))" using assms(2) by simp
  then show ?thesis using allocate_fills(1) [OF al] by (simp only: sum_list_distinct_conv_sum_set set_map)
qed

lemma fills_bought_sold:
  assumes pos: "sizes_pos orders" and cl: "Clear orders ref bps = Inr s"
  shows "sum_list (map (bought_by orders s \<circ> fl_trader) (s_fills s)) = s_matched_base s"
    and "sum_list (map (sold_by orders s \<circ> fl_trader) (s_fills s)) = s_matched_base s"
    and "\<And>f. f \<in> set (s_fills s) \<Longrightarrow> fl_base_delta f = bought_by orders s (fl_trader f) - sold_by orders s (fl_trader f)"
    and "\<And>a. 0 \<le> bought_by orders s a" "\<And>a. 0 \<le> sold_by orders s a"
    and "\<And>a. bought_by orders s a \<noteq> 0 \<Longrightarrow> \<exists>ord \<in> set orders. o_trader ord = a \<and> o_side ord = SideBuy"
    and "\<And>a. sold_by orders s a \<noteq> 0 \<Longrightarrow> \<exists>ord \<in> set orders. o_trader ord = a \<and> o_side ord = SideSell"
proof -
  let ?p = "s_clearing_price s" and ?v = "s_matched_base s"
  note T = Clear_trades [OF pos cl]
  have v: "0 \<le> ?v" using Clear_matched_pos [OF pos cl] by simp
  note B = buy_tradesD [OF pos v] and S = sell_tradesD [OF pos v]
  have sub: "trader_of ` set (buy_trades orders ?p ?v) \<subseteq> fl_trader ` set (s_fills s)"
    "trader_of ` set (sell_trades orders ?p ?v) \<subseteq> fl_trader ` set (s_fills s)"
    using T(8) by auto
  show "sum_list (map (bought_by orders s \<circ> fl_trader) (s_fills s)) = ?v"
    using sum_over_fills [OF cl, of "bought_by orders s \<circ> fl_trader" "bought_by orders s"] sum_by_trader [OF _ sub(1), of snd] T(1)
    by (simp add: bought_by_def [abs_def])
  show "sum_list (map (sold_by orders s \<circ> fl_trader) (s_fills s)) = ?v"
    using sum_over_fills [OF cl, of "sold_by orders s \<circ> fl_trader" "sold_by orders s"] sum_by_trader [OF _ sub(2), of snd] T(2)
    by (simp add: sold_by_def [abs_def])
  show "fl_base_delta f = bought_by orders s (fl_trader f) - sold_by orders s (fl_trader f)" if "f \<in> set (s_fills s)" for f
    using T(9) [OF that] by (simp add: net_base_def bought_by_def sold_by_def)
  show "0 \<le> bought_by orders s a" for a unfolding bought_by_def
    by (rule sum_list_nonneg) (use B(4) in \<open>auto simp: order_less_imp_le\<close>)
  show "0 \<le> sold_by orders s a" for a unfolding sold_by_def
    by (rule sum_list_nonneg) (use S(4) in \<open>auto simp: order_less_imp_le\<close>)
  have ne: "\<exists>tr \<in> set ts. trader_of tr = a" if "sum_list (map snd (filter (\<lambda>tr. trader_of tr = a) ts)) \<noteq> 0" for a and ts :: "trade list"
    using that by (metis (mono_tags, lifting) filter_False list.map(1) sum_list.Nil)
  show "\<exists>ord \<in> set orders. o_trader ord = a \<and> o_side ord = SideBuy" if "bought_by orders s a \<noteq> 0" for a
    using ne [OF that [unfolded bought_by_def]] B(1,2) by (fastforce simp: trader_of_def)
  show "\<exists>ord \<in> set orders. o_trader ord = a \<and> o_side ord = SideSell" if "sold_by orders s a \<noteq> 0" for a
    using ne [OF that [unfolded sold_by_def]] S(1,2) by (fastforce simp: trader_of_def)
qed

text \<open>(C3) Base is conserved, in the fills themselves: their base deltas sum to zero, and what the
  traders receive never exceeds the matched base the settlement reports. Where no trader is on
  both sides of the book, so that no fill is a net of the two, the fills that receive base add
  up to exactly the matched base, and so do those that give it.\<close>

theorem Clear_conserves_base:
  assumes "sizes_pos orders" and "Clear orders ref bps = Inr s"
  shows "sum_list (map fl_base_delta (s_fills s)) = 0
    \<and> sum_list (map (\<lambda>f. max 0 (fl_base_delta f)) (s_fills s)) \<le> s_matched_base s
    \<and> ((\<forall>a \<in> set orders. \<forall>b \<in> set orders. o_trader a = o_trader b \<longrightarrow> o_side a = o_side b) \<longrightarrow>
        sum_list (map (\<lambda>f. max 0 (fl_base_delta f)) (s_fills s)) = s_matched_base s
        \<and> sum_list (map (\<lambda>f. max 0 (- fl_base_delta f)) (s_fills s)) = s_matched_base s)"
proof -
  note F = fills_bought_sold [OF assms]
  have le: "sum_list (map (\<lambda>f. max 0 (fl_base_delta f)) (s_fills s)) \<le> s_matched_base s"
    unfolding F(1) [symmetric] by (rule sum_list_mono) (use F(3,4,5) in simp)
  have eq: "map (\<lambda>f. max 0 (fl_base_delta f)) (s_fills s) = map (bought_by orders s \<circ> fl_trader) (s_fills s)"
      "map (\<lambda>f. max 0 (- fl_base_delta f)) (s_fills s) = map (sold_by orders s \<circ> fl_trader) (s_fills s)"
    if one: "\<forall>a \<in> set orders. \<forall>b \<in> set orders. o_trader a = o_trader b \<longrightarrow> o_side a = o_side b"
  proof -
    have side: "bought_by orders s a = 0 \<or> sold_by orders s a = 0" for a
      using F(6,7) [of a] one sides_distinct by metis
    have "max 0 (fl_base_delta f) = bought_by orders s (fl_trader f) \<and> max 0 (- fl_base_delta f) = sold_by orders s (fl_trader f)"
      if "f \<in> set (s_fills s)" for f
      using F(3) [OF that] F(4,5) [of "fl_trader f"] side [of "fl_trader f"] by auto
    then show "map (\<lambda>f. max 0 (fl_base_delta f)) (s_fills s) = map (bought_by orders s \<circ> fl_trader) (s_fills s)"
      "map (\<lambda>f. max 0 (- fl_base_delta f)) (s_fills s) = map (sold_by orders s \<circ> fl_trader) (s_fills s)" by simp_all
  qed
  show ?thesis
  proof (intro conjI impI)
    show "sum_list (map fl_base_delta (s_fills s)) = 0" by (rule Clear_trades(5) [OF assms])
  qed (use le in \<open>simp_all only: eq F(1,2)\<close>)
qed

theorem Clear_conserves_base_witness:
  "sum_list (map (\<lambda>f. max 0 (fl_base_delta f)) (s_fills demo_settlement)) = 120"
proof -
  have "o_side a = (if o_trader a = 12 then SideSell else SideBuy)" if "a \<in> set demo_book" for a
    using that by (auto simp: demo_book_def)
  then have "\<forall>a \<in> set demo_book. \<forall>b \<in> set demo_book. o_trader a = o_trader b \<longrightarrow> o_side a = o_side b" by metis
  then have "sum_list (map (\<lambda>f. max 0 (fl_base_delta f)) (s_fills demo_settlement)) = s_matched_base demo_settlement"
    using Clear_conserves_base [OF demo_book_ok(1) demo_clear] by blast
  then show ?thesis by (simp only: demo_settlement_def Settlement.simps)
qed

text \<open>(C13) Quote is conserved up to the rounding of \<open>QuoteFor\<close>, one unit per trade beyond
  the first of each side: the quote deltas sum to at most two less than the number of orders
  that traded, in absolute value. A batch that pairs one buy with one sell conserves quote
  exactly.\<close>

theorem Clear_quote_imbalance:
  assumes "sizes_pos orders" and "Clear orders ref bps = Inr s"
  shows "\<bar>sum_list (map fl_quote_delta (s_fills s))\<bar> \<le> (int (length orders) - s_unmatched s) - 2"
proof -
  define bt where "bt = buy_trades orders (s_clearing_price s) (s_matched_base s)"
  define st where "st = sell_trades orders (s_clearing_price s) (s_matched_base s)"
  let ?p = "s_clearing_price s"
  define qb where "qb = sum_list (map (\<lambda>tr. QuoteFor (snd tr) ?p) bt)"
  define qs where "qs = sum_list (map (\<lambda>tr. QuoteFor (snd tr) ?p) st)"
  note T = Clear_trades [OF assms, folded bt_def st_def]
  have "PriceScale * (qs - qb) \<le> int (length bt) * (PriceScale - 1)"
    using quote_sum_bounds(1) [of ?p st] quote_sum_bounds(2) [of bt ?p] T(1,2)
    by (simp add: right_diff_distrib flip: qb_def qs_def)
  moreover have "PriceScale * (qb - qs) \<le> int (length st) * (PriceScale - 1)"
    using quote_sum_bounds(1) [of ?p bt] quote_sum_bounds(2) [of st ?p] T(1,2)
    by (simp add: right_diff_distrib flip: qb_def qs_def)
  moreover have step: "x \<le> n - 1" if "PriceScale * x \<le> n * (PriceScale - 1)" "1 \<le> n" for x n :: int
  proof (rule ccontr)
    assume "\<not> x \<le> n - 1"
    then have "n \<le> x" by simp
    then have "PriceScale * n \<le> PriceScale * x" by (intro mult_left_mono) simp_all
    with that show False by (simp add: algebra_simps)
  qed
  moreover have "1 \<le> int (length bt)" "1 \<le> int (length st)"
    using T(3,4) by (simp_all add: Suc_le_eq)
  ultimately have "qs - qb \<le> int (length bt) - 1" "qb - qs \<le> int (length st) - 1" by blast+
  then show ?thesis
    using T(6,7) \<open>1 \<le> int (length bt)\<close> \<open>1 \<le> int (length st)\<close>
    by (simp flip: qb_def qs_def)
qed

theorem Clear_quote_imbalance_witness:
  "\<bar>sum_list (map fl_quote_delta (s_fills demo_settlement))\<bar> \<le> 4 - s_unmatched demo_settlement - 2"
  using Clear_quote_imbalance [OF demo_book_ok(1) demo_clear] by (simp add: demo_book_def)

lemma sum_sizes_dvd:
  assumes "\<forall>ord \<in> set orders. PriceScale dvd o_size ord * p" "set xs \<subseteq> set orders"
  shows "PriceScale dvd sum_list (map o_size xs) * p"
  using assms(2) by (induction xs) (use assms(1) in \<open>auto simp: distrib_right\<close>)

lemma trades_dvd:
  assumes whole: "\<forall>ord \<in> set orders. PriceScale dvd o_size ord * p"
    and "PriceScale dvd r * p" "tr \<in> set (trades r side)" "set side \<subseteq> set orders"
  shows "PriceScale dvd snd tr * p"
  using assms(2-)
proof (induction r side rule: trades.induct)
  case (2 r ord side)
  let ?t = "min r (o_size ord)"
  have t: "PriceScale dvd ?t * p" using "2.prems" whole by (auto simp: min_def)
  moreover have "PriceScale dvd (r - ?t) * p"
    using t "2.prems"(1) by (simp add: left_diff_distrib)
  ultimately show ?case using 2 by (auto simp: Let_def split: if_splits)
qed simp

text \<open>Where every order of the batch is worth a whole number of quote units at the
  clearing price, nothing is rounded and quote is conserved exactly.\<close>

theorem Clear_conserves_quote:
  assumes "sizes_pos orders" and "Clear orders ref bps = Inr s"
    and whole: "\<forall>ord \<in> set orders. PriceScale dvd o_size ord * s_clearing_price s"
  shows "sum_list (map fl_quote_delta (s_fills s)) = 0"
proof -
  let ?p = "s_clearing_price s" and ?v = "s_matched_base s"
  note pos = assms(1) and m = Clear_facts(1) [OF assms(2)]
  have "set (bids orders ?p) \<subseteq> set orders" "set (asks orders ?p) \<subseteq> set orders"
    by (auto simp: set_bids set_asks)
  then have v: "PriceScale dvd ?v * ?p"
    using sum_sizes_dvd [OF whole, of "bids orders ?p"] sum_sizes_dvd [OF whole, of "asks orders ?p"] m
    by (simp add: matched_at_def demand_at_def supply_at_def min_def)
  have "PriceScale dvd snd tr * ?p" if "tr \<in> set (buy_trades orders ?p ?v)" for tr
    using that unfolding buy_trades_def by (rule trades_dvd [OF whole v]) (auto simp: set_bids)
  moreover have "PriceScale dvd snd tr * ?p" if "tr \<in> set (sell_trades orders ?p ?v)" for tr
    using that unfolding sell_trades_def by (rule trades_dvd [OF whole v]) (auto simp: set_asks)
  ultimately have "PriceScale * sum_list (map fl_quote_delta (s_fills s)) = 0"
    using Clear_trades(1,2,6) [OF assms(1,2)]
      quote_sum_exact [of "buy_trades orders ?p ?v" ?p] quote_sum_exact [of "sell_trades orders ?p ?v" ?p]
    by (simp add: right_diff_distrib)
  then show ?thesis by simp
qed

theorem Clear_conserves_quote_witness:
  "sum_list (map fl_quote_delta (s_fills demo_settlement)) = 0"
proof (rule Clear_conserves_quote [OF demo_book_ok(1) demo_clear])
  show "\<forall>ord \<in> set demo_book. PriceScale dvd o_size ord * s_clearing_price demo_settlement"
    by (simp add: demo_book_def demo_settlement_def)
qed

text \<open>Quote is not conserved in general: a buy of two units against two sells of one
  unit at half a quote unit settles, without error and within the oracle band, with quote
  deltas that sum to minus one. The venue contract requires the sum to be zero.\<close>

theorem Clear_quote_not_conserved:
  "\<exists>s. Clear
      [demo_order 1 10 SideBuy (5 * 10 ^ 17) 2,
       demo_order 2 11 SideSell (5 * 10 ^ 17) 1,
       demo_order 3 12 SideSell (5 * 10 ^ 17) 1] (Some (5 * 10 ^ 17)) 500 = Inr s \<and>
     sum_list (map fl_quote_delta (s_fills s)) = - 1"
  by (simp add: clear_eval PriceScale_def)

section \<open>What a trader gets\<close>

lemma filter_none: "(\<And>x. x \<in> set xs \<Longrightarrow> \<not> P x) \<Longrightarrow> filter P xs = []"
  by (induction xs) auto

lemma sum_trades_by_trader_le:
  "sizes_pos side \<Longrightarrow> 0 \<le> r \<Longrightarrow>
   sum_list (map snd (filter (\<lambda>tr. trader_of tr = a) (trades r side))) \<le>
   sum_list (map o_size (filter (\<lambda>ord. o_trader ord = a) side))"
proof (induction r side rule: trades.induct)
  case (1 r)
  then show ?case by simp
next
  case (2 r ord side)
  have pos: "0 < o_size ord" "sizes_pos side" using "2.prems"(1) by (auto simp: sizes_pos_def)
  have rest: "0 \<le> sum_list (map o_size (filter (\<lambda>ord. o_trader ord = a) side))"
    by (rule sum_list_filter_nonneg) (use pos(2) in \<open>auto simp: sizes_pos_def order_less_imp_le\<close>)
  show ?case
  proof (cases "r = 0")
    case True
    then show ?thesis using pos rest by simp
  next
    case False
    then have "min r (o_size ord) \<noteq> 0" "0 \<le> r - min r (o_size ord)" using pos "2.prems"(2) by auto
    with 2 False pos show ?thesis by (auto simp: Let_def trader_of_def min_def)
  qed
qed

lemma sum_filter_sorted:
  "sum_list (map o_size (filter P (go_sort lt xs))) = sum_list (map o_size (filter P xs))"
  by (rule sum_list_mset_cong) (simp add: gosort.perm)

text \<open>(C15) A trader who only bids never overpays: it receives a positive amount of base, at
  most the size of its bids that reach the clearing price, and parts with at most that amount
  at the clearing price, which is no higher than the limit of any bid counted.\<close>

theorem Clear_buyer_terms:
  assumes "sizes_pos orders" and "Clear orders ref bps = Inr s" and "f \<in> set (s_fills s)"
    and only_buys: "\<forall>ord \<in> set orders. o_trader ord = fl_trader f \<longrightarrow> o_side ord = SideBuy"
  shows "0 < fl_base_delta f
    \<and> fl_base_delta f \<le> sum_list (map o_size (filter (\<lambda>ord. o_trader ord = fl_trader f \<and>
          s_clearing_price s \<le> o_limit_price ord) orders))
    \<and> - fl_quote_delta f * PriceScale \<le> fl_base_delta f * s_clearing_price s"
proof -
  let ?p = "s_clearing_price s" and ?v = "s_matched_base s" and ?a = "fl_trader f"
  let ?mine = "filter (\<lambda>tr. trader_of tr = ?a) (buy_trades orders ?p ?v)"
  note T = Clear_trades [OF assms(1,2)]
  have v: "0 \<le> ?v" using Clear_matched_pos [OF assms(1,2)] by simp
  have no_sells: "filter (\<lambda>tr. trader_of tr = ?a) (sell_trades orders ?p ?v) = []"
    by (rule filter_none) (use sell_tradesD(1,2) [OF assms(1) v] only_buys in \<open>force simp: trader_of_def\<close>)
  then have base: "fl_base_delta f = sum_list (map snd ?mine)"
    and quote: "- fl_quote_delta f = sum_list (map (\<lambda>tr. QuoteFor (snd tr) ?p) ?mine)"
    using T(9) [OF assms(3)] by (simp_all add: net_base_def net_quote_def)
  have "?a \<in> trader_of ` set (buy_trades orders ?p ?v)"
    using T(8) assms(3) no_sells by (auto simp: filter_empty_conv)
  then have "?mine \<noteq> []" by (auto simp: filter_empty_conv)
  then have "0 < fl_base_delta f"
    unfolding base
    by (subst sum_list_pos_iff_nonempty) (auto dest: buy_tradesD(4) [OF assms(1) v])
  moreover have "fl_base_delta f \<le>
      sum_list (map o_size (filter (\<lambda>ord. o_trader ord = ?a) (bids orders ?p)))"
    using sum_trades_by_trader_le [OF sizes_pos_sorted [OF sizes_pos_bids [OF assms(1)]] v, of ?a buy_before ?p]
    by (simp add: base buy_trades_def sum_filter_sorted)
  moreover have "filter (\<lambda>ord. o_trader ord = ?a) (bids orders ?p) =
      filter (\<lambda>ord. o_trader ord = ?a \<and> ?p \<le> o_limit_price ord) orders"
    unfolding bids_def filter_filter by (rule filter_cong) (use only_buys in auto)
  moreover have "- fl_quote_delta f * PriceScale \<le> fl_base_delta f * ?p"
    unfolding base quote using quote_sum_bounds(1) [of ?p ?mine] by (simp add: mult.commute)
  ultimately show ?thesis by simp
qed

theorem Clear_buyer_terms_witness:
  "0 < fl_base_delta \<lparr>fl_trader = 11, fl_base_delta = 20, fl_quote_delta = -40\<rparr>"
  using Clear_buyer_terms [OF demo_book_ok(1) demo_clear,
      of "\<lparr>fl_trader = 11, fl_base_delta = 20, fl_quote_delta = -40\<rparr>"]
  by (simp add: demo_settlement_def demo_book_def)

text \<open>(C16) A trader who only asks never sells below its limits: it parts with a positive
  amount of base, at most the size of its asks at or below the clearing price, and receives
  that amount at the clearing price less than one quote unit short per order.\<close>

theorem Clear_seller_terms:
  assumes "sizes_pos orders" and "Clear orders ref bps = Inr s" and "f \<in> set (s_fills s)"
    and only_sells: "\<forall>ord \<in> set orders. o_trader ord = fl_trader f \<longrightarrow> o_side ord = SideSell"
  shows "fl_base_delta f < 0
    \<and> - fl_base_delta f \<le> sum_list (map o_size (filter (\<lambda>ord. o_trader ord = fl_trader f \<and>
          o_limit_price ord \<le> s_clearing_price s) orders))
    \<and> - fl_base_delta f * s_clearing_price s \<le> fl_quote_delta f * PriceScale
        + int (length (filter (\<lambda>tr. trader_of tr = fl_trader f)
            (sell_trades orders (s_clearing_price s) (s_matched_base s)))) * (PriceScale - 1)"
proof -
  let ?p = "s_clearing_price s" and ?v = "s_matched_base s" and ?a = "fl_trader f"
  let ?mine = "filter (\<lambda>tr. trader_of tr = ?a) (sell_trades orders ?p ?v)"
  note T = Clear_trades [OF assms(1,2)]
  have v: "0 \<le> ?v" using Clear_matched_pos [OF assms(1,2)] by simp
  have no_buys: "filter (\<lambda>tr. trader_of tr = ?a) (buy_trades orders ?p ?v) = []"
    by (rule filter_none) (use buy_tradesD(1,2) [OF assms(1) v] only_sells in \<open>force simp: trader_of_def\<close>)
  then have base: "- fl_base_delta f = sum_list (map snd ?mine)"
    and quote: "fl_quote_delta f = sum_list (map (\<lambda>tr. QuoteFor (snd tr) ?p) ?mine)"
    using T(9) [OF assms(3)] by (simp_all add: net_base_def net_quote_def)
  have "?a \<in> fl_trader ` set (s_fills s)" using assms(3) by (rule imageI)
  moreover have "?a \<notin> trader_of ` set (buy_trades orders ?p ?v)"
    using no_buys by (auto simp: filter_empty_conv)
  ultimately have "?a \<in> trader_of ` set (sell_trades orders ?p ?v)"
    using T(8) unfolding set_map by blast
  then have "?mine \<noteq> []" by (auto simp: filter_empty_conv)
  then have "0 < - fl_base_delta f"
    unfolding base
    by (subst sum_list_pos_iff_nonempty) (auto dest: sell_tradesD(4) [OF assms(1) v])
  moreover have "- fl_base_delta f \<le>
      sum_list (map o_size (filter (\<lambda>ord. o_trader ord = ?a) (asks orders ?p)))"
    using sum_trades_by_trader_le [OF sizes_pos_sorted [OF sizes_pos_asks [OF assms(1)]] v, of ?a sell_before ?p]
    by (simp add: base sell_trades_def sum_filter_sorted)
  moreover have "filter (\<lambda>ord. o_trader ord = ?a) (asks orders ?p) =
      filter (\<lambda>ord. o_trader ord = ?a \<and> o_limit_price ord \<le> ?p) orders"
    unfolding asks_def filter_filter by (rule filter_cong) (use only_sells in auto)
  moreover have "- fl_base_delta f * ?p \<le> fl_quote_delta f * PriceScale + int (length ?mine) * (PriceScale - 1)"
    unfolding base quote using quote_sum_bounds(2) [of ?mine ?p] by (simp add: mult.commute)
  ultimately show ?thesis by simp
qed

theorem Clear_seller_terms_witness:
  "fl_base_delta \<lparr>fl_trader = 12, fl_base_delta = -120, fl_quote_delta = 240\<rparr> < 0"
  using Clear_seller_terms [OF demo_book_ok(1) demo_clear,
      of "\<lparr>fl_trader = 12, fl_base_delta = -120, fl_quote_delta = 240\<rparr>"]
  by (simp add: demo_settlement_def demo_book_def)

text \<open>
  What a trader asked for, whichever sides it is on: no more base than its bids at or above the
  price, no less than its asks at or below it, and the rest settled in quote at the price, less
  than one unit of rounding per order.
\<close>

definition own_bids :: "Order list \<Rightarrow> int \<Rightarrow> address \<Rightarrow> Order list" where
  "own_bids orders p a = filter (\<lambda>ord. o_trader ord = a) (bids orders p)"

definition own_asks :: "Order list \<Rightarrow> int \<Rightarrow> address \<Rightarrow> Order list" where
  "own_asks orders p a = filter (\<lambda>ord. o_trader ord = a) (asks orders p)"

definition within_terms :: "Order list \<Rightarrow> int \<Rightarrow> Fill \<Rightarrow> bool" where
  "within_terms orders p f \<longleftrightarrow>
     (let wanted = own_bids orders p (fl_trader f); offered = own_asks orders p (fl_trader f);
          surplus = PriceScale * fl_quote_delta f + fl_base_delta f * p
      in - sum_list (map o_size offered) \<le> fl_base_delta f \<and> fl_base_delta f \<le> sum_list (map o_size wanted)
         \<and> - (int (length offered) * (PriceScale - 1)) \<le> surplus \<and> surplus \<le> int (length wanted) * (PriceScale - 1))"

lemma length_trades_by_trader_le:
  assumes "sizes_pos side" "0 \<le> r"
  shows "length (filter (\<lambda>tr. trader_of tr = a) (trades r side)) \<le> length (filter (\<lambda>ord. o_trader ord = a) side)"
proof -
  let ?n = "length (trades r side)"
  have "filter (\<lambda>tr. trader_of tr = a) ts = filter ((\<lambda>ord. o_trader ord = a) \<circ> fst) ts" for ts
    by (simp add: trader_of_def comp_def)
  then have "length (filter (\<lambda>tr. trader_of tr = a) (trades r side)) = length (filter (\<lambda>ord. o_trader ord = a) (take ?n side))"
    by (metis trades_prefix [OF assms] filter_map length_map)
  also have "\<dots> \<le> length (filter (\<lambda>ord. o_trader ord = a) (take ?n side @ drop ?n side))"
    unfolding filter_append by simp
  finally show ?thesis by simp
qed

lemma length_filter_sorted: "length (filter P (go_sort lt xs)) = length (filter P xs)"
  by (metis gosort.perm mset_filter size_mset)

lemma fill_within_terms:
  assumes pos: "sizes_pos orders" and cl: "Clear orders ref bps = Inr s" and f: "f \<in> set (s_fills s)"
  shows "within_terms orders (s_clearing_price s) f"
proof -
  let ?p = "s_clearing_price s" and ?v = "s_matched_base s" and ?a = "fl_trader f"
  let ?b = "filter (\<lambda>tr. trader_of tr = ?a) (buy_trades orders ?p ?v)"
  let ?s = "filter (\<lambda>tr. trader_of tr = ?a) (sell_trades orders ?p ?v)"
  have v: "0 \<le> ?v" using Clear_matched_pos [OF pos cl] by simp
  note sb = sizes_pos_sorted [OF sizes_pos_bids [OF pos]] and sa = sizes_pos_sorted [OF sizes_pos_asks [OF pos]]
  have base: "fl_base_delta f = sum_list (map snd ?b) - sum_list (map snd ?s)"
    and quote: "fl_quote_delta f = sum_list (map (\<lambda>tr. QuoteFor (snd tr) ?p) ?s) - sum_list (map (\<lambda>tr. QuoteFor (snd tr) ?p) ?b)"
    using Clear_trades(9) [OF pos cl f] by (simp_all add: net_base_def net_quote_def)
  have size: "sum_list (map snd ?b) \<le> sum_list (map o_size (own_bids orders ?p ?a))"
    "sum_list (map snd ?s) \<le> sum_list (map o_size (own_asks orders ?p ?a))"
    using sum_trades_by_trader_le [OF sb v, of ?a] sum_trades_by_trader_le [OF sa v, of ?a]
    by (simp_all add: own_bids_def own_asks_def buy_trades_def sell_trades_def sum_filter_sorted)
  have n: "length ?b \<le> length (own_bids orders ?p ?a)" "length ?s \<le> length (own_asks orders ?p ?a)"
    using length_trades_by_trader_le [OF sb v, of ?a] length_trades_by_trader_le [OF sa v, of ?a]
    by (simp_all add: own_bids_def own_asks_def buy_trades_def sell_trades_def length_filter_sorted)
  have "0 \<le> PriceScale - 1" by (simp add: PriceScale_def)
  then have round: "int (length ?b) * (PriceScale - 1) \<le> int (length (own_bids orders ?p ?a)) * (PriceScale - 1)"
    "int (length ?s) * (PriceScale - 1) \<le> int (length (own_asks orders ?p ?a)) * (PriceScale - 1)"
    using n by (simp_all add: mult_right_mono)
  have "0 \<le> sum_list (map snd ?b)" "0 \<le> sum_list (map snd ?s)"
    using buy_tradesD(4) [OF pos v] sell_tradesD(4) [OF pos v]
    by (auto intro!: sum_list_nonneg simp: order_less_imp_le)
  then show ?thesis
    unfolding within_terms_def Let_def base quote
    using size round quote_sum_bounds(1) [of ?p ?b] quote_sum_bounds(1) [of ?p ?s]
      quote_sum_bounds(2) [of ?b ?p] quote_sum_bounds(2) [of ?s ?p] by (simp add: algebra_simps)
qed

section \<open>Priority and arrival order\<close>

lemma strict_weak_buy_before: "strict_weak buy_before"
  by (auto simp: strict_weak_def buy_before_def split: if_splits)

lemma strict_weak_sell_before: "strict_weak sell_before"
  by (auto simp: strict_weak_def sell_before_def split: if_splits)

lemma total_by_id:
  assumes "distinct (map o_id orders)" "\<And>a b. o_id a \<noteq> o_id b \<Longrightarrow> lt a b \<or> lt b a"
  shows "total_on_list lt orders"
  unfolding total_on_list_def
  using assms by (metis distinct_map inj_onD)

lemma total_buy_before: "distinct (map o_id orders) \<Longrightarrow> total_on_list buy_before orders"
  by (erule total_by_id) (auto simp: buy_before_def)

lemma total_sell_before: "distinct (map o_id orders) \<Longrightarrow> total_on_list sell_before orders"
  by (erule total_by_id) (auto simp: sell_before_def)

text \<open>An order that trades leaves no better order of its side short.\<close>

lemma trades_priority:
  assumes sw: "strict_weak lt" and side: "sizes_pos xs" "0 \<le> v"
    and tr: "(ord, t) \<in> set (trades v (go_sort lt xs))" and "ord' \<in> set xs" "lt ord' ord"
  shows "(ord', o_size ord') \<in> set (trades v (go_sort lt xs))"
proof -
  let ?s = "go_sort lt xs" and ?t = "trades v (go_sort lt xs)"
  have pos: "sizes_pos ?s" using side(1) by (rule sizes_pos_sorted)
  note prefix = trades_prefix [OF pos side(2)]
  obtain i where i: "i < length ?t" "?t ! i = (ord, t)" using tr by (auto simp: in_set_conv_nth)
  have at: "fst (?t ! k) = ?s ! k" if "k < length ?t" for k
    using that prefix by (metis nth_map nth_take)
  have "ord' \<in> set ?s" using assms(5) by simp
  then obtain j where j: "j < length ?s" "?s ! j = ord'" unfolding in_set_conv_nth by blast
  have ls: "length ?t \<le> length ?s" by (rule length_trades)
  have irrefl: "\<not> lt x x" for x using sw by (simp add: strict_weak_def)
  have "\<not> lt (?s ! j) (?s ! i)" if "i \<le> j"
  proof (cases "i = j")
    case False
    then show ?thesis using that j(1) by (intro sorted_wrt_nth_less [OF gosort.ordered [OF sw]]) simp_all
  qed (simp add: irrefl)
  moreover have "?s ! i = ord" using at [OF i(1)] i(2) by simp
  ultimately have "j < i" using assms(6) j(2) by (metis not_le)
  then have lj: "j < length ?t" "Suc j < length ?t" using i(1) by simp_all
  have "fst (?t ! j) = ord'" using at [OF lj(1)] j(2) by simp
  then have "?t ! j = (ord', o_size ord')" using trades_full [OF pos side(2) lj(2)] by (simp add: prod_eq_iff)
  then show ?thesis using nth_mem [OF lj(1)] by simp
qed

lemma buy_before_iff:
  "buy_before a b \<longleftrightarrow> o_limit_price b < o_limit_price a \<or> o_limit_price a = o_limit_price b \<and> o_id a < o_id b"
  by (auto simp: buy_before_def)

lemma sell_before_iff:
  "sell_before a b \<longleftrightarrow> o_limit_price a < o_limit_price b \<or> o_limit_price a = o_limit_price b \<and> o_id a < o_id b"
  by (auto simp: sell_before_def)

text \<open>(C6) Price-time priority: a fill is the net of its trader's trades, and whenever an
  order trades at all, every order of the same side ahead of it (a better limit, or the same
  limit and a smaller order id) trades its full size.\<close>

theorem Clear_price_priority:
  assumes "sizes_pos orders" and "Clear orders ref bps = Inr s"
    and "bt = buy_trades orders (s_clearing_price s) (s_matched_base s)"
    and "st = sell_trades orders (s_clearing_price s) (s_matched_base s)"
  shows "(\<forall>f \<in> set (s_fills s). fl_base_delta f =
        sum_list (map snd (filter (\<lambda>tr. trader_of tr = fl_trader f) bt))
        - sum_list (map snd (filter (\<lambda>tr. trader_of tr = fl_trader f) st)))
    \<and> (\<forall>(b, t) \<in> set bt. \<forall>b' \<in> set orders. o_side b' = SideBuy \<longrightarrow>
        o_limit_price b < o_limit_price b' \<or> o_limit_price b' = o_limit_price b \<and> o_id b' < o_id b \<longrightarrow>
        (b', o_size b') \<in> set bt)
    \<and> (\<forall>(a, t) \<in> set st. \<forall>a' \<in> set orders. o_side a' = SideSell \<longrightarrow>
        o_limit_price a' < o_limit_price a \<or> o_limit_price a' = o_limit_price a \<and> o_id a' < o_id a \<longrightarrow>
        (a', o_size a') \<in> set st)"
proof -
  let ?p = "s_clearing_price s" and ?v = "s_matched_base s"
  have v: "0 \<le> ?v" using Clear_matched_pos [OF assms(1,2)] by simp
  have "(b', o_size b') \<in> set bt"
    if "(b, t) \<in> set bt" "b' \<in> set orders" "o_side b' = SideBuy" "buy_before b' b" for b t b'
  proof -
    have "?p \<le> o_limit_price b" using buy_tradesD(3) [OF assms(1) v] that(1) assms(3) by fastforce
    then have "b' \<in> set (bids orders ?p)"
      using that by (auto simp: set_bids buy_before_def split: if_splits)
    then show ?thesis
      using trades_priority [OF strict_weak_buy_before sizes_pos_bids [OF assms(1)] v] that assms(3)
      by (auto simp: buy_trades_def)
  qed
  moreover have "(a', o_size a') \<in> set st"
    if "(a, t) \<in> set st" "a' \<in> set orders" "o_side a' = SideSell" "sell_before a' a" for a t a'
  proof -
    have "o_limit_price a \<le> ?p" using sell_tradesD(3) [OF assms(1) v] that(1) assms(4) by fastforce
    then have "a' \<in> set (asks orders ?p)"
      using that by (auto simp: set_asks sell_before_def split: if_splits)
    then show ?thesis
      using trades_priority [OF strict_weak_sell_before sizes_pos_asks [OF assms(1)] v] that assms(4)
      by (auto simp: sell_trades_def)
  qed
  moreover have "\<forall>f \<in> set (s_fills s). fl_base_delta f =
        sum_list (map snd (filter (\<lambda>tr. trader_of tr = fl_trader f) bt))
        - sum_list (map snd (filter (\<lambda>tr. trader_of tr = fl_trader f) st))"
    using Clear_trades(9) [OF assms(1,2)] assms(3,4) by (simp add: net_base_def)
  ultimately show ?thesis unfolding buy_before_iff sell_before_iff by blast
qed

theorem Clear_price_priority_witness:
  "(demo_order 1 10 SideBuy (3 * PriceScale) 100, 100) \<in> set (buy_trades demo_book (2 * PriceScale) 120)"
proof -
  have "(demo_order 2 11 SideBuy (2 * PriceScale) 50, 20) \<in> set (buy_trades demo_book (2 * PriceScale) 120)"
    by (simp add: buy_trades_def bids_def demo_book_def buy_before_def PriceScale_def)
  moreover have "demo_order 1 10 SideBuy (3 * PriceScale) 100 \<in> set demo_book" by (simp add: demo_book_def)
  ultimately show ?thesis
    using Clear_price_priority [OF demo_book_ok(1) demo_clear refl refl]
    by (fastforce simp: demo_settlement_def buy_before_def PriceScale_def)
qed

lemma unmatched_bounds:
  assumes "sizes_pos orders" and "Clear orders ref bps = Inr s"
  shows "0 \<le> s_unmatched s \<and> s_unmatched s \<le> int (length orders) - 2"
proof -
  let ?p = "s_clearing_price s" and ?v = "s_matched_base s"
  note T = Clear_trades [OF assms]
  have "length (bids orders ?p) + length (asks orders ?p) \<le> length orders"
    unfolding bids_def asks_def by (induction orders) auto
  moreover have "length (buy_trades orders ?p ?v) \<le> length (bids orders ?p)"
    "length (sell_trades orders ?p ?v) \<le> length (asks orders ?p)"
    using length_trades [of ?v "go_sort buy_before (bids orders ?p)"]
      length_trades [of ?v "go_sort sell_before (asks orders ?p)"] Clear_matched_pos [OF assms]
    by (simp_all add: buy_trades_def sell_trades_def)
  moreover have "0 < length (buy_trades orders ?p ?v)" "0 < length (sell_trades orders ?p ?v)"
    using T(3,4) by simp_all
  ultimately show ?thesis unfolding T(7) by linarith
qed

text \<open>(C23) A settlement names each trader once, and only traders with an order that is
  marketable at the clearing price, so a resting order that could not trade is never
  revealed; the unmatched count is the number of orders of the batch with no trade.\<close>

theorem Clear_reveals_only_marketable:
  assumes "sizes_pos orders" and "Clear orders ref bps = Inr s"
  shows "distinct (map fl_trader (s_fills s))
    \<and> (\<forall>f \<in> set (s_fills s). \<exists>ord \<in> set orders. o_trader ord = fl_trader f \<and>
        (o_side ord = SideBuy \<and> s_clearing_price s \<le> o_limit_price ord \<or>
         o_side ord = SideSell \<and> o_limit_price ord \<le> s_clearing_price s))
    \<and> 0 \<le> s_unmatched s \<and> s_unmatched s \<le> int (length orders) - 2"
proof -
  let ?p = "s_clearing_price s" and ?v = "s_matched_base s"
  note T = Clear_trades [OF assms]
  have v: "0 \<le> ?v" using Clear_matched_pos [OF assms] by simp
  obtain n where al: "allocate orders ?p ?v = (s_fills s, n)" using assms(2) by (rule Clear_InrD)
  have traders: "\<exists>ord \<in> set orders. o_trader ord = fl_trader f \<and>
      (o_side ord = SideBuy \<and> ?p \<le> o_limit_price ord \<or> o_side ord = SideSell \<and> o_limit_price ord \<le> ?p)"
    if "f \<in> set (s_fills s)" for f
  proof -
    have "fl_trader f \<in> trader_of ` set (buy_trades orders ?p ?v) \<union> trader_of ` set (sell_trades orders ?p ?v)"
      using that T(8) by auto
    then show ?thesis
      using buy_tradesD(1-3) [OF assms(1) v] sell_tradesD(1-3) [OF assms(1) v]
      by (fastforce simp: trader_of_def)
  qed
  from unmatched_bounds [OF assms] traders show ?thesis using allocate_fills(1) [OF al] by blast
qed

theorem Clear_reveals_only_marketable_witness:
  "s_unmatched demo_settlement \<le> int (length demo_book) - 2"
  using Clear_reveals_only_marketable [OF demo_book_ok(1) demo_clear] by blast

lemma mset_eq_sum_filter:
  "mset xs = mset ys \<Longrightarrow> sum_list (map o_size (filter P xs)) = sum_list (map o_size (filter P ys))"
  by (rule sum_list_mset_cong) (metis mset_filter)

lemma depth_perm:
  assumes "mset xs = mset ys"
  shows "depthAt xs p = depthAt ys p"
  unfolding depthAt_eq demand_at_def supply_at_def bids_def asks_def
  by (simp only: mset_eq_sum_filter [OF assms])

lemma total_on_list_filter: "total_on_list lt xs \<Longrightarrow> total_on_list lt (filter P xs)"
  by (simp add: total_on_list_def)

lemma side_perm:
  assumes "mset xs = mset ys" "strict_weak lt" "total_on_list lt xs"
  shows "go_sort lt (filter P xs) = go_sort lt (filter P ys)"
  by (rule gosort.sort_arrival_independent [OF assms(2) total_on_list_filter [OF assms(3)]])
    (metis assms(1) mset_filter)

lemma allocate_perm:
  assumes "mset xs = mset ys" "distinct (map o_id xs)"
  shows "allocate xs p v = allocate ys p v"
proof -
  have "go_sort buy_before (bids xs p) = go_sort buy_before (bids ys p)"
    unfolding bids_def using assms strict_weak_buy_before total_buy_before by (blast intro: side_perm)
  moreover have "go_sort sell_before (asks xs p) = go_sort sell_before (asks ys p)"
    unfolding asks_def using assms strict_weak_sell_before total_sell_before by (blast intro: side_perm)
  ultimately show ?thesis by (simp add: allocate_def eligible_eq)
qed

lemma best_candidate_perm:
  assumes "mset xs = mset ys"
  shows "best_candidate xs ref ps b = best_candidate ys ref ps b"
proof -
  have "clear_step xs ref = clear_step ys ref"
    by (intro ext) (simp add: clear_step_def depth_perm [OF assms])
  then show ?thesis by (induction ps arbitrary: b) simp_all
qed

text \<open>(C24) The outcome does not depend on the order in which the orders of the batch arrived:
  with distinct order ids, any reordering of the batch gives the same price, the same fills in
  the same order, or the same error, and so the same bytes to sign.\<close>

theorem Clear_arrival_independent:
  assumes "distinct (map o_id orders)" and "mset orders = mset orders'"
  shows "Clear orders ref bps = Clear orders' ref bps"
proof -
  have "candidatePrices orders = candidatePrices orders'"
    by (rule sorted_distinct_set_unique)
      (simp_all add: sorted_candidatePrices distinct_candidatePrices mset_eq_setD [OF assms(2)])
  moreover have "length orders = length orders'" using assms(2) by (rule mset_eq_length)
  moreover have "allocate orders = allocate orders'"
    by (intro ext) (rule allocate_perm [OF assms(2,1)])
  ultimately show ?thesis
    by (simp only: Clear_def best_candidate_perm [OF assms(2)])
qed

theorem Clear_arrival_independent_witness:
  "Clear (rev demo_book) (Some (2 * PriceScale)) 500 = Inr demo_settlement"
  using Clear_arrival_independent [OF demo_book_ok(2), of "rev demo_book"] demo_clear by simp

section \<open>Range of the settlement\<close>

lemma sum_filter_le:
  fixes f :: "'a \<Rightarrow> int"
  assumes "\<And>x. x \<in> set xs \<Longrightarrow> 0 \<le> f x"
  shows "0 \<le> sum_list (map f (filter P xs))" "sum_list (map f (filter P xs)) \<le> sum_list (map f xs)"
  using sum_list_filter_nonneg [of xs f P] sum_list_mono_filter [of xs f P "\<lambda>_. True"] assms by simp_all

lemma matched_le_total:
  assumes "sizes_pos orders"
  shows "matched_at orders p \<le> sum_list (map o_size orders)"
proof -
  have "demand_at orders p \<le> sum_list (map o_size orders)"
    unfolding demand_at_def bids_def
    by (rule sum_filter_le(2)) (use assms in \<open>auto simp: sizes_pos_def order_less_imp_le\<close>)
  then show ?thesis by (simp add: matched_at_def)
qed

lemma QuoteFor_nonneg: "0 \<le> t \<Longrightarrow> 0 \<le> p \<Longrightarrow> 0 \<le> QuoteFor t p"
  unfolding QuoteFor_def by (simp add: pos_imp_zdiv_nonneg_iff)

text \<open>The base and quote of one fill are bounded by those of a whole side.\<close>

lemma fill_bounds:
  assumes pos: "sizes_pos orders" and cl: "Clear orders ref bps = Inr s" and f: "f \<in> set (s_fills s)"
    and price: "0 \<le> s_clearing_price s"
  shows "\<bar>fl_base_delta f\<bar> \<le> s_matched_base s"
    and "PriceScale * \<bar>fl_quote_delta f\<bar> \<le> s_matched_base s * s_clearing_price s"
proof -
  let ?p = "s_clearing_price s" and ?v = "s_matched_base s" and ?a = "\<lambda>tr. trader_of tr = fl_trader f"
  define bt where "bt = buy_trades orders ?p ?v"
  define st where "st = sell_trades orders ?p ?v"
  have v: "0 \<le> ?v" using Clear_matched_pos [OF pos cl] by simp
  note T = Clear_trades [OF pos cl, folded bt_def st_def]
  have nn: "0 \<le> snd tr" if "tr \<in> set bt \<or> tr \<in> set st" for tr
    using that buy_tradesD(4) [OF pos v, of tr] sell_tradesD(4) [OF pos v, of tr]
    by (metis bt_def order_less_imp_le st_def)
  have b: "0 \<le> sum_list (map snd (filter ?a ts))" "sum_list (map snd (filter ?a ts)) \<le> sum_list (map snd ts)"
    if "ts = bt \<or> ts = st" for ts
    using sum_filter_le [of ts snd ?a] nn that by auto
  show "\<bar>fl_base_delta f\<bar> \<le> ?v"
    using T(9) [OF f] T(1,2) b [of bt] b [of st] by (simp add: net_base_def flip: bt_def st_def)
  have q: "0 \<le> sum_list (map (\<lambda>tr. QuoteFor (snd tr) ?p) (filter ?a ts))"
    "sum_list (map (\<lambda>tr. QuoteFor (snd tr) ?p) (filter ?a ts)) \<le> sum_list (map (\<lambda>tr. QuoteFor (snd tr) ?p) ts)"
    if "ts = bt \<or> ts = st" for ts
    by (rule sum_filter_le; use nn that QuoteFor_nonneg [OF _ price] in blast)+
  have "\<bar>fl_quote_delta f\<bar> \<le> sum_list (map (\<lambda>tr. QuoteFor (snd tr) ?p) bt)
      \<or> \<bar>fl_quote_delta f\<bar> \<le> sum_list (map (\<lambda>tr. QuoteFor (snd tr) ?p) st)"
    using T(9) [OF f] q [of bt] q [of st] by (auto simp: net_quote_def abs_if simp flip: bt_def st_def)
  then obtain ts where ts: "ts = bt \<or> ts = st"
    "\<bar>fl_quote_delta f\<bar> \<le> sum_list (map (\<lambda>tr. QuoteFor (snd tr) ?p) ts)" by blast
  have "PriceScale * \<bar>fl_quote_delta f\<bar> \<le> PriceScale * sum_list (map (\<lambda>tr. QuoteFor (snd tr) ?p) ts)"
    by (rule mult_left_mono [OF ts(2)]) simp
  also have "\<dots> \<le> sum_list (map snd ts) * ?p" by (rule quote_sum_bounds(1))
  also have "sum_list (map snd ts) = ?v" using ts(1) T(1,2) by auto
  finally show "PriceScale * \<bar>fl_quote_delta f\<bar> \<le> ?v * ?p" .
qed

text \<open>(C25) The settlement fits the layout it is packed into: if the sizes of the batch sum to
  less than 2 to the 255, every limit is positive and below 2 to the 256, and the whole batch
  is worth less than 2 to the 255 quote units at any of its limits, then price and volume
  are \<^verbatim>\<open>uint256\<close> values and every delta is an \<^verbatim>\<open>int256\<close> value. The enclave checks
  none of these bounds when it accepts an order.\<close>

theorem Clear_fits_layout:
  assumes "sizes_pos orders" and "Clear orders ref bps = Inr s"
    and "sum_list (map o_size orders) < 2 ^ 255"
    and "\<forall>ord \<in> set orders. 0 < o_limit_price ord \<and> o_limit_price ord < 2 ^ 256
          \<and> sum_list (map o_size orders) * o_limit_price ord < 2 ^ 255 * PriceScale"
  shows "fits (AbiUint 256) (s_clearing_price s) \<and> fits (AbiUint 256) (s_matched_base s)
    \<and> (\<forall>f \<in> set (s_fills s). fits (AbiInt 256) (fl_base_delta f) \<and> fits (AbiInt 256) (fl_quote_delta f))"
proof -
  let ?p = "s_clearing_price s" and ?v = "s_matched_base s" and ?total = "sum_list (map o_size orders)"
  obtain ord where ord: "ord \<in> set orders" "?p = o_limit_price ord" using Clear_facts(2) [OF assms(2)] by auto
  have p: "0 < ?p" "?p < 2 ^ 256" "?total * ?p < 2 ^ 255 * PriceScale" using assms(4) ord by auto
  have v: "0 < ?v" "?v \<le> ?total"
    using Clear_matched_pos [OF assms(1,2)] matched_le_total [OF assms(1)] Clear_facts(1) [OF assms(2)] by simp_all
  have vp: "?v * ?p \<le> ?total * ?p" using v(2) p(1) by (simp add: mult_right_mono)
  have "fits (AbiInt 256) (fl_base_delta f) \<and> fits (AbiInt 256) (fl_quote_delta f)" if f: "f \<in> set (s_fills s)" for f
  proof -
    note B = fill_bounds [OF assms(1,2) f order_less_imp_le [OF p(1)]]
    have "PriceScale * \<bar>fl_quote_delta f\<bar> < 2 ^ 255 * PriceScale"
      using B(2) vp p(3) by (rule order_le_less_trans [OF order_trans])
    then have "PriceScale * \<bar>fl_quote_delta f\<bar> < PriceScale * 2 ^ 255" by (simp only: mult.commute)
    then have "\<bar>fl_quote_delta f\<bar> < 2 ^ 255" unfolding mult_less_cancel_left_pos [OF PriceScale_pos(1)] .
    then show ?thesis using B(1) v assms(3) by (simp add: fits_def abs_less_iff abs_le_iff)
  qed
  then show ?thesis using p v assms(3) by (simp add: fits_def)
qed

theorem Clear_fits_layout_witness:
  "fits (AbiUint 256) (s_clearing_price demo_settlement)"
  using Clear_fits_layout [OF demo_book_ok(1) demo_clear]
  by (simp add: demo_book_def PriceScale_def)

end
