(* ===== verification/Tee_Client.thy ===== *)
theory Tee_Client
  imports Go_Json
begin

text \<open>
  \<^verbatim>\<open>go/internal/extension/teeclient.go\<close>: the client of the node's sign server on
  loopback. The HTTP transport is a parameter: a reply is a transport error or a status and
  a body. The contract of the client towards the rest of the enclave is the locale
  \<^verbatim>\<open>tee_service\<close>, met by \<open>Decrypt\<close> and \<open>Sign\<close>.
\<close>

record teeClient =
  baseURL :: string
  http :: "string \<Rightarrow> bytes \<Rightarrow> err + int \<times> bytes"
  json_error :: "bytes \<Rightarrow> err"

definition newTeeClient ::
  "(string \<Rightarrow> bytes \<Rightarrow> err + int \<times> bytes) \<Rightarrow> (bytes \<Rightarrow> err) \<Rightarrow> int \<Rightarrow> teeClient" where
  "newTeeClient transport jerr signPort =
     \<lparr>baseURL = ''http://127.0.0.1:'' @ big_string signPort, http = transport, json_error = jerr\<rparr>"

section \<open>Messages\<close>

record decryptResponse =
  dr_decrypted_message :: bytes

record signResponse =
  sg_message :: bytes
  sg_signature :: bytes

definition decryptRequest_json :: "bytes \<Rightarrow> bytes" where
  "decryptRequest_json m = json_object [(''encryptedMessage'', json_quote (base64 m))]"

definition signRequest_json :: "bytes \<Rightarrow> bytes" where
  "signRequest_json m = json_object [(''message'', json_quote (base64 m))]"

text \<open>Fields of other names are ignored; a null body leaves the zero value.\<close>

fun decryptResponse_fields :: "(string \<times> json) list \<Rightarrow> decryptResponse \<Rightarrow> decryptResponse option" where
  "decryptResponse_fields [] out = Some out"
| "decryptResponse_fields ((k, v) # kvs) out =
     (if json_field [''decryptedMessage''] k = None then decryptResponse_fields kvs out
      else (case json_to_bytes v of
          None \<Rightarrow> None
        | Some b \<Rightarrow> decryptResponse_fields kvs (out\<lparr>dr_decrypted_message := b\<rparr>)))"

definition decode_decryptResponse :: "bytes \<Rightarrow> decryptResponse option" where
  "decode_decryptResponse body =
     (case json_parse body of
        Some (JObj kvs) \<Rightarrow> decryptResponse_fields kvs \<lparr>dr_decrypted_message = []\<rparr>
      | Some JNull \<Rightarrow> Some \<lparr>dr_decrypted_message = []\<rparr>
      | _ \<Rightarrow> None)"

fun signResponse_fields :: "(string \<times> json) list \<Rightarrow> signResponse \<Rightarrow> signResponse option" where
  "signResponse_fields [] out = Some out"
| "signResponse_fields ((k, v) # kvs) out =
     (case json_field [''message'', ''signature''] k of
        None \<Rightarrow> signResponse_fields kvs out
      | Some f \<Rightarrow>
         (case json_to_bytes v of
            None \<Rightarrow> None
          | Some b \<Rightarrow> signResponse_fields kvs
              (if f = ''message'' then out\<lparr>sg_message := b\<rparr> else out\<lparr>sg_signature := b\<rparr>)))"

definition decode_signResponse :: "bytes \<Rightarrow> signResponse option" where
  "decode_signResponse body =
     (case json_parse body of
        Some (JObj kvs) \<Rightarrow> signResponse_fields kvs \<lparr>sg_message = [], sg_signature = []\<rparr>
      | Some JNull \<Rightarrow> Some \<lparr>sg_message = [], sg_signature = []\<rparr>
      | _ \<Rightarrow> None)"

section \<open>Calls\<close>

definition StatusOK :: int where "StatusOK = 200"

definition post :: "teeClient \<Rightarrow> string \<Rightarrow> bytes \<Rightarrow> (bytes \<Rightarrow> 'r option) \<Rightarrow> err + 'r" where
  "post c path body decode =
     (case http c (baseURL c @ path) body of
        Inl e \<Rightarrow> Inl (''calling '' @ path @ '': '' @ e)
      | Inr (code, reply) \<Rightarrow>
          if code \<noteq> StatusOK then
            Inl (path @ '' returned '' @ big_string code @ '': '' @ trim_space (take 512 reply))
          else (case decode reply of
              None \<Rightarrow> Inl (''decoding '' @ path @ '' response: '' @ json_error c reply)
            | Some r \<Rightarrow> Inr r))"

definition Decrypt :: "teeClient \<Rightarrow> bytes \<Rightarrow> err + bytes" where
  "Decrypt c ciphertext =
     (case post c ''/decrypt'' (decryptRequest_json ciphertext) decode_decryptResponse of
        Inl e \<Rightarrow> Inl e
      | Inr r \<Rightarrow> Inr (dr_decrypted_message r))"

definition Sign :: "teeClient \<Rightarrow> bytes \<Rightarrow> err + bytes" where
  "Sign c message =
     (case post c ''/sign'' (signRequest_json message) decode_signResponse of
        Inl e \<Rightarrow> Inl e
      | Inr r \<Rightarrow>
          if length (sg_signature r) \<noteq> 65 then
            Inl (''expected 65-byte signature, got '' @ big_string (int (length (sg_signature r))))
          else Inr (sg_signature r))"

section \<open>The contract of the client\<close>

text \<open>
  What the handlers rely on: each call depends on its own request only, and a signature
  that is returned has the length the venue recovers an address from.
\<close>

locale tee_service =
  fixes decrypt :: "bytes \<Rightarrow> err + bytes"
    and sign :: "bytes \<Rightarrow> err + bytes"
  assumes signature_length: "sign m = Inr s \<Longrightarrow> length s = 65"
begin

lemma short_signature_refused: "length s \<noteq> 65 \<Longrightarrow> sign m \<noteq> Inr s"
  using signature_length by blast

lemma signature_nonempty: "sign m = Inr s \<Longrightarrow> s \<noteq> []"
  using signature_length by force

end

interpretation tee: tee_service "Decrypt c" "Sign c" for c
  by unfold_locales (auto simp: Sign_def split: sum.splits if_splits)

lemma post_Inr_iff:
  "post c path body decode = Inr r \<longleftrightarrow>
     (\<exists>reply. http c (baseURL c @ path) body = Inr (StatusOK, reply) \<and> decode reply = Some r)"
  by (auto simp: post_def split: sum.splits option.splits)

end
