(* ===== verification/Extension.thy ===== *)
theory Extension
  imports Ext_Config Tee_Client Matching
begin

text \<open>
  The enclave's request handling: \<^verbatim>\<open>go/internal/extension/extension.go\<close> and
  \<^verbatim>\<open>utils.go\<close>. The state is the order book and the aggregates the \<^verbatim>\<open>/state\<close>
  endpoint shows; every handler takes the state and returns it updated with its reply.
  The node's and go-ethereum's functions (fixed-data parsing, ABI decoding and packing,
  hashing, address syntax, the JSON form of an action result) are the fields of \<open>node\<close>.
\<close>

section \<open>Requests, results and what is not under src\<close>

record DataFixed =
  df_op_type :: hash
  df_op_command :: hash
  df_original_message :: bytes

record Action =
  a_id :: hash
  a_submission_tag :: string
  a_message :: bytes

record ActionResult =
  ar_id :: hash
  ar_submission_tag :: string
  ar_version :: string
  ar_op_type :: hash
  ar_op_command :: hash
  ar_data :: bytes
  ar_status :: u8
  ar_log :: string

record node =
  n_tee :: teeClient
  n_parse :: "bytes \<Rightarrow> err + DataFixed"
  n_to_hash :: "string \<Rightarrow> hash"
  n_hex :: "hash \<Rightarrow> string"
  n_decode_submit :: "abi_type \<Rightarrow> bytes \<Rightarrow> err + SubmitOrderRequest"
  n_decode_run :: "abi_type \<Rightarrow> bytes \<Rightarrow> err + RunBatchRequest"
  n_is_hex_address :: "string \<Rightarrow> bool"
  n_hex_to_address :: "string \<Rightarrow> address"
  n_address_text :: "address \<Rightarrow> string"
  n_pack :: "abi_args \<Rightarrow> settlement_tuple \<Rightarrow> err + bytes"
  n_result_json :: "ActionResult \<Rightarrow> bytes"
  n_result_log :: "bytes \<Rightarrow> string option"
  n_action_json :: "bytes \<Rightarrow> err + Action"

section \<open>State\<close>

record extension =
  book :: "u64 \<rightharpoonup> Order list"
  currentBatchID :: u64
  batchesSettled :: u64
  lastClearing :: int
  lastMatchedBase :: int

definition New :: extension where
  "New = \<lparr>book = Map.empty, currentBatchID = 0, batchesSettled = 0, lastClearing = 0, lastMatchedBase = 0\<rparr>"

text \<open>\<^verbatim>\<open>e.book[id]\<close>: a missing key reads as the nil slice.\<close>

definition book_at :: "extension \<Rightarrow> u64 \<Rightarrow> Order list" where
  "book_at e b = (case book e b of None \<Rightarrow> [] | Some orders \<Rightarrow> orders)"

section \<open>Results\<close>

text \<open>\<open>None\<close> is a nil error, which \<^verbatim>\<open>%v\<close> prints as \<^verbatim>\<open><nil>\<close>.\<close>

definition buildResult :: "Action \<Rightarrow> DataFixed \<Rightarrow> bytes \<Rightarrow> u8 \<Rightarrow> err option \<Rightarrow> ActionResult" where
  "buildResult a df data status e =
     \<lparr>ar_id = a_id a, ar_submission_tag = a_submission_tag a, ar_version = Version,
      ar_op_type = df_op_type df, ar_op_command = df_op_command df,
      ar_data = data, ar_status = status,
      ar_log = (if status = 0 then ''error: '' @ (case e of None \<Rightarrow> ''<nil>'' | Some t \<Rightarrow> t)
                else if status = 1 then ''ok'' else ''pending'')\<rparr>"

definition getLogFromBody :: "node \<Rightarrow> bytes \<Rightarrow> string" where
  "getLogFromBody nd body = (case n_result_log nd body of None \<Rightarrow> body | Some l \<Rightarrow> l)"

definition u64_text :: "u64 \<Rightarrow> string" where
  "u64_text w = dec_nat (unat w)"

definition SubmitOrderResponse_json :: "SubmitOrderResponse \<Rightarrow> bytes" where
  "SubmitOrderResponse_json r = json_object
     [(''orderId'', u64_text (sa_order_id r)), (''batchId'', u64_text (sa_batch_id r)),
      (''accepted'', if sa_accepted r then ''true'' else ''false''),
      (''bookDepth'', dec_nat (sa_book_depth r))]"

definition Fill_json :: "node \<Rightarrow> Fill \<Rightarrow> bytes" where
  "Fill_json nd f = json_object
     [(''trader'', json_quote (n_address_text nd (fl_trader f))),
      (''baseDelta'', big_string (fl_base_delta f)), (''quoteDelta'', big_string (fl_quote_delta f))]"

definition RunBatchResponse_json :: "node \<Rightarrow> RunBatchResponse \<Rightarrow> bytes" where
  "RunBatchResponse_json nd r = json_object
     [(''batchId'', u64_text (rb_batch_id r)), (''clearingPrice'', big_string (rb_clearing_price r)),
      (''matchedBase'', big_string (rb_matched_base r)), (''fills'', json_array (map (Fill_json nd) (rb_fills r))),
      (''settlement'', json_quote (base64 (rb_settlement r))),
      (''signature'', json_quote (base64 (rb_signature r))), (''unmatched'', big_string (rb_unmatched r))]"

section \<open>GET /state\<close>

definition stateResponse :: "node \<Rightarrow> extension \<Rightarrow> StateResponse" where
  "stateResponse nd e =
     \<lparr>sp_state_version = n_to_hash nd Version,
      sp_state =
        \<lparr>st_current_batch_id = currentBatchID e,
         st_resting_orders = length (book_at e (currentBatchID e)),
         st_batches_settled = batchesSettled e,
         st_last_clearing = big_string (lastClearing e),
         st_last_matched_base = big_string (lastMatchedBase e)\<rparr>\<rparr>"

definition State_json :: "State \<Rightarrow> bytes" where
  "State_json s = json_object
     [(''currentBatchId'', u64_text (st_current_batch_id s)), (''restingOrders'', dec_nat (st_resting_orders s)),
      (''batchesSettled'', u64_text (st_batches_settled s)),
      (''lastClearingPrice'', json_quote (st_last_clearing s)),
      (''lastMatchedBase'', json_quote (st_last_matched_base s))]"

definition stateHandler :: "node \<Rightarrow> extension \<Rightarrow> bytes" where
  "stateHandler nd e =
     (let r = stateResponse nd e in
      json_object [(''stateVersion'', json_quote (n_hex nd (sp_state_version r))),
                   (''state'', State_json (sp_state r))] @ [char_of (10::nat)])"

section \<open>SUBMIT_ORDER\<close>

definition sealed_fields :: "string list" where
  "sealed_fields = [''trader'', ''side'', ''limitPrice'', ''size'', ''nonce'']"

definition set_sealed :: "string \<Rightarrow> json \<Rightarrow> SealedOrder \<Rightarrow> SealedOrder option" where
  "set_sealed f v so =
     (if f = ''trader'' then map_option (\<lambda>s. so\<lparr>so_trader := s\<rparr>) (json_to_string v (so_trader so))
      else if f = ''side'' then map_option (\<lambda>n. so\<lparr>so_side := n\<rparr>) (json_to_u8 v (so_side so))
      else if f = ''limitPrice'' then map_option (\<lambda>s. so\<lparr>so_limit_price := s\<rparr>) (json_to_string v (so_limit_price so))
      else if f = ''size'' then map_option (\<lambda>s. so\<lparr>so_size := s\<rparr>) (json_to_string v (so_size so))
      else map_option (\<lambda>s. so\<lparr>so_nonce := s\<rparr>) (json_to_string v (so_nonce so)))"

text \<open>\<^verbatim>\<open>DisallowUnknownFields\<close>: a key that names no field is an error.\<close>

fun sealed_of_fields :: "(string \<times> json) list \<Rightarrow> SealedOrder \<Rightarrow> SealedOrder option" where
  "sealed_of_fields [] so = Some so"
| "sealed_of_fields ((k, v) # kvs) so =
     (case json_field sealed_fields k of
        None \<Rightarrow> None
      | Some f \<Rightarrow> (case set_sealed f v so of None \<Rightarrow> None | Some so' \<Rightarrow> sealed_of_fields kvs so'))"

definition zero_sealed :: SealedOrder where
  "zero_sealed = \<lparr>so_trader = [], so_side = 0, so_limit_price = [], so_size = [], so_nonce = []\<rparr>"

definition decode_sealed :: "bytes \<Rightarrow> SealedOrder option" where
  "decode_sealed plaintext =
     (case json_parse plaintext of
        Some (JObj kvs) \<Rightarrow> sealed_of_fields kvs zero_sealed
      | Some JNull \<Rightarrow> Some zero_sealed
      | _ \<Rightarrow> None)"

definition parseSealedOrder :: "node \<Rightarrow> bytes \<Rightarrow> SubmitOrderRequest \<Rightarrow> err + Order" where
  "parseSealedOrder nd plaintext req =
     (case decode_sealed plaintext of
        None \<Rightarrow> Inl ''malformed order payload''
      | Some sealed \<Rightarrow>
        if \<not> n_is_hex_address nd (so_trader sealed) then Inl ''invalid trader address''
        else if n_hex_to_address nd (so_trader sealed) \<noteq> sr_trader req then
          Inl ''order trader does not match submitter''
        else if so_side sealed \<noteq> SideBuy \<and> so_side sealed \<noteq> SideSell then Inl ''invalid side''
        else
          (case big_set_string (so_limit_price sealed) of
             None \<Rightarrow> Inl ''invalid limit price''
           | Some limit \<Rightarrow>
             if limit \<le> 0 then Inl ''invalid limit price''
             else
               (case big_set_string (so_size sealed) of
                  None \<Rightarrow> Inl ''invalid size''
                | Some sz \<Rightarrow>
                  if sz \<le> 0 then Inl ''invalid size''
                  else Inr \<lparr>o_id = sr_order_id req, o_trader = sr_trader req, o_side = so_side sealed,
                            o_limit_price = limit, o_size = sz\<rparr>)))"

text \<open>The critical section of \<^verbatim>\<open>processSubmitOrder\<close>, and the depth it reads.\<close>

definition rest_order :: "SubmitOrderRequest \<Rightarrow> Order \<Rightarrow> extension \<Rightarrow> extension \<times> nat" where
  "rest_order req ord e =
     (let e1 = (if currentBatchID e = 0 then e\<lparr>currentBatchID := sr_batch_id req\<rparr> else e);
          e2 = e1\<lparr>book := (book e1)(sr_batch_id req \<mapsto> book_at e1 (sr_batch_id req) @ [ord])\<rparr>
      in (e2, length (book_at e2 (sr_batch_id req))))"

definition processSubmitOrder :: "node \<Rightarrow> Action \<Rightarrow> DataFixed \<Rightarrow> extension \<Rightarrow> extension \<times> ActionResult" where
  "processSubmitOrder nd action df e =
     (case n_decode_submit nd SubmitOrderMessageArg (df_original_message df) of
        Inl t \<Rightarrow> (e, buildResult action df [] 0 (Some (''decoding request: '' @ t)))
      | Inr req \<Rightarrow>
        if length (sr_ciphertext req) = 0 then (e, buildResult action df [] 0 (Some ''empty ciphertext''))
        else
          (case Decrypt (n_tee nd) (sr_ciphertext req) of
             Inl t \<Rightarrow> (e, buildResult action df [] 0 (Some ''order could not be opened''))
           | Inr plaintext \<Rightarrow>
             (case parseSealedOrder nd plaintext req of
                Inl t \<Rightarrow> (e, buildResult action df [] 0 (Some t))
              | Inr ord \<Rightarrow>
                (case rest_order req ord e of (e', depth) \<Rightarrow>
                   let resp = \<lparr>sa_order_id = sr_order_id req, sa_batch_id = sr_batch_id req,
                               sa_accepted = True, sa_book_depth = depth\<rparr>
                   in (e', buildResult action df (SubmitOrderResponse_json resp) 1 None)))))"

section \<open>RUN_BATCH\<close>

definition discard :: "u64 \<Rightarrow> extension \<Rightarrow> extension" where
  "discard batchID e = e\<lparr>book := (book e)(batchID := None), currentBatchID := batchID + 1\<rparr>"

text \<open>
  What happens between the two critical sections, on the orders read in the first: the
  batch fails to clear, the settlement cannot be encoded or signed, or it is signed.
\<close>

datatype outcome =
    NotCleared clear_error
  | NotSigned err
  | Settled Settlement bytes bytes

definition clear_and_sign :: "node \<Rightarrow> RunBatchRequest \<Rightarrow> Order list \<Rightarrow> outcome" where
  "clear_and_sign nd req orders =
     (case Clear orders (rr_ref_price req) (rr_max_deviation_bps req) of
        Inl ce \<Rightarrow> NotCleared ce
      | Inr settlement \<Rightarrow>
        (case EncodeSettlement (n_pack nd) (rr_chain_id req) (rr_venue req) (rr_batch_id req)
                (s_clearing_price settlement) (s_matched_base settlement) (s_fills settlement) of
           Inl t \<Rightarrow> NotSigned (''encoding settlement: '' @ t)
         | Inr message \<Rightarrow>
           (case Sign (n_tee nd) message of
              Inl t \<Rightarrow> NotSigned (''signing settlement: '' @ t)
            | Inr signature \<Rightarrow> Settled settlement message signature)))"

text \<open>The second critical section.\<close>

definition commit_batch :: "u64 \<Rightarrow> Settlement \<Rightarrow> extension \<Rightarrow> extension" where
  "commit_batch batchID settlement e =
     e\<lparr>book := (book e)(batchID := None), currentBatchID := batchID + 1,
       batchesSettled := batchesSettled e + 1,
       lastClearing := s_clearing_price settlement, lastMatchedBase := s_matched_base settlement\<rparr>"

definition batch_text :: "u64 \<Rightarrow> string \<Rightarrow> string" where
  "batch_text b rest = ''batch '' @ u64_text b @ rest"

definition run_response :: "RunBatchRequest \<Rightarrow> Settlement \<Rightarrow> bytes \<Rightarrow> bytes \<Rightarrow> RunBatchResponse" where
  "run_response req settlement message signature =
     \<lparr>rb_batch_id = rr_batch_id req, rb_clearing_price = s_clearing_price settlement,
      rb_matched_base = s_matched_base settlement, rb_fills = s_fills settlement,
      rb_settlement = message, rb_signature = signature, rb_unmatched = s_unmatched settlement\<rparr>"

text \<open>What the handler does to the state, and replies, once the outcome is known.\<close>

definition finish_batch ::
  "node \<Rightarrow> Action \<Rightarrow> DataFixed \<Rightarrow> RunBatchRequest \<Rightarrow> outcome \<Rightarrow> extension \<Rightarrow> extension \<times> ActionResult" where
  "finish_batch nd action df req oc e =
     (case oc of
        NotCleared ce \<Rightarrow>
          (discard (rr_batch_id req) e,
           buildResult action df [] 0 (Some (batch_text (rr_batch_id req) ('' not settled: '' @ clear_error_text ce))))
      | NotSigned t \<Rightarrow> (e, buildResult action df [] 0 (Some t))
      | Settled settlement message signature \<Rightarrow>
          (commit_batch (rr_batch_id req) settlement e,
           buildResult action df (RunBatchResponse_json nd (run_response req settlement message signature)) 1 None))"

definition processRunBatch :: "node \<Rightarrow> Action \<Rightarrow> DataFixed \<Rightarrow> extension \<Rightarrow> extension \<times> ActionResult" where
  "processRunBatch nd action df e =
     (case n_decode_run nd RunBatchMessageArg (df_original_message df) of
        Inl t \<Rightarrow> (e, buildResult action df [] 0 (Some (''decoding request: '' @ t)))
      | Inr req \<Rightarrow>
        let orders = book_at e (rr_batch_id req) in
        if length orders = 0 then
          (e, buildResult action df [] 0 (Some (batch_text (rr_batch_id req) '' is empty'')))
        else finish_batch nd action df req (clear_and_sign nd req orders) e)"

section \<open>Dispatch\<close>

type_synonym http_reply = "int \<times> bytes"

definition StatusBadRequest :: int where "StatusBadRequest = 400"
definition StatusNotImplemented :: int where "StatusNotImplemented = 501"

definition processAuction :: "node \<Rightarrow> Action \<Rightarrow> DataFixed \<Rightarrow> extension \<Rightarrow> extension \<times> http_reply" where
  "processAuction nd action df e =
     (if df_op_command df = n_to_hash nd OPCommandSubmitOrder then
        (case processSubmitOrder nd action df e of (e', ar) \<Rightarrow> (e', (StatusOK, n_result_json nd ar)))
      else if df_op_command df = n_to_hash nd OPCommandRunBatch then
        (case processRunBatch nd action df e of (e', ar) \<Rightarrow> (e', (StatusOK, n_result_json nd ar)))
      else
        (e, (StatusNotImplemented,
          ''unsupported op command: received '' @ n_hex nd (df_op_command df) @ '', expected one of ['' @
          n_hex nd (n_to_hash nd OPCommandSubmitOrder) @ '' ('' @ OPCommandSubmitOrder @ ''), '' @
          n_hex nd (n_to_hash nd OPCommandRunBatch) @ '' ('' @ OPCommandRunBatch @ '')]'')))"

definition processAction :: "node \<Rightarrow> Action \<Rightarrow> extension \<Rightarrow> extension \<times> http_reply" where
  "processAction nd action e =
     (case n_parse nd (a_message action) of
        Inl t \<Rightarrow> (e, (StatusBadRequest, ''decoding fixed data: '' @ t))
      | Inr df \<Rightarrow>
        if df_op_type df = n_to_hash nd OPTypeAuction then processAuction nd action df e
        else
          (e, (StatusNotImplemented,
            ''unsupported op type: received '' @ n_hex nd (df_op_type df) @ '', expected '' @
            n_hex nd (n_to_hash nd OPTypeAuction) @ '' ('' @ OPTypeAuction @ '')'')))"

text \<open>\<^verbatim>\<open>http.Error\<close> appends a newline to the text.\<close>

definition actionHandler :: "node \<Rightarrow> bytes \<Rightarrow> extension \<Rightarrow> extension \<times> http_reply" where
  "actionHandler nd body e =
     (case n_action_json nd body of
        Inl t \<Rightarrow> (e, (StatusBadRequest, ''decoding action: '' @ t @ [char_of (10::nat)]))
      | Inr action \<Rightarrow> processAction nd action e)"

declare processAction_def [handler_defs] processAuction_def [handler_defs]
  processSubmitOrder_def [handler_defs] processRunBatch_def [handler_defs]
  finish_batch_def [handler_defs] clear_and_sign_def [handler_defs]

end
