(* ===== verification/Sealing.thy ===== *)
theory Sealing
  imports Extension Json_Facts
begin

text \<open>
  The other end of a sealed order: what the clients \<^verbatim>\<open>tools/cmd/make-market\<close> and
  \<^verbatim>\<open>tools/cmd/run-test\<close> put inside the ciphertext, and the proof that the enclave opens
  it as the order that was sealed. With it, the replies of the sign server in the form the
  node gives them.
\<close>

section \<open>The sealed text\<close>

text \<open>\<^verbatim>\<open>json.Marshal\<close> of the clients' \<^verbatim>\<open>sealedOrder\<close>, for text it does not escape.\<close>

definition sealed_json :: "SealedOrder \<Rightarrow> bytes" where
  "sealed_json so = json_object
     [(''trader'', json_quote (so_trader so)), (''side'', dec_nat (unat (so_side so))),
      (''limitPrice'', json_quote (so_limit_price so)), (''size'', json_quote (so_size so)),
      (''nonce'', json_quote (so_nonce so))]"

lemma plain_base64 [simp]: "plain (base64 bs)"
proof -
  have c: "plain_char (b64_char n)" if "n < 64" for n
  proof -
    have v: "b64_val (b64_char n) = Some n" using that by simp
    have "b64_val c = None" if "\<not> plain_char c" for c
      using that by (auto simp: plain_char_def in_range_def b64_val_def code_of_def Let_def)
    then show ?thesis using v by force
  qed
  have eq: "plain_char CHR ''=''" by (simp add: plain_char_def in_range_def code_of_def)
  show ?thesis by (induction bs rule: base64.induct) (simp_all add: c eq b64_parts)
qed

lemma json_to_u8_dec_nat: "n < 256 \<Longrightarrow> json_to_u8 (JNum (dec_nat n)) old = Some (of_nat n)"
proof -
  assume lt: "n < 256"
  then have "unat (of_nat n :: u64) = n" by (simp add: unat_of_nat)
  then have "(of_nat n :: u64) \<le> 255" "(ucast (of_nat n :: u64) :: 8 word) = of_nat n"
    using lt by (simp_all add: word_le_nat_alt unsigned_of_nat take_bit_nat_eq_self)
  then show ?thesis using lt by (simp add: json_to_u8_def go_parse_uint64_dec_nat)
qed

lemma side_number: "json_to_u8 (JNum (dec_nat (unat (w :: side)))) old = Some w"
  using json_to_u8_dec_nat [of "unat w" old] unsigned_less [where 'a = nat and w = w] by simp

lemma parse_sealed_json:
  assumes "plain (so_trader so)" "plain (so_limit_price so)" "plain (so_size so)" "plain (so_nonce so)"
  shows "json_parse (sealed_json so @ rest) = Some (JObj
     [(''trader'', JStr (so_trader so)), (''side'', JNum (dec_nat (unat (so_side so)))),
      (''limitPrice'', JStr (so_limit_price so)), (''size'', JStr (so_size so)), (''nonce'', JStr (so_nonce so))])"
  using assms by (simp add: sealed_json_def json_object_def json_parse_def pda_simps plain_eval)

lemma decode_sealed_json:
  assumes "plain (so_trader so)" "plain (so_limit_price so)" "plain (so_size so)" "plain (so_nonce so)"
  shows "decode_sealed (sealed_json so) = Some so"
proof -
  have "sealed_of_fields
     [(''trader'', JStr (so_trader so)), (''side'', JNum (dec_nat (unat (so_side so)))),
      (''limitPrice'', JStr (so_limit_price so)), (''size'', JStr (so_size so)), (''nonce'', JStr (so_nonce so))]
     zero_sealed = Some so"
    by (cases so) (simp add: json_field_exact sealed_fields_def set_sealed_def json_to_string_def
        side_number zero_sealed_def)
  then show ?thesis using parse_sealed_json [OF assms, of "[]"] by (simp add: decode_sealed_def)
qed

text \<open>(C17) Sealing round trip: the terms a client seals (its own address in a form the node
  accepts, a side, a positive limit and size as decimal text, a nonce) are opened by the
  enclave as exactly that order, under the order id and trader of the submission.\<close>

theorem sealed_order_roundtrip:
  assumes "so_limit_price so = big_string limit" "so_size so = big_string sz" "0 < limit" "0 < sz"
    and "so_side so = SideBuy \<or> so_side so = SideSell"
    and "plain (so_trader so)" "plain (so_nonce so)"
    and "n_is_hex_address nd (so_trader so)" "n_hex_to_address nd (so_trader so) = sr_trader req"
  shows "parseSealedOrder nd (sealed_json so) req =
    Inr \<lparr>o_id = sr_order_id req, o_trader = sr_trader req, o_side = so_side so,
         o_limit_price = limit, o_size = sz\<rparr>"
  using assms by (auto simp: parseSealedOrder_def decode_sealed_json)

section \<open>Replies of the sign server\<close>

definition decrypt_reply :: "bytes \<Rightarrow> bytes" where
  "decrypt_reply m = json_object [(''decryptedMessage'', json_quote (base64 m))]"

definition sign_reply :: "bytes \<Rightarrow> bytes \<Rightarrow> bytes" where
  "sign_reply m sig = json_object [(''message'', json_quote (base64 m)), (''signature'', json_quote (base64 sig))]"

lemma decode_decrypt_reply [simp]:
  "decode_decryptResponse (decrypt_reply m) = Some \<lparr>dr_decrypted_message = m\<rparr>"
  by (simp add: decrypt_reply_def json_object_def json_parse_def pda_simps plain_eval decode_decryptResponse_def
      json_field_exact json_to_bytes_def)

lemma decode_sign_reply [simp]:
  "decode_signResponse (sign_reply m sig) = Some \<lparr>sg_message = m, sg_signature = sig\<rparr>"
  by (simp add: sign_reply_def json_object_def json_parse_def pda_simps plain_eval decode_signResponse_def
      json_field_exact json_to_bytes_def)

section \<open>A concrete node\<close>

text \<open>
  Functions for everything that is not under \<^verbatim>\<open>src/\<close>, to evaluate the handlers on: a
  sign server that opens every ciphertext to one plaintext and signs with 65 bytes, hashes
  that are lengths, and requests for batch 5.
\<close>

definition demo_signature :: bytes where
  "demo_signature = replicate 65 CHR ''s''"

definition demo_tee :: "bytes \<Rightarrow> teeClient" where
  "demo_tee p =
     \<lparr>baseURL = [],
      http = (\<lambda>url body. Inr (200, if url = ''/decrypt'' then decrypt_reply p else sign_reply [] demo_signature)),
      json_error = (\<lambda>_. [])\<rparr>"

definition demo_submit :: SubmitOrderRequest where
  "demo_submit = \<lparr>sr_order_id = 1, sr_batch_id = 5, sr_trader = 10, sr_ciphertext = ''c''\<rparr>"

definition demo_run :: RunBatchRequest where
  "demo_run = \<lparr>rr_batch_id = 5, rr_ref_price = Some (2 * PriceScale), rr_max_deviation_bps = 500,
     rr_chain_id = 114, rr_venue = 99\<rparr>"

definition demo_node :: "teeClient \<Rightarrow> node" where
  "demo_node c =
     \<lparr>n_tee = c,
      n_parse = (\<lambda>m. Inr \<lparr>df_op_type = 7, df_op_command = of_nat (length m), df_original_message = m\<rparr>),
      n_to_hash = (\<lambda>s. of_nat (length s)), n_hex = (\<lambda>h. dec_nat (unat h)),
      n_decode_submit = (\<lambda>_ _. Inr demo_submit), n_decode_run = (\<lambda>_ _. Inr demo_run),
      n_is_hex_address = (\<lambda>_. True), n_hex_to_address = (\<lambda>_. 10), n_address_text = (\<lambda>a. dec_nat (unat a)),
      n_pack = (\<lambda>_ _. Inr ''m''), n_result_json = ar_data, n_result_log = (\<lambda>_. None),
      n_action_json = (\<lambda>_. Inl [])\<rparr>"

definition demo_action :: "nat \<Rightarrow> Action" where
  "demo_action n = \<lparr>a_id = 3, a_submission_tag = ''t'', a_message = replicate n CHR ''m''\<rparr>"

definition demo_df :: DataFixed where
  "demo_df = \<lparr>df_op_type = 7, df_op_command = 12, df_original_message = []\<rparr>"

definition demo_sealed :: "side \<Rightarrow> int \<Rightarrow> int \<Rightarrow> SealedOrder" where
  "demo_sealed sd limit n =
     \<lparr>so_trader = ''0xab'', so_side = sd, so_limit_price = big_string limit, so_size = big_string n, so_nonce = ''1''\<rparr>"

lemma demo_tee_calls [simp]:
  "Decrypt (demo_tee p) c = Inr p" "Sign (demo_tee p) m = Inr demo_signature"
proof -
  have "post (demo_tee p) ''/decrypt'' b decode_decryptResponse = Inr \<lparr>dr_decrypted_message = p\<rparr>" for b
    by (simp add: post_def demo_tee_def StatusOK_def)
  then show "Decrypt (demo_tee p) c = Inr p" by (simp add: Decrypt_def)
  have "post (demo_tee p) ''/sign'' b decode_signResponse = Inr \<lparr>sg_message = [], sg_signature = demo_signature\<rparr>" for b
    by (simp add: post_def demo_tee_def StatusOK_def)
  then show "Sign (demo_tee p) m = Inr demo_signature" by (simp add: Sign_def demo_signature_def)
qed

theorem sealed_order_roundtrip_witness:
  "parseSealedOrder (demo_node (demo_tee [])) (sealed_json (demo_sealed SideSell 7 3)) demo_submit =
     Inr \<lparr>o_id = 1, o_trader = 10, o_side = SideSell, o_limit_price = 7, o_size = 3\<rparr>"
  by (subst sealed_order_roundtrip [where limit = 7 and sz = 3])
    (simp_all add: demo_sealed_def demo_node_def demo_submit_def plain_eval)

end
