(* ===== verification/Enclave.thy ===== *)
theory Enclave
  imports Sealing Clearing
begin

text \<open>
  What the enclave's handlers guarantee: which requests change the book and how, what a
  reply can reveal, what a run of a batch does on every outcome, and what holds in every
  state reached by a history of actions, one at a time.
\<close>

section \<open>Machines that handle one event at a time\<close>

fun run_events :: "('e \<Rightarrow> 's \<Rightarrow> 's \<times> 'o) \<Rightarrow> 'e list \<Rightarrow> 's \<Rightarrow> 's \<times> 'o list" where
  "run_events step [] s = (s, [])"
| "run_events step (e # es) s =
     (case step e s of (s1, out1) \<Rightarrow> case run_events step es s1 of (s2, outs) \<Rightarrow> (s2, out1 # outs))"

text \<open>An invariant kept by every event holds after every history, and bounds every output.\<close>

locale machine =
  fixes step :: "'e \<Rightarrow> 's \<Rightarrow> 's \<times> 'o"
    and inv :: "'s \<Rightarrow> bool"
    and allowed :: "'e \<Rightarrow> 'o \<Rightarrow> bool"
  assumes step_inv: "inv s \<Longrightarrow> step e s = (s', out) \<Longrightarrow> inv s'"
    and step_allowed: "inv s \<Longrightarrow> step e s = (s', out) \<Longrightarrow> allowed e out"
begin

lemma run_inv: "inv s \<Longrightarrow> run_events step es s = (s', outs) \<Longrightarrow> inv s'"
  by (induction es arbitrary: s outs) (auto split: prod.splits dest: step_inv)

lemma run_allowed: "inv s \<Longrightarrow> run_events step es s = (s', outs) \<Longrightarrow> list_all2 allowed es outs"
proof (induction es arbitrary: s outs)
  case Nil
  then show ?case by simp
next
  case (Cons e es)
  obtain s1 out1 where one: "step e s = (s1, out1)" by (cases "step e s")
  obtain outs2 where rest: "run_events step es s1 = (s', outs2)" "outs = out1 # outs2"
    using Cons.prems(2) one by (auto split: prod.splits)
  then show ?case
    using Cons.IH [OF step_inv [OF Cons.prems(1) one] rest(1)] step_allowed [OF Cons.prems(1) one] by simp
qed

end

lemma run_events_append:
  "run_events step (es @ fs) s =
     (case run_events step es s of (s1, outs1) \<Rightarrow>
        case run_events step fs s1 of (s2, outs2) \<Rightarrow> (s2, outs1 @ outs2))"
  by (induction es arbitrary: s) (auto split: prod.splits)

section \<open>The book\<close>

definition order_ok :: "Order \<Rightarrow> bool" where
  "order_ok ord \<longleftrightarrow> (o_side ord = SideBuy \<or> o_side ord = SideSell) \<and> 0 < o_limit_price ord \<and> 0 < o_size ord"

definition book_ok :: "extension \<Rightarrow> bool" where
  "book_ok e \<longleftrightarrow> (\<forall>b. \<forall>ord \<in> set (book_at e b). order_ok ord)"

lemma book_ok_sizes: "book_ok e \<Longrightarrow> sizes_pos (book_at e b)"
  by (auto simp: book_ok_def order_ok_def sizes_pos_def)

lemma book_at_New [simp]: "book_at New b = []"
  by (simp add: book_at_def New_def)

lemma book_ok_New: "book_ok New"
  by (simp add: book_ok_def)

lemma book_at_removed [simp]:
  "book_at (e\<lparr>book := (book e)(b := None)\<rparr>) b' = (if b' = b then [] else book_at e b')"
  "book_at (discard b e) b' = (if b' = b then [] else book_at e b')"
  "book_at (commit_batch b s e) b' = (if b' = b then [] else book_at e b')"
  by (simp_all add: book_at_def discard_def commit_batch_def)

lemma rest_order_facts:
  assumes "rest_order req ord e = (e', depth)"
  shows "book_at e' b = (if b = sr_batch_id req then book_at e b @ [ord] else book_at e b)"
    and "depth = Suc (length (book_at e (sr_batch_id req)))"
    and "currentBatchID e' = (if currentBatchID e = 0 then sr_batch_id req else currentBatchID e)"
    and "batchesSettled e' = batchesSettled e" "lastClearing e' = lastClearing e"
    and "lastMatchedBase e' = lastMatchedBase e"
  using assms by (auto simp: rest_order_def book_at_def Let_def)

lemma parseSealedOrder_ok:
  assumes "parseSealedOrder nd plaintext req = Inr ord"
  shows "order_ok ord" "o_id ord = sr_order_id req" "o_trader ord = sr_trader req"
  using assms by (auto simp: parseSealedOrder_def order_ok_def split: option.splits if_splits)

section \<open>Submitting an order\<close>

text \<open>The accepting path of the handler, and all the others.\<close>

definition opened_order :: "node \<Rightarrow> DataFixed \<Rightarrow> (SubmitOrderRequest \<times> Order) option" where
  "opened_order nd df =
     (case n_decode_submit nd SubmitOrderMessageArg (df_original_message df) of
        Inl t \<Rightarrow> None
      | Inr req \<Rightarrow>
        if sr_ciphertext req = [] then None
        else (case and_then (Decrypt (n_tee nd) (sr_ciphertext req)) (\<lambda>p. parseSealedOrder nd p req) of
            Inl t \<Rightarrow> None
          | Inr ord \<Rightarrow> Some (req, ord)))"

lemma opened_order_ok:
  assumes "opened_order nd df = Some (req, ord)"
  shows "order_ok ord" "o_id ord = sr_order_id req" "o_trader ord = sr_trader req"
    "n_decode_submit nd SubmitOrderMessageArg (df_original_message df) = Inr req"
  using assms
  by (auto simp: opened_order_def and_then_def split: sum.splits if_splits dest: parseSealedOrder_ok)

lemma submit_accepted:
  assumes "opened_order nd df = Some (req, ord)" "rest_order req ord e = (e', depth)"
  shows "processSubmitOrder nd a df e =
    (e', buildResult a df (SubmitOrderResponse_json
       \<lparr>sa_order_id = sr_order_id req, sa_batch_id = sr_batch_id req, sa_accepted = True, sa_book_depth = depth\<rparr>) 1 None)"
  using assms
  by (auto simp: opened_order_def processSubmitOrder_def and_then_def Let_def split: sum.splits if_splits)

lemma submit_refused:
  assumes "opened_order nd df = None"
  shows "\<exists>t. processSubmitOrder nd a df e = (e, buildResult a df [] 0 (Some t))"
  using assms
  by (auto simp: opened_order_def processSubmitOrder_def and_then_def split: sum.splits if_splits)

lemma buildResult_simps [simp]:
  "ar_status (buildResult a df data st er) = st" "ar_data (buildResult a df data st er) = data"
  "ar_id (buildResult a df data st er) = a_id a"
  by (simp_all add: buildResult_def)

lemma submit_cases:
  obtains req ord depth where "opened_order nd df = Some (req, ord)"
      "rest_order req ord e = (fst (processSubmitOrder nd a df e), depth)"
      "ar_status (snd (processSubmitOrder nd a df e)) = 1"
  | "opened_order nd df = None" "fst (processSubmitOrder nd a df e) = e"
      "ar_status (snd (processSubmitOrder nd a df e)) = 0" "ar_data (snd (processSubmitOrder nd a df e)) = []"
proof (cases "opened_order nd df")
  case None
  then show thesis using that(2) submit_refused [OF None, of a e] by auto
next
  case (Some p)
  obtain req ord where p: "p = (req, ord)" by (cases p)
  obtain e' depth where r: "rest_order req ord e = (e', depth)" by (cases "rest_order req ord e")
  show thesis using that(1) [of req ord depth] submit_accepted [OF _ r, of nd df a] Some p r by simp
qed

text \<open>A submission either is refused, with an error result, no data and the state
  untouched, or appends exactly one order to the batch it names: a valid order (a named side,
  a positive limit and size) under the order id and the trader the chain attributed, every
  other batch and every aggregate unchanged.\<close>

theorem submit_effect:
  "case processSubmitOrder nd a df e of (e', ar) \<Rightarrow>
      (ar_status ar = 0 \<and> e' = e \<and> ar_data ar = [])
    \<or> (ar_status ar = 1 \<and> (\<exists>req ord.
          n_decode_submit nd SubmitOrderMessageArg (df_original_message df) = Inr req
        \<and> order_ok ord \<and> o_id ord = sr_order_id req \<and> o_trader ord = sr_trader req
        \<and> book_at e' = (book_at e)(sr_batch_id req := book_at e (sr_batch_id req) @ [ord])
        \<and> currentBatchID e' = (if currentBatchID e = 0 then sr_batch_id req else currentBatchID e)
        \<and> batchesSettled e' = batchesSettled e \<and> lastClearing e' = lastClearing e
        \<and> lastMatchedBase e' = lastMatchedBase e))"
proof (cases rule: submit_cases [of nd df e a])
  case (1 req ord depth)
  then show ?thesis
    using opened_order_ok [OF 1(1)] rest_order_facts [OF 1(2)]
    by (auto split: prod.splits simp: fun_eq_iff)
next
  case 2
  then show ?thesis by (cases "processSubmitOrder nd a df e") simp
qed

text \<open>What anyone outside can see of the state: how many orders rest in each batch, and the
  aggregates.\<close>

definition view :: "extension \<Rightarrow> (u64 \<Rightarrow> nat) \<times> u64 \<times> u64 \<times> int \<times> int" where
  "view e = (\<lambda>b. length (book_at e b), currentBatchID e, batchesSettled e, lastClearing e, lastMatchedBase e)"

lemma view_rest_order:
  assumes "view e1 = view e2" "rest_order req o1 e1 = (e1', d1)" "rest_order req o2 e2 = (e2', d2)"
  shows "view e1' = view e2' \<and> d1 = d2"
  using assms(1) rest_order_facts [OF assms(2)] rest_order_facts [OF assms(3)]
  by (auto simp: view_def fun_eq_iff)

lemma view_state: "view e1 = view e2 \<Longrightarrow> stateHandler nd e1 = stateHandler nd e2"
  by (simp add: view_def stateHandler_def stateResponse_def fun_eq_iff)

text \<open>The answers a submission can get: that it was accepted, or one of these refusals. The only
  one with a variable part quotes the decoder of the public message, before anything is opened.\<close>

definition refusal_texts :: "err set" where
  "refusal_texts =
     {''empty ciphertext'', ''order could not be opened'', ''malformed order payload'', ''invalid trader address'',
      ''order trader does not match submitter'', ''invalid side'', ''invalid limit price'', ''invalid size''}"

definition answers_to :: "node \<Rightarrow> DataFixed \<Rightarrow> string set" where
  "answers_to nd df =
     (case n_decode_submit nd SubmitOrderMessageArg (df_original_message df) of
        Inl t \<Rightarrow> {''error: decoding request: '' @ t}
      | Inr req \<Rightarrow> insert ''ok'' ((@) ''error: '' ` refusal_texts))"

lemma fixed_refusals: "''empty ciphertext'' \<in> refusal_texts" "''order could not be opened'' \<in> refusal_texts"
  by (simp_all add: refusal_texts_def)

lemma parse_refusals: "parseSealedOrder nd p req = Inl t \<Longrightarrow> t \<in> refusal_texts"
  by (auto simp: parseSealedOrder_def refusal_texts_def split: option.splits if_splits)

lemma buildResult_log:
  "ar_log (buildResult a df data 0 (Some t)) = ''error: '' @ t" "ar_log (buildResult a df data 1 er) = ''ok''"
  by (simp_all add: buildResult_def)

text \<open>What a submission answers, and does, by the text of its log.\<close>

lemma submit_by_log:
  assumes "processSubmitOrder nd a df e = (e', ar)"
  obtains (refused) t where "ar_log ar = ''error: '' @ t" "''error: '' @ t \<in> answers_to nd df" "e' = e" "ar = buildResult a df [] 0 (Some t)"
  | (accepted) req ord depth where "ar_log ar = ''ok''" "''ok'' \<in> answers_to nd df"
      "n_decode_submit nd SubmitOrderMessageArg (df_original_message df) = Inr req" "rest_order req ord e = (e', depth)"
      "ar = buildResult a df (SubmitOrderResponse_json
         \<lparr>sa_order_id = sr_order_id req, sa_batch_id = sr_batch_id req, sa_accepted = True, sa_book_depth = depth\<rparr>) 1 None"
proof (cases "opened_order nd df")
  case (Some q)
  obtain req ord where q: "q = (req, ord)" by (cases q)
  obtain e1 depth where r: "rest_order req ord e = (e1, depth)" by (cases "rest_order req ord e")
  have req: "n_decode_submit nd SubmitOrderMessageArg (df_original_message df) = Inr req"
    using opened_order_ok(4) Some q by simp
  show thesis
    by (rule accepted [of req ord depth])
      (use submit_accepted [OF _ r, of nd df a] Some q assms req r in \<open>simp_all add: buildResult_log answers_to_def\<close>)
next
  case None
  have "\<exists>t. processSubmitOrder nd a df e = (e, buildResult a df [] 0 (Some t)) \<and> ''error: '' @ t \<in> answers_to nd df"
    using None
    by (auto simp: opened_order_def processSubmitOrder_def and_then_def answers_to_def fixed_refusals
        split: sum.splits if_splits dest: parse_refusals)
  then show thesis using refused assms by (auto simp: buildResult_log)
qed

text \<open>(C8) Orders stay sealed. Take the same submission in two worlds that look alike from outside,
  where the ciphertext opens to different contents, or to none. The answer is \<^verbatim>\<open>ok\<close> or one of
  the fixed refusals, which name the check that failed and none of the terms; a refused
  submission changes nothing. Beyond that choice nothing shows: where both worlds give the
  same answer, and so wherever both accept, the results are byte for byte the same, and so is
  everything the state endpoint shows afterwards.\<close>

theorem submit_reveals_nothing:
  assumes "view e1 = view e2"
    and "processSubmitOrder (nd\<lparr>n_tee := c1\<rparr>) a df e1 = (e1', ar1)"
    and "processSubmitOrder (nd\<lparr>n_tee := c2\<rparr>) a df e2 = (e2', ar2)"
  shows "ar_log ar1 \<in> answers_to nd df \<and> (ar_status ar1 = 1 \<longleftrightarrow> ar_log ar1 = ''ok'') \<and> (ar_status ar1 \<noteq> 1 \<longrightarrow> e1' = e1)
    \<and> (ar_log ar1 = ar_log ar2 \<longrightarrow> ar1 = ar2 \<and> view e1' = view e2' \<and> stateHandler nd e1' = stateHandler nd e2')"
proof -
  have same: "answers_to (nd\<lparr>n_tee := c\<rparr>) df = answers_to nd df" for c by (simp add: answers_to_def)
  from assms(2) show ?thesis
  proof (cases rule: submit_by_log)
    case (refused t)
    from assms(3) have "ar1 = ar2 \<and> view e1' = view e2'" if "ar_log ar1 = ar_log ar2"
      by (cases rule: submit_by_log) (use refused that assms(1) in auto)
    then show ?thesis using refused view_state [of e1' e2' nd] same [of c1] by (simp add: buildResult_def)
  next
    case first: (accepted req o1 d1)
    from assms(3) have "ar1 = ar2 \<and> view e1' = view e2'" if log: "ar_log ar1 = ar_log ar2"
    proof (cases rule: submit_by_log)
      case (refused t)
      then show ?thesis using log first(1) by simp
    next
      case (accepted req' o2 d2)
      then have "rest_order req o2 e2 = (e2', d2)" "req' = req" using first(3) by simp_all
      then show ?thesis using view_rest_order [OF assms(1) first(4)] accepted(5) first(5) by simp
    qed
    then show ?thesis using first(1,2,5) view_state [of e1' e2' nd] same [of c1] by (simp add: buildResult_def)
  qed
qed

lemma demo_opened:
  assumes "0 < limit" "0 < n" "sd = SideBuy \<or> sd = SideSell"
  shows "opened_order (demo_node (demo_tee (sealed_json (demo_sealed sd limit n)))) df = Some (demo_submit,
    \<lparr>o_id = 1, o_trader = 10, o_side = sd, o_limit_price = limit, o_size = n\<rparr>)"
proof -
  have "decode_sealed (sealed_json (demo_sealed sd limit n)) = Some (demo_sealed sd limit n)"
    by (rule decode_sealed_json) (simp_all add: demo_sealed_def plain_eval)
  then show ?thesis
    using assms by (auto simp: opened_order_def demo_node_def demo_submit_def parseSealedOrder_def demo_sealed_def)
qed

theorem submit_reveals_nothing_witness:
  "\<exists>e1 e2 ar.
     processSubmitOrder (demo_node (demo_tee (sealed_json (demo_sealed SideBuy 7 3)))) (demo_action 12) demo_df New = (e1, ar)
   \<and> processSubmitOrder (demo_node (demo_tee (sealed_json (demo_sealed SideSell 9 8)))) (demo_action 12) demo_df New = (e2, ar)
   \<and> book_at e1 5 \<noteq> book_at e2 5 \<and> view e1 = view e2"
proof -
  let ?c = "\<lambda>so. demo_tee (sealed_json so)"
  define o1 :: Order where "o1 = \<lparr>o_id = 1, o_trader = 10, o_side = SideBuy, o_limit_price = 7, o_size = 3\<rparr>"
  define o2 :: Order where "o2 = \<lparr>o_id = 1, o_trader = 10, o_side = SideSell, o_limit_price = 9, o_size = 8\<rparr>"
  have ne: "o1 \<noteq> o2" by (simp add: o1_def o2_def)
  obtain e1 d1 where r1: "rest_order demo_submit o1 New = (e1, d1)" by (cases "rest_order demo_submit o1 New")
  obtain e2 d2 where r2: "rest_order demo_submit o2 New = (e2, d2)" by (cases "rest_order demo_submit o2 New")
  obtain ar1 where s1: "processSubmitOrder (demo_node (?c (demo_sealed SideBuy 7 3))) (demo_action 12) demo_df New = (e1, ar1)"
    "ar_status ar1 = 1"
    using submit_accepted [OF demo_opened [of 7 3 SideBuy, folded o1_def] r1] by fastforce
  obtain ar2 where s2: "processSubmitOrder (demo_node (?c (demo_sealed SideSell 9 8))) (demo_action 12) demo_df New = (e2, ar2)"
    "ar_status ar2 = 1"
    using submit_accepted [OF demo_opened [of 9 8 SideSell, folded o2_def] r2] by fastforce
  have nodes: "demo_node c = (demo_node (demo_tee []))\<lparr>n_tee := c\<rparr>" for c by (simp add: demo_node_def)
  have "ar_log ar1 = ''ok'' \<and> ar_log ar2 = ''ok''"
    using submit_reveals_nothing [OF refl s1(1) [unfolded nodes [of "?c (demo_sealed SideBuy 7 3)"]] s2(1) [unfolded nodes [of "?c (demo_sealed SideSell 9 8)"]]]
      submit_reveals_nothing [OF refl s2(1) [unfolded nodes [of "?c (demo_sealed SideSell 9 8)"]] s1(1) [unfolded nodes [of "?c (demo_sealed SideBuy 7 3)"]]]
      s1(2) s2(2) by blast
  then have "ar1 = ar2 \<and> view e1 = view e2"
    using submit_reveals_nothing [OF refl s1(1) [unfolded nodes [of "?c (demo_sealed SideBuy 7 3)"]] s2(1) [unfolded nodes [of "?c (demo_sealed SideSell 9 8)"]]]
    by simp
  moreover have "book_at e1 5 \<noteq> book_at e2 5"
    using rest_order_facts(1) [OF r1, of 5] rest_order_facts(1) [OF r2, of 5] ne by (simp add: demo_submit_def)
  ultimately show ?thesis using s1(1) s2(1) by blast
qed

section \<open>Running a batch\<close>

text \<open>The paths through the handler.\<close>

lemma run_batch_cases:
  obtains (unchanged) t where "processRunBatch nd a df e = (e, buildResult a df [] 0 (Some t))"
  | (abandoned) req ce where "n_decode_run nd RunBatchMessageArg (df_original_message df) = Inr req"
      "Clear (book_at e (rr_batch_id req)) (rr_ref_price req) (rr_max_deviation_bps req) = Inl ce"
      "processRunBatch nd a df e = (discard (rr_batch_id req) e, buildResult a df [] 0
         (Some (batch_text (rr_batch_id req) ('' not settled: '' @ clear_error_text ce))))"
  | (settled) req s m sig where "n_decode_run nd RunBatchMessageArg (df_original_message df) = Inr req"
      "Clear (book_at e (rr_batch_id req)) (rr_ref_price req) (rr_max_deviation_bps req) = Inr s"
      "EncodeSettlement (n_pack nd) (rr_chain_id req) (rr_venue req) (rr_batch_id req)
         (s_clearing_price s) (s_matched_base s) (s_fills s) = Inr m"
      "Sign (n_tee nd) m = Inr sig"
      "processRunBatch nd a df e = (commit_batch (rr_batch_id req) s e,
         buildResult a df (RunBatchResponse_json nd (run_response req s m sig)) 1 None)"
proof (cases "n_decode_run nd RunBatchMessageArg (df_original_message df)")
  case (Inl t)
  then show thesis using unchanged by (simp add: processRunBatch_def)
next
  case (Inr req)
  let ?b = "rr_batch_id req"
  show thesis
  proof (cases "book_at e ?b = []")
    case True
    then show thesis using Inr unchanged by (simp add: processRunBatch_def)
  next
    case False
    then have run: "processRunBatch nd a df e = finish_batch nd a df req (clear_and_sign nd req (book_at e ?b)) e"
      using Inr by (simp add: processRunBatch_def)
    show thesis
    proof (cases "clear_and_sign nd req (book_at e ?b)")
      case (NotCleared ce)
      then show thesis using Inr run abandoned
        by (auto simp: finish_batch_def clear_and_sign_def split: sum.splits)
    next
      case (NotSigned t)
      then show thesis using unchanged run by (simp add: finish_batch_def)
    next
      case (Settled s m sig)
      then show thesis using Inr run settled
        by (auto simp: finish_batch_def clear_and_sign_def split: sum.splits)
    qed
  qed
qed

text \<open>(C19) What a run does is decided by the request, the batch and the node. A request that does
  not decode and an empty batch are refused with the state untouched. Otherwise the orders of
  the batch are cleared. If they do not clear, the batch is abandoned: exactly its orders go,
  the current batch moves on, nothing is counted or published. If they clear but the
  settlement cannot be encoded or signed, the state is untouched, so the run can be repeated.
  If it is signed, the batch is emptied and counted, the aggregates are those of the
  settlement, the current batch is its successor modulo 2 to the 64, and the reply publishes
  exactly that settlement with its 65-byte signature.\<close>

theorem run_batch_effect:
  "case n_decode_run nd RunBatchMessageArg (df_original_message df) of
     Inl t \<Rightarrow> processRunBatch nd a df e = (e, buildResult a df [] 0 (Some (''decoding request: '' @ t)))
   | Inr req \<Rightarrow>
      (let b = rr_batch_id req; os = book_at e b; e' = fst (processRunBatch nd a df e); ar = snd (processRunBatch nd a df e) in
       if os = [] then e' = e \<and> ar = buildResult a df [] 0 (Some (''batch '' @ u64_text b @ '' is empty''))
       else
        (case Clear os (rr_ref_price req) (rr_max_deviation_bps req) of
           Inl ce \<Rightarrow>
             ar = buildResult a df [] 0 (Some (''batch '' @ u64_text b @ '' not settled: '' @ clear_error_text ce))
             \<and> book_at e' = (book_at e)(b := []) \<and> uint (currentBatchID e') = (uint b + 1) mod 2 ^ 64
             \<and> batchesSettled e' = batchesSettled e \<and> lastClearing e' = lastClearing e \<and> lastMatchedBase e' = lastMatchedBase e
         | Inr s \<Rightarrow>
            (case EncodeSettlement (n_pack nd) (rr_chain_id req) (rr_venue req) b
                    (s_clearing_price s) (s_matched_base s) (s_fills s) of
               Inl t \<Rightarrow> e' = e \<and> ar = buildResult a df [] 0 (Some (''encoding settlement: '' @ t))
             | Inr m \<Rightarrow>
                (case Sign (n_tee nd) m of
                   Inl t \<Rightarrow> e' = e \<and> ar = buildResult a df [] 0 (Some (''signing settlement: '' @ t))
                 | Inr sig \<Rightarrow>
                     ar = buildResult a df (RunBatchResponse_json nd
                       \<lparr>rb_batch_id = b, rb_clearing_price = s_clearing_price s, rb_matched_base = s_matched_base s,
                        rb_fills = s_fills s, rb_settlement = m, rb_signature = sig, rb_unmatched = s_unmatched s\<rparr>) 1 None
                     \<and> length sig = 65
                     \<and> book_at e' = (book_at e)(b := []) \<and> uint (currentBatchID e') = (uint b + 1) mod 2 ^ 64
                     \<and> uint (batchesSettled e') = (uint (batchesSettled e) + 1) mod 2 ^ 64
                     \<and> lastClearing e' = s_clearing_price s \<and> lastMatchedBase e' = s_matched_base s))))"
proof -
  have succ: "uint (w + 1) = (uint w + 1) mod 2 ^ 64" for w :: u64 by (simp add: uint_word_ariths)
  have books: "book_at (discard b e) = (book_at e)(b := [])" "book_at (commit_batch b s e) = (book_at e)(b := [])" for b s
    by (simp_all add: fun_eq_iff)
  have fields: "currentBatchID (discard b e) = b + 1" "batchesSettled (discard b e) = batchesSettled e"
      "lastClearing (discard b e) = lastClearing e" "lastMatchedBase (discard b e) = lastMatchedBase e"
      "currentBatchID (commit_batch b s e) = b + 1" "batchesSettled (commit_batch b s e) = batchesSettled e + 1"
      "lastClearing (commit_batch b s e) = s_clearing_price s" "lastMatchedBase (commit_batch b s e) = s_matched_base s" for b s
    by (simp_all add: discard_def commit_batch_def)
  show ?thesis
    by (auto simp: processRunBatch_def finish_batch_def clear_and_sign_def Let_def books fields succ batch_text_def run_response_def
        tee.signature_length split: sum.splits)
qed

section \<open>Histories\<close>

text \<open>
  One action at a time, each with the answers the node gives while it is handled, so that
  decryption, signing and transport failures may come and go.
\<close>

type_synonym event = "node \<times> Action"

definition enclave_step :: "event \<Rightarrow> extension \<Rightarrow> extension \<times> http_reply" where
  "enclave_step ev e = processAction (fst ev) (snd ev) e"

definition history :: "event list \<Rightarrow> extension" where
  "history evs = fst (run_events enclave_step evs New)"

text \<open>Which handler an action reaches.\<close>

datatype routed = ToSubmit DataFixed | ToRun DataFixed | Refused

definition route :: "node \<Rightarrow> Action \<Rightarrow> routed" where
  "route nd a =
     (case n_parse nd (a_message a) of
        Inl t \<Rightarrow> Refused
      | Inr df \<Rightarrow>
        if df_op_type df \<noteq> n_to_hash nd OPTypeAuction then Refused
        else if df_op_command df = n_to_hash nd OPCommandSubmitOrder then ToSubmit df
        else if df_op_command df = n_to_hash nd OPCommandRunBatch then ToRun df
        else Refused)"

lemma processAction_route:
  "fst (processAction nd a e) =
     (case route nd a of
        ToSubmit df \<Rightarrow> fst (processSubmitOrder nd a df e)
      | ToRun df \<Rightarrow> fst (processRunBatch nd a df e)
      | Refused \<Rightarrow> e)"
  by (simp add: processAction_def processAuction_def route_def split: sum.splits prod.splits)

text \<open>(C20) Only a decodable AUCTION instruction with the command SUBMIT_ORDER or RUN_BATCH can
  change the enclave's state; it is answered with status 200. Every other action is answered
  with 400 (fixed data that does not parse) or 501 (unknown type or command) and leaves the
  state as it was.\<close>

theorem only_known_commands_act:
  "case processAction nd a e of (e', status, body) \<Rightarrow>
     (case route nd a of
        Refused \<Rightarrow> e' = e \<and> (status = (case n_parse nd (a_message a) of Inl t \<Rightarrow> 400 | Inr df \<Rightarrow> 501))
      | ToSubmit df \<Rightarrow> status = 200 \<and> e' = fst (processSubmitOrder nd a df e)
      | ToRun df \<Rightarrow> status = 200 \<and> e' = fst (processRunBatch nd a df e))"
  by (auto simp: processAction_def processAuction_def route_def StatusOK_def StatusBadRequest_def
      StatusNotImplemented_def split: sum.splits prod.splits)

text \<open>Each handler keeps the book well formed.\<close>

lemma book_ok_update: "book_ok e \<Longrightarrow> book_at e' = (book_at e)(b := xs) \<Longrightarrow> \<forall>ord \<in> set xs. order_ok ord \<Longrightarrow> book_ok e'"
  by (auto simp: book_ok_def)

lemma submit_book_ok: "book_ok e \<Longrightarrow> book_ok (fst (processSubmitOrder nd a df e))"
proof (cases rule: submit_cases [of nd df e a])
  case (1 req ord depth)
  assume ok: "book_ok e"
  have "book_at (fst (processSubmitOrder nd a df e)) =
      (book_at e)(sr_batch_id req := book_at e (sr_batch_id req) @ [ord])"
    using rest_order_facts(1) [OF 1(2)] by (simp add: fun_eq_iff)
  then show ?thesis
    by (rule book_ok_update [OF ok]) (use ok opened_order_ok(1) [OF 1(1)] in \<open>auto simp: book_ok_def\<close>)
qed simp

lemma run_book:
  "book_at (fst (processRunBatch nd a df e)) = book_at e
    \<or> (\<exists>req. n_decode_run nd RunBatchMessageArg (df_original_message df) = Inr req
        \<and> book_at (fst (processRunBatch nd a df e)) = (book_at e)(rr_batch_id req := []))"
  by (cases rule: run_batch_cases [of nd a df e]) (auto simp: fun_eq_iff)

lemma run_book_ok: "book_ok e \<Longrightarrow> book_ok (fst (processRunBatch nd a df e))"
  using run_book [of nd a df e] by (auto simp: book_ok_def split: if_splits)

definition reply_ok :: "event \<Rightarrow> http_reply \<Rightarrow> bool" where
  "reply_ok ev reply \<longleftrightarrow> fst reply \<in> {200, 400, 501}"

interpretation enclave: machine enclave_step book_ok reply_ok
proof unfold_locales
  fix s e s' out
  assume inv: "book_ok s" and st: "enclave_step e s = (s', out)"
  have "s' = fst (processAction (fst e) (snd e) s)" using st by (simp add: enclave_step_def)
  then show "book_ok s'"
    using inv submit_book_ok run_book_ok by (auto simp: processAction_route split: routed.splits)
  show "reply_ok e out"
    using st by (auto simp: reply_ok_def enclave_step_def processAction_def processAuction_def
        StatusOK_def StatusBadRequest_def StatusNotImplemented_def split: sum.splits prod.splits if_splits)
qed

lemma history_snoc: "history (evs @ [ev]) = fst (enclave_step ev (history evs))"
  by (simp add: history_def run_events_append split: prod.splits)

lemma history_Nil [simp]: "history [] = New"
  by (simp add: history_def)

text \<open>The book invariant: after any history of actions, with any behaviour of the node
  and its sign server, every resting order has a named side, a positive limit price and a
  positive size, and every reply had one of the statuses 200, 400 and 501.\<close>

theorem history_book_ok:
  "book_ok (history evs) \<and> list_all2 reply_ok evs (snd (run_events enclave_step evs New))"
  using enclave.run_inv [OF book_ok_New] enclave.run_allowed [OF book_ok_New]
  by (metis history_def prod.collapse)

text \<open>The orders a history opened for a batch, in the order of the submissions.\<close>

definition submission :: "u64 \<Rightarrow> event \<Rightarrow> Order list" where
  "submission b ev =
     (case route (fst ev) (snd ev) of
        ToSubmit df \<Rightarrow> (case opened_order (fst ev) df of
            Some (req, ord) \<Rightarrow> if sr_batch_id req = b then [ord] else []
          | None \<Rightarrow> [])
      | _ \<Rightarrow> [])"

definition submissions :: "u64 \<Rightarrow> event list \<Rightarrow> Order list" where
  "submissions b evs = concat (map (submission b) evs)"

lemma step_book:
  "book_at (fst (enclave_step ev e)) b = book_at e b @ submission b ev
    \<or> (book_at (fst (enclave_step ev e)) b = [] \<and> submission b ev = [])"
proof (cases "route (fst ev) (snd ev)")
  case (ToSubmit df)
  show ?thesis
  proof (cases rule: submit_cases [of "fst ev" df e "snd ev"])
    case (1 req ord depth)
    then show ?thesis
      using ToSubmit rest_order_facts(1) [OF 1(2)]
      by (simp add: enclave_step_def processAction_route submission_def)
  next
    case 2
    then show ?thesis using ToSubmit by (simp add: enclave_step_def processAction_route submission_def)
  qed
next
  case (ToRun df)
  then show ?thesis
    using run_book [of "fst ev" "snd ev" df e]
    by (auto simp: enclave_step_def processAction_route submission_def)
next
  case Refused
  then show ?thesis by (simp add: enclave_step_def processAction_route submission_def)
qed

lemma book_suffix:
  "\<exists>k. book_at (history evs) b = drop k (submissions b evs)"
proof (induction evs rule: rev_induct)
  case Nil
  then show ?case by (simp add: submissions_def)
next
  case (snoc ev evs)
  then obtain k where k: "book_at (history evs) b = drop k (submissions b evs)" by blast
  let ?all = "submissions b (evs @ [ev])"
  have all: "?all = submissions b evs @ submission b ev" by (simp add: submissions_def)
  show ?case
    using step_book [of ev "history evs" b] unfolding history_snoc
  proof
    assume "book_at (fst (enclave_step ev (history evs))) b = book_at (history evs) b @ submission b ev"
    then have "book_at (fst (enclave_step ev (history evs))) b =
        drop (min k (length (submissions b evs))) ?all"
      using k all by (simp add: min_def)
    then show "\<exists>k. book_at (fst (enclave_step ev (history evs))) b = drop k ?all" by blast
  next
    assume "book_at (fst (enclave_step ev (history evs))) b = [] \<and> submission b ev = []"
    then have "book_at (fst (enclave_step ev (history evs))) b = drop (length ?all) ?all" by simp
    then show "\<exists>k. book_at (fst (enclave_step ev (history evs))) b = drop k ?all" by blast
  qed
qed

text \<open>Whether an event ends the batch, given the orders in it: a run for it that settles it or
  abandons it. The orders that rest are then those submitted since.\<close>

definition ends_batch :: "u64 \<Rightarrow> event \<Rightarrow> Order list \<Rightarrow> bool" where
  "ends_batch b ev os \<longleftrightarrow>
     (case route (fst ev) (snd ev) of
        ToRun df \<Rightarrow>
          (case n_decode_run (fst ev) RunBatchMessageArg (df_original_message df) of
             Inl t \<Rightarrow> False
           | Inr req \<Rightarrow> rr_batch_id req = b \<and> os \<noteq> [] \<and>
               (case clear_and_sign (fst ev) req os of NotSigned t \<Rightarrow> False | _ \<Rightarrow> True))
      | _ \<Rightarrow> False)"

fun resting :: "u64 \<Rightarrow> event list \<Rightarrow> Order list \<Rightarrow> Order list" where
  "resting b [] os = os"
| "resting b (ev # evs) os = resting b evs (if ends_batch b ev os then [] else os @ submission b ev)"

lemma resting_snoc: "resting b (evs @ [ev]) os =
    (let os' = resting b evs os in if ends_batch b ev os' then [] else os' @ submission b ev)"
  by (induction b evs os rule: resting.induct) (simp_all add: Let_def)

lemma step_book_exact:
  "book_at (fst (enclave_step ev e)) b = (if ends_batch b ev (book_at e b) then [] else book_at e b @ submission b ev)"
proof (cases "route (fst ev) (snd ev)")
  case (ToSubmit df)
  show ?thesis
  proof (cases rule: submit_cases [of "fst ev" df e "snd ev"])
    case (1 req ord depth)
    then show ?thesis
      using ToSubmit rest_order_facts(1) [OF 1(2)]
      by (simp add: enclave_step_def processAction_route submission_def ends_batch_def)
  next
    case 2
    then show ?thesis using ToSubmit by (simp add: enclave_step_def processAction_route submission_def ends_batch_def)
  qed
next
  case (ToRun df)
  then show ?thesis
    by (auto simp: enclave_step_def processAction_route submission_def ends_batch_def processRunBatch_def finish_batch_def Let_def
        split: sum.splits outcome.splits)
next
  case Refused
  then show ?thesis by (simp add: enclave_step_def processAction_route submission_def ends_batch_def)
qed

lemma book_resting: "book_at (history evs) b = resting b evs []"
  by (induction evs rule: rev_induct) (simp_all add: resting_snoc step_book_exact history_snoc Let_def)

lemma resting_quiet:
  "\<forall>pre ev post. evs = pre @ ev # post \<longrightarrow> \<not> ends_batch b ev (resting b pre os) \<Longrightarrow> resting b evs os = os @ submissions b evs"
proof (induction evs rule: rev_induct)
  case (snoc ev evs)
  then have "resting b evs os = os @ submissions b evs" by (metis append_assoc append_Cons)
  moreover have "\<not> ends_batch b ev (resting b evs os)" using snoc.prems by blast
  ultimately show ?case by (simp add: resting_snoc submissions_def)
qed (simp add: submissions_def)

text \<open>(C18) The book of a batch is the list of the orders accepted into it since it last ended, in
  their order of arrival: after any history it is what is left of the submissions when each
  run that settled or abandoned the batch removes all of them and nothing else removes any.
  In particular it is a final segment of all submissions, all of them while the batch has
  never ended, and every order in it is valid. Other batches play no part.\<close>

theorem book_is_recent_submissions:
  "book_at (history evs) b = resting b evs []
    \<and> (\<exists>k. book_at (history evs) b = drop k (submissions b evs) \<and> list_all order_ok (drop k (submissions b evs)))
    \<and> ((\<forall>pre ev post. evs = pre @ ev # post \<longrightarrow> \<not> ends_batch b ev (book_at (history pre) b)) \<longrightarrow>
         book_at (history evs) b = submissions b evs)"
proof -
  have "\<exists>k. book_at (history evs) b = drop k (submissions b evs) \<and> list_all order_ok (drop k (submissions b evs))"
    using book_suffix [of evs b] enclave.run_inv [OF book_ok_New, of evs]
    by (metis book_ok_def history_def list_all_iff prod.collapse)
  then show ?thesis using resting_quiet [of evs b "[]"] by (simp add: book_resting)
qed

lemma book_suffix_step:
  "book_at (fst (run_events enclave_step evs e)) b = [] \<or> submissions b evs \<noteq> []" if "book_at e b = []"
  using that
proof (induction evs arbitrary: e)
  case (Cons ev evs)
  let ?e1 = "fst (enclave_step ev e)"
  show ?case
  proof (cases "submission b ev")
    case Nil
    then have "book_at ?e1 b = []" using step_book [of ev e b] Cons.prems by auto
    then show ?thesis using Cons.IH [of ?e1] Nil by (auto simp: submissions_def split: prod.splits)
  qed (simp add: submissions_def)
qed simp

text \<open>(C12) A batch is signed once: after it has settled, and for as long as no new order is
  accepted into it, another RUN_BATCH for it, whatever happened in between and whatever the
  node answers, changes nothing and reports an empty batch.\<close>

theorem settled_batch_is_closed:
  assumes "processRunBatch nd a df (history evs) = (e1, ar)" "ar_status ar = 1"
    and "n_decode_run nd RunBatchMessageArg (df_original_message df) = Inr req"
    and "submissions (rr_batch_id req) later = []"
    and "n_decode_run nd' RunBatchMessageArg (df_original_message df') = Inr req'"
    and "rr_batch_id req' = rr_batch_id req"
    and "e2 = fst (run_events enclave_step later e1)"
  shows "processRunBatch nd' a' df' e2 =
    (e2, buildResult a' df' [] 0 (Some (''batch '' @ u64_text (rr_batch_id req) @ '' is empty'')))"
proof -
  have "book_at e1 (rr_batch_id req) = []"
    using assms(1-3) by (cases rule: run_batch_cases [of nd a df "history evs"]) auto
  then have "book_at e2 (rr_batch_id req') = []"
    using book_suffix_step [of e1 "rr_batch_id req" later] assms(4,6,7) by auto
  then show ?thesis using assms(5,6) by (simp add: processRunBatch_def batch_text_def)
qed


section \<open>A concrete history\<close>

definition demo_event :: "side \<Rightarrow> event" where
  "demo_event sd = (demo_node (demo_tee (sealed_json (demo_sealed sd (2 * PriceScale) 3))), demo_action 12)"

definition demo_pair :: "Order list" where
  "demo_pair = map (\<lambda>sd. \<lparr>o_id = 1, o_trader = 10, o_side = sd, o_limit_price = 2 * PriceScale, o_size = 3\<rparr>)
     [SideBuy, SideSell]"

lemma demo_route: "route (demo_node c) (demo_action 12) = ToSubmit \<lparr>df_op_type = 7, df_op_command = 12,
    df_original_message = replicate 12 CHR ''m''\<rparr>"
  by (simp add: route_def demo_node_def demo_action_def OPTypeAuction_def OPCommandSubmitOrder_def)

lemma demo_event_step:
  assumes "sd = SideBuy \<or> sd = SideSell"
  shows "book_at (fst (enclave_step (demo_event sd) e)) 5 = book_at e 5 @
    [\<lparr>o_id = 1, o_trader = 10, o_side = sd, o_limit_price = 2 * PriceScale, o_size = 3\<rparr>]"
proof -
  let ?ord = "\<lparr>o_id = 1, o_trader = 10, o_side = sd, o_limit_price = 2 * PriceScale, o_size = 3\<rparr>"
  obtain e' d where r: "rest_order demo_submit ?ord e = (e', d)" by (cases "rest_order demo_submit ?ord e")
  have "0 < 2 * PriceScale" by simp
  then show ?thesis
    using submit_accepted [OF demo_opened [of "2 * PriceScale" 3 sd, OF _ _ assms] r] rest_order_facts(1) [OF r, of 5]
    by (simp add: enclave_step_def demo_event_def processAction_route demo_route) (simp add: demo_submit_def)
qed

lemma demo_history: "book_at (history [demo_event SideBuy, demo_event SideSell]) 5 = demo_pair"
  using history_snoc [of "[demo_event SideBuy]" "demo_event SideSell"] history_snoc [of "[]" "demo_event SideBuy"]
  by (simp add: demo_event_step demo_pair_def)

definition demo_pair_settlement :: Settlement where
  "demo_pair_settlement = \<lparr>s_clearing_price = 2 * PriceScale, s_matched_base = 3,
     s_fills = [\<lparr>fl_trader = 10, fl_base_delta = 0, fl_quote_delta = 0\<rparr>], s_unmatched = 0\<rparr>"

lemma demo_pair_clear: "Clear demo_pair (Some (2 * PriceScale)) 500 = Inr demo_pair_settlement"
  by (simp add: demo_pair_def demo_pair_settlement_def clear_eval PriceScale_def)

lemma demo_pair_run:
  "processRunBatch (demo_node (demo_tee [])) (demo_action 9) demo_df (history [demo_event SideBuy, demo_event SideSell]) =
    (commit_batch 5 demo_pair_settlement (history [demo_event SideBuy, demo_event SideSell]),
     buildResult (demo_action 9) demo_df
       (RunBatchResponse_json (demo_node (demo_tee [])) (run_response demo_run demo_pair_settlement ''m'' demo_signature)) 1 None)"
proof -
  let ?nd = "demo_node (demo_tee [])"
  have nd: "n_decode_run ?nd t b = Inr demo_run" "n_pack ?nd l x = Inr ''m''" "n_tee ?nd = demo_tee []" for t b l x
    by (simp_all add: demo_node_def)
  have run: "rr_batch_id demo_run = 5" "rr_ref_price demo_run = Some (2 * PriceScale)" "rr_max_deviation_bps demo_run = 500"
    by (simp_all add: demo_run_def)
  have "demo_pair \<noteq> []" by (simp add: demo_pair_def)
  then show ?thesis
    by (simp add: processRunBatch_def nd run demo_history finish_batch_def clear_and_sign_def demo_pair_clear EncodeSettlement_def)
qed

theorem book_is_recent_submissions_witness:
  "submissions 5 [demo_event SideBuy, demo_event SideSell] = demo_pair"
proof -
  have quiet: "\<not> ends_batch b (demo_event sd) os" for b sd os
    by (simp add: ends_batch_def demo_event_def demo_route)
  have "book_at (history [demo_event SideBuy, demo_event SideSell]) 5 = submissions 5 [demo_event SideBuy, demo_event SideSell]"
    using book_is_recent_submissions [of "[demo_event SideBuy, demo_event SideSell]" 5] quiet
    by (metis list.set_intros(1) in_set_conv_decomp set_ConsD empty_iff empty_set)
  then show ?thesis by (simp add: demo_history)
qed

theorem settled_batch_is_closed_witness:
  "\<exists>e1 ar. processRunBatch (demo_node (demo_tee [])) (demo_action 9) demo_df
       (history [demo_event SideBuy, demo_event SideSell]) = (e1, ar) \<and> ar_status ar = 1
   \<and> processRunBatch (demo_node (demo_tee [])) (demo_action 9) demo_df e1 =
       (e1, buildResult (demo_action 9) demo_df [] 0 (Some ''batch 5 is empty''))"
proof -
  have "n_decode_run (demo_node (demo_tee [])) RunBatchMessageArg (df_original_message demo_df) = Inr demo_run"
    by (simp add: demo_node_def)
  note closed = settled_batch_is_closed [OF demo_pair_run _ this _ this refl, of "[]", simplified]
  have "u64_text 5 = ''5''" by (simp add: u64_text_def dec_nat.simps [of 5] digit_char_5)
  then show ?thesis using demo_pair_run closed by (simp add: submissions_def demo_run_def)
qed

end
