(* ===== verification/Extension_Conc.thy ===== *)
theory Extension_Conc
  imports Enclave "HOL-Library.Sublist"
begin

text \<open>
  The handlers run in goroutines of one HTTP server and take the extension's lock only for
  their critical sections. A submission has one; a run of a batch has two, and clears,
  encodes and signs between them with the lock released. This theory is the interleaving of
  those sections as a step relation, with and without the serialisation that
  \<^verbatim>\<open>docs/extension-contract.md\<close> promises, and what each of the two gives.
\<close>

section \<open>Interleaved handlers\<close>

text \<open>
  Beside the shared state: the runs between their two critical sections, each with the
  orders it read; and, as history, the orders accepted, the orders that finished runs took
  out (settled or abandoned), and the runs that released a settlement, each with the orders it
  cleared, in order of completion.
\<close>

type_synonym running = "node \<times> RunBatchRequest \<times> Order list"

record conc =
  c_ext :: extension
  c_pending :: "running list"
  c_accepted :: "u64 \<Rightarrow> Order list"
  c_taken :: "u64 \<Rightarrow> Order list"
  c_settled :: "(RunBatchRequest \<times> Order list \<times> Settlement) list"

definition c_released :: "conc \<Rightarrow> (u64 \<times> Settlement) list" where
  "c_released c = map (\<lambda>(req, orders, s). (rr_batch_id req, s)) (c_settled c)"

definition conc_init :: conc where
  "conc_init = \<lparr>c_ext = New, c_pending = [], c_accepted = (\<lambda>_. []), c_taken = (\<lambda>_. []), c_settled = []\<rparr>"

definition log_taken :: "u64 \<Rightarrow> Order list \<Rightarrow> conc \<Rightarrow> conc" where
  "log_taken b orders c = c\<lparr>c_taken := (c_taken c)(b := c_taken c b @ orders)\<rparr>"

text \<open>With \<open>serial\<close>, a handler may start only when none is between its critical sections.\<close>

inductive conc_step :: "bool \<Rightarrow> conc \<Rightarrow> conc \<Rightarrow> bool" for serial where
  submit: "conc_step serial c
      (c\<lparr>c_ext := e', c_accepted := (c_accepted c)(sr_batch_id req := c_accepted c (sr_batch_id req) @ [ord])\<rparr>)"
    if "serial \<longrightarrow> c_pending c = []" "opened_order nd df = Some (req, ord)" "rest_order req ord (c_ext c) = (e', depth)"
| read_orders: "conc_step serial c (c\<lparr>c_pending := c_pending c @ [(nd, req, orders)]\<rparr>)"
    if "serial \<longrightarrow> c_pending c = []" "orders = book_at (c_ext c) (rr_batch_id req)" "orders \<noteq> []"
| settle: "conc_step serial c
      (log_taken (rr_batch_id req) orders
        (c\<lparr>c_ext := commit_batch (rr_batch_id req) s (c_ext c), c_pending := ps @ qs,
           c_settled := c_settled c @ [(req, orders, s)]\<rparr>))"
    if "c_pending c = ps @ (nd, req, orders) # qs" "clear_and_sign nd req orders = Settled s m sig"
| abandon: "conc_step serial c
      (log_taken (rr_batch_id req) orders
        (c\<lparr>c_ext := discard (rr_batch_id req) (c_ext c), c_pending := ps @ qs\<rparr>))"
    if "c_pending c = ps @ (nd, req, orders) # qs" "clear_and_sign nd req orders = NotCleared ce"
| give_up: "conc_step serial c (c\<lparr>c_pending := ps @ qs\<rparr>)"
    if "c_pending c = ps @ (nd, req, orders) # qs" "clear_and_sign nd req orders = NotSigned t"

inductive reachable :: "bool \<Rightarrow> conc \<Rightarrow> bool" for serial where
  start: "reachable serial conc_init"
| more: "reachable serial c \<Longrightarrow> conc_step serial c c' \<Longrightarrow> reachable serial c'"

inductive_cases conc_stepE: "conc_step serial c c'"

section \<open>What holds however the handlers interleave\<close>

text \<open>
  The book of a batch is always a final segment of the orders accepted into it, so what a run
  reads is a segment of them: genuine orders, in their order of arrival, none of them twice.
\<close>

definition run_ok :: "(u64 \<Rightarrow> Order list) \<Rightarrow> RunBatchRequest \<Rightarrow> Order list \<Rightarrow> bool" where
  "run_ok accepted req orders \<longleftrightarrow>
     orders \<noteq> [] \<and> list_all order_ok orders \<and> sublist orders (accepted (rr_batch_id req))"

definition conc_ok :: "conc \<Rightarrow> bool" where
  "conc_ok c \<longleftrightarrow> book_ok (c_ext c) \<and> (\<forall>b. suffix (book_at (c_ext c) b) (c_accepted c b))
     \<and> (\<forall>(nd, req, orders) \<in> set (c_pending c). run_ok (c_accepted c) req orders)
     \<and> (\<forall>(req, orders, s) \<in> set (c_settled c). run_ok (c_accepted c) req orders
          \<and> Clear orders (rr_ref_price req) (rr_max_deviation_bps req) = Inr s)"

lemma run_ok_accept:
  assumes "run_ok accepted req orders"
  shows "run_ok (accepted(b := accepted b @ os)) req orders"
proof -
  have "sublist orders (accepted (rr_batch_id req) @ os)" if "rr_batch_id req = b"
    using assms sublist_order.order_trans [of orders "accepted (rr_batch_id req)"] by (simp add: run_ok_def)
  then show ?thesis using assms by (auto simp: run_ok_def simp del: sublist_append)
qed

lemma log_taken_fields [simp]:
  "c_accepted (log_taken b os c) = c_accepted c" "c_ext (log_taken b os c) = c_ext c"
  "c_pending (log_taken b os c) = c_pending c" "c_settled (log_taken b os c) = c_settled c"
  by (simp_all add: log_taken_def)

lemma conc_okD:
  assumes "conc_ok c"
  shows "book_ok (c_ext c)" "suffix (book_at (c_ext c) b) (c_accepted c b)"
    and "(nd, req, orders) \<in> set (c_pending c) \<Longrightarrow> run_ok (c_accepted c) req orders"
    and "(req, orders, s) \<in> set (c_settled c) \<Longrightarrow> run_ok (c_accepted c) req orders
      \<and> Clear orders (rr_ref_price req) (rr_max_deviation_bps req) = Inr s"
  using assms unfolding conc_ok_def by (blast, blast, blast, blast)

lemma conc_okI:
  assumes "book_ok (c_ext c)" "\<And>b. suffix (book_at (c_ext c) b) (c_accepted c b)"
    and "\<And>nd req orders. (nd, req, orders) \<in> set (c_pending c) \<Longrightarrow> run_ok (c_accepted c) req orders"
    and "\<And>req orders s. (req, orders, s) \<in> set (c_settled c) \<Longrightarrow> run_ok (c_accepted c) req orders
      \<and> Clear orders (rr_ref_price req) (rr_max_deviation_bps req) = Inr s"
  shows "conc_ok c"
  using assms unfolding conc_ok_def by blast

text \<open>Emptying a batch and finishing the run that read it.\<close>

lemma conc_ok_finish:
  assumes ok: "conc_ok c" and book: "book_at (c_ext c') = (book_at (c_ext c))(b := [])" "c_accepted c' = c_accepted c"
    and pend: "set (c_pending c') \<subseteq> set (c_pending c)"
    and new: "\<And>req orders s. (req, orders, s) \<in> set (c_settled c') \<Longrightarrow> (req, orders, s) \<notin> set (c_settled c) \<Longrightarrow>
      run_ok (c_accepted c) req orders \<and> Clear orders (rr_ref_price req) (rr_max_deviation_bps req) = Inr s"
  shows "conc_ok c'"
proof (rule conc_okI)
  show "book_ok (c_ext c')" using conc_okD(1) [OF ok] book(1) by (auto simp: book_ok_def split: if_splits)
  show "suffix (book_at (c_ext c') b') (c_accepted c' b')" for b'
    using conc_okD(2) [OF ok, of b'] book by simp
  show "run_ok (c_accepted c') req orders" if "(nd, req, orders) \<in> set (c_pending c')" for nd req orders
    using conc_okD(3) [OF ok subsetD [OF pend that]] book(2) by simp
  show "run_ok (c_accepted c') req orders \<and> Clear orders (rr_ref_price req) (rr_max_deviation_bps req) = Inr s"
    if "(req, orders, s) \<in> set (c_settled c')" for req orders s
    using conc_okD(4) [OF ok] new [OF that] book(2) by (cases "(req, orders, s) \<in> set (c_settled c)") simp_all
qed

lemma conc_ok_step: "conc_step serial c c' \<Longrightarrow> conc_ok c \<Longrightarrow> conc_ok c'"
proof (induction rule: conc_step.induct)
  case (submit c nd df req ord e' depth)
  let ?b = "sr_batch_id req"
  let ?c' = "c\<lparr>c_ext := e', c_accepted := (c_accepted c)(?b := c_accepted c ?b @ [ord])\<rparr>"
  note ok = conc_okD [OF submit(4)]
  have book: "book_at e' = (book_at (c_ext c))(?b := book_at (c_ext c) ?b @ [ord])"
    using rest_order_facts(1) [OF submit(3)] by (simp add: fun_eq_iff)
  show ?case
  proof (rule conc_okI)
    show "book_ok (c_ext ?c')"
      using book_ok_update [OF ok(1) book] ok(1) opened_order_ok(1) [OF submit(2)] by (auto simp: book_ok_def)
    show "suffix (book_at (c_ext ?c') b) (c_accepted ?c' b)" for b
      using ok(2) [of b] by (cases "b = ?b") (simp_all add: book)
    show "run_ok (c_accepted ?c') r os" if "(nd, r, os) \<in> set (c_pending ?c')" for nd r os
      using that ok(3) run_ok_accept by simp
    show "run_ok (c_accepted ?c') r os \<and> Clear os (rr_ref_price r) (rr_max_deviation_bps r) = Inr s"
      if "(r, os, s) \<in> set (c_settled ?c')" for r os s
      using that ok(4) run_ok_accept by simp
  qed
next
  case (read_orders c orders req nd)
  note ok = conc_okD [OF read_orders(4)]
  have "list_all order_ok orders" using ok(1) read_orders(2) by (auto simp: book_ok_def list_all_iff)
  moreover have "sublist orders (c_accepted c (rr_batch_id req))"
    using ok(2) [of "rr_batch_id req"] read_orders(2) by (simp add: suffix_imp_sublist)
  ultimately have run: "run_ok (c_accepted c) req orders" using read_orders(3) by (simp add: run_ok_def)
  show ?case
  proof (rule conc_okI)
    show "run_ok (c_accepted (c\<lparr>c_pending := c_pending c @ [(nd, req, orders)]\<rparr>)) r os"
      if "(n, r, os) \<in> set (c_pending (c\<lparr>c_pending := c_pending c @ [(nd, req, orders)]\<rparr>))" for n r os
      using that ok(3) run by auto
  qed (use ok in simp_all)
next
  case (settle c ps nd req orders qs s m sig)
  have new: "Clear orders (rr_ref_price req) (rr_max_deviation_bps req) = Inr s"
    using settle(2) by (auto simp: clear_and_sign_def split: sum.splits)
  have run: "run_ok (c_accepted c) req orders" using settle(1) by (intro conc_okD(3) [OF settle(3), of nd]) simp
  show ?case
    by (rule conc_ok_finish [OF settle(3), where b = "rr_batch_id req"]) (use settle(1) new run in \<open>auto simp: fun_eq_iff\<close>)
next
  case (abandon c ps nd req orders qs ce)
  show ?case
    by (rule conc_ok_finish [OF abandon(3), where b = "rr_batch_id req"]) (use abandon(1) in \<open>auto simp: fun_eq_iff\<close>)
next
  case (give_up c ps nd req orders qs t)
  note ok = conc_okD [OF give_up(3)]
  show ?case
  proof (rule conc_okI)
    show "run_ok (c_accepted (c\<lparr>c_pending := ps @ qs\<rparr>)) r os" if "(n, r, os) \<in> set (c_pending (c\<lparr>c_pending := ps @ qs\<rparr>))" for n r os
      using that ok(3) give_up(1) by auto
  qed (use ok in simp_all)
qed

lemma conc_ok_reachable: "reachable serial c \<Longrightarrow> conc_ok c"
proof (induction rule: reachable.induct)
  case start
  show ?case by (simp add: conc_ok_def conc_init_def book_ok_New)
next
  case (more c c')
  then show ?case by (blast intro: conc_ok_step)
qed

section \<open>Serialised handlers\<close>

text \<open>Each order accepted is resting, or was taken by exactly one finished run.\<close>

definition settled_orders :: "u64 \<Rightarrow> conc \<Rightarrow> Order list" where
  "settled_orders b c = concat (map (\<lambda>(req, orders, s). if rr_batch_id req = b then orders else []) (c_settled c))"

definition serial_ok :: "conc \<Rightarrow> bool" where
  "serial_ok c \<longleftrightarrow> (\<forall>b. c_accepted c b = c_taken c b @ book_at (c_ext c) b)
     \<and> (\<forall>b. subseq (settled_orders b c) (c_taken c b))
     \<and> length (c_pending c) \<le> 1
     \<and> (\<forall>(nd, req, orders) \<in> set (c_pending c). orders = book_at (c_ext c) (rr_batch_id req))"

text \<open>Finishing the one run under way, with a settlement (\<open>all\<close>) or without.\<close>

lemma serial_ok_finish:
  assumes ok: "serial_ok c" and pend: "c_pending c = ps @ (nd, req, orders) # qs" and "c_pending c' = ps @ qs"
    and book: "book_at (c_ext c') = (book_at (c_ext c))(rr_batch_id req := [])"
    and took: "c_accepted c' = c_accepted c"
      "c_taken c' = (c_taken c)(rr_batch_id req := c_taken c (rr_batch_id req) @ orders)"
    and out: "c_settled c' = c_settled c @ (if all then [(req, orders, s)] else [])"
  shows "serial_ok c'"
proof -
  have one: "ps = []" "qs = []" "orders = book_at (c_ext c) (rr_batch_id req)"
    using ok pend by (auto simp: serial_ok_def)
  have "subseq (settled_orders b c') (c_taken c' b)" for b
  proof -
    have "subseq (settled_orders b c) (c_taken c b)" using ok by (simp add: serial_ok_def)
    then show ?thesis
      using out took(2) by (auto simp: settled_orders_def list_emb_append_mono subseq_rev_drop_many)
  qed
  moreover have "c_accepted c' b = c_taken c' b @ book_at (c_ext c') b" for b
    using ok one(3) book took by (simp add: serial_ok_def)
  ultimately show ?thesis using one assms(3) by (simp add: serial_ok_def)
qed

lemma serial_ok_step: "conc_step True c c' \<Longrightarrow> serial_ok c \<Longrightarrow> serial_ok c'"
proof (induction rule: conc_step.induct)
  case (submit c nd df req ord e' depth)
  then show ?case using rest_order_facts(1) [OF submit(3)] by (simp add: serial_ok_def settled_orders_def)
next
  case (read_orders c orders req nd)
  then show ?case by (simp add: serial_ok_def settled_orders_def)
next
  case (settle c ps nd req orders qs s m sig)
  show ?case by (rule serial_ok_finish [OF settle(3,1), where all = True and s = s])
      (simp_all add: fun_eq_iff log_taken_def)
next
  case (abandon c ps nd req orders qs ce)
  show ?case by (rule serial_ok_finish [OF abandon(3,1), where all = False]) (simp_all add: fun_eq_iff log_taken_def)
next
  case (give_up c ps nd req orders qs t)
  then show ?case by (auto simp: serial_ok_def settled_orders_def)
qed

lemma serial_ok_reachable: "reachable True c \<Longrightarrow> serial_ok c"
proof (induction rule: reachable.induct)
  case start
  show ?case by (simp add: serial_ok_def conc_init_def settled_orders_def)
next
  case (more c c')
  then show ?case by (blast intro: serial_ok_step)
qed

text \<open>(C7) Settlements spend accepted orders. However the handlers interleave, every settlement
  released is the outcome of \<open>Clear\<close> on a contiguous segment of the orders accepted into its
  batch, under the reference price and tolerance of its request: none is invented, reordered or
  counted twice in it, although the lock was released while it was computed. With the
  serialisation the contract document promises, the settlements of a batch together spend each
  accepted order at most once.\<close>

theorem settlements_spend_accepted:
  assumes "reachable serial c"
  shows "(\<forall>(req, orders, s) \<in> set (c_settled c).
        Clear orders (rr_ref_price req) (rr_max_deviation_bps req) = Inr s \<and> orders \<noteq> []
        \<and> list_all order_ok orders \<and> sublist orders (c_accepted c (rr_batch_id req)))
    \<and> (serial \<longrightarrow> subseq (settled_orders b c) (c_accepted c b))"
proof -
  have "subseq (settled_orders b c) (c_accepted c b)" if serial
  proof -
    have "subseq (settled_orders b c) (c_taken c b)" "c_accepted c b = c_taken c b @ book_at (c_ext c) b"
      using serial_ok_reachable [of c] assms that by (simp_all add: serial_ok_def)
    then show ?thesis by (simp add: subseq_rev_drop_many)
  qed
  moreover have "Clear orders (rr_ref_price req) (rr_max_deviation_bps req) = Inr s \<and> orders \<noteq> []
        \<and> list_all order_ok orders \<and> sublist orders (c_accepted c (rr_batch_id req))"
    if "(req, orders, s) \<in> set (c_settled c)" for req orders s
    using conc_okD(4) [OF conc_ok_reachable [OF assms] that] by (simp add: run_ok_def)
  ultimately show ?thesis by blast
qed

text \<open>(C21) With the serialisation the contract document promises, no order is lost and none is
  cleared twice: for each batch, the accepted orders are, in order of arrival, those taken by
  the runs that finished, each once, followed by those still resting.\<close>

theorem serialised_orders_accounted:
  assumes "reachable True c"
  shows "c_accepted c b = c_taken c b @ book_at (c_ext c) b"
  using serial_ok_reachable [OF assms] by (simp add: serial_ok_def)

text \<open>The two critical sections, one directly after the other, are the handler: from a
  state with no other run under way, reading the orders and finishing the run reaches exactly
  the state \<open>processRunBatch\<close> returns.\<close>

theorem serial_run_refines_handler:
  assumes "n_decode_run nd RunBatchMessageArg (df_original_message df) = Inr req"
    and "book_at (c_ext c) (rr_batch_id req) \<noteq> []" and "c_pending c = []"
  shows "\<exists>c1 c2. conc_step serial c c1 \<and> conc_step serial c1 c2
    \<and> c_ext c2 = fst (processRunBatch nd a df (c_ext c)) \<and> c_pending c2 = []"
proof -
  let ?os = "book_at (c_ext c) (rr_batch_id req)"
  let ?c1 = "c\<lparr>c_pending := c_pending c @ [(nd, req, ?os)]\<rparr>"
  have one: "conc_step serial c ?c1" using assms(2,3) by (intro conc_step.read_orders) simp_all
  have p: "c_pending ?c1 = [] @ (nd, req, ?os) # []" using assms(3) by simp
  have run: "processRunBatch nd a df (c_ext c) = finish_batch nd a df req (clear_and_sign nd req ?os) (c_ext c)"
    using assms(1,2) by (simp add: processRunBatch_def)
  have "\<exists>c2. conc_step serial ?c1 c2 \<and> c_ext c2 = fst (processRunBatch nd a df (c_ext c)) \<and> c_pending c2 = []"
  proof (cases "clear_and_sign nd req ?os")
    case (NotCleared ce)
    then show ?thesis using conc_step.abandon [OF p, of ce serial] unfolding run
      by (intro exI conjI) (assumption, simp_all add: finish_batch_def log_taken_def)
  next
    case (NotSigned t)
    then show ?thesis using conc_step.give_up [OF p, of t serial] unfolding run
      by (intro exI conjI) (assumption, simp_all add: finish_batch_def)
  next
    case (Settled s m sig)
    then show ?thesis using conc_step.settle [OF p, of s m sig serial] unfolding run
      by (intro exI conjI) (assumption, simp_all add: finish_batch_def log_taken_def)
  qed
  with one show ?thesis by blast
qed

section \<open>Without serialisation\<close>

text \<open>Two concrete interleavings of handlers on the book of the concrete history.\<close>

definition demo_buy :: Order where
  "demo_buy = \<lparr>o_id = 1, o_trader = 10, o_side = SideBuy, o_limit_price = 2 * PriceScale, o_size = 3\<rparr>"

definition demo_sell :: Order where
  "demo_sell = demo_buy\<lparr>o_side := SideSell\<rparr>"

definition demo_late :: Order where
  "demo_late = demo_buy\<lparr>o_size := 7\<rparr>"

lemma demo_pair_eq: "demo_pair = [demo_buy, demo_sell]"
  by (simp add: demo_pair_def demo_buy_def demo_sell_def)

lemma demo_opens:
  "opened_order (demo_node (demo_tee (sealed_json (demo_sealed SideBuy (2 * PriceScale) 3)))) df = Some (demo_submit, demo_buy)"
  "opened_order (demo_node (demo_tee (sealed_json (demo_sealed SideSell (2 * PriceScale) 3)))) df = Some (demo_submit, demo_sell)"
  "opened_order (demo_node (demo_tee (sealed_json (demo_sealed SideBuy (2 * PriceScale) 7)))) df = Some (demo_submit, demo_late)"
proof -
  have "0 < 2 * PriceScale" by simp
  then show "opened_order (demo_node (demo_tee (sealed_json (demo_sealed SideBuy (2 * PriceScale) 3)))) df = Some (demo_submit, demo_buy)"
    "opened_order (demo_node (demo_tee (sealed_json (demo_sealed SideSell (2 * PriceScale) 3)))) df = Some (demo_submit, demo_sell)"
    "opened_order (demo_node (demo_tee (sealed_json (demo_sealed SideBuy (2 * PriceScale) 7)))) df = Some (demo_submit, demo_late)"
    by (simp_all add: demo_opened demo_buy_def demo_sell_def demo_late_def)
qed

lemma demo_outcome: "clear_and_sign (demo_node (demo_tee [])) demo_run demo_pair = Settled demo_pair_settlement ''m'' demo_signature"
  by (simp add: clear_and_sign_def demo_run_def demo_pair_clear EncodeSettlement_def) (simp add: demo_node_def)

lemma demo_batch [simp]: "rr_batch_id demo_run = 5" "sr_batch_id demo_submit = 5"
  by (simp_all add: demo_run_def demo_submit_def)

text \<open>A submission that may start, in terms of the book alone.\<close>

lemma submit_reaches:
  assumes "reachable serial c" "serial \<longrightarrow> c_pending c = []" "opened_order nd df = Some (demo_submit, ord)"
  shows "\<exists>c'. reachable serial c' \<and> c_pending c' = c_pending c \<and> c_taken c' = c_taken c
    \<and> c_settled c' = c_settled c \<and> c_accepted c' 5 = c_accepted c 5 @ [ord]
    \<and> book_at (c_ext c') 5 = book_at (c_ext c) 5 @ [ord]"
proof -
  obtain e' d where r: "rest_order demo_submit ord (c_ext c) = (e', d)"
    by (cases "rest_order demo_submit ord (c_ext c)")
  show ?thesis
    using reachable.more [OF assms(1) conc_step.submit [OF assms(2,3) r]] rest_order_facts(1) [OF r, of 5]
    by (intro exI conjI) (assumption, simp_all)
qed

lemma run_starts:
  assumes "reachable serial c" "book_at (c_ext c) 5 = demo_pair" "serial \<longrightarrow> c_pending c = []"
  shows "reachable serial (c\<lparr>c_pending := c_pending c @ [(demo_node (demo_tee []), demo_run, demo_pair)]\<rparr>)"
  by (rule reachable.more [OF assms(1) conc_step.read_orders]) (use assms(2,3) in \<open>simp_all add: demo_pair_def\<close>)

lemma run_ends:
  assumes "reachable serial c" "c_pending c = (demo_node (demo_tee []), demo_run, demo_pair) # qs"
  shows "\<exists>c'. reachable serial c' \<and> c_pending c' = qs \<and> c_taken c' 5 = c_taken c 5 @ demo_pair
    \<and> c_accepted c' = c_accepted c \<and> c_settled c' = c_settled c @ [(demo_run, demo_pair, demo_pair_settlement)]
    \<and> c_released c' = c_released c @ [(5, demo_pair_settlement)]
    \<and> book_at (c_ext c') 5 = []"
  using reachable.more [OF assms(1) conc_step.settle [of c "[]", OF _ demo_outcome]] assms(2)
  by (intro exI conjI) (fastforce, simp_all add: log_taken_def c_released_def)

lemma demo_two_orders:
  "\<exists>c. reachable serial c \<and> c_pending c = [] \<and> c_taken c 5 = [] \<and> c_settled c = []
    \<and> c_accepted c 5 = demo_pair \<and> book_at (c_ext c) 5 = demo_pair"
proof -
  have init: "c_pending conc_init = []" "c_taken conc_init 5 = []" "c_settled conc_init = []"
    "c_accepted conc_init 5 = []" "book_at (c_ext conc_init) 5 = []"
    by (simp_all add: conc_init_def)
  obtain c1 where c1: "reachable serial c1" "c_pending c1 = []" "c_taken c1 5 = []" "c_settled c1 = []"
    "c_accepted c1 5 = [demo_buy]" "book_at (c_ext c1) 5 = [demo_buy]"
    using submit_reaches [OF reachable.start _ demo_opens(1)] init by (metis append_Nil)
  show ?thesis
    using submit_reaches [OF c1(1) _ demo_opens(2)] c1 by (metis append_Cons append_Nil demo_pair_eq)
qed

text \<open>(C22) The lock is released between reading the batch and removing it, so without the
  promised serialisation an accepted order can vanish: it was acknowledged, no settlement
  took it and it does not rest any more. The same batch can also be settled twice, each
  settlement spending the same orders.\<close>

theorem interleaving_loses_orders:
  "(\<exists>c. reachable False c \<and> c_pending c = [] \<and> demo_late \<in> set (c_accepted c 5)
      \<and> demo_late \<notin> set (c_taken c 5) \<and> demo_late \<notin> set (book_at (c_ext c) 5))
   \<and> (\<exists>c s. reachable False c \<and> c_released c = [(5, s), (5, s)] \<and> length (c_accepted c 5) = 2
      \<and> c_taken c 5 = c_accepted c 5 @ c_accepted c 5)"
proof
  obtain c where c: "reachable False c" "c_pending c = []" "c_taken c 5 = []" "c_settled c = []"
    "c_accepted c 5 = demo_pair" "book_at (c_ext c) 5 = demo_pair"
    using demo_two_orders by blast
  let ?run = "(demo_node (demo_tee []), demo_run, demo_pair)"
  note started = run_starts [OF c(1,6)]
  obtain c1 where c1: "reachable False c1" "c_pending c1 = [?run]" "c_taken c1 5 = []"
    "c_accepted c1 5 = demo_pair @ [demo_late]"
    using submit_reaches [OF started _ demo_opens(3)] c by auto
  obtain c2 where "reachable False c2" "c_pending c2 = []" "c_taken c2 5 = demo_pair"
    "c_accepted c2 5 = demo_pair @ [demo_late]" "book_at (c_ext c2) 5 = []"
    using run_ends [OF c1(1,2)] c1 by auto
  moreover have "demo_late \<notin> set demo_pair"
    by (simp add: demo_pair_eq demo_late_def demo_buy_def demo_sell_def)
  ultimately show "\<exists>c. reachable False c \<and> c_pending c = [] \<and> demo_late \<in> set (c_accepted c 5)
      \<and> demo_late \<notin> set (c_taken c 5) \<and> demo_late \<notin> set (book_at (c_ext c) 5)"
    by (metis empty_iff empty_set in_set_conv_decomp)
  have "reachable False (c\<lparr>c_pending := [?run, ?run]\<rparr>)"
    using run_starts [OF started] c by simp
  then obtain c3 where c3: "reachable False c3" "c_pending c3 = [?run]" "c_taken c3 5 = demo_pair"
    "c_accepted c3 5 = demo_pair" "c_released c3 = [(5, demo_pair_settlement)]"
    using run_ends [of False "c\<lparr>c_pending := [?run, ?run]\<rparr>" "[?run]"] c by (auto simp: c_released_def)
  show "\<exists>c s. reachable False c \<and> c_released c = [(5, s), (5, s)] \<and> length (c_accepted c 5) = 2
      \<and> c_taken c 5 = c_accepted c 5 @ c_accepted c 5"
    using run_ends [OF c3(1,2)] c3 by (auto simp: demo_pair_eq)
qed

text \<open>Witnesses: the two orders of the concrete history, serialised.\<close>

theorem settlements_spend_accepted_witness:
  "\<exists>c. reachable True c \<and> c_settled c = [(demo_run, demo_pair, demo_pair_settlement)]
    \<and> sublist demo_pair (c_accepted c 5) \<and> subseq demo_pair (c_accepted c 5)"
proof -
  obtain c where c: "reachable True c" "c_pending c = []" "c_settled c = []" "book_at (c_ext c) 5 = demo_pair"
    using demo_two_orders by blast
  let ?run = "(demo_node (demo_tee []), demo_run, demo_pair)"
  have "reachable True (c\<lparr>c_pending := [?run]\<rparr>)" using run_starts [OF c(1,4)] c(2) by simp
  then obtain c1 where c1: "reachable True c1" "c_settled c1 = [(demo_run, demo_pair, demo_pair_settlement)]"
    using run_ends [of True "c\<lparr>c_pending := [?run]\<rparr>" "[]"] c by auto
  then show ?thesis
    using settlements_spend_accepted [OF c1(1), of 5] by (auto simp: settled_orders_def)
qed

theorem serialised_orders_accounted_witness:
  "\<exists>c. reachable True c \<and> c_accepted c 5 = demo_pair \<and> c_accepted c 5 = c_taken c 5 @ book_at (c_ext c) 5"
  using demo_two_orders [of True] serialised_orders_accounted by blast

theorem serial_run_refines_handler_witness:
  "\<exists>c c1 c2. c_accepted c 5 = demo_pair \<and> conc_step True c c1 \<and> conc_step True c1 c2
    \<and> c_ext c2 = fst (processRunBatch (demo_node (demo_tee [])) (demo_action 9) demo_df (c_ext c))"
proof -
  obtain c :: conc where c: "c_pending c = []" "c_accepted c 5 = demo_pair" "book_at (c_ext c) 5 = demo_pair"
    using demo_two_orders [of True] by blast
  have "n_decode_run (demo_node (demo_tee [])) RunBatchMessageArg (df_original_message demo_df) = Inr demo_run"
    by (simp add: demo_node_def)
  moreover have "book_at (c_ext c) (rr_batch_id demo_run) \<noteq> []" using c(3) by (simp add: demo_pair_def)
  ultimately show ?thesis using serial_run_refines_handler [of _ _ _ c True "demo_action 9"] c(1,2) by blast
qed

end
