(* ===== verification/Report.thy ===== *)
theory Report
  imports Go_Json
begin

text \<open>
  \<^verbatim>\<open>tools/pkg/validate/report.go\<close>: the results of the deployment checks, their
  summary, and the two forms they are printed in. Printing is the text written.
\<close>

section \<open>Results\<close>

text \<open>\<^verbatim>\<open>type Status int\<close> with its four constants, ordered as declared.\<close>

datatype Status = PASS | WARN | FAIL | SKIP

definition status_code :: "Status \<Rightarrow> nat" where
  "status_code s = (case s of PASS \<Rightarrow> 0 | WARN \<Rightarrow> 1 | FAIL \<Rightarrow> 2 | SKIP \<Rightarrow> 3)"

lemma status_code_inj: "status_code s = status_code t \<Longrightarrow> s = t"
  by (cases s; cases t) (simp_all add: status_code_def)

instantiation Status :: linorder
begin

definition less_eq_Status :: "Status \<Rightarrow> Status \<Rightarrow> bool" where
  "less_eq_Status s t \<longleftrightarrow> status_code s \<le> status_code t"

definition less_Status :: "Status \<Rightarrow> Status \<Rightarrow> bool" where
  "less_Status s t \<longleftrightarrow> status_code s < status_code t"

instance
  by standard (auto simp: less_eq_Status_def less_Status_def intro: status_code_inj)

end

definition Status_String :: "Status \<Rightarrow> string" where
  "Status_String s = (case s of PASS \<Rightarrow> ''PASS'' | WARN \<Rightarrow> ''WARN'' | FAIL \<Rightarrow> ''FAIL'' | SKIP \<Rightarrow> ''SKIP'')"

record CheckResult =
  Step :: string
  ID :: string
  Name :: string
  Stat :: Status
  Message :: string
  Fix :: string

type_synonym Results = "CheckResult list"

definition result :: "string \<Rightarrow> string \<Rightarrow> string \<Rightarrow> Status \<Rightarrow> string \<Rightarrow> string \<Rightarrow> CheckResult" where
  "result step ident name st msg fix = \<lparr>Step = step, ID = ident, Name = name, Stat = st, Message = msg, Fix = fix\<rparr>"

lemma result_simps [simp]:
  "Step (result step ident name st msg fix) = step" "ID (result step ident name st msg fix) = ident"
  "Stat (result step ident name st msg fix) = st" "Message (result step ident name st msg fix) = msg"
  "Fix (result step ident name st msg fix) = fix"
  by (simp_all add: result_def)

definition Add :: "Results \<Rightarrow> CheckResult \<Rightarrow> Results" where
  "Add r res = r @ [res]"

fun HasFailures :: "Results \<Rightarrow> bool" where
  "HasFailures [] = False"
| "HasFailures (res # rest) = (if Stat res = FAIL then True else HasFailures rest)"

text \<open>The four counters of \<^verbatim>\<open>Summary\<close>: passed, warning, failed, skipped.\<close>

fun count_statuses :: "Results \<Rightarrow> nat \<times> nat \<times> nat \<times> nat \<Rightarrow> nat \<times> nat \<times> nat \<times> nat" where
  "count_statuses [] counts = counts"
| "count_statuses (res # rest) (passed, warning, failed, skipped) =
     count_statuses rest
       (case Stat res of
          PASS \<Rightarrow> (passed + 1, warning, failed, skipped)
        | WARN \<Rightarrow> (passed, warning + 1, failed, skipped)
        | FAIL \<Rightarrow> (passed, warning, failed + 1, skipped)
        | SKIP \<Rightarrow> (passed, warning, failed, skipped + 1))"

definition Summary :: "Results \<Rightarrow> string" where
  "Summary r =
     (case count_statuses r (0, 0, 0, 0) of (passed, warning, failed, skipped) \<Rightarrow>
        dec_nat passed @ '' passed, '' @ dec_nat warning @ '' warning, '' @
        dec_nat failed @ '' failed, '' @ dec_nat skipped @ '' skipped'')"

section \<open>The terminal report\<close>

definition ansi :: "string \<Rightarrow> string" where
  "ansi code = CHR 0x1B # CHR ''['' # code @ ''m''"

definition colorReset :: string where "colorReset = ansi ''0''"
definition colorRed :: string where "colorRed = ansi ''31''"
definition colorGreen :: string where "colorGreen = ansi ''32''"
definition colorYellow :: string where "colorYellow = ansi ''33''"
definition colorCyan :: string where "colorCyan = ansi ''36''"
definition colorGray :: string where "colorGray = ansi ''90''"

definition stepLabel :: "string \<rightharpoonup> string" where
  "stepLabel = map_of
     [(''deploy'', ''Contract Deployment''),
      (''register'', ''Extension Registration''),
      (''services'', ''Service Startup''),
      (''tee-version'', ''TEE Version Registration''),
      (''tee-machine'', ''TEE Machine Registration''),
      (''test'', ''Testing'')]"

definition statusColor :: "Status \<Rightarrow> string" where
  "statusColor s = (case s of PASS \<Rightarrow> colorGreen | WARN \<Rightarrow> colorYellow | FAIL \<Rightarrow> colorRed | SKIP \<Rightarrow> colorGray)"

text \<open>Unique steps in order of first appearance.\<close>

fun steps_loop :: "string list \<Rightarrow> Results \<Rightarrow> string list" where
  "steps_loop steps [] = steps"
| "steps_loop steps (res # rest) =
     (if Step res \<notin> set steps then steps_loop (steps @ [Step res]) rest else steps_loop steps rest)"

definition nl :: string where "nl = [char_of (10::nat)]"

definition print_result :: "CheckResult \<Rightarrow> string" where
  "print_result res =
     ''  '' @ statusColor (Stat res) @ ''['' @ Status_String (Stat res) @ '']'' @ colorReset @ '' '' @
     ID res @ ''  '' @ Name res @ nl @
     (if Stat res = FAIL \<or> Stat res = WARN then
        (if Message res \<noteq> [] then ''         '' @ Message res @ nl else []) @
        (if Fix res \<noteq> [] then ''         Fix: '' @ Fix res @ nl else [])
      else [])"

definition print_step :: "Results \<Rightarrow> string \<Rightarrow> string" where
  "print_step r step =
     (let label = (case stepLabel step of None \<Rightarrow> [] | Some l \<Rightarrow> l);
          label' = (if label = [] then step else label)
      in label' @ '':'' @ nl @ concat (map print_result (filter (\<lambda>res. Step res = step) r)) @ nl)"

definition Fprint :: "Results \<Rightarrow> string" where
  "Fprint r =
     nl @ colorCyan @ ''=== Deployment Verification Report ==='' @ colorReset @ nl @ nl @
     concat (map (print_step r) (steps_loop [] r)) @ Summary r @ nl"

section \<open>The JSON report\<close>

text \<open>
  \<^verbatim>\<open>encoding/json\<close> escapes quotes, backslashes, control characters, the HTML characters
  and the two Unicode line separators, and replaces invalid UTF-8.
\<close>

definition json_u :: "nat \<Rightarrow> string" where
  "json_u n = CHR 0x5C # CHR ''u'' #
     map (\<lambda>i. hex_char (n div 16 ^ i mod 16)) [3, 2, 1, 0]"

definition escape_ascii :: "char \<Rightarrow> string" where
  "escape_ascii c =
     (if c = CHR 0x22 \<or> c = CHR 0x5C then [CHR 0x5C, c]
      else if code_of c = 8 then [CHR 0x5C, CHR ''b'']
      else if code_of c = 12 then [CHR 0x5C, CHR ''f'']
      else if code_of c = 10 then [CHR 0x5C, CHR ''n'']
      else if code_of c = 13 then [CHR 0x5C, CHR ''r'']
      else if code_of c = 9 then [CHR 0x5C, CHR ''t'']
      else if code_of c < 32 \<or> c = CHR ''<'' \<or> c = CHR ''>'' \<or> c = CHR 0x26 then json_u (code_of c)
      else [c])"

fun json_escape :: "string \<Rightarrow> string" where
  "json_escape [] = []"
| "json_escape (c # cs) =
     (case utf8_len (c # cs) of
        0 \<Rightarrow> json_u 0xFFFD @ json_escape cs
      | Suc k \<Rightarrow>
          (if k = 0 then escape_ascii c @ json_escape cs
           else if c # take k cs = utf8_encode 0x2028 then json_u 0x2028 @ json_escape (drop k cs)
           else if c # take k cs = utf8_encode 0x2029 then json_u 0x2029 @ json_escape (drop k cs)
           else (c # take k cs) @ json_escape (drop k cs)))"

definition json_text :: "string \<Rightarrow> string" where
  "json_text s = json_quote (json_escape s)"

record jsonResult =
  jr_step :: string
  jr_id :: string
  jr_name :: string
  jr_status :: string
  jr_message :: string
  jr_fix :: string

definition to_json_result :: "CheckResult \<Rightarrow> jsonResult" where
  "to_json_result res =
     \<lparr>jr_step = Step res, jr_id = ID res, jr_name = Name res, jr_status = Status_String (Stat res),
      jr_message = trim_space (Message res), jr_fix = trim_space (Fix res)\<rparr>"

text \<open>\<^verbatim>\<open>SetIndent("", "  ")\<close>: one member or element a line; empty message and fix are omitted.\<close>

definition indent_members :: "nat \<Rightarrow> (string \<times> string) list \<Rightarrow> string" where
  "indent_members depth kvs =
     (let pad = nl @ replicate (2 * depth) CHR '' '' in
      CHR 0x7B # join '','' (map (\<lambda>(k, v). pad @ ''  '' @ json_quote k @ '': '' @ v) kvs) @ pad @ [CHR 0x7D])"

definition print_json_result :: "jsonResult \<Rightarrow> string" where
  "print_json_result j = indent_members 2
     ([(''step'', json_text (jr_step j)), (''id'', json_text (jr_id j)), (''name'', json_text (jr_name j)),
       (''status'', json_text (jr_status j))] @
      (if jr_message j = [] then [] else [(''message'', json_text (jr_message j))]) @
      (if jr_fix j = [] then [] else [(''fix'', json_text (jr_fix j))]))"

definition FprintJSON :: "Results \<Rightarrow> string" where
  "FprintJSON r =
     (let elems = map (\<lambda>res. nl @ ''    '' @ print_json_result (to_json_result res)) r;
          arr = (if r = [] then ''[]'' else CHR ''['' # join '','' elems @ nl @ ''  ]'')
      in indent_members 0 [(''results'', arr), (''summary'', json_text (Summary r))] @ nl)"

section \<open>Facts of the report\<close>

lemma HasFailures_iff: "HasFailures r \<longleftrightarrow> (\<exists>res \<in> set r. Stat res = FAIL)"
  by (induction r) auto

lemma HasFailures_append [simp]: "HasFailures (r @ r') \<longleftrightarrow> HasFailures r \<or> HasFailures r'"
  by (auto simp: HasFailures_iff)

definition count_of :: "Status \<Rightarrow> Results \<Rightarrow> nat" where
  "count_of s r = length (filter (\<lambda>res. Stat res = s) r)"

lemma count_statuses_eq:
  "count_statuses r (p, w, f, k) =
     (p + count_of PASS r, w + count_of WARN r, f + count_of FAIL r, k + count_of SKIP r)"
proof (induction r arbitrary: p w f k)
  case Nil
  then show ?case by (simp add: count_of_def)
next
  case (Cons res r)
  then show ?case by (cases "Stat res") (simp_all add: count_of_def)
qed

text \<open>The summary accounts for every result: its four numbers are the numbers of results
  of each status, they add up to the length of the report, and the number of failures is zero
  exactly when \<open>HasFailures\<close> says there is none.\<close>

theorem summary_counts_every_result:
  "case count_statuses r (0, 0, 0, 0) of (passed, warning, failed, skipped) \<Rightarrow>
     passed = count_of PASS r \<and> warning = count_of WARN r \<and> failed = count_of FAIL r \<and>
     skipped = count_of SKIP r \<and> passed + warning + failed + skipped = length r \<and>
     (failed = 0 \<longleftrightarrow> \<not> HasFailures r)"
proof -
  have "count_of PASS r + count_of WARN r + count_of FAIL r + count_of SKIP r = length r"
  proof (induction r)
    case (Cons res r)
    then show ?case by (cases "Stat res") (simp_all add: count_of_def)
  qed (simp add: count_of_def)
  moreover have "count_of FAIL r = 0 \<longleftrightarrow> \<not> HasFailures r"
    by (auto simp: count_of_def HasFailures_iff filter_empty_conv)
  ultimately show ?thesis by (simp add: count_statuses_eq)
qed

lemma steps_loop_spec:
  assumes "distinct steps"
  shows "distinct (steps_loop steps r) \<and> set (steps_loop steps r) = set steps \<union> Step ` set r"
  using assms by (induction steps r rule: steps_loop.induct) auto

text \<open>The results of a report in the order they are printed.\<close>

definition printed :: "Results \<Rightarrow> Results" where
  "printed r = concat (map (\<lambda>step. filter (\<lambda>res. Step res = step) r) (steps_loop [] r))"

lemma sum_filter_partition:
  assumes "distinct ks" "Step ` set r \<subseteq> set ks"
  shows "mset (concat (map (\<lambda>step. filter (\<lambda>res. Step res = step) r) ks)) = mset r"
  using assms
proof (induction ks arbitrary: r)
  case Nil
  then show ?case by simp
next
  case (Cons k ks)
  let ?rest = "filter (\<lambda>res. Step res \<noteq> k) r"
  have "filter (\<lambda>res. Step res = step) r = filter (\<lambda>res. Step res = step) ?rest" if "step \<in> set ks" for step
    using that Cons.prems(1) by (auto intro!: filter_cong)
  then have "concat (map (\<lambda>step. filter (\<lambda>res. Step res = step) r) ks) =
      concat (map (\<lambda>step. filter (\<lambda>res. Step res = step) ?rest) ks)"
    by (metis (mono_tags, lifting) map_eq_conv)
  moreover have "mset (concat (map (\<lambda>step. filter (\<lambda>res. Step res = step) ?rest) ks)) = mset ?rest"
    by (rule Cons.IH) (use Cons.prems in auto)
  ultimately show ?case by (simp only: list.map concat.simps mset_append mset_filter multiset_partition [symmetric])
qed

text \<open>The terminal report prints every result exactly once, grouped by step: its body is
  the text of the steps in order of first appearance, and the results printed under them are
  a permutation of the report.\<close>

theorem report_prints_each_once:
  "mset (printed r) = mset r \<and> distinct (steps_loop [] r) \<and> set (steps_loop [] r) = Step ` set r"
  using steps_loop_spec [of "[]" r] sum_filter_partition [of "steps_loop [] r" r] by (simp add: printed_def)

end
