(* ===== verification/Checks.thy ===== *)
theory Checks
  imports Report
begin

text \<open>
  The deployment checks of \<^verbatim>\<open>tools/pkg/validate/validate.go\<close> and
  \<^verbatim>\<open>tools/pkg/validate/checks.go\<close>. What the checks look at outside the process is
  the record \<open>world\<close>: environment variables, files, TCP and HTTP probes, and the chain,
  where a nil client, registry, allowlist or key is \<open>None\<close>. Every \<^verbatim>\<open>Register\<close> function
  takes the report and returns it with its results appended.
\<close>

section \<open>The world the checks look at\<close>

record chain_client =
  CodeAt :: "address \<Rightarrow> err + bytes"
  BalanceAt :: "address \<Rightarrow> err + int"
  ChainID :: "err + int"

record extension_registry =
  NextPublicExtensionId :: "err + int"
  GetTeeExtensionInstructionsSender :: "int \<Rightarrow> err + address"
  IsKeyTypeSupported :: "int \<Rightarrow> bytes \<Rightarrow> err + bool"

record owner_allowlist =
  IsAllowedTeeMachineOwner :: "int \<Rightarrow> address \<Rightarrow> err + bool"

text \<open>
  \<open>w_open\<close> is \<^verbatim>\<open>os.Open\<close> with the file's content, \<open>w_not_exist\<close> is
  \<^verbatim>\<open>os.IsNotExist\<close> of \<^verbatim>\<open>os.Stat\<close>'s error, \<open>w_get\<close> an HTTP GET with its status;
  \<open>w_quote\<close> is \<^verbatim>\<open>%q\<close>; the other fields are go-ethereum's address functions and the
  tee-node's key type. A private key is known by the bytes that stand for it.
\<close>

type_synonym private_key = bytes

record world =
  w_getenv :: "string \<Rightarrow> string"
  w_open :: "string \<Rightarrow> string option"
  w_not_exist :: "string \<Rightarrow> bool"
  w_dial :: "string \<Rightarrow> bool"
  w_get :: "string \<Rightarrow> err + int"
  w_quote :: "string \<Rightarrow> string"
  w_hex :: "address \<Rightarrow> string"
  w_hex_to_address :: "string \<Rightarrow> address"
  w_account :: "private_key \<Rightarrow> address"
  w_evm_type :: bytes

text \<open>The em dash of the messages, in UTF-8.\<close>

definition dash :: string where
  "dash = [char_of (0xE2::nat), char_of (0x80::nat), char_of (0x94::nat)]"

section \<open>validate.go\<close>

definition MinDeployBalance :: int where
  "MinDeployBalance = 10000000000000000"

definition AddressNotZero :: "world \<Rightarrow> address \<Rightarrow> string \<Rightarrow> err option" where
  "AddressNotZero w addr label =
     (if addr = 0 then Some (label @ '' is the zero address ('' @ w_hex w addr @ '') in the addresses file'')
      else None)"

definition AddressHasCode :: "world \<Rightarrow> chain_client option \<Rightarrow> address \<Rightarrow> string \<Rightarrow> err option" where
  "AddressHasCode w client addr label =
     (case client of
        None \<Rightarrow> Some (''cannot check '' @ label @ '': no chain client connected'')
      | Some c \<Rightarrow>
        (case CodeAt c addr of
           Inl e \<Rightarrow> Some (''cannot check '' @ label @ '': '' @ e)
         | Inr code \<Rightarrow>
           if length code = 0 then
             Some (label @ '' at '' @ w_hex w addr @ '' has no deployed code. '' @
               ''This address will be set as immutable in the contract constructor and cannot be changed. '' @
               ''Check your deployed-addresses.json file '' @ dash @ '' are you on the right network?'')
           else None))"

definition KeyHasFunds :: "world \<Rightarrow> chain_client option \<Rightarrow> private_key \<Rightarrow> int \<Rightarrow> err option" where
  "KeyHasFunds w client key minWei =
     (case client of
        None \<Rightarrow> Some ''cannot check deployer balance: no chain client connected''
      | Some c \<Rightarrow>
        let addr = w_account w key in
        (case BalanceAt c addr of
           Inl e \<Rightarrow> Some (''cannot check deployer balance: '' @ e)
         | Inr balance \<Rightarrow>
           if balance < minWei then
             Some (''deployer '' @ w_hex w addr @ '' has insufficient funds (balance: '' @ big_string balance @
               '' wei, minimum required: '' @ big_string minWei @ '' wei). Fund this account before deploying'')
           else None))"

definition IsUsingDevKey :: "world \<Rightarrow> bool" where
  "IsUsingDevKey w \<longleftrightarrow> w_getenv w ''DEPLOYMENT_PRIVATE_KEY'' = []"

section \<open>The extension.env file\<close>

definition addressRegex :: "string \<Rightarrow> bool" where "addressRegex s \<longleftrightarrow> match_0x_hex 40 s"
definition extensionIDRegex :: "string \<Rightarrow> bool" where "extensionIDRegex s \<longleftrightarrow> match_0x_hex 64 s"

text \<open>One line of the file: blank lines, comments and lines without an equals sign are skipped.\<close>

definition env_line :: "string \<Rightarrow> (string \<times> string) option" where
  "env_line text =
     (let line = trim_space text in
      if line = [] \<or> has_prefix line ''#'' then None
      else (case split_n2 CHR ''='' line of
          (k, Some v) \<Rightarrow> Some (trim_space k, trim_space v)
        | (k, None) \<Rightarrow> None))"

text \<open>The loop of \<open>CheckExtensionEnvFormat\<close>, into a map.\<close>

fun env_vars :: "(string \<rightharpoonup> string) \<Rightarrow> string list \<Rightarrow> (string \<rightharpoonup> string)" where
  "env_vars vars [] = vars"
| "env_vars vars (l # ls) =
     (case env_line l of None \<Rightarrow> env_vars vars ls | Some (k, v) \<Rightarrow> env_vars (vars(k \<mapsto> v)) ls)"

text \<open>The loop of \<open>parseExtensionEnv\<close>, into its two results.\<close>

fun env_pair :: "string \<times> string \<Rightarrow> string list \<Rightarrow> string \<times> string" where
  "env_pair acc [] = acc"
| "env_pair (extensionID, instructionSender) (l # ls) =
     (case env_line l of
        None \<Rightarrow> env_pair (extensionID, instructionSender) ls
      | Some (k, v) \<Rightarrow>
          if k = ''EXTENSION_ID'' then env_pair (v, instructionSender) ls
          else if k = ''INSTRUCTION_SENDER'' then env_pair (extensionID, v) ls
          else env_pair (extensionID, instructionSender) ls)"

text \<open>Its third result, the error, is nil on both returns.\<close>

definition parseExtensionEnv :: "world \<Rightarrow> string \<Rightarrow> string \<times> string \<times> err option" where
  "parseExtensionEnv w path =
     (case w_open w path of
        None \<Rightarrow> ([], [], None)
      | Some content \<Rightarrow>
          (case env_pair ([], []) (scan_lines content) of (i, s) \<Rightarrow> (i, s, None)))"

definition prebuild_fix :: string where
  "prebuild_fix = ''Delete config/extension.env and re-run scripts/pre-build.sh''"

definition env_entry :: "world \<Rightarrow> (string \<rightharpoonup> string) \<Rightarrow> string \<Rightarrow> (string \<Rightarrow> bool) \<Rightarrow> CheckResult" where
  "env_entry w vars key regex =
     (case vars key of
        None \<Rightarrow> result ''deploy'' ''D7'' (key @ '' in extension.env'') FAIL
                  (key @ '' not found in extension.env'') prebuild_fix
      | Some val \<Rightarrow>
          if \<not> regex val then
            result ''deploy'' ''D7'' (key @ '' in extension.env'') FAIL
              (key @ '' has invalid format: '' @ w_quote w val) prebuild_fix
          else result ''deploy'' ''D7'' (key @ '' in extension.env'') PASS val [])"

definition CheckExtensionEnvFormat :: "world \<Rightarrow> string \<Rightarrow> Results" where
  "CheckExtensionEnvFormat w path =
     (case w_open w path of
        None \<Rightarrow> [result ''deploy'' ''D7'' ''extension.env exists'' SKIP (''file not found: '' @ path) []]
      | Some content \<Rightarrow>
          let vars = env_vars Map.empty (scan_lines content) in
          [env_entry w vars ''INSTRUCTION_SENDER'' addressRegex, env_entry w vars ''EXTENSION_ID'' extensionIDRegex])"

section \<open>Step 1: contract deployment\<close>

definition CheckDeployerKeySource :: "world \<Rightarrow> CheckResult" where
  "CheckDeployerKeySource w =
     (let privKey = w_getenv w ''DEPLOYMENT_PRIVATE_KEY'' in
      if privKey \<noteq> [] then
        result ''deploy'' ''D5'' ''deployer key source'' PASS ''DEPLOYMENT_PRIVATE_KEY is set'' []
      else
        let localMode = w_getenv w ''LOCAL_MODE'' in
        if localMode = ''true'' \<or> localMode = [] then
          result ''deploy'' ''D5'' ''deployer key source'' PASS ''using Hardhat dev key (LOCAL_MODE)'' []
        else
          result ''deploy'' ''D5'' ''deployer key source'' WARN
            (''DEPLOYMENT_PRIVATE_KEY not set '' @ dash @ '' using Hardhat dev key which has no funds on Coston2'')
            ''Set DEPLOYMENT_PRIVATE_KEY in .env to a funded account on the target network'')"

definition chainName :: "int \<Rightarrow> string" where
  "chainName i =
     (if big_string i = ''31337'' then ''Hardhat/Anvil (local devnet)''
      else if big_string i = ''114'' then ''Coston2 (testnet)''
      else if big_string i = ''14'' then ''Flare (mainnet)''
      else ''unknown network'')"

definition checkChainID :: "chain_client \<Rightarrow> CheckResult" where
  "checkChainID client =
     (case ChainID client of
        Inl e \<Rightarrow> result ''deploy'' ''D6'' ''chain ID'' FAIL (''failed to get chain ID: '' @ e) ''Check CHAIN_URL''
      | Inr chainID \<Rightarrow>
          result ''deploy'' ''D6'' ''chain ID'' PASS
            (''chain ID '' @ big_string chainID @ '' ('' @ chainName chainID @ '')'') [])"

text \<open>
  \<^verbatim>\<open>addresses\<close> is a Go map: each of the two loops over it runs in an order of its
  own, given here by the two lists of its entries.
\<close>

type_synonym entries = "(string \<times> address) list"

fun check_zero_loop :: "world \<Rightarrow> entries \<Rightarrow> Results \<Rightarrow> string set \<Rightarrow> Results \<times> string set" where
  "check_zero_loop w [] r zeroAddrs = (r, zeroAddrs)"
| "check_zero_loop w ((label, addr) # rest) r zeroAddrs =
     (case AddressNotZero w addr label of
        Some e \<Rightarrow> check_zero_loop w rest
          (Add r (result ''deploy'' ''D3'' (label @ '' address not zero'') FAIL e
             ''Re-run the deploy script or check deployed-addresses.json''))
          (insert label zeroAddrs)
      | None \<Rightarrow> check_zero_loop w rest
          (Add r (result ''deploy'' ''D3'' (label @ '' address not zero'') PASS (w_hex w addr) [])) zeroAddrs)"

fun check_code_loop :: "world \<Rightarrow> chain_client option \<Rightarrow> string set \<Rightarrow> entries \<Rightarrow> Results \<Rightarrow> Results" where
  "check_code_loop w client zeroAddrs [] r = r"
| "check_code_loop w client zeroAddrs ((label, addr) # rest) r =
     (if label \<in> zeroAddrs then check_code_loop w client zeroAddrs rest r
      else
        (case AddressHasCode w client addr label of
           Some e \<Rightarrow> check_code_loop w client zeroAddrs rest
             (Add r (result ''deploy'' ''D1'' (label @ '' has deployed code'') FAIL e
                ''Deploy contracts or check CHAIN_URL / deployed-addresses.json''))
         | None \<Rightarrow> check_code_loop w client zeroAddrs rest
             (Add r (result ''deploy'' ''D1'' (label @ '' has deployed code'') PASS (''code found at '' @ w_hex w addr) []))))"

definition RegisterDeployChecks ::
  "world \<Rightarrow> Results \<Rightarrow> chain_client option \<Rightarrow> private_key option \<Rightarrow> entries \<Rightarrow> entries \<Rightarrow> string \<Rightarrow> Results" where
  "RegisterDeployChecks w r client key order1 order2 extensionEnvPath =
     (case check_zero_loop w order1 r {} of
        (r1, zeroAddrs) \<Rightarrow>
        let r2 = check_code_loop w client zeroAddrs order2 r1;
            r3 = Add r2 (CheckDeployerKeySource w);
            r4 = (case (key, client) of
                (Some k, Some c) \<Rightarrow>
                  (case KeyHasFunds w client k MinDeployBalance of
                     Some e \<Rightarrow> Add r3 (result ''deploy'' ''D5'' ''deployer has sufficient funds'' FAIL e
                       ''Fund the deployer account before deploying'')
                   | None \<Rightarrow> Add r3 (result ''deploy'' ''D5'' ''deployer has sufficient funds'' PASS
                       ''balance above minimum threshold'' []))
              | _ \<Rightarrow> r3);
            r5 = (case client of Some c \<Rightarrow> Add r4 (checkChainID c) | None \<Rightarrow> r4)
        in (if extensionEnvPath \<noteq> [] then foldl Add r5 (CheckExtensionEnvFormat w extensionEnvPath) else r5))"

section \<open>Step 2: registration\<close>

fun hex_to_int :: "int \<Rightarrow> string \<Rightarrow> int" where
  "hex_to_int acc [] = acc"
| "hex_to_int acc (c # cs) = hex_to_int (16 * acc + (case hex_val c of Some d \<Rightarrow> int d | None \<Rightarrow> 0)) cs"

text \<open>R1, with the counter it reads (\<open>None\<close> where the query was not made or failed).\<close>

definition check_R1 :: "chain_client option \<Rightarrow> extension_registry option \<Rightarrow> Results \<Rightarrow> Results \<times> int option" where
  "check_R1 client registry r =
     (case (registry, client) of
        (Some reg, Some c) \<Rightarrow>
          (case NextPublicExtensionId reg of
             Inl e \<Rightarrow> (Add r (result ''register'' ''R1'' ''next public extension id'' FAIL
                (''failed to query nextPublicExtensionId: '' @ e) []), None)
           | Inr counter \<Rightarrow>
               if counter = 0 then
                 (Add r (result ''register'' ''R1'' ''next public extension id'' WARN
                    (''nextPublicExtensionId is 0 '' @ dash @ '' no public extensions registered yet'') []), Some counter)
               else
                 (Add r (result ''register'' ''R1'' ''next public extension id'' PASS
                    (''nextPublicExtensionId = '' @ big_string counter) []), Some counter))
      | _ \<Rightarrow> (r, None))"

definition check_R2 ::
  "world \<Rightarrow> chain_client option \<Rightarrow> extension_registry option \<Rightarrow> string \<Rightarrow> int \<Rightarrow> Results \<Rightarrow> Results" where
  "check_R2 w client registry instrSender extensionID r =
     (case (registry, client) of
        (Some reg, Some c) \<Rightarrow>
          if addressRegex instrSender then
            (case GetTeeExtensionInstructionsSender reg extensionID of
               Inl e \<Rightarrow> Add r (result ''register'' ''R2'' ''instruction sender matches on-chain'' FAIL
                  (''failed to query instruction sender: '' @ e) [])
             | Inr onChainSender \<Rightarrow>
                 let expectedAddr = w_hex_to_address w instrSender in
                 if onChainSender = expectedAddr then
                   Add r (result ''register'' ''R2'' ''instruction sender matches on-chain'' PASS
                     (''on-chain sender '' @ w_hex w onChainSender @ '' matches extension.env'') [])
                 else
                   Add r (result ''register'' ''R2'' ''instruction sender matches on-chain'' FAIL
                     (''on-chain sender '' @ w_hex w onChainSender @ '' != extension.env '' @ instrSender)
                     ''Re-register the extension or update extension.env''))
          else r
      | _ \<Rightarrow> r)"

definition check_R3 ::
  "world \<Rightarrow> chain_client option \<Rightarrow> private_key option \<Rightarrow> owner_allowlist option \<Rightarrow> int \<Rightarrow> Results \<Rightarrow> Results" where
  "check_R3 w client key allowlist extensionID r =
     (case (key, allowlist, client) of
        (Some k, Some al, Some c) \<Rightarrow>
          (case IsAllowedTeeMachineOwner al extensionID (w_account w k) of
             Inl e \<Rightarrow> Add r (result ''register'' ''R3'' ''deployer is allowed TEE machine owner'' FAIL
                (''failed to query allowlist: '' @ e) [])
           | Inr allowed \<Rightarrow>
               if allowed then
                 Add r (result ''register'' ''R3'' ''deployer is allowed TEE machine owner'' PASS
                   ''deployer is on the TEE machine owner allowlist'' [])
               else
                 Add r (result ''register'' ''R3'' ''deployer is allowed TEE machine owner'' FAIL
                   ''deployer is NOT on the TEE machine owner allowlist''
                   ''Run the register step to add the deployer as a TEE machine owner''))
      | _ \<Rightarrow> r)"

text \<open>\<^verbatim>\<open>copy\<close> into a 32-byte array: the key type's bytes, padded with zeros.\<close>

definition bytes32 :: "bytes \<Rightarrow> bytes" where
  "bytes32 s = take 32 s @ replicate (32 - length s) (char_of (0::nat))"

definition check_R4 ::
  "world \<Rightarrow> chain_client option \<Rightarrow> extension_registry option \<Rightarrow> int \<Rightarrow> Results \<Rightarrow> Results" where
  "check_R4 w client registry extensionID r =
     (case (registry, client) of
        (Some reg, Some c) \<Rightarrow>
          (case IsKeyTypeSupported reg extensionID (bytes32 (w_evm_type w)) of
             Inl e \<Rightarrow> Add r (result ''register'' ''R4'' ''EVM key type supported'' FAIL
                (''failed to query key type support: '' @ e) [])
           | Inr supported \<Rightarrow>
               if supported then
                 Add r (result ''register'' ''R4'' ''EVM key type supported'' PASS
                   ''EVM key type is supported for this extension'' [])
               else
                 Add r (result ''register'' ''R4'' ''EVM key type supported'' FAIL
                   ''EVM key type is NOT supported for this extension''
                   ''Run the register step to add EVM key type support''))
      | _ \<Rightarrow> r)"

text \<open>\<^verbatim>\<open>counter.Int64()\<close> keeps the low 64 bits, as a signed number.\<close>

definition int64_of :: "int \<Rightarrow> int" where
  "int64_of n = sint (word_of_int n :: 64 word)"

definition matching_ids :: "extension_registry \<Rightarrow> address \<Rightarrow> int \<Rightarrow> string list" where
  "matching_ids reg expectedAddr counter =
     map big_string
       (filter (\<lambda>i. GetTeeExtensionInstructionsSender reg i = Inr expectedAddr)
         (map int [0..<nat (int64_of counter)]))"

definition check_R7 ::
  "world \<Rightarrow> chain_client option \<Rightarrow> extension_registry option \<Rightarrow> string \<Rightarrow> int option \<Rightarrow> Results \<Rightarrow> Results" where
  "check_R7 w client registry instrSender counter r =
     (case (counter, registry, client) of
        (Some n, Some reg, Some c) \<Rightarrow>
          if n > 0 \<and> addressRegex instrSender then
            let matchingIDs = matching_ids reg (w_hex_to_address w instrSender) n in
            if length matchingIDs > 1 then
              Add r (result ''register'' ''R7'' ''unique instruction sender'' WARN
                (''INSTRUCTION_SENDER '' @ instrSender @ '' is used by multiple extensions: '' @ join '', '' matchingIDs) [])
            else
              Add r (result ''register'' ''R7'' ''unique instruction sender'' PASS
                ''instruction sender is unique across registered extensions'' [])
          else r
      | _ \<Rightarrow> r)"

definition RegisterRegistrationChecks ::
  "world \<Rightarrow> Results \<Rightarrow> chain_client option \<Rightarrow> private_key option \<Rightarrow> extension_registry option \<Rightarrow>
   owner_allowlist option \<Rightarrow> string \<Rightarrow> Results" where
  "RegisterRegistrationChecks w r client key registry allowlist extensionEnvPath =
     (if extensionEnvPath = [] then
        Add r (result ''register'' ''R1-R7'' ''registration checks'' SKIP ''no --config path provided'' [])
      else
        (case parseExtensionEnv w extensionEnvPath of
           (extIDStr, instrSender, Some e) \<Rightarrow>
             Add r (result ''register'' ''R1-R7'' ''registration checks'' FAIL (''failed to parse extension.env: '' @ e) [])
         | (extIDStr, instrSender, None) \<Rightarrow>
             if extIDStr = [] \<and> instrSender = [] then
               Add r (result ''register'' ''R1-R7'' ''registration checks'' SKIP
                 (''config/extension.env not found '' @ dash @ '' run pre-build.sh first'') [])
             else
               (case check_R1 client registry r of
                  (r1, counter) \<Rightarrow>
                    if \<not> extensionIDRegex extIDStr then
                      Add r1 (result ''register'' ''R2'' ''EXTENSION_ID format'' FAIL
                        (''malformed EXTENSION_ID: '' @ w_quote w extIDStr) prebuild_fix)
                    else
                      let extensionID = hex_to_int 0 (drop 2 extIDStr);
                          r2 = check_R2 w client registry instrSender extensionID r1;
                          r3 = check_R3 w client key allowlist extensionID r2;
                          r4 = check_R4 w client registry extensionID r3
                      in check_R7 w client registry instrSender counter r4)))"

section \<open>Step 3: services\<close>

text \<open>\<^verbatim>\<open>GET url/info\<close> answered with status 200.\<close>

definition info_reachable :: "world \<Rightarrow> string \<Rightarrow> bool" where
  "info_reachable w url = (case w_get w (url @ ''/info'') of Inl e \<Rightarrow> False | Inr code \<Rightarrow> code = 200)"

text \<open>The shape shared by the five reachability checks: skipped when the URL is not set.\<close>

definition probe ::
  "world \<Rightarrow> string \<Rightarrow> string \<Rightarrow> string \<Rightarrow> string \<Rightarrow> string \<Rightarrow> string \<Rightarrow> string \<Rightarrow> string \<Rightarrow> Results \<Rightarrow> Results" where
  "probe w url step ident name skip_msg pass_msg warn_msg fix r =
     (if url = [] then Add r (result step ident name SKIP skip_msg [])
      else if info_reachable w url then Add r (result step ident name PASS pass_msg [])
      else Add r (result step ident name WARN warn_msg fix))"

definition check_S2 :: "world \<Rightarrow> string \<Rightarrow> Results \<Rightarrow> Results" where
  "check_S2 w extensionEnvPath r =
     (if extensionEnvPath = [] then
        Add r (result ''services'' ''S2'' ''EXTENSION_ID is set and well-formed'' SKIP ''run pre-build.sh first'' [])
      else
        let extID = fst (parseExtensionEnv w extensionEnvPath) in
        if extID = [] then
          Add r (result ''services'' ''S2'' ''EXTENSION_ID is set and well-formed'' FAIL
            ''EXTENSION_ID is empty or not found in extension.env'' prebuild_fix)
        else if \<not> extensionIDRegex extID then
          Add r (result ''services'' ''S2'' ''EXTENSION_ID is set and well-formed'' FAIL
            (''EXTENSION_ID has invalid format: '' @ w_quote w extID) prebuild_fix)
        else Add r (result ''services'' ''S2'' ''EXTENSION_ID is set and well-formed'' PASS extID []))"

definition check_ports :: "world \<Rightarrow> Results \<Rightarrow> Results" where
  "check_ports w r =
     (let port = (if w_getenv w ''EXTENSION_PORT'' = [] then ''7702'' else w_getenv w ''EXTENSION_PORT'');
          r1 = (if w_dial w (''localhost:'' @ port) then
                  Add r (result ''services'' ''S5'' ''extension port not in use'' WARN
                    (''port '' @ port @ '' is already in use '' @ dash @ '' extension server will fail to bind'')
                    ''Stop the process using that port or change EXTENSION_PORT'')
                else Add r (result ''services'' ''S5'' ''extension port not in use'' PASS ''port available'' []));
          extPort = w_getenv w ''EXTENSION_PORT''; signPort = w_getenv w ''SIGN_PORT''
      in if extPort \<noteq> [] \<or> signPort \<noteq> [] then
           Add r1 (result ''services'' ''S7'' ''port configuration'' PASS
             (''EXTENSION_PORT='' @ extPort @ '', SIGN_PORT='' @ signPort) [])
         else
           Add r1 (result ''services'' ''S7'' ''port configuration'' PASS
             ''using defaults (standalone: 8080/9090, Docker: 7702/7701)'' []))"

definition check_S10 :: "world \<Rightarrow> Results \<Rightarrow> Results" where
  "check_S10 w r =
     (let localMode = w_getenv w ''LOCAL_MODE''; privateKey = w_getenv w ''PROXY_PRIVATE_KEY'' in
      if localMode = ''true'' \<or> localMode = [] then
        Add r (result ''services'' ''S10'' ''PROXY_PRIVATE_KEY set on non-local'' PASS ''local mode, dev key OK'' [])
      else if localMode = ''false'' \<and> privateKey = [] then
        Add r (result ''services'' ''S10'' ''PROXY_PRIVATE_KEY set on non-local'' WARN
          (''PROXY_PRIVATE_KEY not set in non-local mode '' @ dash @ '' proxy will use default key'')
          ''Set PROXY_PRIVATE_KEY in .env for non-local deployments'')
      else
        Add r (result ''services'' ''S10'' ''PROXY_PRIVATE_KEY set on non-local'' PASS ''PROXY_PRIVATE_KEY is configured'' []))"

definition RegisterServicesChecks :: "world \<Rightarrow> Results \<Rightarrow> string \<Rightarrow> Results" where
  "RegisterServicesChecks w r extensionEnvPath =
     (let r1 = check_S2 w extensionEnvPath r;
          r2 = check_ports w r1;
          proxyURL = w_getenv w ''EXT_PROXY_URL'';
          r3 = probe w proxyURL ''services'' ''S9'' ''EXT_PROXY_URL reachable'' ''EXT_PROXY_URL not set''
            (''proxy reachable at '' @ proxyURL)
            (''proxy not reachable at '' @ proxyURL @ '' '' @ dash @ '' is the proxy running?'')
            ''Start the proxy or check EXT_PROXY_URL'' r2
      in check_S10 w r3)"

section \<open>Step 4: TEE version\<close>

definition check_V2 :: "world \<Rightarrow> Results \<Rightarrow> Results" where
  "check_V2 w r =
     (let extOwnerKey = w_getenv w ''EXTENSION_OWNER_KEY''; privKey = w_getenv w ''DEPLOYMENT_PRIVATE_KEY'';
          localMode = w_getenv w ''LOCAL_MODE'' in
      if extOwnerKey \<noteq> [] then
        Add r (result ''tee-version'' ''V2'' ''extension owner key'' PASS ''EXTENSION_OWNER_KEY is configured'' [])
      else if privKey \<noteq> [] then
        Add r (result ''tee-version'' ''V2'' ''extension owner key'' PASS
          ''using DEPLOYMENT_PRIVATE_KEY (EXTENSION_OWNER_KEY not set)'' [])
      else if localMode \<noteq> ''true'' \<and> localMode \<noteq> [] then
        Add r (result ''tee-version'' ''V2'' ''extension owner key'' WARN
          (''neither EXTENSION_OWNER_KEY nor DEPLOYMENT_PRIVATE_KEY set '' @ dash @
           '' AddTeeVersion will use dev key which isn'' @ [CHR 0x27] @ ''t the extension owner on Coston2'')
          ''Set EXTENSION_OWNER_KEY or DEPLOYMENT_PRIVATE_KEY in .env'')
      else Add r (result ''tee-version'' ''V2'' ''extension owner key'' PASS ''using dev key (local mode)'' []))"

definition check_V4 :: "world \<Rightarrow> string \<Rightarrow> Results \<Rightarrow> Results" where
  "check_V4 w extensionEnvPath r =
     (if extensionEnvPath = [] then
        Add r (result ''tee-version'' ''V4'' ''EXTENSION_ID valid'' SKIP ''no --config provided'' [])
      else
        (case parseExtensionEnv w extensionEnvPath of
           (extID, _, Some e) \<Rightarrow>
             Add r (result ''tee-version'' ''V4'' ''EXTENSION_ID valid'' FAIL (''failed to parse extension.env: '' @ e) [])
         | (extID, _, None) \<Rightarrow>
             if extID = [] then
               (if w_not_exist w extensionEnvPath then
                  Add r (result ''tee-version'' ''V4'' ''EXTENSION_ID valid'' SKIP
                    (''extension.env not found '' @ dash @ '' run pre-build.sh first'') [])
                else
                  Add r (result ''tee-version'' ''V4'' ''EXTENSION_ID valid'' FAIL ''EXTENSION_ID not set'' prebuild_fix))
             else if \<not> extensionIDRegex extID then
               Add r (result ''tee-version'' ''V4'' ''EXTENSION_ID valid'' FAIL ''EXTENSION_ID malformed'' prebuild_fix)
             else Add r (result ''tee-version'' ''V4'' ''EXTENSION_ID valid'' PASS extID [])))"

definition RegisterTeeVersionChecks :: "world \<Rightarrow> Results \<Rightarrow> string \<Rightarrow> Results" where
  "RegisterTeeVersionChecks w r extensionEnvPath =
     (let r1 = check_V2 w r;
          r2 = check_V4 w extensionEnvPath r1;
          proxyURL = w_getenv w ''EXT_PROXY_URL''
      in probe w proxyURL ''tee-version'' ''V6'' ''proxy reachable''
           (''EXT_PROXY_URL not set '' @ dash @ '' allow-tee-version uses -p flag'')
           (''proxy reachable at '' @ proxyURL)
           (''proxy not reachable at '' @ proxyURL @ '' '' @ dash @ '' start services first'')
           ''Start the proxy or check EXT_PROXY_URL'' r2)"

section \<open>Step 5: TEE machine\<close>

definition check_T1 :: "world \<Rightarrow> Results \<Rightarrow> Results" where
  "check_T1 w r =
     (let simulatedTee = w_getenv w ''SIMULATED_TEE''; localMode = w_getenv w ''LOCAL_MODE'' in
      if simulatedTee = ''true'' \<and> localMode = ''false'' then
        Add r (result ''tee-machine'' ''T1'' ''SIMULATED_TEE mode'' WARN
          (''SIMULATED_TEE=true on non-local deployment '' @ dash @
           '' machine will be registered with test attestation values. Set SIMULATED_TEE=false for real TEE hardware'')
          ''Set SIMULATED_TEE=false in .env when deploying to a real GCP TEE'')
      else if simulatedTee = ''true'' then
        Add r (result ''tee-machine'' ''T1'' ''SIMULATED_TEE mode'' PASS ''simulated TEE mode (local)'' [])
      else Add r (result ''tee-machine'' ''T1'' ''SIMULATED_TEE mode'' PASS ''real attestation mode'' []))"

definition RegisterTeeMachineChecks :: "world \<Rightarrow> Results \<Rightarrow> string \<Rightarrow> Results" where
  "RegisterTeeMachineChecks w r extensionEnvPath =
     (let r1 = check_T1 w r;
          normalProxyURL = w_getenv w ''NORMAL_PROXY_URL'';
          r2 = probe w normalProxyURL ''tee-machine'' ''T5'' ''NORMAL_PROXY_URL reachable'' ''NORMAL_PROXY_URL not set''
            (''normal proxy reachable at '' @ normalProxyURL)
            (''normal proxy not reachable at '' @ normalProxyURL @ '' '' @ dash @ '' required for FTDC availability check'')
            ''Ensure the normal/FTDC proxy is running and NORMAL_PROXY_URL is correct in .env'' r1;
          extProxyURL = w_getenv w ''EXT_PROXY_URL''
      in probe w extProxyURL ''tee-machine'' ''T10'' ''host URL reachable'' ''EXT_PROXY_URL not set''
           (''host URL reachable at '' @ extProxyURL)
           (''host URL not reachable at '' @ extProxyURL @ '' '' @ dash @
            '' machine will be registered with unreachable host. Data providers can'' @ [CHR 0x27] @ ''t relay instructions'')
           ''Ensure the host is accessible and EXT_PROXY_URL or -h flag points to the right URL'' r2)"

section \<open>Step 6: testing\<close>

definition check_E1 :: "world \<Rightarrow> string \<Rightarrow> Results \<Rightarrow> Results" where
  "check_E1 w extensionEnvPath r =
     (if extensionEnvPath = [] then
        Add r (result ''test'' ''E1'' ''INSTRUCTION_SENDER valid'' SKIP ''no --config provided'' [])
      else
        let instrSender = fst (snd (parseExtensionEnv w extensionEnvPath)) in
        if w_not_exist w extensionEnvPath then
          Add r (result ''test'' ''E1'' ''INSTRUCTION_SENDER valid'' SKIP
            (''extension.env not found '' @ dash @ '' run pre-build.sh first'') [])
        else if instrSender = [] then
          Add r (result ''test'' ''E1'' ''INSTRUCTION_SENDER valid'' FAIL
            (''INSTRUCTION_SENDER not set '' @ dash @ '' run pre-build.sh'')
            ''Run scripts/pre-build.sh to deploy and register the extension'')
        else if \<not> addressRegex instrSender then
          Add r (result ''test'' ''E1'' ''INSTRUCTION_SENDER valid'' FAIL ''INSTRUCTION_SENDER malformed'' prebuild_fix)
        else Add r (result ''test'' ''E1'' ''INSTRUCTION_SENDER valid'' PASS instrSender []))"

definition RegisterTestChecks :: "world \<Rightarrow> Results \<Rightarrow> string \<Rightarrow> Results" where
  "RegisterTestChecks w r extensionEnvPath =
     (let r1 = check_E1 w extensionEnvPath r;
          r2 = probe w (w_getenv w ''EXT_PROXY_URL'') ''test'' ''E3'' ''proxy reachable for test results'' ''EXT_PROXY_URL not set''
            ''proxy reachable for test result polling''
            (''proxy not reachable '' @ dash @ '' test results cannot be polled'')
            ''Start the proxy or check EXT_PROXY_URL'' r1
      in Add r2 (result ''test'' ''E6'' ''OPType/OPCommand alignment info'' PASS
           (''OPType/OPCommand hashes are validated at runtime '' @ dash @
            '' if a 501 error occurs, check the hash values in the error message'') []))"

definition RegisterStubChecks :: "Results \<Rightarrow> string \<Rightarrow> string \<Rightarrow> string \<Rightarrow> Results" where
  "RegisterStubChecks r step idRange name = Add r (result step idRange name SKIP ''not yet implemented'' [])"

section \<open>verify-deploy\<close>

text \<open>
  The command of \<^verbatim>\<open>tools/cmd/verify-deploy/main.go\<close>: which checks a step runs, the
  filter by check id, the output and the exit code. \<open>support\<close> is the chain side that
  \<^verbatim>\<open>DefaultSupport\<close> connects (an error ends the command with code 1).
\<close>

record chain_support =
  cs_client :: chain_client
  cs_key :: private_key
  cs_registry :: extension_registry
  cs_allowlist :: owner_allowlist
  cs_manager :: address

definition stepsNeedingChain :: "string list" where
  "stepsNeedingChain = [''deploy'', ''register'', ''all'']"

definition deploy_of :: "world \<Rightarrow> chain_support \<Rightarrow> string \<Rightarrow> Results \<Rightarrow> Results" where
  "deploy_of w s configPath r =
     (let addresses = [(''FlareTeeManager'', cs_manager s)]
      in RegisterDeployChecks w r (Some (cs_client s)) (Some (cs_key s)) addresses addresses configPath)"

definition registration_of :: "world \<Rightarrow> chain_support \<Rightarrow> string \<Rightarrow> Results \<Rightarrow> Results" where
  "registration_of w s configPath r =
     RegisterRegistrationChecks w r (Some (cs_client s)) (Some (cs_key s)) (Some (cs_registry s))
       (Some (cs_allowlist s)) configPath"

definition run_step :: "world \<Rightarrow> err + chain_support \<Rightarrow> string \<Rightarrow> string \<Rightarrow> Results option" where
  "run_step w support step configPath =
     (if step \<in> {''deploy'', ''register'', ''all''} then
        (case support of
           Inl e \<Rightarrow> None
         | Inr s \<Rightarrow>
             Some (if step = ''deploy'' then deploy_of w s configPath []
                   else if step = ''register'' then registration_of w s configPath []
                   else
                     let r1 = deploy_of w s configPath [];
                         r2 = registration_of w s configPath r1;
                         r3 = RegisterServicesChecks w r2 configPath;
                         r4 = RegisterTeeVersionChecks w r3 configPath;
                         r5 = RegisterTeeMachineChecks w r4 configPath
                     in RegisterTestChecks w r5 configPath))
      else if step = ''services'' then Some (RegisterServicesChecks w [] configPath)
      else if step = ''tee-version'' then Some (RegisterTeeVersionChecks w [] configPath)
      else if step = ''tee-machine'' then Some (RegisterTeeMachineChecks w [] configPath)
      else if step = ''test'' then Some (RegisterTestChecks w [] configPath)
      else None)"

definition allowed_ids :: "string \<Rightarrow> string list" where
  "allowed_ids checksFilter = filter (\<lambda>t. t \<noteq> []) (map trim_space (split_on CHR '','' checksFilter))"

definition filter_checks :: "string \<Rightarrow> Results \<Rightarrow> Results" where
  "filter_checks checksFilter r =
     (if checksFilter \<noteq> [] then filter (\<lambda>res. ID res \<in> set (allowed_ids checksFilter)) r else r)"

text \<open>The text on standard output and the exit code.\<close>

definition verify_deploy ::
  "world \<Rightarrow> err + chain_support \<Rightarrow> string \<Rightarrow> string \<Rightarrow> string \<Rightarrow> bool \<Rightarrow> string \<times> int" where
  "verify_deploy w support step configPath checksFilter jsonOut =
     (case run_step w support step configPath of
        None \<Rightarrow> ([], 1)
      | Some r \<Rightarrow>
          let report = filter_checks checksFilter r;
              out = (if jsonOut then FprintJSON report else Fprint report)
          in (out, if HasFailures report then 1 else 0))"

declare check_S2_def [check_defs] check_ports_def [check_defs] check_S10_def [check_defs]
  check_V2_def [check_defs] check_V4_def [check_defs] check_T1_def [check_defs]
  check_E1_def [check_defs] probe_def [check_defs] check_R2_def [check_defs]
  check_R3_def [check_defs] check_R4_def [check_defs] check_R7_def [check_defs]

end
