(* ===== verification/Check_Facts.thy ===== *)
theory Check_Facts
  imports Checks
begin

text \<open>
  What the deployment checks promise. The contract every \<^verbatim>\<open>Register\<close> function keeps
  towards the report is the locale \<^verbatim>\<open>registrar\<close>; the properties say what it means that
  a step does not fail, and what the command's exit code means.
\<close>

section \<open>Registering results\<close>

text \<open>A fix is offered only where something is wrong, as the field's comment says.\<close>

definition fix_ok :: "CheckResult \<Rightarrow> bool" where
  "fix_ok res \<longleftrightarrow> Fix res = [] \<or> Stat res = FAIL \<or> Stat res = WARN"

locale registrar =
  fixes reg :: "Results \<Rightarrow> Results" and step :: string
  assumes grows: "reg r = r @ reg []"
    and own: "res \<in> set (reg []) \<Longrightarrow> Step res = step \<and> fix_ok res"
begin

lemma keeps: "set r \<subseteq> set (reg r)"
  by (subst grows) simp

lemma failures: "HasFailures (reg r) \<longleftrightarrow> HasFailures r \<or> HasFailures (reg [])"
  by (subst grows) simp

lemma members: "res \<in> set (reg r) \<Longrightarrow> res \<in> set r \<or> Step res = step \<and> fix_ok res"
  using grows [of r] own [of res] by auto

end

lemma registrar_Add:
  "registrar (\<lambda>r. Add r (result step ident name st msg fix)) step"
  if "fix = [] \<or> st = FAIL \<or> st = WARN"
  by unfold_locales (use that in \<open>auto simp: Add_def fix_ok_def\<close>)

lemma registrar_comp:
  assumes "registrar f step" "registrar g step"
  shows "registrar (\<lambda>r. g (f r)) step"
proof
  show "g (f r) = r @ g (f [])" for r
    using registrar.grows [OF assms(1), of r] registrar.grows [OF assms(2), of "f r"]
      registrar.grows [OF assms(2), of "f []"] by simp
  show "Step res = step \<and> fix_ok res" if "res \<in> set (g (f []))" for res
    using that registrar.own [OF assms(1), of res] registrar.own [OF assms(2), of res]
      registrar.grows [OF assms(2), of "f []"] by auto
qed

lemma registrar_id: "registrar (\<lambda>r. r) step"
  by unfold_locales simp_all

lemma registrar_if:
  "(b \<Longrightarrow> registrar f step) \<Longrightarrow> (\<not> b \<Longrightarrow> registrar g step) \<Longrightarrow> registrar (\<lambda>r. if b then f r else g r) step"
  by (cases b) simp_all

lemmas registrar_intros = registrar_Add registrar_id

text \<open>The single checks.\<close>

lemma registrar_probe: "registrar (probe w url step ident name m1 m2 m3 fix) step"
  by (cases "url = []"; cases "info_reachable w url")
    (simp_all add: probe_def [abs_def] registrar_Add)

lemma registrar_services_checks:
  "registrar (check_S2 w path) ''services''" "registrar (check_ports w) ''services''"
  "registrar (check_S10 w) ''services''"
  by (unfold_locales; auto simp: check_S2_def check_ports_def check_S10_def Add_def fix_ok_def Let_def
      split: if_splits)+

lemma registrar_version_checks:
  "registrar (check_V2 w) ''tee-version''" "registrar (check_V4 w path) ''tee-version''"
  by (unfold_locales; auto simp: check_V2_def check_V4_def Add_def fix_ok_def Let_def
      split: if_splits option.splits prod.splits)+

lemma registrar_machine_checks: "registrar (check_T1 w) ''tee-machine''"
  by (unfold_locales; auto simp: check_T1_def Add_def fix_ok_def Let_def split: if_splits)

lemma registrar_test_checks: "registrar (check_E1 w path) ''test''"
  by (unfold_locales; auto simp: check_E1_def Add_def fix_ok_def Let_def split: if_splits)

lemma registrar_registration_checks:
  "registrar (\<lambda>r. fst (check_R1 client registry r)) ''register''"
  "registrar (check_R2 w client registry sender i) ''register''"
  "registrar (check_R3 w client key allowlist i) ''register''"
  "registrar (check_R4 w client registry i) ''register''"
  "registrar (check_R7 w client registry sender counter) ''register''"
proof -
  show "registrar (\<lambda>r. fst (check_R1 client registry r)) ''register''"
    by (cases registry; cases client; cases "NextPublicExtensionId (the registry)")
      (simp_all add: check_R1_def registrar_Add registrar_id registrar_if if_distrib [of fst])
  show "registrar (check_R2 w client registry sender i) ''register''"
    by (cases registry; cases client; cases "addressRegex sender";
        cases "GetTeeExtensionInstructionsSender (the registry) i")
      (simp_all add: check_R2_def [abs_def] registrar_Add registrar_id registrar_if Let_def)
  show "registrar (check_R3 w client key allowlist i) ''register''"
    by (cases key; cases allowlist; cases client; cases "IsAllowedTeeMachineOwner (the allowlist) i (w_account w (the key))")
      (simp_all add: check_R3_def [abs_def] registrar_Add registrar_id registrar_if)
  show "registrar (check_R4 w client registry i) ''register''"
    by (cases registry; cases client; cases "IsKeyTypeSupported (the registry) i (bytes32 (w_evm_type w))")
      (simp_all add: check_R4_def [abs_def] registrar_Add registrar_id registrar_if)
  show "registrar (check_R7 w client registry sender counter) ''register''"
    by (cases counter; cases registry; cases client)
      (simp_all add: check_R7_def [abs_def] registrar_Add registrar_id registrar_if Let_def)
qed

section \<open>The steps keep the contract\<close>

interpretation services: registrar "\<lambda>r. RegisterServicesChecks w r path" "''services''" for w path
  unfolding RegisterServicesChecks_def Let_def
  by (rule registrar_comp [OF registrar_comp [OF registrar_comp [OF registrar_services_checks(1,2)] registrar_probe]
        registrar_services_checks(3)])

interpretation version: registrar "\<lambda>r. RegisterTeeVersionChecks w r path" "''tee-version''" for w path
  unfolding RegisterTeeVersionChecks_def Let_def
  by (rule registrar_comp [OF registrar_comp [OF registrar_version_checks(1,2)] registrar_probe])

interpretation machine_checks: registrar "\<lambda>r. RegisterTeeMachineChecks w r path" "''tee-machine''" for w path
  unfolding RegisterTeeMachineChecks_def Let_def
  by (rule registrar_comp [OF registrar_comp [OF registrar_machine_checks registrar_probe] registrar_probe])

interpretation test_checks: registrar "\<lambda>r. RegisterTestChecks w r path" "''test''" for w path
  unfolding RegisterTestChecks_def Let_def
  by (rule registrar_comp [OF registrar_comp [OF registrar_test_checks registrar_probe] registrar_Add]) simp

lemma parse_no_error: "snd (snd (parseExtensionEnv w path)) = None"
  by (simp add: parseExtensionEnv_def split: option.splits prod.splits)

lemma counter_R1: "snd (check_R1 client registry r) = snd (check_R1 client registry [])"
  by (simp add: check_R1_def split: option.splits sum.splits)

text \<open>The registration step with its branches as functions of the report.\<close>

lemma registration_eq:
  "RegisterRegistrationChecks w r client key registry allowlist path =
     (let (extID, sender, err) = parseExtensionEnv w path;
          i = hex_to_int 0 (drop 2 extID)
      in if path = [] then
           Add r (result ''register'' ''R1-R7'' ''registration checks'' SKIP ''no --config path provided'' [])
         else if extID = [] \<and> sender = [] then
           Add r (result ''register'' ''R1-R7'' ''registration checks'' SKIP
             (''config/extension.env not found '' @ dash @ '' run pre-build.sh first'') [])
         else if \<not> extensionIDRegex extID then
           Add (fst (check_R1 client registry r)) (result ''register'' ''R2'' ''EXTENSION_ID format'' FAIL
             (''malformed EXTENSION_ID: '' @ w_quote w extID) prebuild_fix)
         else
           check_R7 w client registry sender (snd (check_R1 client registry []))
             (check_R4 w client registry i
               (check_R3 w client key allowlist i
                 (check_R2 w client registry sender i (fst (check_R1 client registry r))))))"
proof -
  obtain extID sender where p: "parseExtensionEnv w path = (extID, sender, None)"
    using parse_no_error [of w path] by (metis prod.collapse)
  show ?thesis
    using counter_R1 [of client registry r]
    by (simp add: RegisterRegistrationChecks_def p Let_def case_prod_beta)
qed

interpretation registration: registrar
  "\<lambda>r. RegisterRegistrationChecks w r client key registry allowlist path" "''register''"
  for w client key registry allowlist path
  unfolding registration_eq Let_def case_prod_beta
  by (intro registrar_if registrar_comp [OF _ registrar_registration_checks(5)]
      registrar_comp [OF _ registrar_registration_checks(4)] registrar_comp [OF _ registrar_registration_checks(3)]
      registrar_comp [OF _ registrar_registration_checks(2)] registrar_registration_checks(1)
      registrar_comp [OF registrar_registration_checks(1) registrar_Add] registrar_Add)
    (simp_all add: prebuild_fix_def)

text \<open>The two loops over the addresses.\<close>

definition zero_result :: "world \<Rightarrow> string \<times> address \<Rightarrow> CheckResult" where
  "zero_result w la = (case la of (label, addr) \<Rightarrow>
     (case AddressNotZero w addr label of
        Some e \<Rightarrow> result ''deploy'' ''D3'' (label @ '' address not zero'') FAIL e
          ''Re-run the deploy script or check deployed-addresses.json''
      | None \<Rightarrow> result ''deploy'' ''D3'' (label @ '' address not zero'') PASS (w_hex w addr) []))"

definition code_result :: "world \<Rightarrow> chain_client option \<Rightarrow> string \<times> address \<Rightarrow> CheckResult" where
  "code_result w client la = (case la of (label, addr) \<Rightarrow>
     (case AddressHasCode w client addr label of
        Some e \<Rightarrow> result ''deploy'' ''D1'' (label @ '' has deployed code'') FAIL e
          ''Deploy contracts or check CHAIN_URL / deployed-addresses.json''
      | None \<Rightarrow> result ''deploy'' ''D1'' (label @ '' has deployed code'') PASS (''code found at '' @ w_hex w addr) []))"

definition zero_labels :: "entries \<Rightarrow> string set" where
  "zero_labels es = {label. (label, 0) \<in> set es}"

lemma zero_loop_eq:
  "check_zero_loop w es r zs = (r @ map (zero_result w) es, zs \<union> zero_labels es)"
  by (induction w es r zs rule: check_zero_loop.induct)
    (auto simp: zero_result_def Add_def zero_labels_def AddressNotZero_def)

lemma code_loop_eq:
  "check_code_loop w client zs es r = r @ map (code_result w client) (filter (\<lambda>(label, addr). label \<notin> zs) es)"
  by (induction w client zs es r rule: check_code_loop.induct)
    (auto simp: code_result_def Add_def split: option.splits)

lemma foldl_Add: "foldl Add r xs = r @ xs"
  by (induction xs arbitrary: r) (simp_all add: Add_def)

text \<open>The results of the last three deployment checks.\<close>

definition funds_results :: "world \<Rightarrow> chain_client option \<Rightarrow> private_key option \<Rightarrow> Results" where
  "funds_results w client key =
     (case (key, client) of
        (Some k, Some c) \<Rightarrow>
          (case KeyHasFunds w client k MinDeployBalance of
             Some e \<Rightarrow> [result ''deploy'' ''D5'' ''deployer has sufficient funds'' FAIL e
               ''Fund the deployer account before deploying'']
           | None \<Rightarrow> [result ''deploy'' ''D5'' ''deployer has sufficient funds'' PASS ''balance above minimum threshold'' []])
      | _ \<Rightarrow> [])"

definition chain_results :: "chain_client option \<Rightarrow> Results" where
  "chain_results client = (case client of Some c \<Rightarrow> [checkChainID c] | None \<Rightarrow> [])"

definition env_results :: "world \<Rightarrow> string \<Rightarrow> Results" where
  "env_results w path = (if path = [] then [] else CheckExtensionEnvFormat w path)"

lemma deploy_eq:
  "RegisterDeployChecks w r client key order1 order2 path =
     r @ map (zero_result w) order1
       @ map (code_result w client) (filter (\<lambda>(label, addr). label \<notin> zero_labels order1) order2)
       @ [CheckDeployerKeySource w] @ funds_results w client key @ chain_results client @ env_results w path"
  by (auto simp: RegisterDeployChecks_def zero_loop_eq code_loop_eq foldl_Add Let_def funds_results_def
      chain_results_def env_results_def Add_def split: option.splits)

lemma own_simple:
  "Step (zero_result w la) = ''deploy'' \<and> fix_ok (zero_result w la)"
  "Step (code_result w client la) = ''deploy'' \<and> fix_ok (code_result w client la)"
  "Step (CheckDeployerKeySource w) = ''deploy'' \<and> fix_ok (CheckDeployerKeySource w)"
  "res \<in> set (funds_results w client key) \<Longrightarrow> Step res = ''deploy'' \<and> fix_ok res"
  "res \<in> set (chain_results client) \<Longrightarrow> Step res = ''deploy'' \<and> fix_ok res"
  "res \<in> set (env_results w path) \<Longrightarrow> Step res = ''deploy'' \<and> fix_ok res"
proof -
  show "Step (zero_result w la) = ''deploy'' \<and> fix_ok (zero_result w la)"
    "Step (code_result w client la) = ''deploy'' \<and> fix_ok (code_result w client la)"
    "Step (CheckDeployerKeySource w) = ''deploy'' \<and> fix_ok (CheckDeployerKeySource w)"
    by (simp_all add: zero_result_def code_result_def CheckDeployerKeySource_def fix_ok_def Let_def
        split: option.splits prod.splits)
  show "Step res = ''deploy'' \<and> fix_ok res" if "res \<in> set (funds_results w client key)"
    using that by (auto simp: funds_results_def fix_ok_def split: option.splits)
  show "Step res = ''deploy'' \<and> fix_ok res" if "res \<in> set (chain_results client)"
    using that by (cases client; cases "ChainID (the client)")
      (simp_all add: chain_results_def checkChainID_def fix_ok_def)
  have "Step (env_entry w vars key regex) = ''deploy'' \<and> fix_ok (env_entry w vars key regex)" for vars key regex
    by (simp add: env_entry_def fix_ok_def split: option.splits)
  then show "Step res = ''deploy'' \<and> fix_ok res" if "res \<in> set (env_results w path)"
    using that by (cases "w_open w path")
      (auto simp: env_results_def CheckExtensionEnvFormat_def fix_ok_def Let_def split: if_splits)
qed

interpretation deploy: registrar "\<lambda>r. RegisterDeployChecks w r client key order1 order2 path" "''deploy''"
  for w client key order1 order2 path
  by unfold_locales (auto simp: deploy_eq own_simple)

section \<open>What the reports say\<close>

text \<open>The result belongs to one of the six steps and offers a fix only where it may.\<close>

definition known_result :: "CheckResult \<Rightarrow> bool" where
  "known_result res \<longleftrightarrow> stepLabel (Step res) \<noteq> None \<and> fix_ok res"

lemma known_steps:
  "res \<in> set (deploy_of w s path r) \<Longrightarrow> res \<in> set r \<or> known_result res"
  "res \<in> set (registration_of w s path r) \<Longrightarrow> res \<in> set r \<or> known_result res"
  "res \<in> set (RegisterServicesChecks w r path) \<Longrightarrow> res \<in> set r \<or> known_result res"
  "res \<in> set (RegisterTeeVersionChecks w r path) \<Longrightarrow> res \<in> set r \<or> known_result res"
  "res \<in> set (RegisterTeeMachineChecks w r path) \<Longrightarrow> res \<in> set r \<or> known_result res"
  "res \<in> set (RegisterTestChecks w r path) \<Longrightarrow> res \<in> set r \<or> known_result res"
proof -
  have label: "stepLabel ''deploy'' \<noteq> None" "stepLabel ''register'' \<noteq> None" "stepLabel ''services'' \<noteq> None"
    "stepLabel ''tee-version'' \<noteq> None" "stepLabel ''tee-machine'' \<noteq> None" "stepLabel ''test'' \<noteq> None"
    by (simp_all add: stepLabel_def)
  note known = known_result_def
  show "res \<in> set (deploy_of w s path r) \<Longrightarrow> res \<in> set r \<or> known_result res"
    unfolding deploy_of_def Let_def known using deploy.members label by metis
  show "res \<in> set (registration_of w s path r) \<Longrightarrow> res \<in> set r \<or> known_result res"
    unfolding registration_of_def known using registration.members label by metis
  show "res \<in> set (RegisterServicesChecks w r path) \<Longrightarrow> res \<in> set r \<or> known_result res"
    unfolding known using services.members label by metis
  show "res \<in> set (RegisterTeeVersionChecks w r path) \<Longrightarrow> res \<in> set r \<or> known_result res"
    unfolding known using version.members label by metis
  show "res \<in> set (RegisterTeeMachineChecks w r path) \<Longrightarrow> res \<in> set r \<or> known_result res"
    unfolding known using machine_checks.members label by metis
  show "res \<in> set (RegisterTestChecks w r path) \<Longrightarrow> res \<in> set r \<or> known_result res"
    unfolding known using test_checks.members label by metis
qed

lemma run_step_known:
  assumes "run_step w support step path = Some r" "res \<in> set r"
  shows "known_result res"
proof -
  have none: "res \<notin> set ([] :: Results)" by simp
  note steps = known_steps [of res]
  consider (chain) s where "support = Inr s" "r \<in> {deploy_of w s path [], registration_of w s path [],
        RegisterTestChecks w (RegisterTeeMachineChecks w (RegisterTeeVersionChecks w
          (RegisterServicesChecks w (registration_of w s path (deploy_of w s path [])) path) path) path) path}"
    | (rest) "r \<in> {RegisterServicesChecks w [] path, RegisterTeeVersionChecks w [] path,
        RegisterTeeMachineChecks w [] path, RegisterTestChecks w [] path}"
    using assms(1) by (auto simp: run_step_def Let_def split: if_split_asm sum.split_asm)
  then show ?thesis
  proof cases
    case chain
    then show ?thesis using steps none assms(2) by (metis insertE singletonD)
  next
    case rest
    then show ?thesis using steps none assms(2) by (metis insertE singletonD)
  qed
qed

text \<open>Whatever the environment, every result of every step of the command carries the label
  of one of the six known steps, and proposes a fix only when it is a failure or a warning, as
  the field's comment promises.\<close>

theorem results_well_formed:
  "case run_step w support step path of
     None \<Rightarrow> True
   | Some r \<Rightarrow> list_all (\<lambda>res. (Fix res = [] \<or> Stat res = FAIL \<or> Stat res = WARN) \<and> stepLabel (Step res) \<noteq> None) r"
  using run_step_known [of w support step path]
  by (cases "run_step w support step path") (auto simp: list_all_iff fix_ok_def known_result_def)

text \<open>(C30) The exit code: the command fails exactly when the step is unknown, the chain cannot be
  reached where the step needs it, or one of the results that were asked for is a failure. A
  failure outside a check filter does not count.\<close>

theorem verify_deploy_exit_code:
  "snd (verify_deploy w support step path only jsonOut) =
     (if run_step w support step path = None
        \<or> (\<exists>r res. run_step w support step path = Some r \<and> res \<in> set r \<and> Stat res = FAIL
             \<and> (only = [] \<or> ID res \<in> set (allowed_ids only)))
      then 1 else 0)
   \<and> (run_step w support step path = None \<longleftrightarrow>
       (if step \<in> {''deploy'', ''register'', ''all'', ''services'', ''tee-version'', ''tee-machine'', ''test''}
        then step \<in> set stepsNeedingChain \<and> (\<exists>e. support = Inl e) else True))"
proof
  show "snd (verify_deploy w support step path only jsonOut) =
     (if run_step w support step path = None
        \<or> (\<exists>r res. run_step w support step path = Some r \<and> res \<in> set r \<and> Stat res = FAIL
             \<and> (only = [] \<or> ID res \<in> set (allowed_ids only)))
      then 1 else 0)"
    by (cases "run_step w support step path")
      (auto simp: verify_deploy_def filter_checks_def HasFailures_iff Let_def)
  show "run_step w support step path = None \<longleftrightarrow>
       (if step \<in> {''deploy'', ''register'', ''all'', ''services'', ''tee-version'', ''tee-machine'', ''test''}
        then step \<in> set stepsNeedingChain \<and> (\<exists>e. support = Inl e) else True)"
    by (cases support) (auto simp: run_step_def stepsNeedingChain_def)
qed

section \<open>The extension.env file\<close>

lemma env_vars_add: "env_vars vars ls = vars ++ env_vars Map.empty ls"
proof (induction ls arbitrary: vars)
  case Nil
  then show ?case by simp
next
  case (Cons l ls)
  show ?case
  proof (cases "env_line l")
    case None
    then show ?thesis using Cons [of vars] by simp
  next
    case (Some kv)
    obtain k v where kv: "kv = (k, v)" by (cases kv)
    have "vars(k \<mapsto> v) ++ m = vars ++ ([k \<mapsto> v] ++ m)" for m :: "string \<rightharpoonup> string"
      by (simp only: map_add_assoc map_add_upd map_add_empty)
    then show ?thesis using Cons [of "vars(k \<mapsto> v)"] Cons [of "[k \<mapsto> v]"] by (simp only: env_vars.simps Some kv option.case prod.case)
  qed
qed

text \<open>The two readers of the file agree: the map at the two keys is the pair.\<close>

lemma env_pair_vars:
  "env_pair (i, s) ls =
     ((case env_vars Map.empty ls ''EXTENSION_ID'' of None \<Rightarrow> i | Some v \<Rightarrow> v),
      (case env_vars Map.empty ls ''INSTRUCTION_SENDER'' of None \<Rightarrow> s | Some v \<Rightarrow> v))"
proof (induction ls arbitrary: i s)
  case Nil
  then show ?case by simp
next
  case (Cons l ls)
  show ?case
  proof (cases "env_line l")
    case (Some kv)
    obtain k v where kv: "kv = (k, v)" by (cases kv)
    have "env_vars Map.empty (l # ls) = [k \<mapsto> v] ++ env_vars Map.empty ls"
      using env_vars_add [of "[k \<mapsto> v]" ls] by (simp add: Some kv)
    then show ?thesis
      by (auto simp: Some kv Cons map_add_def split: option.splits)
  qed (simp add: Cons)
qed

lemma env_entry_fails: "Stat (env_entry w vars key regex) = FAIL \<longleftrightarrow> \<not> (\<exists>v. vars key = Some v \<and> regex v)"
  by (simp add: env_entry_def split: option.splits)

lemma regexes_nonempty [simp]: "\<not> addressRegex []" "\<not> extensionIDRegex []"
  by (simp_all add: addressRegex_def extensionIDRegex_def match_0x_hex_def)

lemma env_format_pair:
  assumes "w_open w path = Some content"
  shows "HasFailures (CheckExtensionEnvFormat w path) \<longleftrightarrow>
    \<not> (extensionIDRegex (fst (parseExtensionEnv w path)) \<and> addressRegex (fst (snd (parseExtensionEnv w path))))"
  using assms by (auto simp: CheckExtensionEnvFormat_def parseExtensionEnv_def env_pair_vars env_entry_fails
      Let_def split: option.splits prod.splits)

text \<open>The two readers of extension.env agree: the format check of the deployment step
  passes on a file exactly when the values the later steps parse from it are a well-formed
  extension id and a well-formed address, and where there is no file the check is skipped and
  the parser reports two empty strings. The parser never reports an error.\<close>

theorem env_readers_agree:
  "case w_open w path of
     None \<Rightarrow> map Stat (CheckExtensionEnvFormat w path) = [SKIP] \<and> parseExtensionEnv w path = ([], [], None)
   | Some content \<Rightarrow>
       (case parseExtensionEnv w path of (extID, sender, err) \<Rightarrow>
          err = None \<and>
          map Stat (CheckExtensionEnvFormat w path) =
            [if addressRegex sender then PASS else FAIL, if extensionIDRegex extID then PASS else FAIL])"
  by (auto simp: CheckExtensionEnvFormat_def parseExtensionEnv_def env_pair_vars env_entry_def Let_def
      split: option.splits)

section \<open>What passing means\<close>

lemma fails_map: "HasFailures (map f xs) \<longleftrightarrow> (\<exists>x \<in> set xs. Stat (f x) = FAIL)"
  by (auto simp: HasFailures_iff)

lemma code_ok_iff:
  "Stat (code_result w (Some c) (l, a)) = FAIL \<longleftrightarrow> \<not> (\<exists>code. CodeAt c a = Inr code \<and> code \<noteq> [])"
  by (cases "CodeAt c a") (simp_all add: code_result_def AddressHasCode_def)

lemma zero_ok_iff: "Stat (zero_result w (l, a)) = FAIL \<longleftrightarrow> a = 0"
  by (simp add: zero_result_def AddressNotZero_def)

lemma funds_ok_iff:
  "HasFailures (funds_results w (Some c) (Some k)) \<longleftrightarrow>
     \<not> (\<exists>b. BalanceAt c (w_account w k) = Inr b \<and> MinDeployBalance \<le> b)"
  by (cases "BalanceAt c (w_account w k)") (simp_all add: funds_results_def KeyHasFunds_def Let_def not_le)

lemma chain_ok_iff: "HasFailures (chain_results (Some c)) \<longleftrightarrow> \<not> (\<exists>i. ChainID c = Inr i)"
  by (cases "ChainID c") (simp_all add: chain_results_def checkChainID_def)

text \<open>Passing the deployment step means what it says: with a connected chain and a key, no
  check fails exactly when every address of the file is nonzero and has code on the chain, the
  deployer holds at least 0.01 of the native token, the chain answers with its id, and the
  extension.env file, if one is named and exists, is well formed.\<close>

theorem deploy_step_passes_iff:
  assumes "set order1 = set order2" and "distinct (map fst order1)"
  shows "\<not> HasFailures (RegisterDeployChecks w [] (Some c) (Some k) order1 order2 path) \<longleftrightarrow>
      (\<forall>(label, addr) \<in> set order1. addr \<noteq> 0 \<and> (\<exists>code. CodeAt c addr = Inr code \<and> code \<noteq> []))
    \<and> (\<exists>b. BalanceAt c (w_account w k) = Inr b \<and> 10 ^ 16 \<le> b)
    \<and> (\<exists>i. ChainID c = Inr i)
    \<and> (path = [] \<or> w_open w path = None \<or>
        extensionIDRegex (fst (parseExtensionEnv w path)) \<and> addressRegex (fst (snd (parseExtensionEnv w path))))"
proof -
  have zero: "(\<exists>x \<in> set order1. Stat (zero_result w x) = FAIL) \<longleftrightarrow> (\<exists>label. (label, 0) \<in> set order1)"
    using zero_ok_iff by (auto simp: Bex_def)
  have code: "(\<exists>x \<in> set (filter (\<lambda>(label, addr). label \<notin> zero_labels order1) order2). Stat (code_result w (Some c) x) = FAIL)
      \<longleftrightarrow> (\<exists>(label, addr) \<in> set order1. label \<notin> zero_labels order1 \<and> \<not> (\<exists>code. CodeAt c addr = Inr code \<and> code \<noteq> []))"
    using code_ok_iff assms(1) by (auto simp: Bex_def)
  have env: "HasFailures (env_results w path) \<longleftrightarrow> path \<noteq> [] \<and> w_open w path \<noteq> None \<and>
      \<not> (extensionIDRegex (fst (parseExtensionEnv w path)) \<and> addressRegex (fst (snd (parseExtensionEnv w path))))"
    using env_format_pair [of w path]
    by (cases "w_open w path") (auto simp: env_results_def CheckExtensionEnvFormat_def)
  have key: "Stat (CheckDeployerKeySource w) \<noteq> FAIL" by (simp add: CheckDeployerKeySource_def Let_def)
  have nozero: "zero_labels order1 = {}" if "\<nexists>label. (label, 0) \<in> set order1"
    using that by (auto simp: zero_labels_def)
  show ?thesis
    unfolding deploy_eq HasFailures_append fails_map zero code env funds_ok_iff chain_ok_iff
    using key nozero by (auto simp: MinDeployBalance_def zero_labels_def split_beta)
qed

definition demo_world :: "string \<Rightarrow> world" where
  "demo_world content =
     \<lparr>w_getenv = (\<lambda>_. []), w_open = (\<lambda>p. if p = ''e'' then Some content else None), w_not_exist = (\<lambda>p. p \<noteq> ''e''),
      w_dial = (\<lambda>_. False), w_get = (\<lambda>_. Inl ''refused''), w_quote = (\<lambda>s. s), w_hex = (\<lambda>_. ''0x''),
      w_hex_to_address = (\<lambda>_. 7), w_account = (\<lambda>_. 9), w_evm_type = ''EVM''\<rparr>"

definition demo_client :: chain_client where
  "demo_client = \<lparr>CodeAt = (\<lambda>_. Inr ''c''), BalanceAt = (\<lambda>_. Inr (10 ^ 17)), ChainID = Inr 114\<rparr>"

theorem deploy_step_passes_iff_witness:
  "\<not> HasFailures (RegisterDeployChecks (demo_world []) [] (Some demo_client) (Some ''k'')
       [(''A'', 5), (''B'', 6)] [(''B'', 6), (''A'', 5)] [])"
  by (subst deploy_step_passes_iff) (auto simp: demo_client_def)

text \<open>Go visits a map in an arbitrary order: whatever the orders of the two loops over the
  addresses, the deployment step produces the same results up to their order.\<close>

theorem deploy_results_order_independent:
  assumes "mset order1 = mset order1'" and "mset order2 = mset order2'"
  shows "mset (RegisterDeployChecks w r client key order1 order2 path) =
    mset (RegisterDeployChecks w r client key order1' order2' path)"
proof -
  have "zero_labels order1 = zero_labels order1'"
    using mset_eq_setD [OF assms(1)] by (simp add: zero_labels_def)
  then show ?thesis using assms by (simp add: deploy_eq flip: mset_map) (simp add: mset_map assms)
qed

theorem deploy_results_order_independent_witness:
  "mset (RegisterDeployChecks (demo_world []) [] (Some demo_client) (Some ''k'') [(''A'', 0), (''B'', 6)] [(''B'', 6), (''A'', 0)] ''e'') =
   mset (RegisterDeployChecks (demo_world []) [] (Some demo_client) (Some ''k'') [(''B'', 6), (''A'', 0)] [(''B'', 6), (''A'', 0)] ''e'')"
  by (rule deploy_results_order_independent) simp_all

text \<open>What each registration check adds fails on.\<close>

lemma registration_fails:
  "HasFailures (fst (check_R1 (Some c) (Some reg) r)) \<longleftrightarrow> HasFailures r \<or> \<not> (\<exists>n. NextPublicExtensionId reg = Inr n)"
  "HasFailures (check_R2 w (Some c) (Some reg) sender i r) \<longleftrightarrow> HasFailures r \<or>
     (addressRegex sender \<and> GetTeeExtensionInstructionsSender reg i \<noteq> Inr (w_hex_to_address w sender))"
  "HasFailures (check_R3 w (Some c) (Some k) (Some al) i r) \<longleftrightarrow> HasFailures r \<or>
     IsAllowedTeeMachineOwner al i (w_account w k) \<noteq> Inr True"
  "HasFailures (check_R4 w (Some c) (Some reg) i r) \<longleftrightarrow> HasFailures r \<or>
     IsKeyTypeSupported reg i (bytes32 (w_evm_type w)) \<noteq> Inr True"
  "HasFailures (check_R7 w client registry sender counter r) \<longleftrightarrow> HasFailures r"
proof -
  show "HasFailures (fst (check_R1 (Some c) (Some reg) r)) \<longleftrightarrow> HasFailures r \<or> \<not> (\<exists>n. NextPublicExtensionId reg = Inr n)"
    by (cases "NextPublicExtensionId reg") (simp_all add: check_R1_def Add_def)
  show "HasFailures (check_R2 w (Some c) (Some reg) sender i r) \<longleftrightarrow> HasFailures r \<or>
     (addressRegex sender \<and> GetTeeExtensionInstructionsSender reg i \<noteq> Inr (w_hex_to_address w sender))"
    by (cases "GetTeeExtensionInstructionsSender reg i") (simp_all add: check_R2_def Add_def Let_def)
  show "HasFailures (check_R3 w (Some c) (Some k) (Some al) i r) \<longleftrightarrow> HasFailures r \<or>
     IsAllowedTeeMachineOwner al i (w_account w k) \<noteq> Inr True"
    by (cases "IsAllowedTeeMachineOwner al i (w_account w k)") (simp_all add: check_R3_def Add_def)
  show "HasFailures (check_R4 w (Some c) (Some reg) i r) \<longleftrightarrow> HasFailures r \<or>
     IsKeyTypeSupported reg i (bytes32 (w_evm_type w)) \<noteq> Inr True"
    by (cases "IsKeyTypeSupported reg i (bytes32 (w_evm_type w))") (simp_all add: check_R4_def Add_def)
  show "HasFailures (check_R7 w client registry sender counter r) \<longleftrightarrow> HasFailures r"
    by (simp add: check_R7_def Add_def Let_def split: option.splits)
qed

text \<open>Passing the registration step: with everything connected and a file that names an id
  or a sender, no check fails exactly when the registry answers, the extension id is well
  formed, the sender on chain is the configured one if that is a well-formed address, the
  deployer may own TEE machines, and the EVM key type is supported. A malformed sender is not
  noticed by this step.\<close>

theorem registration_step_passes_iff:
  assumes "path \<noteq> []" and "parseExtensionEnv w path = (extID, sender, err)" and "extID \<noteq> [] \<or> sender \<noteq> []"
    and "i = hex_to_int 0 (drop 2 extID)"
  shows "\<not> HasFailures (RegisterRegistrationChecks w [] (Some c) (Some k) (Some reg) (Some al) path) \<longleftrightarrow>
      (\<exists>n. NextPublicExtensionId reg = Inr n) \<and> extensionIDRegex extID
    \<and> (\<not> addressRegex sender \<or> GetTeeExtensionInstructionsSender reg i = Inr (w_hex_to_address w sender))
    \<and> IsAllowedTeeMachineOwner al i (w_account w k) = Inr True
    \<and> IsKeyTypeSupported reg i (bytes32 (w_evm_type w)) = Inr True"
  using assms by (auto simp: registration_eq registration_fails Let_def) (auto simp: Add_def)

definition demo_registry :: extension_registry where
  "demo_registry = \<lparr>NextPublicExtensionId = Inr 1, GetTeeExtensionInstructionsSender = (\<lambda>_. Inr 7),
     IsKeyTypeSupported = (\<lambda>_ _. Inr True)\<rparr>"

definition demo_allowlist :: owner_allowlist where
  "demo_allowlist = \<lparr>IsAllowedTeeMachineOwner = (\<lambda>_ _. Inr True)\<rparr>"

lemma demo_env_line: "env_line ''EXTENSION_ID=0x12'' = Some (''EXTENSION_ID'', ''0x12'')"
proof -
  have "trim_space ''EXTENSION_ID=0x12'' = ''EXTENSION_ID=0x12''" "trim_space ''EXTENSION_ID'' = ''EXTENSION_ID''"
    "trim_space ''0x12'' = ''0x12''"
    by (simp_all add: trim_space_visible visible_def code_of_def)
  then show ?thesis by (simp add: env_line_def has_prefix_def)
qed

theorem registration_step_passes_iff_witness:
  "HasFailures (RegisterRegistrationChecks (demo_world ''EXTENSION_ID=0x12'') [] (Some demo_client) (Some ''k'')
     (Some demo_registry) (Some demo_allowlist) ''e'')"
proof -
  have "scan_lines ''EXTENSION_ID=0x12'' = [''EXTENSION_ID=0x12'']" by (rule scan_lines_visible) (simp_all add: visible_def code_of_def)
  moreover have "env_pair ([], []) [''EXTENSION_ID=0x12''] = (''0x12'', [])" by (simp add: demo_env_line)
  moreover have "w_open (demo_world c) ''e'' = Some c" for c by (simp add: demo_world_def)
  ultimately have p: "parseExtensionEnv (demo_world ''EXTENSION_ID=0x12'') ''e'' = (''0x12'', [], None)"
    by (simp only: parseExtensionEnv_def option.case prod.case)
  have "\<not> extensionIDRegex ''0x12''" by (simp add: extensionIDRegex_def match_0x_hex_def)
  then show ?thesis
    using registration_step_passes_iff [OF _ p _ refl, of demo_client "''k''" demo_registry demo_allowlist] by blast
qed

section \<open>What the other steps can fail on\<close>

lemma probe_fails [simp]:
  "HasFailures (probe w url step ident name m1 m2 m3 fix r) \<longleftrightarrow> HasFailures r"
  by (simp add: probe_def Add_def)

lemma later_checks_fail [simp]:
  "HasFailures (check_S2 w path r) \<longleftrightarrow> HasFailures r \<or> (path \<noteq> [] \<and> \<not> extensionIDRegex (fst (parseExtensionEnv w path)))"
  "HasFailures (check_ports w r) \<longleftrightarrow> HasFailures r" "HasFailures (check_S10 w r) \<longleftrightarrow> HasFailures r"
  "HasFailures (check_V2 w r) \<longleftrightarrow> HasFailures r" "HasFailures (check_T1 w r) \<longleftrightarrow> HasFailures r"
  "HasFailures (check_V4 w path r) \<longleftrightarrow> HasFailures r \<or> (path \<noteq> [] \<and> \<not> extensionIDRegex (fst (parseExtensionEnv w path))
     \<and> (fst (parseExtensionEnv w path) \<noteq> [] \<or> \<not> w_not_exist w path))"
  "HasFailures (check_E1 w path r) \<longleftrightarrow> HasFailures r \<or>
     (path \<noteq> [] \<and> \<not> w_not_exist w path \<and> \<not> addressRegex (fst (snd (parseExtensionEnv w path))))"
proof -
  obtain extID sender where p: "parseExtensionEnv w path = (extID, sender, None)"
    using parse_no_error [of w path] by (metis prod.collapse)
  show "HasFailures (check_S2 w path r) \<longleftrightarrow> HasFailures r \<or> (path \<noteq> [] \<and> \<not> extensionIDRegex (fst (parseExtensionEnv w path)))"
    by (cases "extID = []") (simp_all add: check_S2_def Add_def p)
  show "HasFailures (check_ports w r) \<longleftrightarrow> HasFailures r" by (simp add: check_ports_def Add_def Let_def)
  show "HasFailures (check_S10 w r) \<longleftrightarrow> HasFailures r" by (simp add: check_S10_def Add_def Let_def)
  show "HasFailures (check_V2 w r) \<longleftrightarrow> HasFailures r" by (simp add: check_V2_def Add_def Let_def)
  show "HasFailures (check_T1 w r) \<longleftrightarrow> HasFailures r" by (simp add: check_T1_def Add_def Let_def)
  show "HasFailures (check_V4 w path r) \<longleftrightarrow> HasFailures r \<or> (path \<noteq> [] \<and> \<not> extensionIDRegex (fst (parseExtensionEnv w path))
     \<and> (fst (parseExtensionEnv w path) \<noteq> [] \<or> \<not> w_not_exist w path))"
    by (cases "extID = []") (simp_all add: check_V4_def Add_def p)
  show "HasFailures (check_E1 w path r) \<longleftrightarrow> HasFailures r \<or>
     (path \<noteq> [] \<and> \<not> w_not_exist w path \<and> \<not> addressRegex (fst (snd (parseExtensionEnv w path))))"
    by (cases "sender = []") (simp_all add: check_E1_def Add_def p)
qed

text \<open>Only the configuration file can make the last four steps fail: an unreachable
  proxy, a busy port, a missing key or a simulated TEE is at most a warning. The services step
  fails exactly on an extension id that is missing or malformed in a named file, the version
  step likewise unless the file does not exist, the test step on the instruction sender of an
  existing file, and the machine step never.\<close>

theorem later_steps_fail_iff:
  "(HasFailures (RegisterServicesChecks w [] path) \<longleftrightarrow>
      path \<noteq> [] \<and> \<not> extensionIDRegex (fst (parseExtensionEnv w path)))
   \<and> (HasFailures (RegisterTeeVersionChecks w [] path) \<longleftrightarrow>
      path \<noteq> [] \<and> \<not> extensionIDRegex (fst (parseExtensionEnv w path))
        \<and> (fst (parseExtensionEnv w path) \<noteq> [] \<or> \<not> w_not_exist w path))
   \<and> \<not> HasFailures (RegisterTeeMachineChecks w [] path)
   \<and> (HasFailures (RegisterTestChecks w [] path) \<longleftrightarrow>
      path \<noteq> [] \<and> \<not> w_not_exist w path \<and> \<not> addressRegex (fst (snd (parseExtensionEnv w path))))"
proof -
  have "HasFailures (Add r (result step ident name PASS msg fx)) \<longleftrightarrow> HasFailures r" for r step ident name msg fx
    by (simp add: Add_def)
  then show ?thesis
    by (simp add: RegisterServicesChecks_def RegisterTeeVersionChecks_def RegisterTeeMachineChecks_def
        RegisterTestChecks_def Let_def)
qed

end
