(* ===== verification/Revert.thy ===== *)
theory Revert
  imports Go_Std
begin

text \<open>
  Transactions and their failures: \<^verbatim>\<open>tools/pkg/fccutils/revert.go\<close>, the revert
  extraction of \<^verbatim>\<open>tools/pkg/fccutils/diag.go\<close>, and \<^verbatim>\<open>CheckTx\<close> with its helpers from
  \<^verbatim>\<open>tools/pkg/support/support.go\<close>. An error of the RPC client has its text and, where
  it exposes one, its data; go-ethereum's ABI decoding is a parameter.
\<close>

section \<open>Revert reasons\<close>

text \<open>\<^verbatim>\<open>ErrorData()\<close> of an error that has it: a string, a byte slice, nil or another value.\<close>

datatype error_data = DataString string | DataBytes bytes | DataNil | DataOther

record rpc_error =
  e_text :: string
  e_data :: "error_data option"

definition decodeRevertHex :: "(bytes \<Rightarrow> string option) \<Rightarrow> string \<Rightarrow> string" where
  "decodeRevertHex unpack hexStr =
     (let h = trim_prefix hexStr ''0x'' in
      case hex_decode h of
        None \<Rightarrow> []
      | Some decoded \<Rightarrow>
          if length decoded < 4 then []
          else (case unpack decoded of Some reason \<Rightarrow> reason | None \<Rightarrow> ''0x'' @ h))"

definition DecodeRevertReason :: "(bytes \<Rightarrow> string option) \<Rightarrow> rpc_error option \<Rightarrow> string" where
  "DecodeRevertReason unpack err =
     (case err of
        None \<Rightarrow> []
      | Some e \<Rightarrow> (case e_data e of Some (DataString hexStr) \<Rightarrow> decodeRevertHex unpack hexStr | _ \<Rightarrow> []))"

text \<open>\<open>call\<close> is the answer of \<^verbatim>\<open>eth_call\<close> to the replayed message.\<close>

definition SimulateAndDecodeRevert :: "(bytes \<Rightarrow> string option) \<Rightarrow> rpc_error + bytes \<Rightarrow> string" where
  "SimulateAndDecodeRevert unpack call =
     (case call of
        Inl e \<Rightarrow>
          (let reason = DecodeRevertReason unpack (Some e) in if reason \<noteq> [] then reason else e_text e)
      | Inr res \<Rightarrow> if length res \<ge> 4 then decodeRevertHex unpack (hex_encode res) else [])"

text \<open>
  One custom error of the ABI: its name, the 32 bytes of its id, and its arguments as
  \<^verbatim>\<open>%v\<close> prints them where they unpack. \<^verbatim>\<open>parsedABI.Errors\<close> is a map; the list is the
  order in which it is visited.
\<close>

record custom_error =
  ce_name :: string
  ce_id :: bytes
  ce_args :: "bytes \<Rightarrow> string option"

fun match_errors :: "custom_error list \<Rightarrow> bytes \<Rightarrow> string" where
  "match_errors [] payload = []"
| "match_errors (e # es) payload =
     (if take 4 (ce_id e) \<noteq> take 4 payload then match_errors es payload
      else (case ce_args e payload of
          Some argStr \<Rightarrow> if argStr \<noteq> ''[]'' \<and> argStr \<noteq> ''<nil>'' then ce_name e @ argStr else ce_name e
        | None \<Rightarrow> ce_name e))"

definition MatchCustomError :: "custom_error list \<Rightarrow> string \<Rightarrow> string" where
  "MatchCustomError errs revertHex =
     (case hex_decode (trim_prefix revertHex ''0x'') of
        None \<Rightarrow> []
      | Some payload \<Rightarrow> if length payload < 4 then [] else match_errors errs payload)"

text \<open>\<open>from_hex\<close> is go-ethereum's \<^verbatim>\<open>common.FromHex\<close>.\<close>

definition ExtractRevertData :: "(string \<Rightarrow> bytes) \<Rightarrow> rpc_error option \<Rightarrow> bytes" where
  "ExtractRevertData from_hex err =
     (case err of
        None \<Rightarrow> []
      | Some e \<Rightarrow> (case e_data e of
            Some (DataString d) \<Rightarrow> from_hex d
          | Some (DataBytes d) \<Rightarrow> d
          | _ \<Rightarrow> []))"

section \<open>Waiting for a transaction\<close>

record receipt =
  r_status :: nat
  r_logs :: "bytes list"
  r_tx_hash :: hash

text \<open>
  What the chain answers about a transaction: \<^verbatim>\<open>bind.WaitMined\<close>, the transaction's sender
  as \<^verbatim>\<open>TransactionByHash\<close> and \<^verbatim>\<open>types.Sender\<close> find it, and the replayed call.
\<close>

record tx_answers =
  t_mined :: "err + receipt"
  t_lookup :: "err + unit"
  t_sender :: "err + address"
  t_call :: "rpc_error + bytes"

definition decodeRevertFromError :: "(bytes \<Rightarrow> string option) \<Rightarrow> rpc_error \<Rightarrow> string" where
  "decodeRevertFromError unpack e =
     (case e_data e of
        Some (DataString hexStr) \<Rightarrow>
          (case hex_decode (trim_prefix hexStr ''0x'') of
             Some decoded \<Rightarrow> (case unpack decoded of Some reason \<Rightarrow> reason | None \<Rightarrow> [])
           | None \<Rightarrow> [])
      | _ \<Rightarrow> [])"

definition getFailingMessage :: "(bytes \<Rightarrow> string option) \<Rightarrow> tx_answers \<Rightarrow> err + string" where
  "getFailingMessage unpack t =
     (case t_lookup t of
        Inl e \<Rightarrow> Inl e
      | Inr _ \<Rightarrow>
        (case t_sender t of
           Inl e \<Rightarrow> Inl e
         | Inr from \<Rightarrow>
           (case t_call t of
              Inl e \<Rightarrow>
                (let reason = decodeRevertFromError unpack e in
                 Inr (if reason \<noteq> [] then reason else e_text e))
            | Inr res \<Rightarrow>
                (case unpack res of
                   Some reason \<Rightarrow> Inr reason
                 | None \<Rightarrow>
                     if length res > 0 then Inr (''0x'' @ hex_encode res)
                     else Inr ''unknown revert reason''))))"

definition CheckTx :: "(bytes \<Rightarrow> string option) \<Rightarrow> (hash \<Rightarrow> string) \<Rightarrow> hash \<Rightarrow> tx_answers \<Rightarrow> err + receipt" where
  "CheckTx unpack hash_hex txHash t =
     (case t_mined t of
        Inl e \<Rightarrow> Inl (''transaction not mined within 2 minutes (tx: '' @ hash_hex txHash @ ''): '' @ e)
      | Inr receipt \<Rightarrow>
          if r_status receipt = 0 then
            (case getFailingMessage unpack t of
               Inl e \<Rightarrow> Inl e
             | Inr reason \<Rightarrow> Inl (''error: Transaction fail: '' @ reason))
          else Inr receipt)"

section \<open>Facts\<close>

text \<open>Hexadecimal text never begins with the prefix that is trimmed.\<close>

lemma hex_char_not_x: "d < 16 \<Longrightarrow> hex_char d \<noteq> CHR ''x''"
proof -
  assume "d < 16"
  then have "hex_val (hex_char d) = Some d" by simp
  moreover have "hex_val CHR ''x'' = None" by (simp add: hex_val_def code_of_def)
  ultimately show ?thesis by auto
qed

lemma trim_hex_encode [simp]: "trim_prefix (hex_encode bs) ''0x'' = hex_encode bs"
proof (cases bs)
  case (Cons b rest)
  have "hex_char (code_of b mod 16) \<noteq> CHR ''x''" by (rule hex_char_not_x) simp
  then show ?thesis by (simp add: Cons trim_prefix_def has_prefix_def)
qed (simp add: trim_prefix_def has_prefix_def)

lemma trim_0x [simp]: "trim_prefix (CHR ''0'' # CHR ''x'' # s) ''0x'' = s"
  by (simp add: trim_prefix_def has_prefix_def)

lemma decodeRevertHex_encode:
  "length payload \<ge> 4 \<Longrightarrow> unpack payload = None \<Longrightarrow> decodeRevertHex unpack (hex_encode payload) = ''0x'' @ hex_encode payload"
  by (simp add: decodeRevertHex_def hex_decode_encode)

text \<open>A custom error survives the round trip through hexadecimal: when the replayed call
  returns the payload of a custom error that is not a plain revert string, the text
  \<open>SimulateAndDecodeRevert\<close> produces is one \<open>MatchCustomError\<close> resolves to the error of the
  ABI with that selector, by name, whatever the other errors are.\<close>

theorem custom_error_is_named:
  assumes "4 \<le> length payload" and "unpack payload = None"
    and "e \<in> set errs" and "take 4 (ce_id e) = take 4 payload"
    and "distinct (map (\<lambda>c. take 4 (ce_id c)) errs)"
  shows "has_prefix (MatchCustomError errs (SimulateAndDecodeRevert unpack (Inr payload))) (ce_name e)"
proof -
  have "has_prefix (match_errors errs payload) (ce_name e)"
    using assms(3,5)
  proof (induction errs)
    case (Cons c cs)
    show ?case
    proof (cases "c = e")
      case True
      then show ?thesis using assms(4) by (simp add: has_prefix_def split: option.splits)
    next
      case False
      then have "e \<in> set cs" using Cons.prems by simp
      moreover have "take 4 (ce_id c) \<noteq> take 4 (ce_id e)" using Cons.prems(2) calculation by (metis (mono_tags) distinct.simps(2) image_eqI list.simps(9) set_map)
      ultimately show ?thesis using Cons assms(4) by simp
    qed
  qed simp
  then show ?thesis
    using assms(1,2) by (simp add: SimulateAndDecodeRevert_def decodeRevertHex_encode MatchCustomError_def hex_decode_encode)
qed

definition demo_error :: custom_error where
  "demo_error = \<lparr>ce_name = ''InvalidGovernanceHash'', ce_id = ''abcd'' @ replicate 28 CHR ''z'', ce_args = (\<lambda>_. None)\<rparr>"

theorem custom_error_is_named_witness:
  "has_prefix (MatchCustomError [demo_error] (SimulateAndDecodeRevert (\<lambda>_. None) (Inr ''abcd''))) ''InvalidGovernanceHash''"
  using custom_error_is_named [of "''abcd''" "\<lambda>_. None" demo_error "[demo_error]"] by (simp add: demo_error_def)

text \<open>A transaction counts as done exactly when it was mined with a status other than
  zero; a receipt with status zero is never returned, and neither is success without a
  receipt.\<close>

theorem CheckTx_succeeds_iff:
  "CheckTx unpack hash_hex txHash t = Inr receipt \<longleftrightarrow> t_mined t = Inr receipt \<and> r_status receipt \<noteq> 0"
  by (auto simp: CheckTx_def split: sum.splits)

end
