(* ===== verification/Registration.thy ===== *)
theory Registration
  imports Revert
begin

text \<open>
  Registering a TEE machine: \<^verbatim>\<open>tools/pkg/fccutils/registration.go\<close>,
  \<^verbatim>\<open>policy_consistency.go\<close>, \<^verbatim>\<open>governance.go\<close>, the proxy calls of
  \<^verbatim>\<open>tee_calls.go\<close> and the governance settings of \<^verbatim>\<open>tools/cmd/set-governance\<close>. The
  chain answers as a function of the transactions sent so far, which the model records; the
  state file is the only file. ABI bindings, signature and hash functions are parameters.
\<close>

section \<open>What the node reports\<close>

record tee_info =
  ti_public_key :: bytes
  ti_chain_id :: int
  ti_last_policy :: u64
  ti_rest :: bytes

record machine_data =
  md_extension_id :: hash
  md_initial_owner :: address
  md_code_hash :: hash
  md_platform :: hash
  md_public_key :: "hash \<times> hash"
  md_governance_hash :: hash

record signed_info =
  si_info :: tee_info
  si_machine :: machine_data
  si_data_signature :: bytes
  si_proxy_signature :: bytes
  si_attestation :: bytes

record crypto =
  cr_parse_pubkey :: "bytes \<Rightarrow> err + bytes"
  cr_address :: "bytes \<Rightarrow> address"
  cr_info_hash :: "tee_info \<Rightarrow> err + hash"
  cr_payload_hash :: "int \<Rightarrow> hash \<Rightarrow> err + hash"
  cr_text_hash :: "hash \<Rightarrow> hash"
  cr_sig_to_pub :: "hash \<Rightarrow> bytes \<Rightarrow> err + bytes"
  cr_rsv_to_vrs :: "bytes \<Rightarrow> err + bytes"
  cr_governance_hash :: "address list \<Rightarrow> u64 \<Rightarrow> err + hash"
  cr_claims :: "bytes \<Rightarrow> err + hash \<times> hash"

definition TeeProxyId :: "crypto \<Rightarrow> signed_info \<Rightarrow> err + address \<times> address" where
  "TeeProxyId cr info =
     and_then (cr_parse_pubkey cr (ti_public_key (si_info info))) (\<lambda>pubKey.
     and_then (cr_info_hash cr (si_info info)) (\<lambda>h.
     and_then (cr_payload_hash cr (ti_chain_id (si_info info)) h) (\<lambda>infoSignHash.
     and_then (cr_sig_to_pub cr (cr_text_hash cr infoSignHash) (si_proxy_signature info)) (\<lambda>proxyPubKey.
       Inr (cr_address cr pubKey, cr_address cr proxyPubKey)))))"

definition TeeCodeHash :: hash where
  "TeeCodeHash = 0x194844cf417dde867073e5ab7199fa4d21fd82b5dbe2bdea8b3d7fc18d10fdc2"

definition TestPlatform :: hash where
  "TestPlatform = 0x544553545f504c4154464f524d00000000000000000000000000000000000000"

definition GetCodeHashAndPlatform ::
  "crypto \<Rightarrow> (hash \<Rightarrow> string) \<Rightarrow> (string \<Rightarrow> string) \<Rightarrow> signed_info \<Rightarrow> err + hash \<times> hash" where
  "GetCodeHashAndPlatform cr hash_text getenv info =
     and_then (if getenv ''SIMULATED_TEE'' = ''true'' then Inr (TeeCodeHash, TestPlatform)
               else cr_claims cr (si_attestation info)) (\<lambda>(codeHash, platform).
       if codeHash \<noteq> md_code_hash (si_machine info) then
         Inl (''code hashes do not match: '' @ hash_text codeHash @ '', '' @ hash_text (md_code_hash (si_machine info)))
       else if platform \<noteq> md_platform (si_machine info) then
         Inl (''platforms do not matc: '' @ hash_text platform @ '', '' @ hash_text (md_platform (si_machine info)))
       else Inr (codeHash, platform))"

section \<open>Polling the proxy\<close>

definition repeats :: nat where "repeats = 15"

definition status_ok :: "err + int \<times> bytes \<Rightarrow> bool" where
  "status_ok r \<longleftrightarrow> (case r of Inl e \<Rightarrow> False | Inr (code, body) \<Rightarrow> code = 200)"

text \<open>Attempt \<open>i\<close> of those that remain; the last reply is kept.\<close>

fun poll :: "(nat \<Rightarrow> err + int \<times> bytes) \<Rightarrow> nat \<Rightarrow> nat \<Rightarrow> err + int \<times> bytes \<Rightarrow> err + int \<times> bytes" where
  "poll get i 0 last_reply = last_reply"
| "poll get i (Suc n) last_reply =
     (if status_ok (get i) then get i else poll get (Suc i) n (get i))"

definition ActionResult :: "(nat \<Rightarrow> err + int \<times> bytes) \<Rightarrow> (bytes \<Rightarrow> err + 'r) \<Rightarrow> err + 'r" where
  "ActionResult get decode =
     (case poll get 0 repeats (Inl []) of
        Inl e \<Rightarrow> Inl e
      | Inr (code, body) \<Rightarrow>
          if code \<noteq> 200 then Inl (''action result status not ok, got: '' @ big_string code)
          else decode body)"

section \<open>The chain\<close>

record proof_request =
  pq_tee_id :: address
  pq_rest :: bytes

record prove_response =
  pr_header :: bytes
  pr_request :: bytes
  pr_response :: bytes
  pr_signatures :: "bytes list"

record availability_proof =
  ap_signatures :: "bytes list"
  ap_header :: bytes
  ap_request :: proof_request
  ap_response :: bytes

text \<open>Signatures as the contract takes them: V, R, S.\<close>

type_synonym vrs = "char \<times> bytes \<times> bytes"

datatype call =
    RegisterCall machine_data vrs address string address
  | AttestationCall address address
  | AvailabilityCall address hash address address address
  | ToProductionCall availability_proof
  | AddVersionCall int bytes hash "hash list"
  | GovernanceCall int "address list" u64

record chain =
  ch_account :: address
  ch_transactor :: "err option"
  ch_send :: "call list \<Rightarrow> call \<Rightarrow> rpc_error + hash"
  ch_answers :: "call list \<Rightarrow> hash \<Rightarrow> tx_answers"
  ch_simulate :: "call list \<Rightarrow> call \<Rightarrow> (rpc_error + bytes) option"
  ch_errors :: "custom_error list"
  ch_unpack :: "bytes \<Rightarrow> string option"
  ch_hash_hex :: "hash \<Rightarrow> string"
  ch_machine :: "call list \<Rightarrow> address \<Rightarrow> err + address"
  ch_epoch :: "call list \<Rightarrow> err + int option"
  ch_governance :: "call list \<Rightarrow> int \<Rightarrow> err + hash"
  ch_parse_attestation :: "bytes \<Rightarrow> err + hash"
  ch_parse_sent :: "bytes \<Rightarrow> err + hash"

text \<open>The state file, and the transactions sent.\<close>

record world_state =
  ws_file :: "bytes option"
  ws_sent :: "call list"

text \<open>A transaction that was sent stays sent, whether or not it is mined in time.\<close>

definition send_call :: "chain \<Rightarrow> call \<Rightarrow> world_state \<Rightarrow> (rpc_error + hash) \<times> world_state" where
  "send_call ch c w =
     (case ch_send ch (ws_sent w) c of
        Inl e \<Rightarrow> (Inl e, w)
      | Inr h \<Rightarrow> (Inr h, w\<lparr>ws_sent := ws_sent w @ [c]\<rparr>))"

definition check_tx :: "chain \<Rightarrow> world_state \<Rightarrow> hash \<Rightarrow> err + receipt" where
  "check_tx ch w h = CheckTx (ch_unpack ch) (ch_hash_hex ch) h (ch_answers ch (ws_sent w) h)"

section \<open>The steps of a registration\<close>

text \<open>\<open>ch_simulate\<close> is None where the ABI or the packing of the replayed call fails.\<close>

definition register_revert_reason :: "chain \<Rightarrow> world_state \<Rightarrow> call \<Rightarrow> rpc_error \<Rightarrow> string" where
  "register_revert_reason ch w c e =
     (let reason0 = DecodeRevertReason (ch_unpack ch) (Some e);
          reason1 = (case ch_simulate ch (ws_sent w) c of
              None \<Rightarrow> reason0
            | Some reply \<Rightarrow>
                let raw = SimulateAndDecodeRevert (ch_unpack ch) reply;
                    named = MatchCustomError (ch_errors ch) raw
                in if named \<noteq> [] then named else if reason0 = [] then raw else reason0)
      in if reason1 = [] then e_text e else reason1)"

definition PreRegistration ::
  "chain \<Rightarrow> crypto \<Rightarrow> string \<Rightarrow> address \<Rightarrow> address \<Rightarrow> signed_info \<Rightarrow> world_state \<Rightarrow> (err + hash \<times> hash) \<times> world_state" where
  "PreRegistration ch cr hostURL teeID proxyID info w =
     (case ch_transactor ch of
        Some e \<Rightarrow> (Inl e, w)
      | None \<Rightarrow>
        if length (si_data_signature info) \<noteq> 65 then (Inl ''signature error'', w)
        else
          (case cr_rsv_to_vrs cr (si_data_signature info) of
             Inl e \<Rightarrow> (Inl e, w)
           | Inr sigVRS \<Rightarrow>
               let c = RegisterCall (si_machine info) (hd sigVRS, take 32 (drop 1 sigVRS), take 32 (drop 33 sigVRS))
                         proxyID hostURL (ch_account ch)
               in (case send_call ch c w of
                     (Inl e, w1) \<Rightarrow> (Inl (''register() reverted: '' @ register_revert_reason ch w c e), w1)
                   | (Inr h, w1) \<Rightarrow>
                       (case check_tx ch w1 h of
                          Inl e \<Rightarrow> (Inl e, w1)
                        | Inr receipt \<Rightarrow>
                            if length (r_logs receipt) < 2 then (Inl ''unexpected logs, this should not happen'', w1)
                            else
                              (case ch_parse_attestation ch (r_logs receipt ! 1) of
                                 Inl e \<Rightarrow> (Inl (''failed to parse TeeAttestationRequested event: '' @ e), w1)
                               | Inr challenge \<Rightarrow>
                                   (case ch_parse_sent ch (r_logs receipt ! 0) of
                                      Inl e \<Rightarrow> (Inl (''failed to parse TeeInstructionsSent event: '' @ e), w1)
                                    | Inr instructionID \<Rightarrow> (Inr (challenge, instructionID), w1)))))))"

definition RequestTeeAttestation :: "chain \<Rightarrow> address \<Rightarrow> world_state \<Rightarrow> (err + hash) \<times> world_state" where
  "RequestTeeAttestation ch teeID w =
     (case ch_transactor ch of
        Some e \<Rightarrow> (Inl e, w)
      | None \<Rightarrow>
        (case send_call ch (AttestationCall teeID (ch_account ch)) w of
           (Inl e, w1) \<Rightarrow> (Inl (''error: '' @ e_text e), w1)
         | (Inr h, w1) \<Rightarrow>
             (case check_tx ch w1 h of
                Inl e \<Rightarrow> (Inl e, w1)
              | Inr receipt \<Rightarrow>
                  if length (r_logs receipt) < 2 then (Inl ''unexpected logs, this should not happen'', w1)
                  else
                    (case ch_parse_sent ch (r_logs receipt ! 0) of
                       Inl e \<Rightarrow> (Inl (''failed to parse TeeInstructionsSent event: '' @ e), w1)
                     | Inr instructionID \<Rightarrow> (Inr instructionID, w1)))))"

definition RequestFTDCAvailabilityCheck ::
  "chain \<Rightarrow> address \<Rightarrow> address \<Rightarrow> hash \<Rightarrow> world_state \<Rightarrow> (err + hash) \<times> world_state" where
  "RequestFTDCAvailabilityCheck ch teeID externalTeeID teeAttestInstructionID w =
     (case ch_transactor ch of
        Some e \<Rightarrow> (Inl e, w)
      | None \<Rightarrow>
        (case send_call ch (AvailabilityCall teeID teeAttestInstructionID externalTeeID (ch_account ch) (ch_account ch)) w of
           (Inl e, w1) \<Rightarrow> (Inl (e_text e), w1)
         | (Inr h, w1) \<Rightarrow>
             (case check_tx ch w1 h of
                Inl e \<Rightarrow> (Inl e, w1)
              | Inr receipt \<Rightarrow>
                  (case r_logs receipt of
                     [] \<Rightarrow> (Inl ''no logs found in receipt'', w1)
                   | l # _ \<Rightarrow>
                     (case ch_parse_sent ch l of
                        Inl e \<Rightarrow> (Inl (''failed to parse TeeInstructionsSent event: '' @ e), w1)
                      | Inr instructionID \<Rightarrow> (Inr instructionID, w1))))))"

text \<open>The decoders of the proof: JSON and the FTDC structures.\<close>

record proof_decoders =
  pd_prove :: "bytes \<Rightarrow> err + prove_response"
  pd_header :: "bytes \<Rightarrow> err + bytes"
  pd_request :: "bytes \<Rightarrow> err + proof_request"
  pd_response :: "bytes \<Rightarrow> err + bytes"

definition GetFTDCAvailabilityCheckResult ::
  "proof_decoders \<Rightarrow> (nat \<Rightarrow> err + int \<times> bytes) \<Rightarrow> (bytes \<Rightarrow> err + bytes) \<Rightarrow> err + availability_proof" where
  "GetFTDCAvailabilityCheckResult pd get result_data =
     and_then (ActionResult get result_data) (\<lambda>payload.
     and_then (pd_prove pd payload) (\<lambda>prove.
     and_then (pd_header pd (pr_header prove)) (\<lambda>header.
     and_then (pd_request pd (pr_request prove)) (\<lambda>request.
     and_then (pd_response pd (pr_response prove)) (\<lambda>response.
       Inr \<lparr>ap_signatures = pr_signatures prove, ap_header = header, ap_request = request, ap_response = response\<rparr>)))))"

definition ToProduction :: "chain \<Rightarrow> availability_proof \<Rightarrow> world_state \<Rightarrow> err option \<times> world_state" where
  "ToProduction ch p w =
     (case ch_transactor ch of
        Some e \<Rightarrow> (Some e, w)
      | None \<Rightarrow>
        (case send_call ch (ToProductionCall p) w of
           (Inl e, w1) \<Rightarrow> (Some (e_text e), w1)
         | (Inr h, w1) \<Rightarrow>
             (case check_tx ch w1 h of
                Inl e \<Rightarrow> (Some e, w1)
              | Inr receipt \<Rightarrow>
                  (case ch_machine ch (ws_sent w1) (pq_tee_id (ap_request p)) of
                     Inl e \<Rightarrow> (Some e, w1)
                   | Inr teeId \<Rightarrow>
                       (if teeId \<noteq> pq_tee_id (ap_request p) then Some ''tee machine not set up correctly'' else None, w1)))))"

section \<open>The signing policy\<close>

definition ErrPolicyOutOfSync :: string where
  "ErrPolicyOutOfSync = ''FTDC proxy signing policy out of sync with on-chain reward epoch''"

definition policyInSync :: "u64 \<Rightarrow> u64 \<Rightarrow> bool" where
  "policyInSync onchainEpoch proxyPolicyID \<longleftrightarrow>
     proxyPolicyID = onchainEpoch \<or> proxyPolicyID = onchainEpoch + 1"

definition word_text :: "u64 \<Rightarrow> string" where
  "word_text n = dec_nat (unat n)"

definition outOfSyncError :: "u64 \<Rightarrow> u64 \<Rightarrow> err" where
  "outOfSyncError onchainEpoch proxyPolicyID =
     (let rel = (if proxyPolicyID < onchainEpoch
          then ''proxy is '' @ word_text (onchainEpoch - proxyPolicyID) @ '' epoch(s) behind''
          else ''proxy is '' @ word_text (proxyPolicyID - onchainEpoch) @ '' epoch(s) ahead'')
      in ErrPolicyOutOfSync @ '': proxy signing policy '' @ word_text proxyPolicyID @
         '' vs on-chain current reward epoch '' @ word_text onchainEpoch @ '' ('' @ rel @ ''); '' @
         ''data providers will reject the availability check with 404 '' @ [CHR 0x22] @ ''no round'' @ [CHR 0x22] @ ''; '' @
         ''wait for the proxy to catch up to the current signing policy, or check the proxy'' @ [CHR 0x27] @ ''s '' @
         ''initial_signing_policy_offset and C-chain indexer sync'')"

text \<open>\<open>info\<close> is the proxy's answer to \<^verbatim>\<open>TeeInfo\<close>; \<^verbatim>\<open>Uint64()\<close> keeps the low 64 bits.\<close>

definition CheckFTDCProxyPolicyConsistency ::
  "err + int option \<Rightarrow> err + signed_info \<Rightarrow> err option" where
  "CheckFTDCProxyPolicyConsistency onchain info =
     (case onchain of
        Inl e \<Rightarrow> None
      | Inr None \<Rightarrow> None
      | Inr (Some epoch) \<Rightarrow>
          (case info of
             Inl e \<Rightarrow> None
           | Inr si \<Rightarrow>
               let onchainEpoch = (word_of_int epoch :: u64); proxyPolicyID = ti_last_policy (si_info si)
               in if \<not> policyInSync onchainEpoch proxyPolicyID then Some (outOfSyncError onchainEpoch proxyPolicyID)
                  else None))"

section \<open>The state file\<close>

record registrationState =
  CompletedSteps :: string
  TeeAttestInstructionID :: hash
  InstructionID :: hash

definition empty_state :: registrationState where
  "empty_state = \<lparr>CompletedSteps = [], TeeAttestInstructionID = 0, InstructionID = 0\<rparr>"

text \<open>
  Errors of the file system other than a missing file, and the JSON codec of the struct,
  whose hashes go-ethereum writes and reads.
\<close>

record file_system =
  fs_read_error :: "err option"
  fs_write_error :: "err option"
  fs_remove_error :: bool
  fs_encode :: "registrationState \<Rightarrow> bytes"
  fs_decode :: "bytes \<Rightarrow> err + registrationState"

definition loadState :: "file_system \<Rightarrow> world_state \<Rightarrow> err + registrationState" where
  "loadState fs w =
     (case fs_read_error fs of
        Some e \<Rightarrow> Inl (''failed to read state file: '' @ e)
      | None \<Rightarrow>
        (case ws_file w of
           None \<Rightarrow> Inr empty_state
         | Some content \<Rightarrow>
             (case fs_decode fs content of
                Inl e \<Rightarrow> Inl (''failed to parse state file: '' @ e)
              | Inr st \<Rightarrow> Inr st)))"

text \<open>Its callers only log the error, so it is dropped here: the file is written or it is not.\<close>

definition saveState :: "file_system \<Rightarrow> registrationState \<Rightarrow> world_state \<Rightarrow> world_state" where
  "saveState fs st w =
     (case fs_write_error fs of Some e \<Rightarrow> w | None \<Rightarrow> w\<lparr>ws_file := Some (fs_encode fs st)\<rparr>)"

section \<open>RegisterNode\<close>

text \<open>
  The proxy of the FTDC machine: its \<^verbatim>\<open>/info\<close>, its replies about an instruction, and the
  payload of a reply. \<^verbatim>\<open>HexToHash\<close> is go-ethereum's.
\<close>

record ftdc_proxy =
  fp_info :: "err + signed_info"
  fp_get :: "hash \<Rightarrow> nat \<Rightarrow> err + int \<times> bytes"
  fp_payload :: "bytes \<Rightarrow> err + bytes"

text \<open>Step r. The attestation id of a state that already has the step is the saved one.\<close>

definition step_register ::
  "chain \<Rightarrow> crypto \<Rightarrow> file_system \<Rightarrow> string \<Rightarrow> address \<Rightarrow> address \<Rightarrow> signed_info \<Rightarrow> registrationState \<Rightarrow> world_state
     \<Rightarrow> (err + hash \<times> registrationState) \<times> world_state" where
  "step_register ch cr fs hostURL teeID proxyID info state w =
     (if contains (CompletedSteps state) ''r'' then (Inr (TeeAttestInstructionID state, state), w)
      else
        let registered = (case ch_machine ch (ws_sent w) teeID of Inl e \<Rightarrow> False | Inr m \<Rightarrow> m \<noteq> 0) in
        then_do (if registered then RequestTeeAttestation ch teeID w
                 else then_do (PreRegistration ch cr hostURL teeID proxyID info w) (\<lambda>(challenge, instructionID) w1. (Inr instructionID, w1)))
          (\<lambda>teeAttest w1.
            let state1 = state\<lparr>CompletedSteps := CompletedSteps state @ ''r'', TeeAttestInstructionID := teeAttest\<rparr>
            in (Inr (teeAttest, state1), saveState fs state1 w1)))"

text \<open>Step R.\<close>

definition step_attest ::
  "chain \<Rightarrow> file_system \<Rightarrow> address \<Rightarrow> registrationState \<Rightarrow> world_state \<Rightarrow> (err + hash \<times> registrationState) \<times> world_state" where
  "step_attest ch fs teeID state w =
     (if contains (CompletedSteps state) ''R'' then (Inr (TeeAttestInstructionID state, state), w)
      else then_do (RequestTeeAttestation ch teeID w)
        (\<lambda>teeAttest w1.
          let state1 = state\<lparr>CompletedSteps := CompletedSteps state @ ''R'', TeeAttestInstructionID := teeAttest\<rparr>
          in (Inr (teeAttest, state1), saveState fs state1 w1)))"

text \<open>Step a.\<close>

definition step_availability ::
  "chain \<Rightarrow> file_system \<Rightarrow> ftdc_proxy \<Rightarrow> address \<Rightarrow> address \<Rightarrow> hash \<Rightarrow> registrationState \<Rightarrow> world_state
     \<Rightarrow> (err + hash \<times> registrationState) \<times> world_state" where
  "step_availability ch fs fp teeID ftdcTee teeAttest state w =
     (if contains (CompletedSteps state) ''a'' then (Inr (InstructionID state, state), w)
      else
        (case CheckFTDCProxyPolicyConsistency (ch_epoch ch (ws_sent w)) (fp_info fp) of
           Some e \<Rightarrow> (Inl e, w)
         | None \<Rightarrow>
             then_do (RequestFTDCAvailabilityCheck ch teeID ftdcTee teeAttest w)
               (\<lambda>instructionID w1.
                 let state1 = state\<lparr>CompletedSteps := CompletedSteps state @ ''a'', InstructionID := instructionID\<rparr>
                 in (Inr (instructionID, state1), saveState fs state1 w1))))"

text \<open>Step p.\<close>

definition step_production ::
  "chain \<Rightarrow> proof_decoders \<Rightarrow> ftdc_proxy \<Rightarrow> hash \<Rightarrow> world_state \<Rightarrow> (err + unit) \<times> world_state" where
  "step_production ch pd fp instructionID w =
     (case GetFTDCAvailabilityCheckResult pd (fp_get fp instructionID) (fp_payload fp) of
        Inl e \<Rightarrow> (Inl e, w)
      | Inr p \<Rightarrow> (case ToProduction ch p w of (Some e, w1) \<Rightarrow> (Inl e, w1) | (None, w1) \<Rightarrow> (Inr (), w1)))"

definition remove_state :: "file_system \<Rightarrow> world_state \<Rightarrow> world_state" where
  "remove_state fs w = (if fs_remove_error fs then w else w\<lparr>ws_file := None\<rparr>)"

definition RegisterNode ::
  "chain \<Rightarrow> crypto \<Rightarrow> file_system \<Rightarrow> proof_decoders \<Rightarrow> ftdc_proxy \<Rightarrow> (string \<Rightarrow> hash) \<Rightarrow> signed_info \<Rightarrow> string \<Rightarrow> address
     \<Rightarrow> string \<Rightarrow> string \<Rightarrow> world_state \<Rightarrow> (err + unit) \<times> world_state" where
  "RegisterNode ch cr fs pd fp hex_to_hash info hostURL ftdcTee command instructionIDstring w =
     (case TeeProxyId cr info of
        Inl e \<Rightarrow> (Inl e, w)
      | Inr (teeID, proxyID) \<Rightarrow>
        (case loadState fs w of
           Inl e \<Rightarrow> (Inl e, w)
         | Inr state \<Rightarrow>
             then_do (if contains command ''r'' then step_register ch cr fs hostURL teeID proxyID info state w
                      else (Inr (0, state), w)) (\<lambda>(attest1, state1) w1.
             then_do (if contains command ''R'' then step_attest ch fs teeID state1 w1
                      else (Inr (attest1, state1), w1)) (\<lambda>(attest2, state2) w2.
             then_do (if contains command ''a'' then step_availability ch fs fp teeID ftdcTee attest2 state2 w2
                      else (Inr (hex_to_hash instructionIDstring, state2), w2)) (\<lambda>(instructionID, state3) w3.
             then_do (if contains command ''p'' then step_production ch pd fp instructionID w3 else (Inr (), w3))
               (\<lambda>_ w4. (Inr (), remove_state fs w4)))))))"

text \<open>
  The command: without \<^verbatim>\<open>--resume\<close> a stale state file goes first; both nodes and the code
  hash are read before anything is sent.
\<close>

definition register_tee ::
  "chain \<Rightarrow> crypto \<Rightarrow> file_system \<Rightarrow> proof_decoders \<Rightarrow> ftdc_proxy \<Rightarrow> (string \<Rightarrow> hash) \<Rightarrow> (hash \<Rightarrow> string) \<Rightarrow> (string \<Rightarrow> string)
     \<Rightarrow> err + signed_info \<Rightarrow> string \<Rightarrow> string \<Rightarrow> string \<Rightarrow> string \<Rightarrow> bool \<Rightarrow> world_state \<Rightarrow> (err + unit) \<times> world_state" where
  "register_tee ch cr fs pd fp hex_to_hash hash_text getenv proxy_info pf hf command instructionF resume w =
     (let w0 = (if \<not> resume then remove_state fs w else w);
          ready = and_then proxy_info (\<lambda>teeInfo.
                  and_then (TeeProxyId cr teeInfo) (\<lambda>_.
                  and_then (fp_info fp) (\<lambda>ftdcInfo.
                  and_then (TeeProxyId cr ftdcInfo) (\<lambda>(ftdcTeeID, _).
                  and_then (GetCodeHashAndPlatform cr hash_text getenv teeInfo) (\<lambda>_.
                    Inr (teeInfo, ftdcTeeID))))));
          hostURL = (if hf = [] then pf else hf)
      in (case ready of
            Inl e \<Rightarrow> (Inl e, w0)
          | Inr (teeInfo, ftdcTeeID) \<Rightarrow>
              RegisterNode ch cr fs pd fp hex_to_hash teeInfo hostURL ftdcTeeID command instructionF w0))"

section \<open>Versions\<close>

definition StringToBytes32 :: "string \<Rightarrow> err + bytes" where
  "StringToBytes32 s =
     (if length s > 32 then Inl (''version '' @ go_quote s @ '' exceeds 32 bytes'')
      else Inr (s @ replicate (32 - length s) (CHR 0x00)))"

definition AddTeeVersion ::
  "chain \<Rightarrow> int \<Rightarrow> hash \<Rightarrow> hash \<Rightarrow> string \<Rightarrow> world_state \<Rightarrow> err option \<times> world_state" where
  "AddTeeVersion ch extensionId codeHash platform version w =
     (case ch_transactor ch of
        Some e \<Rightarrow> (Some e, w)
      | None \<Rightarrow>
        (case StringToBytes32 version of
           Inl e \<Rightarrow> (Some e, w)
         | Inr versionBytes \<Rightarrow>
           (case send_call ch (AddVersionCall extensionId versionBytes codeHash [platform]) w of
              (Inl e, w1) \<Rightarrow> (Some (''TeeExtensionRegistry.AddTeeVersion failed: '' @ e_text e), w1)
            | (Inr h, w1) \<Rightarrow> (case check_tx ch w1 h of Inl e \<Rightarrow> (Some e, w1) | Inr _ \<Rightarrow> (None, w1)))))"

text \<open>
  \<^verbatim>\<open>tools/cmd/allow-tee-version\<close> from the node's answer on; \<open>supported\<close> is the registry's
  \<^verbatim>\<open>IsCodeHashPlatformSupported\<close>.
\<close>

definition allow_tee_version ::
  "chain \<Rightarrow> crypto \<Rightarrow> (call list \<Rightarrow> int \<Rightarrow> hash \<Rightarrow> hash \<Rightarrow> err + bool) \<Rightarrow> signed_info \<Rightarrow> string \<Rightarrow> world_state
     \<Rightarrow> err option \<times> world_state" where
  "allow_tee_version ch cr supported info version w =
     (let md = si_machine info; extensionId = uint (md_extension_id md) in
      case TeeProxyId cr info of
        Inl e \<Rightarrow> (Some e, w)
      | Inr _ \<Rightarrow>
        (case supported (ws_sent w) extensionId (md_code_hash md) (md_platform md) of
           Inl e \<Rightarrow> (Some e, w)
         | Inr True \<Rightarrow> (None, w)
         | Inr False \<Rightarrow>
             (case AddTeeVersion ch extensionId (md_code_hash md) (md_platform md) version w of
                (None, w1) \<Rightarrow> (None, w1)
              | (Some e, w1) \<Rightarrow> (if contains e ''VersionAlreadyExists'' then None else Some e, w1))))"

section \<open>Governance\<close>

definition parseSigners :: "(string \<Rightarrow> address) \<Rightarrow> string \<Rightarrow> address \<Rightarrow> address list" where
  "parseSigners to_address raw fallback =
     (let signers = map to_address (filter (\<lambda>part. part \<noteq> []) (map trim_space (split_on CHR '','' raw)))
      in if length signers = 0 then [fallback] else signers)"

definition parseThreshold :: "string \<Rightarrow> u64" where
  "parseThreshold raw =
     (case go_parse_uint64 (trim_space raw) of
        Some v \<Rightarrow> if v > 0 then v else 1
      | None \<Rightarrow> 1)"

definition SetTeeGovernance ::
  "chain \<Rightarrow> crypto \<Rightarrow> int \<Rightarrow> address list \<Rightarrow> u64 \<Rightarrow> world_state \<Rightarrow> err option \<times> world_state" where
  "SetTeeGovernance ch cr extensionId signers threshold w =
     (if length signers = 0 then (Some ''at least one governance signer is required (set GOVERNANCE_SIGNERS)'', w)
      else if threshold = 0 \<or> threshold > of_nat (length signers) then
        (Some (''invalid GOVERNANCE_THRESHOLD '' @ word_text threshold @ '' for '' @ dec_nat (length signers) @ '' signer(s)''), w)
      else
        (case cr_governance_hash cr signers threshold of
           Inl e \<Rightarrow> (Some (''computing governance hash: '' @ e), w)
         | Inr desiredHash \<Rightarrow>
           if (case ch_governance ch (ws_sent w) extensionId of Inl e \<Rightarrow> False | Inr current \<Rightarrow> current = desiredHash)
           then (None, w)
           else
             (case ch_transactor ch of
                Some e \<Rightarrow> (Some e, w)
              | None \<Rightarrow>
                (case send_call ch (GovernanceCall extensionId signers threshold) w of
                   (Inl e, w1) \<Rightarrow> (Some (''SetNewTeeGovernance failed: '' @ e_text e), w1)
                 | (Inr h, w1) \<Rightarrow> (case check_tx ch w1 h of Inl e \<Rightarrow> (Some e, w1) | Inr _ \<Rightarrow> (None, w1))))))"

text \<open>\<^verbatim>\<open>tools/cmd/set-governance\<close>; the owner's address is \<open>deployer\<close>.\<close>

definition set_governance ::
  "chain \<Rightarrow> crypto \<Rightarrow> (string \<Rightarrow> address) \<Rightarrow> (string \<Rightarrow> string) \<Rightarrow> address \<Rightarrow> err + signed_info \<Rightarrow> world_state
     \<Rightarrow> err option \<times> world_state" where
  "set_governance ch cr to_address getenv deployer proxy_info w =
     (let owner = trim_space (getenv ''INITIAL_OWNER'');
          defaultSigner = (if owner \<noteq> [] then to_address owner else deployer)
      in (case proxy_info of
            Inl e \<Rightarrow> (Some e, w)
          | Inr teeInfo \<Rightarrow>
              SetTeeGovernance ch cr (uint (md_extension_id (si_machine teeInfo)))
                (parseSigners to_address (getenv ''GOVERNANCE_SIGNERS'') defaultSigner)
                (parseThreshold (getenv ''GOVERNANCE_THRESHOLD'')) w))"

end
