(* ===== verification/Registration_Facts.thy ===== *)
theory Registration_Facts
  imports Registration
begin

text \<open>
  What a registration sends. Every operation on the chain sends at most one transaction of
  its kind, and exactly one where it succeeds: the locale \<open>one_tx\<close>, which the operations
  interpret. The facts of \<open>RegisterNode\<close> follow step by step.
\<close>

section \<open>Operations of one transaction\<close>

definition ran :: "bool \<Rightarrow> (call \<Rightarrow> bool) \<Rightarrow> world_state \<Rightarrow> world_state \<Rightarrow> bool" where
  "ran ok kind w w' \<longleftrightarrow> ws_file w' = ws_file w \<and>
     (ws_sent w' = ws_sent w \<and> \<not> ok \<or> (\<exists>c. ws_sent w' = ws_sent w @ [c] \<and> kind c))"

fun is_register :: "call \<Rightarrow> bool" where
  "is_register (RegisterCall _ _ _ _ _) = True"
| "is_register _ = False"

fun is_attestation :: "call \<Rightarrow> bool" where
  "is_attestation (AttestationCall _ _) = True"
| "is_attestation _ = False"

fun is_availability :: "address \<Rightarrow> address \<Rightarrow> hash \<Rightarrow> call \<Rightarrow> bool" where
  "is_availability teeID ftdcTee attest (AvailabilityCall t a f _ _) = (t = teeID \<and> f = ftdcTee \<and> a = attest)"
| "is_availability teeID ftdcTee attest _ = False"

fun is_production :: "call \<Rightarrow> bool" where
  "is_production (ToProductionCall _) = True"
| "is_production _ = False"

definition is_ok :: "err + 'a \<Rightarrow> bool" where
  "is_ok r = (case r of Inl e \<Rightarrow> False | Inr a \<Rightarrow> True)"

lemma is_ok_simps [simp]: "\<not> is_ok (Inl e)" "is_ok (Inr a)"
  by (simp_all add: is_ok_def)

lemma is_ok_cases: "is_ok r \<longleftrightarrow> (\<exists>a. r = Inr a)"
  by (cases r) simp_all

locale one_tx =
  fixes op :: "world_state \<Rightarrow> (err + 'a) \<times> world_state" and kind :: "call \<Rightarrow> bool"
  assumes runs: "op w = (r, w') \<Longrightarrow> ran (is_ok r) kind w w'"
begin

lemma sent_prefix: "op w = (r, w') \<Longrightarrow> \<exists>cs. ws_sent w' = ws_sent w @ cs \<and> length cs \<le> 1 \<and> list_all kind cs"
proof -
  assume "op w = (r, w')"
  then have "ran (is_ok r) kind w w'" by (rule runs)
  then consider "ws_sent w' = ws_sent w @ []" | c where "ws_sent w' = ws_sent w @ [c]" "kind c"
    by (auto simp: ran_def)
  then show ?thesis by cases (force intro: exI [where x = "[]"])+
qed

lemma ok_sent: "op w = (Inr a, w') \<Longrightarrow> \<exists>c. ws_sent w' = ws_sent w @ [c] \<and> kind c"
  using runs by (fastforce simp: ran_def)

lemma file_kept: "op w = (r, w') \<Longrightarrow> ws_file w' = ws_file w"
  using runs by (fastforce simp: ran_def)

end

lemma send_call_ran: "send_call ch c w = (r, w1) \<Longrightarrow> (case r of Inl e \<Rightarrow> w1 = w | Inr h \<Rightarrow> w1 = w\<lparr>ws_sent := ws_sent w @ [c]\<rparr>)"
  by (auto simp: send_call_def split: sum.splits)

lemmas tx_splits = sum.splits if_splits prod.splits option.splits list.splits

interpretation pre: one_tx "PreRegistration ch cr hostURL teeID proxyID info" is_register
  for ch cr hostURL teeID proxyID info
  by unfold_locales
    (auto simp: PreRegistration_def Let_def ran_def dest!: send_call_ran split: tx_splits)

interpretation attest: one_tx "RequestTeeAttestation ch teeID" is_attestation
  for ch teeID
  by unfold_locales (auto simp: RequestTeeAttestation_def ran_def dest!: send_call_ran split: tx_splits)

interpretation availability: one_tx "RequestFTDCAvailabilityCheck ch teeID ftdcTee a" "is_availability teeID ftdcTee a"
  for ch teeID ftdcTee a
  by unfold_locales (auto simp: RequestFTDCAvailabilityCheck_def ran_def dest!: send_call_ran split: tx_splits)

interpretation production: one_tx "step_production ch pd fp i" is_production
  for ch pd fp i
  by unfold_locales (auto simp: step_production_def ToProduction_def ran_def dest!: send_call_ran split: tx_splits)

text \<open>Success of a sequence means success of its parts.\<close>

lemma then_do_Inr: "then_do rw f = (Inr b, w') \<longleftrightarrow> (\<exists>a w1. rw = (Inr a, w1) \<and> f a w1 = (Inr b, w'))"
  by (auto simp: then_do_def split: prod.splits sum.splits)

section \<open>The steps\<close>

lemma contains_letter [simp]: "contains s [c] \<longleftrightarrow> c \<in> set s"
  by (induction s) (auto simp: has_prefix_def)

lemma saveState_sent [simp]: "ws_sent (saveState fs st w) = ws_sent w"
  by (simp add: saveState_def split: option.splits)

lemma remove_state_sent [simp]: "ws_sent (remove_state fs w) = ws_sent w"
  by (simp add: remove_state_def)

text \<open>
  One step: skipped where it is done, else one transaction of its kind, and the step
  appended to the state that is saved.
\<close>

definition advances ::
  "file_system \<Rightarrow> bool \<Rightarrow> (call \<Rightarrow> bool) \<Rightarrow> char \<Rightarrow> registrationState \<Rightarrow> world_state
     \<Rightarrow> err + hash \<times> registrationState \<Rightarrow> world_state \<Rightarrow> bool" where
  "advances fs needed kind letter st w r w' \<longleftrightarrow>
     (if needed then
        (\<exists>w1. ran (is_ok r) kind w w1 \<and>
           (case r of Inl e \<Rightarrow> w' = w1
            | Inr (i, st') \<Rightarrow> CompletedSteps st' = CompletedSteps st @ [letter] \<and> w' = saveState fs st' w1))
      else (\<exists>i. r = Inr (i, st)) \<and> w' = w)"

lemma ran_weaken: "ran ok kind w w' \<Longrightarrow> (\<And>c. kind c \<Longrightarrow> kind' c) \<Longrightarrow> ran ok kind' w w'"
  by (auto simp: ran_def)

definition attesting :: "call \<Rightarrow> bool" where
  "attesting c \<longleftrightarrow> is_register c \<or> is_attestation c"

lemma step_register_advances:
  assumes "step_register ch cr fs hostURL teeID proxyID info st w = (r, w')"
  shows "advances fs (CHR ''r'' \<notin> set (CompletedSteps st)) attesting CHR ''r'' st w r w'"
proof (cases "CHR ''r'' \<in> set (CompletedSteps st)")
  case True
  then show ?thesis using assms by (auto simp: step_register_def advances_def)
next
  case False
  define tx where "tx = (if (case ch_machine ch (ws_sent w) teeID of Inl e \<Rightarrow> False | Inr m \<Rightarrow> m \<noteq> 0)
     then RequestTeeAttestation ch teeID w
     else then_do (PreRegistration ch cr hostURL teeID proxyID info w) (\<lambda>(challenge, instructionID) w1. (Inr instructionID, w1)))"
  have tx: "ran (is_ok r1) attesting w w1" if "tx = (r1, w1)" for r1 w1
  proof (cases "case ch_machine ch (ws_sent w) teeID of Inl e \<Rightarrow> False | Inr m \<Rightarrow> m \<noteq> 0")
    case True
    then have "ran (is_ok r1) is_attestation w w1" using attest.runs that by (simp add: tx_def)
    then show ?thesis by (rule ran_weaken) (simp add: attesting_def)
  next
    case False
    then have "then_do (PreRegistration ch cr hostURL teeID proxyID info w) (\<lambda>(challenge, instructionID) w1. (Inr instructionID, w1)) = (r1, w1)"
      using that by (simp add: tx_def)
    then have "ran (is_ok r1) is_register w w1"
    proof (cases rule: then_do_cases)
      case (1 e)
      then show ?thesis using pre.runs by fastforce
    next
      case (2 a w2)
      then have "ran True is_register w w2" using pre.runs [OF 2(1)] by simp
      then show ?thesis using 2(2) by (auto split: prod.splits)
    qed
    then show ?thesis by (rule ran_weaken) (simp add: attesting_def)
  qed
  from False assms have "then_do tx (\<lambda>teeAttest w1.
      let state1 = st\<lparr>CompletedSteps := CompletedSteps st @ ''r'', TeeAttestInstructionID := teeAttest\<rparr>
      in (Inr (teeAttest, state1), saveState fs state1 w1)) = (r, w')"
    by (simp add: step_register_def tx_def Let_def)
  then show ?thesis
    by (cases rule: then_do_cases) (use tx False in \<open>fastforce simp: advances_def Let_def\<close>)+
qed

lemma step_attest_advances:
  assumes "step_attest ch fs teeID st w = (r, w')"
  shows "advances fs (CHR ''R'' \<notin> set (CompletedSteps st)) is_attestation CHR ''R'' st w r w'"
proof (cases "CHR ''R'' \<in> set (CompletedSteps st)")
  case False
  then have "then_do (RequestTeeAttestation ch teeID w) (\<lambda>teeAttest w1.
      let state1 = st\<lparr>CompletedSteps := CompletedSteps st @ ''R'', TeeAttestInstructionID := teeAttest\<rparr>
      in (Inr (teeAttest, state1), saveState fs state1 w1)) = (r, w')"
    using assms by (simp add: step_attest_def)
  then show ?thesis
    by (cases rule: then_do_cases) (use attest.runs False in \<open>fastforce simp: advances_def Let_def\<close>)+
qed (use assms in \<open>auto simp: step_attest_def advances_def\<close>)

lemma step_availability_advances:
  assumes "step_availability ch fs fp teeID ftdcTee teeAttest st w = (r, w')"
  shows "advances fs (CHR ''a'' \<notin> set (CompletedSteps st)) (is_availability teeID ftdcTee teeAttest) CHR ''a'' st w r w'"
proof (cases "CHR ''a'' \<in> set (CompletedSteps st)")
  case False
  show ?thesis
  proof (cases "CheckFTDCProxyPolicyConsistency (ch_epoch ch (ws_sent w)) (fp_info fp)")
    case None
    then have "then_do (RequestFTDCAvailabilityCheck ch teeID ftdcTee teeAttest w) (\<lambda>instructionID w1.
        let state1 = st\<lparr>CompletedSteps := CompletedSteps st @ ''a'', InstructionID := instructionID\<rparr>
        in (Inr (instructionID, state1), saveState fs state1 w1)) = (r, w')"
      using assms False by (simp add: step_availability_def)
    then show ?thesis
      by (cases rule: then_do_cases) (use availability.runs False in \<open>fastforce simp: advances_def Let_def\<close>)+
  next
    case (Some e)
    then show ?thesis using assms False by (auto simp: step_availability_def advances_def ran_def)
  qed
qed (use assms in \<open>auto simp: step_availability_def advances_def\<close>)

lemma step_register_id: "step_register ch cr fs hostURL teeID proxyID info st w = (Inr (i, st'), w') \<Longrightarrow> i = TeeAttestInstructionID st'"
  by (auto simp: step_register_def Let_def then_do_def split: if_splits prod.splits sum.splits)

lemma step_attest_id: "step_attest ch fs teeID st w = (Inr (i, st'), w') \<Longrightarrow> i = TeeAttestInstructionID st'"
  by (auto simp: step_attest_def Let_def then_do_def split: if_splits prod.splits sum.splits)

text \<open>The transactions of a step that runs or is skipped, and the steps a run records.\<close>

definition sends :: "bool \<Rightarrow> bool \<Rightarrow> (call \<Rightarrow> bool) \<Rightarrow> call list \<Rightarrow> bool" where
  "sends needed ok kind cs \<longleftrightarrow> (if needed then (cs = [] \<and> \<not> ok) \<or> (\<exists>c. cs = [c] \<and> kind c) else cs = [])"

definition needs :: "string \<Rightarrow> registrationState \<Rightarrow> char \<Rightarrow> bool" where
  "needs command st letter \<longleftrightarrow> letter \<in> set command \<and> letter \<notin> set (CompletedSteps st)"

definition recorded :: "file_system \<Rightarrow> string \<Rightarrow> registrationState \<Rightarrow> world_state \<Rightarrow> registrationState \<Rightarrow> world_state \<Rightarrow> bool" where
  "recorded fs ext st w st' w' \<longleftrightarrow>
     CompletedSteps st' = CompletedSteps st @ ext \<and>
     (if ext = [] then st' = st \<and> ws_file w' = ws_file w
      else ws_file w' = (if fs_write_error fs = None then Some (fs_encode fs st') else ws_file w))"

lemma recorded_refl: "recorded fs [] st w st w"
  by (simp add: recorded_def)

lemma recorded_trans:
  "recorded fs e1 st w st1 w1 \<Longrightarrow> recorded fs e2 st1 w1 st2 w2 \<Longrightarrow> recorded fs (e1 @ e2) st w st2 w2"
  by (auto simp: recorded_def split: if_splits)

lemma sends_skip: "\<not> needed \<Longrightarrow> sends needed ok kind []"
  by (simp add: sends_def)

lemma sends_failed: "sends needed False kind []"
  by (simp add: sends_def)

lemma sends_any: "sends needed True kind cs \<Longrightarrow> sends needed ok kind cs"
  by (auto simp: sends_def)

text \<open>A step of the command that succeeds, and one that fails.\<close>

lemma advances_ok:
  assumes "advances fs needed kind letter st w (Inr (i, st')) w'"
  obtains cs ext where "ws_sent w' = ws_sent w @ cs" "sends needed True kind cs" "recorded fs ext st w st' w'"
    "length cs = length ext" "ext = (if needed then [letter] else [])"
proof (cases needed)
  case True
  then obtain w1 where "ran True kind w w1" "CompletedSteps st' = CompletedSteps st @ [letter]" "w' = saveState fs st' w1"
    using assms by (auto simp: advances_def)
  moreover from this obtain c where "ws_sent w1 = ws_sent w @ [c]" "kind c" "ws_file w1 = ws_file w" by (auto simp: ran_def)
  ultimately show thesis
    using True that [of "[c]" "[letter]"] by (simp add: sends_def recorded_def saveState_def split: option.splits)
next
  case False
  then show thesis using assms that [of "[]" "[]"] by (simp add: advances_def sends_def recorded_def)
qed

lemma advances_err:
  assumes "advances fs needed kind letter st w (Inl e) w'"
  obtains cs where "ws_sent w' = ws_sent w @ cs" "sends needed False kind cs" "ws_file w' = ws_file w" "length cs \<le> 1"
  using assms by (auto simp: advances_def ran_def sends_def split: if_splits)

lemma optional_advances:
  assumes "(if b then rw else (Inr (i, st), w)) = (r, w')" and "rw = (r, w') \<Longrightarrow> advances fs n kind l st w r w'"
  shows "advances fs (b \<and> n) kind l st w r w'"
  using assms by (auto simp: advances_def split: if_splits)

lemma production_stage:
  assumes "(if b then step_production ch pd fp i w else (Inr (), w)) = (r, w')"
  obtains cs where "ws_sent w' = ws_sent w @ cs" "sends b (is_ok r) is_production cs" "ws_file w' = ws_file w" "length cs \<le> 1"
proof (cases b)
  case True
  then have "step_production ch pd fp i w = (r, w')" using assms by simp
  then have "ran (is_ok r) is_production w w'" by (rule production.runs)
  then consider "ws_sent w' = ws_sent w @ []" "\<not> is_ok r" "ws_file w' = ws_file w"
    | c where "ws_sent w' = ws_sent w @ [c]" "is_production c" "ws_file w' = ws_file w"
    by (auto simp: ran_def)
  then show thesis by cases (use that True in \<open>auto simp: sends_def\<close>)
next
  case False
  then show thesis using assms that [of "[]"] by (auto simp: sends_def)
qed

lemma advances_needs:
  "advances fs needed kind letter st w (Inr (i, st')) w' \<Longrightarrow> c \<noteq> letter \<Longrightarrow> needs command st' c = needs command st c"
  by (auto simp: advances_def needs_def split: if_splits)

text \<open>How a run ends: the state file is gone, or it holds what was recorded.\<close>

definition ends_with :: "file_system \<Rightarrow> string \<Rightarrow> registrationState \<Rightarrow> world_state \<Rightarrow> bool \<Rightarrow> world_state \<Rightarrow> string \<Rightarrow> registrationState \<Rightarrow> bool" where
  "ends_with fs command st w ok w' ext st' \<longleftrightarrow> set ext \<subseteq> set command \<and>
     (if ok then \<not> fs_remove_error fs \<longrightarrow> ws_file w' = None else recorded fs ext st w st' w')"

lemma ends_with_failed: "ws_file w' = ws_file w \<Longrightarrow> ends_with fs command st w False w' [] st"
  by (simp add: ends_with_def recorded_def)

lemma ends_with_step:
  "recorded fs e1 st w st1 w1 \<Longrightarrow> set e1 \<subseteq> set command \<Longrightarrow> ends_with fs command st1 w1 ok w' e2 st' \<Longrightarrow>
   ends_with fs command st w ok w' (e1 @ e2) st'"
  by (auto simp: ends_with_def dest: recorded_trans)

text \<open>The last two steps, then the last three, then all.\<close>

lemma tail_trace:
  assumes "then_do (if CHR ''a'' \<in> set command then step_availability ch fs fp teeID ftdcTee attest st w else (Inr (d, st), w))
      (\<lambda>(instructionID, state3) w3. then_do (if CHR ''p'' \<in> set command then step_production ch pd fp instructionID w3 else (Inr (), w3))
               (\<lambda>_ w4. (Inr (), remove_state fs w4))) = (r, w')"
  shows "\<exists>na np ext st'. ws_sent w' = ws_sent w @ na @ np \<and>
     sends (needs command st CHR ''a'') (is_ok r) (is_availability teeID ftdcTee attest) na \<and>
     sends (CHR ''p'' \<in> set command) (is_ok r) is_production np \<and>
     length (na @ np) \<le> length ext + 1 \<and> ends_with fs command st w (is_ok r) w' ext st'"
  using assms
proof (cases rule: then_do_cases)
  case (1 e)
  from optional_advances [OF 1(1) step_availability_advances]
  have "advances fs (needs command st CHR ''a'') (is_availability teeID ftdcTee attest) CHR ''a'' st w (Inl e) w'"
    by (simp add: needs_def)
  then obtain cs where "ws_sent w' = ws_sent w @ cs" "sends (needs command st CHR ''a'') False (is_availability teeID ftdcTee attest) cs"
    "ws_file w' = ws_file w" "length cs \<le> 1"
    by (rule advances_err)
  then show ?thesis using 1(2) ends_with_failed sends_failed
    by (intro exI [where x = cs] exI [where x = "[]"] exI [where x = st]) simp
next
  case (2 a1 w1)
  obtain ins st1 where a1: "a1 = (ins, st1)" by (cases a1)
  from optional_advances [OF 2(1) [unfolded a1] step_availability_advances]
  have "advances fs (needs command st CHR ''a'') (is_availability teeID ftdcTee attest) CHR ''a'' st w (Inr (ins, st1)) w1"
    by (simp add: needs_def)
  then obtain na ext where a: "ws_sent w1 = ws_sent w @ na" "sends (needs command st CHR ''a'') True (is_availability teeID ftdcTee attest) na"
    "recorded fs ext st w st1 w1" "length na = length ext" "ext = (if needs command st CHR ''a'' then ''a'' else [])"
    by (rule advances_ok) blast
  have in_cmd: "set ext \<subseteq> set command" using a(5) by (auto simp: needs_def)
  from 2(2) have "then_do (if CHR ''p'' \<in> set command then step_production ch pd fp ins w1 else (Inr (), w1))
     (\<lambda>_ w4. (Inr (), remove_state fs w4)) = (r, w')" by (simp add: a1)
  then show ?thesis
  proof (cases rule: then_do_cases)
    case (1 e)
    from production_stage [OF 1(1)] obtain np where "ws_sent w' = ws_sent w1 @ np" "sends (CHR ''p'' \<in> set command) False is_production np"
      "ws_file w' = ws_file w1" "length np \<le> 1" by auto
    moreover have "ends_with fs command st w False w' (ext @ []) st1"
      by (rule ends_with_step [OF a(3) in_cmd]) (rule ends_with_failed, fact)
    ultimately show ?thesis using a(1,4) sends_any [OF a(2), of False] 1(2)
      by (intro exI [where x = na] exI [where x = np] exI [where x = ext] exI [where x = st1]) simp
  next
    case (2 u w2)
    from production_stage [OF 2(1)] obtain np where "ws_sent w2 = ws_sent w1 @ np" "sends (CHR ''p'' \<in> set command) True is_production np"
      "length np \<le> 1" by auto
    then show ?thesis using a(1,2,4) in_cmd 2(2)
      by (intro exI [where x = na] exI [where x = np] exI [where x = ext] exI [where x = st1])
        (auto simp: ends_with_def remove_state_def)
  qed
qed

lemma middle_trace:
  assumes "then_do (if CHR ''R'' \<in> set command then step_attest ch fs teeID st w else (Inr (attest1, st), w))
      (\<lambda>(attest2, state2) w2. then_do (if CHR ''a'' \<in> set command then step_availability ch fs fp teeID ftdcTee attest2 state2 w2 else (Inr (d, state2), w2))
      (\<lambda>(instructionID, state3) w3. then_do (if CHR ''p'' \<in> set command then step_production ch pd fp instructionID w3 else (Inr (), w3))
               (\<lambda>_ w4. (Inr (), remove_state fs w4)))) = (r, w')"
  shows "\<exists>nR na np ext st' attest. ws_sent w' = ws_sent w @ nR @ na @ np \<and>
     sends (needs command st CHR ''R'') (is_ok r) is_attestation nR \<and>
     sends (needs command st CHR ''a'') (is_ok r) (is_availability teeID ftdcTee attest) na \<and>
     sends (CHR ''p'' \<in> set command) (is_ok r) is_production np \<and>
     (CHR ''R'' \<notin> set command \<longrightarrow> attest = attest1) \<and>
     (CHR ''R'' \<in> set command \<and> \<not> needs command st CHR ''R'' \<longrightarrow> attest = TeeAttestInstructionID st) \<and>
     length (nR @ na @ np) \<le> length ext + 1 \<and> ends_with fs command st w (is_ok r) w' ext st'"
  using assms
proof (cases rule: then_do_cases)
  case (1 e)
  from optional_advances [OF 1(1) step_attest_advances]
  have "advances fs (needs command st CHR ''R'') is_attestation CHR ''R'' st w (Inl e) w'"
    by (simp add: needs_def)
  then obtain cs where "ws_sent w' = ws_sent w @ cs" "sends (needs command st CHR ''R'') False is_attestation cs"
    "ws_file w' = ws_file w" "length cs \<le> 1"
    by (rule advances_err)
  then show ?thesis using 1(2) ends_with_failed sends_failed
    by (intro exI [where x = cs] exI [where x = "[]"] exI [where x = st]
        exI [where x = "if CHR ''R'' \<in> set command then TeeAttestInstructionID st else attest1"]) simp
next
  case (2 a1 w1)
  obtain attest st1 where a1: "a1 = (attest, st1)" by (cases a1)
  from optional_advances [OF 2(1) [unfolded a1] step_attest_advances]
  have adv: "advances fs (needs command st CHR ''R'') is_attestation CHR ''R'' st w (Inr (attest, st1)) w1"
    by (simp add: needs_def)
  then obtain nR ext where a: "ws_sent w1 = ws_sent w @ nR" "sends (needs command st CHR ''R'') True is_attestation nR"
    "recorded fs ext st w st1 w1" "length nR = length ext" "ext = (if needs command st CHR ''R'' then ''R'' else [])"
    by (rule advances_ok) blast
  have in_cmd: "set ext \<subseteq> set command" using a(5) by (auto simp: needs_def)
  have same: "\<not> needs command st CHR ''R'' \<Longrightarrow> st1 = st" using a(3,5) by (simp add: recorded_def)
  have attest: "CHR ''R'' \<notin> set command \<longrightarrow> attest = attest1"
    "CHR ''R'' \<in> set command \<and> \<not> needs command st CHR ''R'' \<longrightarrow> attest = TeeAttestInstructionID st"
    using 2(1) step_attest_id same by (auto simp: a1 split: if_splits)
  from tail_trace [OF 2(2) [unfolded a1, simplified]] advances_needs [OF adv, of "CHR ''a''"]
  obtain na np e2 st' where t: "ws_sent w' = ws_sent w1 @ na @ np"
    "sends (needs command st CHR ''a'') (is_ok r) (is_availability teeID ftdcTee attest) na"
    "sends (CHR ''p'' \<in> set command) (is_ok r) is_production np"
    "length (na @ np) \<le> length e2 + 1" "ends_with fs command st1 w1 (is_ok r) w' e2 st'" by auto
  show ?thesis using a(1,4) t(1-4) attest sends_any [OF a(2), of "is_ok r"] ends_with_step [OF a(3) in_cmd t(5)]
    by (intro exI [where x = nR] exI [where x = na] exI [where x = np] exI [where x = "ext @ e2"] exI [where x = st'] exI [where x = attest]) simp
qed

text \<open>
  The trace of a run: the transactions of each step in order, the attestation the
  availability check names, the steps recorded, and the state they leave.
\<close>

definition trace_of ::
  "file_system \<Rightarrow> address \<Rightarrow> address \<Rightarrow> string \<Rightarrow> registrationState \<Rightarrow> world_state \<Rightarrow> bool \<Rightarrow> world_state
     \<Rightarrow> call list \<Rightarrow> call list \<Rightarrow> call list \<Rightarrow> call list \<Rightarrow> hash \<Rightarrow> string \<Rightarrow> registrationState \<Rightarrow> bool" where
  "trace_of fs teeID ftdcTee command st w ok w' nr nR na np attest ext st' \<longleftrightarrow>
     ws_sent w' = ws_sent w @ nr @ nR @ na @ np \<and>
     sends (needs command st CHR ''r'') ok attesting nr \<and>
     sends (needs command st CHR ''R'') ok is_attestation nR \<and>
     sends (needs command st CHR ''a'') ok (is_availability teeID ftdcTee attest) na \<and>
     sends (CHR ''p'' \<in> set command) ok is_production np \<and>
     (CHR ''r'' \<notin> set command \<and> CHR ''R'' \<notin> set command \<longrightarrow> attest = 0) \<and>
     ((CHR ''r'' \<in> set command \<or> CHR ''R'' \<in> set command) \<and>
       \<not> needs command st CHR ''r'' \<and> \<not> needs command st CHR ''R'' \<longrightarrow> attest = TeeAttestInstructionID st) \<and>
     length (nr @ nR @ na @ np) \<le> length ext + 1 \<and> ends_with fs command st w ok w' ext st'"

lemma RegisterNode_trace:
  assumes run: "RegisterNode ch cr fs pd fp hex_to_hash info hostURL ftdcTee command i w = (r, w')"
    and id: "TeeProxyId cr info = Inr (teeID, proxyID)" and load: "loadState fs w = Inr st"
  shows "\<exists>nr nR na np attest ext st'. trace_of fs teeID ftdcTee command st w (is_ok r) w' nr nR na np attest ext st'"
proof -
  from run have "then_do (if CHR ''r'' \<in> set command then step_register ch cr fs hostURL teeID proxyID info st w else (Inr (0, st), w))
     (\<lambda>(attest1, state1) w1.
             then_do (if CHR ''R'' \<in> set command then step_attest ch fs teeID state1 w1
                      else (Inr (attest1, state1), w1)) (\<lambda>(attest2, state2) w2.
             then_do (if CHR ''a'' \<in> set command then step_availability ch fs fp teeID ftdcTee attest2 state2 w2
                      else (Inr (hex_to_hash i, state2), w2)) (\<lambda>(instructionID, state3) w3.
             then_do (if CHR ''p'' \<in> set command then step_production ch pd fp instructionID w3 else (Inr (), w3))
               (\<lambda>_ w4. (Inr (), remove_state fs w4))))) = (r, w')"
    by (simp add: RegisterNode_def id load)
  then show ?thesis
  proof (cases rule: then_do_cases)
    case (1 e)
    from optional_advances [OF 1(1) step_register_advances]
    have "advances fs (needs command st CHR ''r'') attesting CHR ''r'' st w (Inl e) w'" by (simp add: needs_def)
    then obtain cs where "ws_sent w' = ws_sent w @ cs" "sends (needs command st CHR ''r'') False attesting cs"
      "ws_file w' = ws_file w" "length cs \<le> 1"
      by (rule advances_err)
    then show ?thesis using 1(2) ends_with_failed sends_failed unfolding trace_of_def
      by (intro exI [where x = cs] exI [where x = "[]"] exI [where x = st]
          exI [where x = "if CHR ''r'' \<in> set command \<or> CHR ''R'' \<in> set command then TeeAttestInstructionID st else 0"]) simp
  next
    case (2 a1 w1)
    obtain attest1 st1 where a1: "a1 = (attest1, st1)" by (cases a1)
    from optional_advances [OF 2(1) [unfolded a1] step_register_advances]
    have adv: "advances fs (needs command st CHR ''r'') attesting CHR ''r'' st w (Inr (attest1, st1)) w1" by (simp add: needs_def)
    then obtain nr er where a: "ws_sent w1 = ws_sent w @ nr" "sends (needs command st CHR ''r'') True attesting nr"
      "recorded fs er st w st1 w1" "length nr = length er" "er = (if needs command st CHR ''r'' then ''r'' else [])"
      by (rule advances_ok) blast
    have in_cmd: "set er \<subseteq> set command" using a(5) by (auto simp: needs_def)
    have same: "\<not> needs command st CHR ''r'' \<Longrightarrow> st1 = st" using a(3,5) by (simp add: recorded_def)
    have attest1: "attest1 = (if CHR ''r'' \<in> set command then TeeAttestInstructionID st1 else 0)"
      using 2(1) step_register_id by (auto simp: a1 split: if_splits)
    have need: "needs command st1 CHR ''R'' = needs command st CHR ''R''" "needs command st1 CHR ''a'' = needs command st CHR ''a''"
      using advances_needs [OF adv] by simp_all
    from middle_trace [OF 2(2) [unfolded a1, simplified], unfolded need]
    obtain nR na np e2 st' attest where t: "ws_sent w' = ws_sent w1 @ nR @ na @ np"
      "sends (needs command st CHR ''R'') (is_ok r) is_attestation nR"
      "sends (needs command st CHR ''a'') (is_ok r) (is_availability teeID ftdcTee attest) na"
      "sends (CHR ''p'' \<in> set command) (is_ok r) is_production np"
      "length (nR @ na @ np) \<le> length e2 + 1"
      "CHR ''R'' \<notin> set command \<longrightarrow> attest = attest1"
      "CHR ''R'' \<in> set command \<and> \<not> needs command st CHR ''R'' \<longrightarrow> attest = TeeAttestInstructionID st1"
      "ends_with fs command st1 w1 (is_ok r) w' e2 st'" by blast
    have none: "CHR ''r'' \<notin> set command \<and> CHR ''R'' \<notin> set command \<longrightarrow> attest = 0"
      using t(6) attest1 by simp
    have saved: "attest = TeeAttestInstructionID st"
      if "CHR ''r'' \<in> set command \<or> CHR ''R'' \<in> set command" "\<not> needs command st CHR ''r''" "\<not> needs command st CHR ''R''"
    proof (cases "CHR ''R'' \<in> set command")
      case True
      then show ?thesis using t(7) that(3) same [OF that(2)] by simp
    next
      case False
      then show ?thesis using t(6) attest1 that(1) same [OF that(2)] by simp
    qed
    have "trace_of fs teeID ftdcTee command st w (is_ok r) w' nr nR na np attest (er @ e2) st'"
      unfolding trace_of_def
      using a(1,4) t(1-5) none saved sends_any [OF a(2), of "is_ok r"] ends_with_step [OF a(3) in_cmd t(8)] by simp
    then show ?thesis by blast
  qed
qed

section \<open>The signing policy\<close>

lemma policyInSync_iff:
  "policyInSync e p \<longleftrightarrow> unat p = unat e \<or> unat p = (unat e + 1) mod 2 ^ 64"
proof -
  have "unat (e + 1) = (unat e + 1) mod 2 ^ 64" by (simp add: unat_word_ariths)
  then show ?thesis unfolding policyInSync_def by (metis unsigned_word_eqI)
qed

lemma policy_gate:
  "CheckFTDCProxyPolicyConsistency onchain info = Some e \<longleftrightarrow>
     (\<exists>ep si. onchain = Inr (Some ep) \<and> info = Inr si \<and>
        \<not> policyInSync (word_of_int ep) (ti_last_policy (si_info si)) \<and>
        e = outOfSyncError (word_of_int ep) (ti_last_policy (si_info si)))"
  by (auto simp: CheckFTDCProxyPolicyConsistency_def Let_def split: sum.splits option.splits if_splits)

lemma tail_blocked:
  assumes "CheckFTDCProxyPolicyConsistency (ch_epoch ch (ws_sent w)) (fp_info fp) = Some e" and "needs command st CHR ''a''"
  shows "then_do (if CHR ''a'' \<in> set command then step_availability ch fs fp teeID ftdcTee attest st w else (Inr (d, st), w)) f = (Inl e, w)"
  using assms by (simp add: then_do_def step_availability_def needs_def)

lemma sends_all: "sends needed ok kind cs \<Longrightarrow> list_all kind cs"
  by (auto simp: sends_def split: if_splits)

lemma advances_sent:
  assumes "advances fs needed kind letter st w r w'" and "\<And>c. kind c \<Longrightarrow> kind' c"
  obtains cs where "ws_sent w' = ws_sent w @ cs" "list_all kind' cs"
proof (cases r)
  case (Inl e)
  from assms(1) [unfolded Inl] obtain cs where "ws_sent w' = ws_sent w @ cs" "sends needed False kind cs"
    by (rule advances_err) blast
  then show thesis using that assms(2) sends_all by (metis list.pred_mono_strong)
next
  case (Inr res)
  obtain i st' where res: "res = (i, st')" by (cases res)
  from assms(1) [unfolded Inr res] obtain cs where "ws_sent w' = ws_sent w @ cs" "sends needed True kind cs"
    by (rule advances_ok) blast
  then show thesis using that assms(2) sends_all by (metis list.pred_mono_strong)
qed

lemma RegisterNode_blocked:
  assumes run: "RegisterNode ch cr fs pd fp hex_to_hash info hostURL ftdcTee command i w = (r, w')"
    and load: "loadState fs w = Inr st" and need: "needs command st CHR ''a''"
    and gate: "\<And>cs. CheckFTDCProxyPolicyConsistency (ch_epoch ch cs) (fp_info fp) = Some e"
  shows "(\<exists>e'. r = Inl e') \<and> (\<exists>new. ws_sent w' = ws_sent w @ new \<and> list_all attesting new)"
proof (cases "TeeProxyId cr info")
  case (Inl e')
  then show ?thesis using run by (auto simp: RegisterNode_def)
next
  case (Inr ids)
  obtain teeID proxyID where ids: "ids = (teeID, proxyID)" by (cases ids)
  define f where "f = (\<lambda>(instructionID, state3 :: registrationState) w3.
     then_do (if CHR ''p'' \<in> set command then step_production ch pd fp instructionID w3 else (Inr (), w3))
               (\<lambda>_ w4. (Inr (), remove_state fs w4)))"
  have "then_do (if CHR ''r'' \<in> set command then step_register ch cr fs hostURL teeID proxyID info st w else (Inr (0, st), w))
     (\<lambda>(attest1, state1) w1.
             then_do (if CHR ''R'' \<in> set command then step_attest ch fs teeID state1 w1
                      else (Inr (attest1, state1), w1)) (\<lambda>(attest2, state2) w2.
             then_do (if CHR ''a'' \<in> set command then step_availability ch fs fp teeID ftdcTee attest2 state2 w2
                      else (Inr (hex_to_hash i, state2), w2)) f)) = (r, w')"
    using run by (simp add: RegisterNode_def Inr ids load f_def)
  then show ?thesis
  proof (cases rule: then_do_cases)
    case (1 e')
    from optional_advances [OF 1(1) step_register_advances]
    have "advances fs (needs command st CHR ''r'') attesting CHR ''r'' st w (Inl e') w'" by (simp add: needs_def)
    then obtain cs where "ws_sent w' = ws_sent w @ cs" "list_all attesting cs" by (rule advances_sent)
    then show ?thesis using 1(2) by blast
  next
    case (2 a1 w1)
    obtain attest1 st1 where a1: "a1 = (attest1, st1)" by (cases a1)
    from optional_advances [OF 2(1) [unfolded a1] step_register_advances]
    have adv: "advances fs (needs command st CHR ''r'') attesting CHR ''r'' st w (Inr (attest1, st1)) w1" by (simp add: needs_def)
    from adv obtain nr where nr: "ws_sent w1 = ws_sent w @ nr" "list_all attesting nr" by (rule advances_sent)
    have need1: "needs command st1 CHR ''a''" using need advances_needs [OF adv] by simp
    from 2(2) [unfolded a1, simplified] show ?thesis
    proof (cases rule: then_do_cases)
      case (1 e')
      from optional_advances [OF 1(1) step_attest_advances]
      have "advances fs (needs command st1 CHR ''R'') is_attestation CHR ''R'' st1 w1 (Inl e') w'" by (simp add: needs_def)
      then obtain nR where "ws_sent w' = ws_sent w1 @ nR" "list_all attesting nR"
        using advances_sent [where kind' = attesting] by (metis attesting_def)
      then show ?thesis using 1(2) nr by (intro conjI exI [where x = "nr @ nR"]) auto
    next
      case (2 a2 w2)
      obtain attest2 st2 where a2: "a2 = (attest2, st2)" by (cases a2)
      from optional_advances [OF 2(1) [unfolded a2] step_attest_advances]
      have adv2: "advances fs (needs command st1 CHR ''R'') is_attestation CHR ''R'' st1 w1 (Inr (attest2, st2)) w2" by (simp add: needs_def)
      from adv2 obtain nR where nR: "ws_sent w2 = ws_sent w1 @ nR" "list_all attesting nR"
        using advances_sent [where kind' = attesting] by (metis attesting_def)
      have need2: "needs command st2 CHR ''a''" using need1 advances_needs [OF adv2] by simp
      from 2(2) [unfolded a2, simplified] have "(Inl e, w2) = (r, w')"
        unfolding tail_blocked [OF gate need2] .
      then show ?thesis using nr nR by (intro conjI exI [where x = "nr @ nR"]) auto
    qed
  qed
qed

section \<open>A machine, a chain and a proxy\<close>

text \<open>For the witnesses: a node, a chain that mines every transaction, and a file system that works.\<close>

definition demo_machine :: machine_data where
  "demo_machine = \<lparr>md_extension_id = 3, md_initial_owner = 7, md_code_hash = 11, md_platform = 12,
     md_public_key = (1, 2), md_governance_hash = 13\<rparr>"

definition demo_info :: "u64 \<Rightarrow> signed_info" where
  "demo_info policy = \<lparr>si_info = \<lparr>ti_public_key = ''k'', ti_chain_id = 114, ti_last_policy = policy, ti_rest = []\<rparr>,
     si_machine = demo_machine, si_data_signature = replicate 65 CHR ''s'', si_proxy_signature = ''p'', si_attestation = []\<rparr>"

definition demo_crypto :: crypto where
  "demo_crypto = \<lparr>cr_parse_pubkey = Inr, cr_address = (\<lambda>b. if b = ''k'' then 21 else 22), cr_info_hash = (\<lambda>_. Inr 1),
     cr_payload_hash = (\<lambda>_ h. Inr h), cr_text_hash = id, cr_sig_to_pub = (\<lambda>_ s. Inr s), cr_rsv_to_vrs = Inr,
     cr_governance_hash = (\<lambda>ss t. Inr (of_nat (length ss))), cr_claims = (\<lambda>_. Inr (11, 12))\<rparr>"

definition demo_chain :: "int \<Rightarrow> chain" where
  "demo_chain epoch = \<lparr>ch_account = 7, ch_transactor = None, ch_send = (\<lambda>cs c. Inr (of_nat (length cs))),
     ch_answers = (\<lambda>cs h. \<lparr>t_mined = Inr \<lparr>r_status = 1, r_logs = [''sent'', ''attest''], r_tx_hash = h\<rparr>,
        t_lookup = Inr (), t_sender = Inr 7, t_call = Inr []\<rparr>),
     ch_simulate = (\<lambda>_ _. None), ch_errors = [], ch_unpack = (\<lambda>_. None), ch_hash_hex = (\<lambda>_. ''0x''),
     ch_machine = (\<lambda>cs t. Inr (if cs = [] then 0 else t)), ch_epoch = (\<lambda>_. Inr (Some epoch)),
     ch_governance = (\<lambda>cs i. if cs = [] then Inl ''none'' else Inr 1),
     ch_parse_attestation = (\<lambda>_. Inr 31), ch_parse_sent = (\<lambda>_. Inr 32)\<rparr>"

definition demo_decoders :: proof_decoders where
  "demo_decoders = \<lparr>pd_prove = (\<lambda>b. Inr \<lparr>pr_header = b, pr_request = b, pr_response = b, pr_signatures = []\<rparr>),
     pd_header = Inr, pd_request = (\<lambda>b. Inr \<lparr>pq_tee_id = 21, pq_rest = b\<rparr>), pd_response = Inr\<rparr>"

definition demo_ftdc :: "u64 \<Rightarrow> ftdc_proxy" where
  "demo_ftdc policy = \<lparr>fp_info = Inr (demo_info policy), fp_get = (\<lambda>_ _. Inr (200, ''ok'')), fp_payload = Inr\<rparr>"

text \<open>A codec of the state file: the two ids in decimal, then the steps.\<close>

definition demo_encode :: "registrationState \<Rightarrow> bytes" where
  "demo_encode st = dec_nat (unat (TeeAttestInstructionID st)) @ CHR '','' # dec_nat (unat (InstructionID st)) @ CHR '','' # CompletedSteps st"

definition demo_decode :: "bytes \<Rightarrow> err + registrationState" where
  "demo_decode b =
     (case split_n2 CHR '','' b of
        (t, Some rest) \<Rightarrow> (case split_n2 CHR '','' rest of
            (i, Some steps) \<Rightarrow> (case (scan_nat t, scan_nat i) of
                (Some m, Some n) \<Rightarrow> Inr \<lparr>CompletedSteps = steps, TeeAttestInstructionID = of_nat m, InstructionID = of_nat n\<rparr>
              | _ \<Rightarrow> Inl ''ids'')
          | _ \<Rightarrow> Inl ''fields'')
      | _ \<Rightarrow> Inl ''fields'')"

lemma split_n2_digits: "(\<forall>c \<in> set s. digit_val c \<noteq> None) \<Longrightarrow> split_n2 CHR '','' (s @ CHR '','' # rest) = (s, Some rest)"
proof (induction s)
  case (Cons c s)
  have "c \<noteq> CHR '',''" using Cons.prems by (auto simp: digit_val_def code_of_def)
  then show ?case using Cons by simp
qed simp

lemma demo_codec: "demo_decode (demo_encode st) = Inr st"
  by (cases st) (simp add: demo_decode_def demo_encode_def split_n2_digits dec_nat_digits)

definition demo_files :: file_system where
  "demo_files = \<lparr>fs_read_error = None, fs_write_error = None, fs_remove_error = False,
     fs_encode = demo_encode, fs_decode = demo_decode\<rparr>"

definition demo_saved :: registrationState where
  "demo_saved = \<lparr>CompletedSteps = ''r'', TeeAttestInstructionID = 77, InstructionID = 0\<rparr>"

definition demo_resumed :: world_state where
  "demo_resumed = \<lparr>ws_file = Some (demo_encode demo_saved), ws_sent = []\<rparr>"

lemma demo_load: "loadState demo_files demo_resumed = Inr demo_saved"
  by (simp add: loadState_def demo_files_def demo_resumed_def demo_codec)

lemma demo_load_fresh: "loadState demo_files \<lparr>ws_file = None, ws_sent = cs\<rparr> = Inr empty_state"
  by (simp add: loadState_def demo_files_def)

lemma poll_first: "0 < n \<Longrightarrow> status_ok (get i) \<Longrightarrow> poll get i n r = get i"
  by (cases n) simp_all

lemmas demo_registration = poll_first

  demo_machine_def demo_info_def demo_crypto_def demo_chain_def demo_decoders_def demo_ftdc_def
  RegisterNode_def TeeProxyId_def then_do_def step_register_def step_attest_def step_availability_def
  step_production_def PreRegistration_def RequestTeeAttestation_def RequestFTDCAvailabilityCheck_def
  CheckFTDCProxyPolicyConsistency_def policyInSync_def GetFTDCAvailabilityCheckResult_def ToProduction_def
  ActionResult_def status_ok_def repeats_def check_tx_def CheckTx_def send_call_def
  saveState_def remove_state_def

abbreviation demo_run :: "string \<Rightarrow> int \<Rightarrow> u64 \<Rightarrow> world_state \<Rightarrow> (err + unit) \<times> world_state" where
  "demo_run command epoch policy w \<equiv>
     RegisterNode (demo_chain epoch) demo_crypto demo_files demo_decoders (demo_ftdc policy) (\<lambda>_. 0) (demo_info 5) ''h'' 23 command [] w"

abbreviation demo_fresh :: world_state where
  "demo_fresh \<equiv> \<lparr>ws_file = None, ws_sent = []\<rparr>"

lemmas demo_eval = demo_registration demo_load demo_load_fresh demo_saved_def empty_state_def demo_files_def Let_def loadState_def
  demo_resumed_def demo_codec

lemma demo_resumed_run: "fst (demo_run ''ap'' 5 5 demo_resumed) = Inr ()"
  by (simp add: demo_eval)

lemma demo_full_run: "fst (demo_run ''rRap'' 5 5 demo_fresh) = Inr ()"
  by (simp add: demo_eval)

lemma demo_failed_run: "\<exists>e. fst (demo_run ''rRap'' 5 9 demo_fresh) = Inl e"
  by (simp add: demo_eval)

section \<open>Properties of a registration\<close>

text \<open>(C10) A run of \<open>RegisterNode\<close> sends, in this order, at most one transaction for each
  step of its command that the state file does not hold yet, and none for a step it holds:
  a registration (or, for a machine the registry knows, a fresh attestation request) for r,
  an attestation request for R, an availability check for a, a promotion for p. A run that
  returns success has sent exactly one for each of those steps.\<close>

theorem registration_sends_missing_steps:
  assumes "RegisterNode ch cr fs pd fp hex_to_hash info hostURL ftdcTee command i w = (r, w')"
    and "loadState fs w = Inr st"
  shows "\<exists>teeID attest nr nR na np. ws_sent w' = ws_sent w @ nr @ nR @ na @ np \<and>
     sends (needs command st CHR ''r'') (is_ok r) (\<lambda>c. is_register c \<or> is_attestation c) nr \<and>
     sends (needs command st CHR ''R'') (is_ok r) is_attestation nR \<and>
     sends (needs command st CHR ''a'') (is_ok r) (is_availability teeID ftdcTee attest) na \<and>
     sends (CHR ''p'' \<in> set command) (is_ok r) is_production np"
proof (cases "TeeProxyId cr info")
  case (Inl e)
  then have "r = Inl e" "w' = w" using assms(1) by (auto simp: RegisterNode_def)
  then show ?thesis by (intro exI [where x = "[]"] exI) (simp add: sends_failed)
next
  case (Inr ids)
  obtain teeID proxyID where "TeeProxyId cr info = Inr (teeID, proxyID)" using Inr by (cases ids) simp
  from RegisterNode_trace [OF assms(1) this assms(2)] show ?thesis
    unfolding trace_of_def attesting_def by blast
qed

theorem registration_sends_missing_steps_witness:
  "\<exists>teeID attest nr nR na np. ws_sent (snd (demo_run ''rRap'' 5 5 demo_fresh)) = nr @ nR @ na @ np \<and>
     sends True True (\<lambda>c. is_register c \<or> is_attestation c) nr \<and> sends True True is_attestation nR \<and>
     sends True True (is_availability teeID 23 attest) na \<and> sends True True is_production np"
proof -
  have "demo_run ''rRap'' 5 5 demo_fresh = (Inr (), snd (demo_run ''rRap'' 5 5 demo_fresh))"
    using demo_full_run by (metis prod.collapse)
  from registration_sends_missing_steps [OF this demo_load_fresh] show ?thesis
    by (simp add: needs_def empty_state_def)
qed


text \<open>What a run leaves behind when it fails: the steps it recorded, each with its
  transaction, which the node accepted and mined with success; and what it sent beyond them.\<close>

definition carried_out :: "chain \<Rightarrow> call list \<Rightarrow> call \<Rightarrow> bool" where
  "carried_out ch sent c \<longleftrightarrow>
     (\<exists>h rc. ch_send ch sent c = Inr h \<and> t_mined (ch_answers ch (sent @ [c]) h) = Inr rc \<and> r_status rc \<noteq> 0)"

fun is_check :: "call \<Rightarrow> bool" where
  "is_check (AvailabilityCall _ _ _ _ _) = True"
| "is_check _ = False"

definition step_call :: "char \<Rightarrow> call \<Rightarrow> bool" where
  "step_call letter c \<longleftrightarrow>
     letter = CHR ''r'' \<and> (is_register c \<or> is_attestation c) \<or> letter = CHR ''R'' \<and> is_attestation c \<or> letter = CHR ''a'' \<and> is_check c"

fun all_carried_out :: "chain \<Rightarrow> call list \<Rightarrow> (char \<times> call) list \<Rightarrow> bool" where
  "all_carried_out ch sent [] = True"
| "all_carried_out ch sent ((letter, c) # steps) =
     (step_call letter c \<and> carried_out ch sent c \<and> all_carried_out ch (sent @ [c]) steps)"

definition next_call :: "string \<Rightarrow> call \<Rightarrow> bool" where
  "next_call letters c = (case letters of [] \<Rightarrow> is_production c | letter # _ \<Rightarrow> step_call letter c)"

definition keeps :: "chain \<Rightarrow> file_system \<Rightarrow> string \<Rightarrow> string \<Rightarrow> registrationState \<Rightarrow> world_state \<Rightarrow> world_state \<Rightarrow> bool" where
  "keeps ch fs command letters st w w' \<longleftrightarrow>
     (\<exists>done todo tail st'. filter (needs command st) letters = map fst done @ todo
        \<and> CompletedSteps st' = CompletedSteps st @ map fst done
        \<and> (if done = [] then st' = st \<and> ws_file w' = ws_file w else ws_file w' = Some (fs_encode fs st'))
        \<and> ws_sent w' = ws_sent w @ map snd done @ tail \<and> all_carried_out ch (ws_sent w) done
        \<and> length tail \<le> 1 \<and> list_all (next_call todo) tail)"

lemma check_tx_mined: "check_tx ch w h = Inr rc \<Longrightarrow> t_mined (ch_answers ch (ws_sent w) h) = Inr rc \<and> r_status rc \<noteq> 0"
  by (auto simp: check_tx_def CheckTx_def split: sum.splits if_splits)

text \<open>An operation that succeeds was carried out.\<close>

locale checked_tx = one_tx op kind
  for op :: "world_state \<Rightarrow> (err + 'a) \<times> world_state" and kind +
  fixes ch :: chain
  assumes checked: "op w = (Inr a, w') \<Longrightarrow> ws_sent w' = ws_sent w @ [c] \<Longrightarrow> carried_out ch (ws_sent w) c"
begin

lemma ok_carried: "op w = (Inr a, w') \<Longrightarrow> \<exists>c. ws_sent w' = ws_sent w @ [c] \<and> kind c \<and> carried_out ch (ws_sent w) c"
  using ok_sent checked by blast

end

lemma send_call_Inr: "send_call ch c w = (Inr h, w1) \<Longrightarrow> ch_send ch (ws_sent w) c = Inr h \<and> w1 = w\<lparr>ws_sent := ws_sent w @ [c]\<rparr>"
  by (auto simp: send_call_def split: sum.splits)

lemma carried_outI:
  "send_call ch c w = (Inr h, w1) \<Longrightarrow> check_tx ch w1 h = Inr rc \<Longrightarrow> carried_out ch (ws_sent w) c \<and> ws_sent w1 = ws_sent w @ [c]"
  using check_tx_mined [of ch w1 h rc] by (auto simp: carried_out_def dest!: send_call_Inr)

interpretation pre_checked: checked_tx "PreRegistration ch cr hostURL teeID proxyID info" is_register ch
  for ch cr hostURL teeID proxyID info
  by unfold_locales (auto simp: PreRegistration_def Let_def dest: carried_outI split: tx_splits)

interpretation attest_checked: checked_tx "RequestTeeAttestation ch teeID" is_attestation ch
  for ch teeID
  by unfold_locales (auto simp: RequestTeeAttestation_def dest: carried_outI split: tx_splits)

interpretation availability_checked: checked_tx "RequestFTDCAvailabilityCheck ch teeID ftdcTee a" "is_availability teeID ftdcTee a" ch
  for ch teeID ftdcTee a
  by unfold_locales (auto simp: RequestFTDCAvailabilityCheck_def dest: carried_outI split: tx_splits)

text \<open>So a step that succeeds with something to do was carried out.\<close>

lemma step_register_carried:
  assumes "step_register ch cr fs hostURL teeID proxyID info st w = (Inr x, w')" "CHR ''r'' \<notin> set (CompletedSteps st)"
  shows "\<exists>c. ws_sent w' = ws_sent w @ [c] \<and> carried_out ch (ws_sent w) c"
  using assms
  by (auto simp: step_register_def Let_def then_do_Inr split: if_splits dest!: pre_checked.ok_carried attest_checked.ok_carried)

lemma step_attest_carried:
  assumes "step_attest ch fs teeID st w = (Inr x, w')" "CHR ''R'' \<notin> set (CompletedSteps st)"
  shows "\<exists>c. ws_sent w' = ws_sent w @ [c] \<and> carried_out ch (ws_sent w) c"
  using assms by (auto simp: step_attest_def Let_def then_do_Inr dest!: attest_checked.ok_carried)

lemma step_availability_carried:
  assumes "step_availability ch fs fp teeID ftdcTee a st w = (Inr x, w')" "CHR ''a'' \<notin> set (CompletedSteps st)"
  shows "\<exists>c. ws_sent w' = ws_sent w @ [c] \<and> carried_out ch (ws_sent w) c"
  using assms
  by (auto simp: step_availability_def Let_def then_do_Inr split: option.splits dest!: availability_checked.ok_carried)

lemma keeps_production:
  assumes "(if b then step_production ch pd fp i w else (Inr (), w)) = (r, w')"
  shows "keeps ch fs command [] st w w'"
proof -
  from production_stage [OF assms] obtain cs where "ws_sent w' = ws_sent w @ cs" "sends b (is_ok r) is_production cs"
    "ws_file w' = ws_file w" "length cs \<le> 1" by blast
  then show ?thesis
    unfolding keeps_def
    by (intro exI [where x = "[]"] exI [where x = cs] exI [where x = st]) (use sends_all in \<open>auto simp: next_call_def [abs_def]\<close>)
qed

text \<open>A step of the command, before the ones that follow.\<close>

lemma keeps_failed:
  assumes "advances fs (needs command st letter) kind letter st w (Inl e) w'" and "\<And>c. kind c \<Longrightarrow> step_call letter c"
  shows "keeps ch fs command (letter # letters) st w w'"
proof -
  have need: "needs command st letter" using assms(1) by (auto simp: advances_def split: if_splits)
  from assms(1) obtain cs where "ws_sent w' = ws_sent w @ cs" "sends (needs command st letter) False kind cs"
    "ws_file w' = ws_file w" "length cs \<le> 1" by (rule advances_err)
  moreover from this have "list_all (step_call letter) cs"
    using sends_all assms(2) by (metis list.pred_mono_strong)
  ultimately show ?thesis
    unfolding keeps_def
    by (intro exI [where x = "[]"] exI [where x = "letter # filter (needs command st) letters"] exI [where x = cs] exI [where x = st])
      (auto simp: need next_call_def [abs_def])
qed

lemma keeps_step:
  assumes adv: "advances fs (needs command st letter) kind letter st w (Inr (i, st1)) w1"
    and kind: "\<And>c. kind c \<Longrightarrow> step_call letter c" and writable: "fs_write_error fs = None" and other: "letter \<notin> set letters"
    and carried: "needs command st letter \<Longrightarrow> \<exists>c. ws_sent w1 = ws_sent w @ [c] \<and> carried_out ch (ws_sent w) c"
    and rest: "keeps ch fs command letters st1 w1 w'"
  shows "keeps ch fs command (letter # letters) st w w'"
proof (cases "needs command st letter")
  case False
  then have "st1 = st" "w1 = w" using adv by (auto simp: advances_def)
  then show ?thesis using rest False by (simp add: keeps_def)
next
  case True
  obtain c where c: "ws_sent w1 = ws_sent w @ [c]" "step_call letter c" "carried_out ch (ws_sent w) c"
    using adv True carried [OF True] kind by (auto simp: advances_def ran_def)
  have st1: "CompletedSteps st1 = CompletedSteps st @ [letter]" "ws_file w1 = Some (fs_encode fs st1)"
    using adv True writable by (auto simp: advances_def saveState_def)
  have same: "filter (needs command st1) letters = filter (needs command st) letters"
    using other st1(1) by (intro filter_cong) (auto simp: needs_def)
  from rest obtain steps todo tail st' where "filter (needs command st1) letters = map fst steps @ todo"
    "CompletedSteps st' = CompletedSteps st1 @ map fst steps"
    "if steps = [] then st' = st1 \<and> ws_file w' = ws_file w1 else ws_file w' = Some (fs_encode fs st')"
    "ws_sent w' = ws_sent w1 @ map snd steps @ tail" "all_carried_out ch (ws_sent w1) steps"
    "length tail \<le> 1" "list_all (next_call todo) tail"
    unfolding keeps_def by blast
  then show ?thesis
    unfolding keeps_def using True c st1 same
    by (intro exI [where x = "(letter, c) # steps"] exI [where x = todo] exI [where x = tail] exI [where x = st']) (auto split: if_splits)
qed

lemma step_calls:
  "attesting c \<Longrightarrow> step_call CHR ''r'' c" "is_attestation c \<Longrightarrow> step_call CHR ''R'' c" "is_availability t f a c \<Longrightarrow> step_call CHR ''a'' c"
  by (auto simp: attesting_def step_call_def, cases c, simp_all)

lemma keeps_tail:
  assumes run: "then_do (if CHR ''a'' \<in> set command then step_availability ch fs fp teeID ftdcTee attest st w else (Inr (d, st), w))
      (\<lambda>(instructionID, state3) w3. then_do (if CHR ''p'' \<in> set command then step_production ch pd fp instructionID w3 else (Inr (), w3))
               (\<lambda>_ w4. (Inr (), remove_state fs w4))) = (Inl e, w')" and writable: "fs_write_error fs = None"
  shows "keeps ch fs command ''a'' st w w'"
  using run
proof (cases rule: then_do_cases)
  case (1 e')
  from optional_advances [OF 1(1) step_availability_advances] show ?thesis
    by (intro keeps_failed [where kind = "is_availability teeID ftdcTee attest"] step_calls) (simp_all add: needs_def)
next
  case (2 a1 w1)
  obtain ins st1 where a1: "a1 = (ins, st1)" by (cases a1)
  from optional_advances [OF 2(1) [unfolded a1] step_availability_advances]
  have adv: "advances fs (needs command st CHR ''a'') (is_availability teeID ftdcTee attest) CHR ''a'' st w (Inr (ins, st1)) w1"
    by (simp add: needs_def)
  have carried: "\<exists>c. ws_sent w1 = ws_sent w @ [c] \<and> carried_out ch (ws_sent w) c" if "needs command st CHR ''a''"
    using 2(1) that step_availability_carried by (auto simp: needs_def)
  from 2(2) have "then_do (if CHR ''p'' \<in> set command then step_production ch pd fp ins w1 else (Inr (), w1))
     (\<lambda>_ w4. (Inr (), remove_state fs w4)) = (Inl e, w')" by (simp add: a1)
  then have "keeps ch fs command [] st1 w1 w'"
    by (cases rule: then_do_cases) (auto intro: keeps_production)
  then show ?thesis by (intro keeps_step [OF adv step_calls(3) writable _ carried]) simp_all
qed

lemma keeps_middle:
  assumes run: "then_do (if CHR ''R'' \<in> set command then step_attest ch fs teeID st w else (Inr (attest1, st), w))
      (\<lambda>(attest2, state2) w2. then_do (if CHR ''a'' \<in> set command then step_availability ch fs fp teeID ftdcTee attest2 state2 w2 else (Inr (d, state2), w2))
      (\<lambda>(instructionID, state3) w3. then_do (if CHR ''p'' \<in> set command then step_production ch pd fp instructionID w3 else (Inr (), w3))
               (\<lambda>_ w4. (Inr (), remove_state fs w4)))) = (Inl e, w')" and writable: "fs_write_error fs = None"
  shows "keeps ch fs command ''Ra'' st w w'"
  using run
proof (cases rule: then_do_cases)
  case (1 e')
  from optional_advances [OF 1(1) step_attest_advances] show ?thesis
    by (intro keeps_failed [where kind = is_attestation] step_calls) (simp_all add: needs_def)
next
  case (2 a1 w1)
  obtain attest st1 where a1: "a1 = (attest, st1)" by (cases a1)
  from optional_advances [OF 2(1) [unfolded a1] step_attest_advances]
  have adv: "advances fs (needs command st CHR ''R'') is_attestation CHR ''R'' st w (Inr (attest, st1)) w1"
    by (simp add: needs_def)
  have carried: "\<exists>c. ws_sent w1 = ws_sent w @ [c] \<and> carried_out ch (ws_sent w) c" if "needs command st CHR ''R''"
    using 2(1) that step_attest_carried by (auto simp: needs_def)
  have "keeps ch fs command ''a'' st1 w1 w'" by (rule keeps_tail [OF 2(2) [unfolded a1, simplified] writable])
  then show ?thesis by (intro keeps_step [OF adv step_calls(2) writable _ carried]) simp_all
qed

lemma RegisterNode_keeps:
  assumes run: "RegisterNode ch cr fs pd fp hex_to_hash info hostURL ftdcTee command i w = (Inl e, w')"
    and id: "TeeProxyId cr info = Inr (teeID, proxyID)" and load: "loadState fs w = Inr st" and writable: "fs_write_error fs = None"
  shows "keeps ch fs command ''rRa'' st w w'"
proof -
  from run have "then_do (if CHR ''r'' \<in> set command then step_register ch cr fs hostURL teeID proxyID info st w else (Inr (0, st), w))
     (\<lambda>(attest1, state1) w1.
             then_do (if CHR ''R'' \<in> set command then step_attest ch fs teeID state1 w1
                      else (Inr (attest1, state1), w1)) (\<lambda>(attest2, state2) w2.
             then_do (if CHR ''a'' \<in> set command then step_availability ch fs fp teeID ftdcTee attest2 state2 w2
                      else (Inr (hex_to_hash i, state2), w2)) (\<lambda>(instructionID, state3) w3.
             then_do (if CHR ''p'' \<in> set command then step_production ch pd fp instructionID w3 else (Inr (), w3))
               (\<lambda>_ w4. (Inr (), remove_state fs w4))))) = (Inl e, w')"
    by (simp add: RegisterNode_def id load)
  then show ?thesis
  proof (cases rule: then_do_cases)
    case (1 e')
    from optional_advances [OF 1(1) step_register_advances] show ?thesis
      by (intro keeps_failed [where kind = attesting] step_calls) (simp_all add: needs_def)
  next
    case (2 a1 w1)
    obtain attest1 st1 where a1: "a1 = (attest1, st1)" by (cases a1)
    from optional_advances [OF 2(1) [unfolded a1] step_register_advances]
    have adv: "advances fs (needs command st CHR ''r'') attesting CHR ''r'' st w (Inr (attest1, st1)) w1" by (simp add: needs_def)
    have carried: "\<exists>c. ws_sent w1 = ws_sent w @ [c] \<and> carried_out ch (ws_sent w) c" if "needs command st CHR ''r''"
      using 2(1) that step_register_carried by (auto simp: needs_def)
    have "keeps ch fs command ''Ra'' st1 w1 w'" by (rule keeps_middle [OF 2(2) [unfolded a1, simplified] writable])
    then show ?thesis by (intro keeps_step [OF adv step_calls(1) writable _ carried]) simp_all
  qed
qed

text \<open>(C27) A registration that fails loses nothing it has done, and claims nothing it has not. With a
  file system that works, the state file then holds the steps of before and, in the order of the
  procedure, the steps of the command that this run completed. Each of these stands for one
  transaction of the run, of the kind of that step, which the node accepted and mined with
  success; they were sent in that order. At most one more transaction was sent, that of the
  first step that is not recorded, or of the promotion where none is left.\<close>

theorem failed_registration_keeps_progress:
  assumes run: "RegisterNode ch cr fs pd fp hex_to_hash info hostURL ftdcTee command i w = (Inl e, w')"
    and load: "loadState fs w = Inr st"
    and "fs_read_error fs = None" and "fs_write_error fs = None" and "\<And>s. fs_decode fs (fs_encode fs s) = Inr s"
  shows "\<exists>steps todo tail st'. filter (needs command st) ''rRa'' = map fst steps @ todo
     \<and> loadState fs w' = Inr st' \<and> CompletedSteps st' = CompletedSteps st @ map fst steps
     \<and> ws_sent w' = ws_sent w @ map snd steps @ tail \<and> all_carried_out ch (ws_sent w) steps
     \<and> length tail \<le> 1 \<and> list_all (next_call todo) tail"
proof (cases "TeeProxyId cr info")
  case (Inl e)
  then have "w' = w" using run by (auto simp: RegisterNode_def)
  then show ?thesis
    using load by (intro exI [where x = "[]"] exI [where x = "filter (needs command st) ''rRa''"] exI [where x = st]) simp
next
  case (Inr ids)
  obtain teeID proxyID where "TeeProxyId cr info = Inr (teeID, proxyID)" using Inr by (cases ids) simp
  from RegisterNode_keeps [OF run this load assms(4)] obtain steps todo tail st' where
    k: "filter (needs command st) ''rRa'' = map fst steps @ todo" "CompletedSteps st' = CompletedSteps st @ map fst steps"
      "if steps = [] then st' = st \<and> ws_file w' = ws_file w else ws_file w' = Some (fs_encode fs st')"
      "ws_sent w' = ws_sent w @ map snd steps @ tail" "all_carried_out ch (ws_sent w) steps"
      "length tail \<le> 1" "list_all (next_call todo) tail"
    unfolding keeps_def by blast
  have "loadState fs w' = Inr st'"
    using k(3) load assms(3-5) by (cases "steps = []") (simp_all add: loadState_def)
  then show ?thesis using k by blast
qed

theorem failed_registration_keeps_progress_witness:
  "\<exists>steps todo tail st'. ''rRa'' = map fst steps @ todo
     \<and> loadState demo_files (snd (demo_run ''rRap'' 5 9 demo_fresh)) = Inr st' \<and> CompletedSteps st' = map fst steps
     \<and> ws_sent (snd (demo_run ''rRap'' 5 9 demo_fresh)) = map snd steps @ tail \<and> all_carried_out (demo_chain 5) [] steps
     \<and> length tail \<le> 1 \<and> list_all (next_call todo) tail"
proof -
  obtain e where e: "demo_run ''rRap'' 5 9 demo_fresh = (Inl e, snd (demo_run ''rRap'' 5 9 demo_fresh))"
    using demo_failed_run by (metis prod.collapse)
  have "fs_read_error demo_files = None" "fs_write_error demo_files = None"
    "fs_decode demo_files (fs_encode demo_files st) = Inr st" for st
    by (simp_all add: demo_files_def demo_codec)
  from failed_registration_keeps_progress [OF e demo_load_fresh this] show ?thesis
    by (simp add: empty_state_def needs_def)
qed


text \<open>A resumed run names the saved attestation: when the state file holds every
  attestation step of the command, each availability check of the run carries the
  attestation id of the state file.\<close>

theorem resumed_check_names_saved_attestation:
  assumes run: "RegisterNode ch cr fs pd fp hex_to_hash info hostURL ftdcTee command i w = (r, w')"
    and load: "loadState fs w = Inr st"
    and "CHR ''r'' \<in> set command \<or> CHR ''R'' \<in> set command"
    and "\<not> needs command st CHR ''r''" and "\<not> needs command st CHR ''R''"
  shows "\<exists>new. ws_sent w' = ws_sent w @ new \<and>
    (\<forall>t a f o' b. AvailabilityCall t a f o' b \<in> set new \<longrightarrow> a = TeeAttestInstructionID st)"
proof (cases "TeeProxyId cr info")
  case (Inl e)
  then have "w' = w" using run by (auto simp: RegisterNode_def)
  then show ?thesis by simp
next
  case (Inr ids)
  obtain teeID proxyID where "TeeProxyId cr info = Inr (teeID, proxyID)" using Inr by (cases ids) simp
  from RegisterNode_trace [OF run this load] obtain nr nR na np attest ext st'
    where t: "trace_of fs teeID ftdcTee command st w (is_ok r) w' nr nR na np attest ext st'" by blast
  have sent: "ws_sent w' = ws_sent w @ nr @ nR @ na @ np" using t by (simp add: trace_of_def)
  have none: "nr = []" "nR = []" using t assms(4,5) by (simp_all add: trace_of_def sends_def)
  have saved: "attest = TeeAttestInstructionID st" using t assms(3-5) unfolding trace_of_def by blast
  have na: "list_all (is_availability teeID ftdcTee attest) na" and np: "list_all is_production np"
    using t sends_all unfolding trace_of_def by blast+
  have "a = attest" if "AvailabilityCall t a f o' b \<in> set (na @ np)" for t a f o' b
    using that na np by (auto simp: list_all_iff)
  then show ?thesis using sent none saved by (intro exI [where x = "na @ np"]) simp
qed

theorem resumed_check_names_saved_attestation_witness:
  "\<exists>new. ws_sent (snd (demo_run ''rap'' 5 5 demo_resumed)) = new \<and>
     (\<forall>t a f o' b. AvailabilityCall t a f o' b \<in> set new \<longrightarrow> a = 77)"
  using resumed_check_names_saved_attestation [OF surjective_pairing demo_load, of "''rap''" "demo_chain 5" demo_crypto demo_decoders
      "demo_ftdc 5" "\<lambda>_. 0" "demo_info 5" "''h''" 23 "[]"]
  by (simp add: needs_def demo_saved_def demo_resumed_def)


text \<open>Without r and R in its command a run forgets the saved attestation: it asks for
  the availability check with attestation id zero, whatever the state file holds.\<close>

theorem check_without_attestation_names_zero:
  assumes run: "RegisterNode ch cr fs pd fp hex_to_hash info hostURL ftdcTee command i w = (Inr (), w')"
    and load: "loadState fs w = Inr st"
    and "CHR ''r'' \<notin> set command" and "CHR ''R'' \<notin> set command" and "needs command st CHR ''a''"
  shows "\<exists>t o' b. AvailabilityCall t 0 ftdcTee o' b \<in> set (drop (length (ws_sent w)) (ws_sent w'))"
proof (cases "TeeProxyId cr info")
  case (Inl e)
  then show ?thesis using run by (simp add: RegisterNode_def)
next
  case (Inr ids)
  obtain teeID proxyID where "TeeProxyId cr info = Inr (teeID, proxyID)" using Inr by (cases ids) simp
  from RegisterNode_trace [OF run this load] obtain nr nR na np attest ext st'
    where tr: "trace_of fs teeID ftdcTee command st w (is_ok (Inr () :: err + unit)) w' nr nR na np attest ext st'" by blast
  have "attest = 0" using tr assms(3,4) unfolding trace_of_def by blast
  moreover have "ws_sent w' = ws_sent w @ nr @ nR @ na @ np"
      "sends (needs command st CHR ''a'') True (is_availability teeID ftdcTee attest) na"
    using tr by (simp_all add: trace_of_def)
  moreover from calculation assms(5) obtain c where "na = [c]" "is_availability teeID ftdcTee 0 c" by (auto simp: sends_def)
  ultimately show ?thesis by (cases c) auto
qed

theorem check_without_attestation_names_zero_witness:
  "TeeAttestInstructionID demo_saved = 77 \<and>
   (\<exists>t o' b. AvailabilityCall t 0 23 o' b \<in> set (ws_sent (snd (demo_run ''ap'' 5 5 demo_resumed))))"
proof -
  have "demo_run ''ap'' 5 5 demo_resumed = (Inr (), snd (demo_run ''ap'' 5 5 demo_resumed))"
    using demo_resumed_run by (metis prod.collapse)
  from check_without_attestation_names_zero [OF this demo_load] show ?thesis
    by (simp add: needs_def demo_saved_def demo_resumed_def)
qed


text \<open>(C28) The policy gate: while the reward epoch the chain reports and the signing policy
  the FTDC proxy reports are further apart than the proxy being one ahead (the successor
  taken modulo 2 to the 64), a run that has the availability check to do fails, and sends
  neither the check nor a promotion.\<close>

theorem policy_gate_blocks_registration:
  assumes "RegisterNode ch cr fs pd fp hex_to_hash info hostURL ftdcTee command i w = (r, w')"
    and "loadState fs w = Inr st" and "needs command st CHR ''a''"
    and "\<And>cs. ch_epoch ch cs = Inr (Some epoch)" and "fp_info fp = Inr si"
    and "unat (ti_last_policy (si_info si)) \<noteq> nat (epoch mod 2 ^ 64)"
    and "unat (ti_last_policy (si_info si)) \<noteq> (nat (epoch mod 2 ^ 64) + 1) mod 2 ^ 64"
  shows "(\<exists>e. r = Inl e) \<and> (\<exists>new. ws_sent w' = ws_sent w @ new \<and> list_all (\<lambda>c. is_register c \<or> is_attestation c) new)"
proof -
  have "unat (word_of_int epoch :: u64) = nat (epoch mod 2 ^ 64)" by (simp add: unat_eq_nat_uint uint_word_of_int)
  then have "\<not> policyInSync (word_of_int epoch) (ti_last_policy (si_info si))"
    using assms(6,7) by (simp add: policyInSync_iff)
  then have "CheckFTDCProxyPolicyConsistency (ch_epoch ch cs) (fp_info fp) =
      Some (outOfSyncError (word_of_int epoch) (ti_last_policy (si_info si)))" for cs
    using assms(4,5) policy_gate by blast
  from RegisterNode_blocked [OF assms(1-3) this] show ?thesis unfolding attesting_def [abs_def] .
qed

theorem policy_gate_blocks_registration_witness:
  "(\<exists>e. fst (demo_run ''rRap'' 5 9 demo_fresh) = Inl e) \<and>
   list_all (\<lambda>c. is_register c \<or> is_attestation c) (ws_sent (snd (demo_run ''rRap'' 5 9 demo_fresh)))"
  using policy_gate_blocks_registration [OF surjective_pairing demo_load_fresh, of "''rRap''" "demo_chain 5" 5 "demo_ftdc 9" "demo_info 9"
      demo_crypto demo_decoders "\<lambda>_. 0" "demo_info 5" "''h''" 23 "[]" "[]"]
  by (simp add: needs_def empty_state_def demo_chain_def demo_ftdc_def demo_info_def)


lemma ToProduction_ok:
  "ToProduction ch p w = (None, w1) \<Longrightarrow>
   ws_sent w1 = ws_sent w @ [ToProductionCall p] \<and> ch_machine ch (ws_sent w1) (pq_tee_id (ap_request p)) = Inr (pq_tee_id (ap_request p))"
  by (auto simp: ToProduction_def dest!: send_call_ran split: option.splits sum.splits prod.splits if_splits)

text \<open>(C29) A run whose command ends in the promotion and that returns success has sent the
  promotion last, with a proof the FTDC proxy returned, the registry then names the proof's
  machine, and the state file is gone.\<close>

theorem registration_success_means_promoted:
  assumes "RegisterNode ch cr fs pd fp hex_to_hash info hostURL ftdcTee command i w = (Inr (), w')"
    and "CHR ''p'' \<in> set command" and "\<not> fs_remove_error fs"
  shows "\<exists>instr p. GetFTDCAvailabilityCheckResult pd (fp_get fp instr) (fp_payload fp) = Inr p \<and>
     last (ws_sent w') = ToProductionCall p \<and>
     ch_machine ch (ws_sent w') (pq_tee_id (ap_request p)) = Inr (pq_tee_id (ap_request p)) \<and> ws_file w' = None"
proof -
  obtain instr w3 w4 where step: "step_production ch pd fp instr w3 = (Inr (), w4)" and w': "w' = remove_state fs w4"
    using assms(1,2) by (auto simp: RegisterNode_def then_do_Inr split: sum.splits prod.splits)
  then obtain p where p: "GetFTDCAvailabilityCheckResult pd (fp_get fp instr) (fp_payload fp) = Inr p" "ToProduction ch p w3 = (None, w4)"
    by (auto simp: step_production_def split: sum.splits prod.splits option.splits)
  from ToProduction_ok [OF p(2)] p(1) w' assms(3) show ?thesis by (auto simp: remove_state_def)
qed

theorem registration_success_means_promoted_witness:
  "\<exists>p. last (ws_sent (snd (demo_run ''rRap'' 5 5 demo_fresh))) = ToProductionCall p \<and>
     ws_file (snd (demo_run ''rRap'' 5 5 demo_fresh)) = None"
proof -
  have "demo_run ''rRap'' 5 5 demo_fresh = (Inr (), snd (demo_run ''rRap'' 5 5 demo_fresh))"
    using demo_full_run by (metis prod.collapse)
  from registration_success_means_promoted [OF this] show ?thesis by (auto simp: demo_files_def)
qed

section \<open>Polling and governance\<close>

lemma poll_result:
  "poll get i n r = (if \<exists>j. i \<le> j \<and> j < i + n \<and> status_ok (get j) then get (LEAST j. i \<le> j \<and> status_ok (get j))
     else if n = 0 then r else get (i + n - 1))"
proof (induction n arbitrary: i r)
  case (Suc n)
  show ?case
  proof (cases "status_ok (get i)")
    case True
    moreover have "(LEAST j. i \<le> j \<and> status_ok (get j)) = i" by (rule Least_equality) (use True in auto)
    ultimately show ?thesis by auto
  next
    case False
    have eq1: "(i \<le> j \<and> j < i + Suc n \<and> status_ok (get j)) = (Suc i \<le> j \<and> j < Suc i + n \<and> status_ok (get j))" for j
      using False by (metis Suc_leD Suc_leI add_Suc_right add_Suc_shift le_neq_implies_less)
    have eq2: "(i \<le> j \<and> status_ok (get j)) = (Suc i \<le> j \<and> status_ok (get j))" for j
      using False by (metis Suc_leD Suc_leI le_neq_implies_less)
    have IH: "poll get (Suc i) n (get i) =
        (if \<exists>j. i \<le> j \<and> j < i + Suc n \<and> status_ok (get j) then get (LEAST j. i \<le> j \<and> status_ok (get j))
         else if n = 0 then get i else get (i + n))"
      unfolding eq1 eq2 by (subst Suc.IH) (simp only: add_Suc diff_Suc_1)
    have "poll get i (Suc n) r = poll get (Suc i) n (get i)" using False by simp
    also have "\<dots> = (if \<exists>j. i \<le> j \<and> j < i + Suc n \<and> status_ok (get j) then get (LEAST j. i \<le> j \<and> status_ok (get j))
         else if Suc n = 0 then r else get (i + Suc n - 1))"
      unfolding IH by (rule if_cong [OF refl refl]) simp
    finally show ?thesis .
  qed
qed auto

text \<open>A result is obtained from the proxy exactly when one of the first fifteen attempts
  is answered with status 200, and it is the decoded body of the earliest of them; a later
  answer is never used.\<close>

theorem ActionResult_first_ok:
  "ActionResult get decode = Inr x \<longleftrightarrow>
     (\<exists>j < 15. status_ok (get j) \<and>
        (\<exists>body. get (LEAST k. status_ok (get k)) = Inr (200, body) \<and> decode body = Inr x))"
proof (cases "\<exists>j < 15. status_ok (get j)")
  case True
  define k where "k = (LEAST k. status_ok (get k))"
  have "status_ok (get k)" unfolding k_def using True by (meson LeastI)
  then obtain body where body: "get k = Inr (200, body)" by (auto simp: status_ok_def split: sum.splits prod.splits)
  have "poll get 0 15 r = get k" for r using True by (auto simp: poll_result k_def)
  then have "ActionResult get decode = decode body" by (simp add: ActionResult_def repeats_def body)
  then show ?thesis using True body by (auto simp: k_def)
next
  case False
  then have "\<not> status_ok (get 14)" by simp
  moreover have "poll get 0 15 r = get 14" for r using False by (auto simp: poll_result)
  ultimately have "ActionResult get decode \<noteq> Inr x"
    by (auto simp: ActionResult_def repeats_def status_ok_def split: sum.splits prod.splits)
  then show ?thesis using False by blast
qed

text \<open>With the variables unset, the owner alone governs, with threshold one.\<close>

lemma governance_defaults: "parseSigners to_address [] owner = [owner]" "parseThreshold [] = 1"
proof -
  have blank: "trim_space [] = []" by (rule trim_space_visible) simp
  show "parseSigners to_address [] owner = [owner]" by (simp add: parseSigners_def blank Let_def)
  show "parseThreshold [] = 1" by (simp add: parseThreshold_def blank go_parse_uint64_def scan_nat_def)
qed

text \<open>A governance setting that returns success has at least one signer and a threshold
  between one and their number, and either the chain already has the hash of exactly this
  pair and nothing was sent, or this pair was sent, once.\<close>

theorem governance_set_is_valid:
  assumes "SetTeeGovernance ch cr extensionId signers threshold w = (None, w')" and "length signers < 2 ^ 64"
  shows "1 \<le> unat threshold \<and> unat threshold \<le> length signers \<and>
    (\<exists>h. cr_governance_hash cr signers threshold = Inr h \<and>
       (ch_governance ch (ws_sent w) extensionId = Inr h \<and> w' = w \<or>
        ch_governance ch (ws_sent w) extensionId \<noteq> Inr h \<and> ws_file w' = ws_file w \<and>
        ws_sent w' = ws_sent w @ [GovernanceCall extensionId signers threshold]))"
proof -
  have len: "unat (of_nat (length signers) :: u64) = length signers"
    using assms(2) by (simp add: unat_of_nat take_bit_nat_eq_self)
  have "threshold \<noteq> 0" "threshold \<le> of_nat (length signers)"
    using assms(1) by (auto simp: SetTeeGovernance_def split: if_splits)
  then have "1 \<le> unat threshold" "unat threshold \<le> length signers"
    using len by (simp_all add: word_le_nat_alt Suc_le_eq unat_gt_0)
  moreover have "\<exists>h. cr_governance_hash cr signers threshold = Inr h \<and>
       (ch_governance ch (ws_sent w) extensionId = Inr h \<and> w' = w \<or>
        ch_governance ch (ws_sent w) extensionId \<noteq> Inr h \<and> ws_file w' = ws_file w \<and>
        ws_sent w' = ws_sent w @ [GovernanceCall extensionId signers threshold])"
    using assms(1) by (auto simp: SetTeeGovernance_def dest!: send_call_ran split: if_splits sum.splits option.splits prod.splits)
  ultimately show ?thesis by blast
qed

theorem governance_set_is_valid_witness:
  "1 \<le> unat (1 :: u64) \<and> ws_sent (snd (SetTeeGovernance (demo_chain 5) demo_crypto 3 [7] 1 demo_fresh)) = [GovernanceCall 3 [7] 1]"
proof -
  have "SetTeeGovernance (demo_chain 5) demo_crypto 3 [7] 1 demo_fresh = (None, snd (SetTeeGovernance (demo_chain 5) demo_crypto 3 [7] 1 demo_fresh))"
    by (simp add: SetTeeGovernance_def demo_chain_def demo_crypto_def send_call_def check_tx_def CheckTx_def)
  from governance_set_is_valid [OF this] show ?thesis by (simp add: demo_chain_def)
qed

end
