(* ===== verification/Transactions.thy ===== *)
theory Transactions
  imports Revert
begin

text \<open>
  What the tools that drive the chain share: a chain that answers as a function of the
  transactions sent so far, sending and waiting as operations on that list, and rules to
  reason about sequences of them. \<open>'c\<close> is the type of the calls a tool sends.
\<close>

section \<open>The chain\<close>

text \<open>
  \<open>nt_transactor\<close> is the failure of \<^verbatim>\<open>bind.NewKeyedTransactorWithChainID\<close>, if any;
  \<open>nt_send\<close> what the node answers to a transaction; \<open>nt_answers\<close> what becomes of it;
  \<open>nt_simulate\<close> the replay of a call, None where the ABI or the packing fails.
\<close>

record 'c net =
  nt_transactor :: "err option"
  nt_send :: "'c list \<Rightarrow> 'c \<Rightarrow> rpc_error + hash"
  nt_answers :: "'c list \<Rightarrow> hash \<Rightarrow> tx_answers"
  nt_simulate :: "'c list \<Rightarrow> 'c \<Rightarrow> (rpc_error + bytes) option"
  nt_unpack :: "bytes \<Rightarrow> string option"
  nt_hash_hex :: "hash \<Rightarrow> string"

type_synonym ('c, 'a) run = "'c list \<Rightarrow> (err + 'a) \<times> 'c list"

definition ret :: "'a \<Rightarrow> 'w \<Rightarrow> ('e + 'a) \<times> 'w" where
  "ret a w = (Inr a, w)"

definition fail :: "'e \<Rightarrow> 'w \<Rightarrow> ('e + 'a) \<times> 'w" where
  "fail e w = (Inl e, w)"

text \<open>A question whose answer depends on what was sent, and one whose answer does not.\<close>

definition ask :: "('w \<Rightarrow> 'e + 'a) \<Rightarrow> 'w \<Rightarrow> ('e + 'a) \<times> 'w" where
  "ask q w = (q w, w)"

definition given :: "'e + 'a \<Rightarrow> 'w \<Rightarrow> ('e + 'a) \<times> 'w" where
  "given r w = (r, w)"

definition transactor :: "('c, 'z) net_scheme \<Rightarrow> (err \<Rightarrow> err) \<Rightarrow> ('c, unit) run" where
  "transactor nt reword sent =
     (case nt_transactor nt of Some e \<Rightarrow> (Inl (reword e), sent) | None \<Rightarrow> (Inr (), sent))"

text \<open>A transaction that was sent stays sent; \<open>reword\<close> is the error text, which may replay the call.\<close>

definition send_tx :: "('c, 'z) net_scheme \<Rightarrow> (rpc_error \<Rightarrow> 'c list \<Rightarrow> err) \<Rightarrow> 'c \<Rightarrow> ('c, hash) run" where
  "send_tx nt reword c sent =
     (case nt_send nt sent c of
        Inl e \<Rightarrow> (Inl (reword e sent), sent)
      | Inr h \<Rightarrow> (Inr h, sent @ [c]))"

text \<open>The usual error texts: a prefix before the cause.\<close>

definition prefixed :: "string \<Rightarrow> err \<Rightarrow> err" where
  "prefixed p e = p @ e"

definition rpc_text :: "string \<Rightarrow> rpc_error \<Rightarrow> 'c list \<Rightarrow> err" where
  "rpc_text p e sent = p @ e_text e"

text \<open>\<^verbatim>\<open>bind.WaitMined\<close>, and \<^verbatim>\<open>support.CheckTx\<close>.\<close>

definition wait_mined :: "('c, 'z) net_scheme \<Rightarrow> (err \<Rightarrow> err) \<Rightarrow> hash \<Rightarrow> ('c, receipt) run" where
  "wait_mined nt reword h = ask (\<lambda>sent. map_err reword (t_mined (nt_answers nt sent h)))"

definition check_mined :: "('c, 'z) net_scheme \<Rightarrow> hash \<Rightarrow> 'c list \<Rightarrow> err + receipt" where
  "check_mined nt h sent = CheckTx (nt_unpack nt) (nt_hash_hex nt) h (nt_answers nt sent h)"

definition wait_checked :: "('c, 'z) net_scheme \<Rightarrow> (err \<Rightarrow> err) \<Rightarrow> hash \<Rightarrow> ('c, receipt) run" where
  "wait_checked nt reword h = ask (\<lambda>sent. map_err reword (check_mined nt h sent))"

section \<open>Rules\<close>

text \<open>
  From a state that satisfies \<open>P\<close>, a run that succeeds ends in \<open>Q\<close> of its result, one that
  fails in \<open>E\<close>.
\<close>

definition triple :: "('w \<Rightarrow> bool) \<Rightarrow> ('w \<Rightarrow> ('e + 'a) \<times> 'w) \<Rightarrow> ('a \<Rightarrow> 'w \<Rightarrow> bool) \<Rightarrow> ('w \<Rightarrow> bool) \<Rightarrow> bool" where
  "triple P m Q E \<longleftrightarrow> (\<forall>w. P w \<longrightarrow> (case m w of (Inl e, w') \<Rightarrow> E w' | (Inr a, w') \<Rightarrow> Q a w'))"

lemma tripleD:
  assumes "triple P m Q E" "P w" "m w = (r, w')"
  shows "case r of Inl e \<Rightarrow> E w' | Inr a \<Rightarrow> Q a w'"
  using assms by (auto simp: triple_def split: sum.splits prod.splits)

lemma triple_ok: "triple P m Q E \<Longrightarrow> P w \<Longrightarrow> m w = (Inr a, w') \<Longrightarrow> Q a w'"
  using tripleD by fastforce

lemma triple_err: "triple P m Q E \<Longrightarrow> P w \<Longrightarrow> m w = (Inl e, w') \<Longrightarrow> E w'"
  using tripleD by fastforce

lemma tripleI: "(\<And>w r w'. P w \<Longrightarrow> m w = (r, w') \<Longrightarrow> case r of Inl e \<Rightarrow> E w' | Inr a \<Rightarrow> Q a w') \<Longrightarrow> triple P m Q E"
  by (fastforce simp: triple_def split: sum.splits prod.splits)

lemma triple_do:
  "triple P m R E \<Longrightarrow> (\<And>a. triple (R a) (f a) Q E) \<Longrightarrow> triple P (\<lambda>w. then_do (m w) f) Q E"
  by (fastforce simp: triple_def then_do_def split: sum.splits prod.splits)

lemma triple_ret: "(\<And>w. P w \<Longrightarrow> Q a w) \<Longrightarrow> triple P (ret a) Q E"
  by (simp add: triple_def ret_def)

lemma triple_fail: "(\<And>w. P w \<Longrightarrow> E w) \<Longrightarrow> triple P (fail e) Q E"
  by (simp add: triple_def fail_def)

lemma triple_ask: "(\<And>w. P w \<Longrightarrow> E w) \<Longrightarrow> triple P (ask q) (\<lambda>a w. P w \<and> q w = Inr a) E"
  by (simp add: triple_def ask_def split: sum.splits)

lemma triple_given: "(\<And>w. P w \<Longrightarrow> E w) \<Longrightarrow> triple P (given r) (\<lambda>a w. P w \<and> r = Inr a) E"
  by (simp add: triple_def given_def split: sum.splits)

lemma triple_if: "triple (\<lambda>w. P w \<and> b) m Q E \<Longrightarrow> triple (\<lambda>w. P w \<and> \<not> b) n Q E \<Longrightarrow> triple P (\<lambda>w. if b then m w else n w) Q E"
  by (auto simp: triple_def)

lemma triple_pre: "triple P m Q E \<Longrightarrow> (\<And>w. P' w \<Longrightarrow> P w) \<Longrightarrow> triple P' m Q E"
  by (auto simp: triple_def)

lemma triple_post: "triple P m Q E \<Longrightarrow> (\<And>a w. Q a w \<Longrightarrow> Q' a w) \<Longrightarrow> (\<And>w. E w \<Longrightarrow> E' w) \<Longrightarrow> triple P m Q' E'"
  by (fastforce simp: triple_def split: sum.splits prod.splits)

lemma triple_transactor: "(\<And>w. P w \<Longrightarrow> E w) \<Longrightarrow> triple P (transactor nt g) (\<lambda>_. P) E"
  by (simp add: triple_def transactor_def split: option.splits)

lemma triple_send:
  "(\<And>w. P w \<Longrightarrow> E w) \<Longrightarrow>
   triple P (send_tx nt g c) (\<lambda>h w'. \<exists>w. P w \<and> nt_send nt w c = Inr h \<and> w' = w @ [c]) E"
  by (fastforce simp: triple_def send_tx_def split: sum.splits)

lemma triple_mined: "(\<And>w. P w \<Longrightarrow> E w) \<Longrightarrow> triple P (wait_mined nt g h) (\<lambda>rc w. P w \<and> t_mined (nt_answers nt w h) = Inr rc) E"
  by (simp add: triple_def wait_mined_def ask_def map_err_def split: sum.splits)

lemma triple_checked: "(\<And>w. P w \<Longrightarrow> E w) \<Longrightarrow> triple P (wait_checked nt g h) (\<lambda>rc w. P w \<and> check_mined nt h w = Inr rc) E"
  by (simp add: triple_def wait_checked_def ask_def map_err_def split: sum.splits)

text \<open>A call that was accepted and mined with success.\<close>

definition executed :: "('c, 'z) net_scheme \<Rightarrow> 'c list \<Rightarrow> 'c \<Rightarrow> bool" where
  "executed nt w c \<longleftrightarrow>
     (case nt_send nt w c of Inl e \<Rightarrow> False
      | Inr h \<Rightarrow> (case t_mined (nt_answers nt (w @ [c]) h) of Inl e \<Rightarrow> False | Inr rc \<Rightarrow> r_status rc \<noteq> 0))"

lemma check_mined_Inr: "check_mined nt h w = Inr rc \<longleftrightarrow> t_mined (nt_answers nt w h) = Inr rc \<and> r_status rc \<noteq> 0"
  by (auto simp: check_mined_def CheckTx_def split: sum.splits)

lemma executedI:
  "nt_send nt w c = Inr h \<Longrightarrow> t_mined (nt_answers nt (w @ [c]) h) = Inr rc \<Longrightarrow> r_status rc \<noteq> 0 \<Longrightarrow> executed nt w c"
  by (simp add: executed_def)

lemma executed_checked: "nt_send nt w c = Inr h \<Longrightarrow> check_mined nt h (w @ [c]) = Inr rc \<Longrightarrow> executed nt w c"
  by (simp add: executed_def check_mined_Inr)

lemma then_do_Inr_iff: "then_do rw f = (Inr b, w') \<longleftrightarrow> (\<exists>a w1. rw = (Inr a, w1) \<and> f a w1 = (Inr b, w'))"
  by (auto simp: then_do_def split: sum.splits prod.splits)

section \<open>What a run may send\<close>

text \<open>Whatever its outcome, a run only appends calls that satisfy \<open>ok\<close>.\<close>

definition sends_only :: "('c \<Rightarrow> bool) \<Rightarrow> ('c, 'a) run \<Rightarrow> bool" where
  "sends_only ok m \<longleftrightarrow> (\<forall>w. \<exists>cs. snd (m w) = w @ cs \<and> list_all ok cs)"

named_theorems sends \<open>what the operations may send\<close>

lemma sends_onlyD:
  assumes "sends_only ok m" "m w = (r, w')"
  obtains cs where "w' = w @ cs" "list_all ok cs"
  using assms unfolding sends_only_def by (metis snd_conv)

lemma sends_nothing: "(\<And>w. snd (m w) = w) \<Longrightarrow> sends_only ok m"
  by (auto simp: sends_only_def intro: exI [where x = "[]"])

lemma sends_ret [sends]: "sends_only ok (ret a)"
  by (rule sends_nothing) (simp add: ret_def)

lemma sends_fail [sends]: "sends_only ok (fail e)"
  by (rule sends_nothing) (simp add: fail_def)

lemma sends_at [sends]: "sends_only ok (\<lambda>w. fail (e w) w)" "sends_only ok (\<lambda>w. ret (a w) w)"
  by (rule sends_nothing, simp add: fail_def ret_def)+

lemma sends_ask [sends]: "sends_only ok (ask q)"
  by (rule sends_nothing) (simp add: ask_def)

lemma sends_given [sends]: "sends_only ok (given r)"
  by (rule sends_nothing) (simp add: given_def)

lemma sends_transactor [sends]: "sends_only ok (transactor nt g)"
  by (rule sends_nothing) (simp add: transactor_def split: option.splits)

lemma sends_mined [sends]: "sends_only ok (wait_mined nt g h)"
  by (simp add: wait_mined_def sends)

lemma sends_checked [sends]: "sends_only ok (wait_checked nt g h)"
  by (simp add: wait_checked_def sends)

lemma sends_tx: "ok c \<Longrightarrow> sends_only ok (send_tx nt g c)"
  by (auto simp: sends_only_def send_tx_def split: sum.splits)

lemma sends_do:
  assumes "sends_only ok m" "\<And>a. sends_only ok (f a)"
  shows "sends_only ok (\<lambda>w. then_do (m w) f)"
  unfolding sends_only_def
proof
  fix w
  obtain r w1 where m: "m w = (r, w1)" by fastforce
  obtain cs where cs: "w1 = w @ cs" "list_all ok cs" using sends_onlyD [OF assms(1) m] .
  show "\<exists>cs. snd (then_do (m w) f) = w @ cs \<and> list_all ok cs"
  proof (cases r)
    case (Inr a)
    obtain ds where "snd (f a w1) = w1 @ ds" "list_all ok ds"
      using assms(2) [of a] unfolding sends_only_def by blast
    then show ?thesis using cs m Inr by (intro exI [where x = "cs @ ds"]) simp
  qed (use m cs in auto)
qed

lemma sends_map: "sends_only ok m \<Longrightarrow> sends_only ok (\<lambda>w. case m w of (r, w') \<Rightarrow> (g r, w'))"
  unfolding sends_only_def by (metis (no_types, lifting) case_prod_beta snd_conv)

lemma sends_if: "(b \<Longrightarrow> sends_only ok m) \<Longrightarrow> (\<not> b \<Longrightarrow> sends_only ok n) \<Longrightarrow> sends_only ok (\<lambda>w. if b then m w else n w)"
  by (cases b) simp_all

lemma sends_if_at: "sends_only ok m \<Longrightarrow> sends_only ok n \<Longrightarrow> sends_only ok (\<lambda>w. if b w then m w else n w)"
  by (simp add: sends_only_def)

lemma sends_sum:
  "(\<And>e. r = Inl e \<Longrightarrow> sends_only ok (f e)) \<Longrightarrow> (\<And>a. r = Inr a \<Longrightarrow> sends_only ok (g a)) \<Longrightarrow>
   sends_only ok (\<lambda>w. case r of Inl e \<Rightarrow> f e w | Inr a \<Rightarrow> g a w)"
  by (cases r) simp_all

lemma sends_handle:
  assumes "sends_only ok m" "\<And>r. sends_only ok (h r)"
  shows "sends_only ok (\<lambda>w. case m w of (r, w') \<Rightarrow> h r w')"
proof -
  have "sends_only ok (\<lambda>w. then_do (case m w of (r, w') \<Rightarrow> (Inr r, w')) h)"
    by (rule sends_do) (rule sends_map [OF assms(1)] assms(2))+
  moreover have "(\<lambda>w. then_do (case m w of (r, w') \<Rightarrow> (Inr r, w')) h) = (\<lambda>w. case m w of (r, w') \<Rightarrow> h r w')"
    by (auto simp: fun_eq_iff split: prod.splits)
  ultimately show ?thesis by simp
qed

lemma sends_pair: "(\<And>a b. p = (a, b) \<Longrightarrow> sends_only ok (f a b)) \<Longrightarrow> sends_only ok (case p of (a, b) \<Rightarrow> f a b)"
  by (cases p) simp_all

lemma sends_weaken: "sends_only ok m \<Longrightarrow> (\<And>c. ok c \<Longrightarrow> ok' c) \<Longrightarrow> sends_only ok' m"
  unfolding sends_only_def by (metis list.pred_mono_strong)

end
