(* ===== verification/Setup.thy ===== *)
theory Setup
  imports Transactions Checks
begin

text \<open>
  Setting an extension up on chain: \<^verbatim>\<open>tools/pkg/fccutils/extension.go\<close> and the command
  \<^verbatim>\<open>tools/cmd/register-extension\<close>. The registration of the extension is always sent; the
  owners and the key type are granted where the chain does not have them yet. The locale
  \<open>grant\<close> is the contract of such a step.
\<close>

section \<open>The calls\<close>

datatype setup_call =
    RegisterExtensionCall address address
  | MachineOwnersCall int "address list"
  | ProjectOwnersCall int "address list"
  | KeyTypesCall int "hash list"

text \<open>The account, what the contracts answer to the view calls, and the event parsers.\<close>

record setup_net = "setup_call net" +
  sn_account :: address
  sn_machine_owner :: "setup_call list \<Rightarrow> int \<Rightarrow> address \<Rightarrow> err + bool"
  sn_project_owner :: "setup_call list \<Rightarrow> int \<Rightarrow> address \<Rightarrow> err + bool"
  sn_key_type :: "setup_call list \<Rightarrow> int \<Rightarrow> hash \<Rightarrow> err + bool"
  sn_parse_registered :: "bytes \<Rightarrow> err + int"
  sn_parse_contracts :: "bytes \<Rightarrow> err + unit"
  sn_parse_machine_owners :: "bytes \<Rightarrow> err + unit"
  sn_parse_project_owners :: "bytes \<Rightarrow> err + unit"

section \<open>The operations\<close>

definition registerExtension :: "setup_net \<Rightarrow> address \<Rightarrow> address \<Rightarrow> (setup_call, int) run" where
  "registerExtension sn instructionsSender stateVerifier w0 =
     then_do (send_tx sn (rpc_text ''TeeExtensionRegistry.Register failed: '') (RegisterExtensionCall stateVerifier instructionsSender) w0) (\<lambda>tx w1.
     then_do (wait_checked sn (prefixed ''Register transaction failed: '') tx w1) (\<lambda>receipt w2.
       if length (r_logs receipt) < 2 then
         fail (''expected at least 2 logs from Register() transaction, got '' @ dec_nat (length (r_logs receipt)) @ '' '' @ dash @
               '' the registry contract may have changed or be behind a proxy'') w2
       else
         then_do (given (map_err (prefixed ''failed to parse TeeExtensionRegistered event: '') (sn_parse_registered sn (r_logs receipt ! 0))) w2) (\<lambda>extensionId w3.
         then_do (given (map_err (prefixed ''failed to parse TeeExtensionContractsSet event: '') (sn_parse_contracts sn (r_logs receipt ! 1))) w3) (\<lambda>_ w4.
           ret extensionId w4))))"

definition allowTeeMachineOwners :: "setup_net \<Rightarrow> int \<Rightarrow> address list \<Rightarrow> (setup_call, unit) run" where
  "allowTeeMachineOwners sn extensionId owners w0 =
     then_do (send_tx sn (rpc_text ''AddAllowedTeeMachineOwners failed: '') (MachineOwnersCall extensionId owners) w0) (\<lambda>tx w1.
     then_do (wait_checked sn (prefixed ''AddAllowedTeeMachineOwners transaction failed: '') tx w1) (\<lambda>receipt w2.
       case r_logs receipt of
         [] \<Rightarrow> fail (''no logs in AddAllowedTeeMachineOwners transaction '' @ dash @ '' unexpected'') w2
       | l # _ \<Rightarrow> given (map_err (prefixed ''failed to parse AllowedTeeMachineOwnersAdded event: '') (sn_parse_machine_owners sn l)) w2))"

definition allowTeeProjectManagerOwners :: "setup_net \<Rightarrow> int \<Rightarrow> address list \<Rightarrow> (setup_call, unit) run" where
  "allowTeeProjectManagerOwners sn extensionId owners w0 =
     then_do (send_tx sn (rpc_text ''AddAllowedTeeWalletProjectOwners failed: '') (ProjectOwnersCall extensionId owners) w0) (\<lambda>tx w1.
     then_do (wait_checked sn (prefixed ''AddAllowedTeeWalletProjectOwners transaction failed: '') tx w1) (\<lambda>receipt w2.
       case r_logs receipt of
         [] \<Rightarrow> fail (''no logs in AddAllowedTeeWalletProjectOwners transaction '' @ dash @ '' unexpected'') w2
       | l # _ \<Rightarrow> given (map_err (prefixed ''failed to parse AllowedTeeWalletProjectOwnersAdded event: '') (sn_parse_project_owners sn l)) w2))"

definition addSupportedKeyTypesTx :: "setup_net \<Rightarrow> int \<Rightarrow> hash list \<Rightarrow> (setup_call, unit) run" where
  "addSupportedKeyTypesTx sn extensionId keyTypes w0 =
     then_do (send_tx sn (rpc_text []) (KeyTypesCall extensionId keyTypes) w0) (\<lambda>tx w1.
     then_do (wait_checked sn (prefixed []) tx w1) (\<lambda>_ w2. ret () w2))"

definition AddSupportedKeyTypes :: "setup_net \<Rightarrow> int \<Rightarrow> hash list \<Rightarrow> (setup_call, unit) run" where
  "AddSupportedKeyTypes sn extensionId keyTypes w0 =
     then_do (transactor sn (prefixed []) w0) (\<lambda>_ w1. addSupportedKeyTypesTx sn extensionId keyTypes w1)"

definition IsKeyTypeSupported :: "setup_net \<Rightarrow> int \<Rightarrow> hash \<Rightarrow> (setup_call, bool) run" where
  "IsKeyTypeSupported sn extensionId keyType = ask (\<lambda>sent. sn_key_type sn sent extensionId keyType)"

text \<open>Steps 2 to 4 of \<^verbatim>\<open>SetupExtension\<close>; \<open>evmType\<close> is the node's \<^verbatim>\<open>wallets.EVMType\<close>.\<close>

definition owners_failed :: "string \<Rightarrow> int \<Rightarrow> err \<Rightarrow> err" where
  "owners_failed what extensionID e =
     ''failed adding '' @ what @ '' (extension exists as ID '' @ big_string extensionID @ '' but owners not set): '' @ e"

definition setup_machine_owner :: "setup_net \<Rightarrow> int \<Rightarrow> (setup_call, unit) run" where
  "setup_machine_owner sn extensionID w0 =
     then_do (ask (\<lambda>sent. map_err (prefixed ''failed checking TEE machine owner status: '') (sn_machine_owner sn sent extensionID (sn_account sn))) w0)
       (\<lambda>alreadyMachineOwner w1.
         if alreadyMachineOwner then ret () w1
         else (case allowTeeMachineOwners sn extensionID [sn_account sn] w1 of
                 (r, w2) \<Rightarrow> (map_err (owners_failed ''TEE machine owners'' extensionID) r, w2)))"

definition setup_project_owner :: "setup_net \<Rightarrow> int \<Rightarrow> (setup_call, unit) run" where
  "setup_project_owner sn extensionID w0 =
     then_do (ask (\<lambda>sent. map_err (prefixed ''failed checking wallet project owner status: '') (sn_project_owner sn sent extensionID (sn_account sn))) w0)
       (\<lambda>alreadyProjectOwner w1.
         if alreadyProjectOwner then ret () w1
         else (case allowTeeProjectManagerOwners sn extensionID [sn_account sn] w1 of
                 (r, w2) \<Rightarrow> (map_err (owners_failed ''wallet project owners'' extensionID) r, w2)))"

definition setup_key_type :: "setup_net \<Rightarrow> hash \<Rightarrow> int \<Rightarrow> (setup_call, unit) run" where
  "setup_key_type sn evmType extensionID w0 =
     then_do (IsKeyTypeSupported sn extensionID evmType w0) (\<lambda>isKeyTypeSupported w1.
       if isKeyTypeSupported then ret () w1 else AddSupportedKeyTypes sn extensionID [evmType] w1)"

definition SetupExtension :: "setup_net \<Rightarrow> hash \<Rightarrow> address \<Rightarrow> address \<Rightarrow> (setup_call, int) run" where
  "SetupExtension sn evmType instructionsSender stateVerifier w0 =
     then_do (transactor sn (prefixed []) w0) (\<lambda>_ w1.
     then_do (registerExtension sn instructionsSender stateVerifier w1) (\<lambda>extensionID w2.
     then_do (setup_machine_owner sn extensionID w2) (\<lambda>_ w3.
     then_do (setup_project_owner sn extensionID w3) (\<lambda>_ w4.
     then_do (setup_key_type sn evmType extensionID w4) (\<lambda>_ w5.
       ret extensionID w5)))))"

section \<open>The command\<close>

text \<open>\<^verbatim>\<open>0x%064x\<close> of a big integer: at least 64 hexadecimal digits, the sign among them.\<close>

fun hex_nat :: "nat \<Rightarrow> string" where
  "hex_nat n = (if n < 16 then [hex_char n] else hex_nat (n div 16) @ [hex_char (n mod 16)])"

declare hex_nat.simps [simp del]

definition pad_left :: "nat \<Rightarrow> char \<Rightarrow> string \<Rightarrow> string" where
  "pad_left n c s = replicate (n - length s) c @ s"

definition hex64 :: "int \<Rightarrow> string" where
  "hex64 i = ''0x'' @ (if i < 0 then CHR ''-'' # pad_left 63 CHR ''0'' (hex_nat (nat (- i))) else pad_left 64 CHR ''0'' (hex_nat (nat i)))"

text \<open>
  \<^verbatim>\<open>tools/cmd/register-extension\<close>; an error stands for a fatal exit, the result for the
  line on standard output. \<open>wd\<close> and \<open>cc\<close> are what the checks of \<open>Checks\<close> look at.
\<close>

definition register_extension ::
  "world \<Rightarrow> chain_client option \<Rightarrow> setup_net \<Rightarrow> hash \<Rightarrow> (string \<Rightarrow> address) \<Rightarrow> string \<Rightarrow> (setup_call, string) run" where
  "register_extension wd cc sn evmType to_address instructionSenderF w0 =
     (if instructionSenderF = [] then fail ''--instructionSender flag is required'' w0
      else
        let instructionSenderAddress = to_address instructionSenderF in
        (case AddressHasCode wd cc instructionSenderAddress ''InstructionSender'' of
           Some e \<Rightarrow> fail e w0
         | None \<Rightarrow>
             then_do (SetupExtension sn evmType instructionSenderAddress 0 w0) (\<lambda>extensionID w1.
               ret (hex64 extensionID) w1)))"

end
