(* ===== verification/Setup_Facts.thy ===== *)
theory Setup_Facts
  imports Setup "HOL-Library.Sublist"
begin

text \<open>
  What setting an extension up sends and leaves behind. The three steps that grant
  something share the locale \<open>grant\<close>: the call goes out only where the chain does not
  report it as held, and success means that it is held or was executed.
\<close>

section \<open>Grants\<close>

text \<open>What a call would grant is already on the chain; a registration grants nothing.\<close>

fun held :: "setup_net \<Rightarrow> setup_call list \<Rightarrow> setup_call \<Rightarrow> bool" where
  "held sn w (RegisterExtensionCall _ _) = True"
| "held sn w (MachineOwnersCall i owners) = list_all (\<lambda>a. sn_machine_owner sn w i a = Inr True) owners"
| "held sn w (ProjectOwnersCall i owners) = list_all (\<lambda>a. sn_project_owner sn w i a = Inr True) owners"
| "held sn w (KeyTypesCall i types) = list_all (\<lambda>t. sn_key_type sn w i t = Inr True) types"

locale grant =
  fixes nt :: "('c, 'z) net_scheme" and has :: "'c list \<Rightarrow> bool" and step :: "('c, unit) run" and c :: 'c
  assumes only_missing: "step w = (r, w') \<Longrightarrow> w' = w \<or> w' = w @ [c] \<and> \<not> has w"
    and success: "step w = (Inr u, w') \<Longrightarrow> w' = w \<and> has w \<or> w' = w @ [c] \<and> executed nt w c"
    and satisfied: "has w \<Longrightarrow> step w = (Inr (), w)"
begin

lemma sent:
  assumes "step w = (r, w')"
  obtains gs where "w' = w @ gs" "gs = [] \<or> gs = [c] \<and> \<not> has w"
  using only_missing [OF assms] by (metis append_Nil2)

text \<open>Where an executed call takes effect, the step leaves what it grants, and repeating it sends nothing.\<close>

lemma establishes:
  assumes "\<And>w. executed nt w c \<Longrightarrow> has (w @ [c])" and "step w = (Inr u, w')"
  shows "has w'"
  using success [OF assms(2)] assms(1) by auto

lemma idempotent:
  assumes "\<And>w. executed nt w c \<Longrightarrow> has (w @ [c])" and "step w = (Inr u, w')"
  shows "step w' = (Inr (), w')"
  by (rule satisfied) (rule establishes [OF assms])

end

lemmas setup_steps = ask_def given_def ret_def fail_def then_do_def send_tx_def wait_checked_def transactor_def
lemmas setup_splits = sum.splits if_splits prod.splits option.splits list.splits

lemma map_err_Inl_iff [simp]: "map_err g r = Inl e \<longleftrightarrow> (\<exists>x. r = Inl x \<and> e = g x)"
  by (cases r) auto

interpretation machine: grant sn "\<lambda>w. held sn w (MachineOwnersCall i [sn_account sn])" "setup_machine_owner sn i"
    "MachineOwnersCall i [sn_account sn]" for sn i
  by unfold_locales
    (auto simp: setup_machine_owner_def allowTeeMachineOwners_def setup_steps intro: executed_checked split: setup_splits)

interpretation project: grant sn "\<lambda>w. held sn w (ProjectOwnersCall i [sn_account sn])" "setup_project_owner sn i"
    "ProjectOwnersCall i [sn_account sn]" for sn i
  by unfold_locales
    (auto simp: setup_project_owner_def allowTeeProjectManagerOwners_def setup_steps intro: executed_checked split: setup_splits)

interpretation key_type: grant sn "\<lambda>w. held sn w (KeyTypesCall i [t])" "setup_key_type sn t i" "KeyTypesCall i [t]" for sn i t
  by unfold_locales
    (auto simp: setup_key_type_def IsKeyTypeSupported_def AddSupportedKeyTypes_def addSupportedKeyTypesTx_def setup_steps
      intro: executed_checked split: setup_splits)

section \<open>The whole set-up\<close>

lemma registerExtension_sent:
  "registerExtension sn sender ver w = (r, w') \<Longrightarrow>
   w' = (case nt_send sn w (RegisterExtensionCall ver sender) of Inl e \<Rightarrow> w | Inr h \<Rightarrow> w @ [RegisterExtensionCall ver sender])"
  by (auto simp: registerExtension_def setup_steps split: setup_splits)

lemma registerExtension_ok:
  "registerExtension sn sender ver w = (Inr i, w') \<Longrightarrow>
   w' = w @ [RegisterExtensionCall ver sender] \<and> executed sn w (RegisterExtensionCall ver sender)"
  by (auto simp: registerExtension_def setup_steps intro: executed_checked split: setup_splits)

text \<open>Each call of a list was missing on the chain when it was sent.\<close>

fun missing_when_sent :: "setup_net \<Rightarrow> setup_call list \<Rightarrow> setup_call list \<Rightarrow> bool" where
  "missing_when_sent sn w [] = True"
| "missing_when_sent sn w (c # cs) = (\<not> held sn w c \<and> missing_when_sent sn (w @ [c]) cs)"

definition grants_upto :: "setup_net \<Rightarrow> setup_call list \<Rightarrow> setup_call list \<Rightarrow> setup_call list \<Rightarrow> bool" where
  "grants_upto sn w cs w' \<longleftrightarrow> (\<exists>gs. w' = w @ gs \<and> subseq gs cs \<and> missing_when_sent sn w gs)"

lemma grants_upto_refl: "grants_upto sn w cs w"
  by (simp add: grants_upto_def)

lemma grants_upto_step:
  assumes "w1 = w @ gs" "gs = [] \<or> gs = [c] \<and> \<not> held sn w c" "grants_upto sn w1 cs w'"
  shows "grants_upto sn w (c # cs) w'"
proof -
  obtain hs where hs: "w' = w1 @ hs" "subseq hs cs" "missing_when_sent sn w1 hs"
    using assms(3) by (auto simp: grants_upto_def)
  from assms(2) have "w' = w @ (gs @ hs) \<and> subseq (gs @ hs) (c # cs) \<and> missing_when_sent sn w (gs @ hs)"
    using hs assms(1) by auto
  then show ?thesis unfolding grants_upto_def by blast
qed

definition grant_calls :: "setup_net \<Rightarrow> hash \<Rightarrow> int \<Rightarrow> setup_call list" where
  "grant_calls sn evmType i =
     [MachineOwnersCall i [sn_account sn], ProjectOwnersCall i [sn_account sn], KeyTypesCall i [evmType]]"

definition grant_steps :: "setup_net \<Rightarrow> hash \<Rightarrow> int \<Rightarrow> (setup_call, int) run" where
  "grant_steps sn evmType i w =
     then_do (setup_machine_owner sn i w) (\<lambda>_ w3. then_do (setup_project_owner sn i w3)
      (\<lambda>_ w4. then_do (setup_key_type sn evmType i w4) (\<lambda>_ w5. ret i w5)))"

lemma grant_stage:
  assumes "grant nt (\<lambda>w. held sn w c) step c" "step w = (r, w1)" "grants_upto sn w1 cs w'"
  shows "grants_upto sn w (c # cs) w'"
  using grant.sent [OF assms(1,2)] assms(3) by (metis grants_upto_step)

lemmas grant_stages = grant_stage [OF machine.grant_axioms] grant_stage [OF project.grant_axioms]
  grant_stage [OF key_type.grant_axioms]

lemma grants_trace:
  assumes "grant_steps sn evmType i w = (r, w')"
  shows "grants_upto sn w [MachineOwnersCall i [sn_account sn], ProjectOwnersCall i [sn_account sn], KeyTypesCall i [evmType]] w'"
  using assms unfolding grant_steps_def
proof (cases rule: then_do_cases)
  case (1 e)
  then show ?thesis by (intro grant_stages(1) [OF _ grants_upto_refl])
next
  case m: (2 u1 w1)
  from m(2) have "grants_upto sn w1 [ProjectOwnersCall i [sn_account sn], KeyTypesCall i [evmType]] w'"
  proof (cases rule: then_do_cases)
    case (1 e)
    then show ?thesis by (intro grant_stages(2) [OF _ grants_upto_refl])
  next
    case p: (2 u2 w2)
    obtain r3 where "setup_key_type sn evmType i w2 = (r3, w')"
      using p(2) by (cases rule: then_do_cases) (simp_all add: ret_def)
    then show ?thesis by (intro grant_stages(2) [OF p(1)] grant_stages(3) [OF _ grants_upto_refl])
  qed
  then show ?thesis by (rule grant_stages(1) [OF m(1)])
qed

lemma grants_established:
  assumes "grant_steps sn evmType i w = (Inr i', w')"
    and effect: "\<And>w c. executed sn w c \<Longrightarrow> held sn (w @ [c]) c"
    and kept: "\<And>w w' c. held sn w c \<Longrightarrow> held sn (w @ w') c"
  shows "i' = i \<and> list_all (held sn w') (grant_calls sn evmType i)"
proof -
  from assms(1) [unfolded grant_steps_def] obtain u1 w1 where m: "setup_machine_owner sn i w = (Inr u1, w1)"
    and 1: "then_do (setup_project_owner sn i w1) (\<lambda>_ w4. then_do (setup_key_type sn evmType i w4) (\<lambda>_ w5. ret i w5)) = (Inr i', w')"
    by (cases rule: then_do_cases) simp_all
  from 1 obtain u2 w2 where p: "setup_project_owner sn i w1 = (Inr u2, w2)"
    and 2: "then_do (setup_key_type sn evmType i w2) (\<lambda>_ w5. ret i w5) = (Inr i', w')"
    by (cases rule: then_do_cases) simp_all
  from 2 obtain u3 where k: "setup_key_type sn evmType i w2 = (Inr u3, w')" and i: "i' = i"
    by (cases rule: then_do_cases) (simp_all add: ret_def)
  obtain g2 g3 where "w2 = w1 @ g2" "w' = w2 @ g3"
    using project.sent [OF p] key_type.sent [OF k] by metis
  moreover have "held sn w1 (MachineOwnersCall i [sn_account sn])" by (rule machine.establishes [OF effect m])
  moreover have "held sn w2 (ProjectOwnersCall i [sn_account sn])" by (rule project.establishes [OF effect p])
  moreover have "held sn w' (KeyTypesCall i [evmType])" by (rule key_type.establishes [OF effect k])
  ultimately have "held sn w' (MachineOwnersCall i [sn_account sn])" "held sn w' (ProjectOwnersCall i [sn_account sn])"
    "held sn w' (KeyTypesCall i [evmType])" using kept by (metis append_assoc)+
  then show ?thesis using i by (simp add: grant_calls_def)
qed

lemma SetupExtension_cases:
  assumes "SetupExtension sn evmType sender ver w = (r, w')"
  obtains e where "r = Inl e" "registerExtension sn sender ver w = (Inl e, w')" "nt_transactor sn = None"
    | e where "nt_transactor sn = Some e" "r = Inl e" "w' = w"
    | i w1 where "nt_transactor sn = None" "registerExtension sn sender ver w = (Inr i, w1)" "grant_steps sn evmType i w1 = (r, w')"
proof (cases "nt_transactor sn")
  case None
  then have "then_do (registerExtension sn sender ver w) (grant_steps sn evmType) = (r, w')"
    using assms by (simp add: SetupExtension_def transactor_def grant_steps_def [abs_def])
  then show ?thesis by (cases rule: then_do_cases) (use None that in auto)
qed (use assms that in \<open>simp add: SetupExtension_def transactor_def prefixed_def\<close>)

text \<open>(C35) A set-up that fails or succeeds sends nothing, or the registration followed by some
  of the three grants in their order, each of them one that the chain did not report as held
  at the moment it was sent.\<close>

theorem setup_sends_only_missing:
  assumes "SetupExtension sn evmType sender ver w = (r, w')"
  shows "w' = w \<or> (\<exists>i. grants_upto sn (w @ [RegisterExtensionCall ver sender]) (grant_calls sn evmType i) w')"
  using assms
proof (cases rule: SetupExtension_cases)
  case (1 e)
  then have "w' = w \<or> w' = w @ [RegisterExtensionCall ver sender]"
    by (auto dest!: registerExtension_sent split: sum.splits)
  then show ?thesis by (auto intro: grants_upto_refl)
next
  case (3 i w1)
  then show ?thesis using registerExtension_ok grants_trace by (metis grant_calls_def)
qed simp

text \<open>A chain that accepts and executes everything, on which grants are what was sent.\<close>

definition demo_receipt :: receipt where
  "demo_receipt = \<lparr>r_status = 1, r_logs = [''a'', ''b''], r_tx_hash = 0\<rparr>"

definition demo_answers :: tx_answers where
  "demo_answers = \<lparr>t_mined = Inr demo_receipt, t_lookup = Inr (), t_sender = Inr 0, t_call = Inr []\<rparr>"

fun grants_machine :: "int \<Rightarrow> address \<Rightarrow> setup_call \<Rightarrow> bool" where
  "grants_machine i a (MachineOwnersCall j owners) = (i = j \<and> a \<in> set owners)"
| "grants_machine i a _ = False"

fun grants_project :: "int \<Rightarrow> address \<Rightarrow> setup_call \<Rightarrow> bool" where
  "grants_project i a (ProjectOwnersCall j owners) = (i = j \<and> a \<in> set owners)"
| "grants_project i a _ = False"

fun grants_key :: "int \<Rightarrow> hash \<Rightarrow> setup_call \<Rightarrow> bool" where
  "grants_key i t (KeyTypesCall j types) = (i = j \<and> t \<in> set types)"
| "grants_key i t _ = False"

definition demo_setup :: setup_net where
  "demo_setup =
     \<lparr>nt_transactor = None, nt_send = (\<lambda>w c. Inr 0), nt_answers = (\<lambda>w h. demo_answers), nt_simulate = (\<lambda>w c. None),
      nt_unpack = (\<lambda>_. None), nt_hash_hex = (\<lambda>_. []), sn_account = 5,
      sn_machine_owner = (\<lambda>w i a. Inr (list_ex (grants_machine i a) w)),
      sn_project_owner = (\<lambda>w i a. Inr (list_ex (grants_project i a) w)),
      sn_key_type = (\<lambda>w i t. Inr (list_ex (grants_key i t) w)),
      sn_parse_registered = (\<lambda>_. Inr 7), sn_parse_contracts = (\<lambda>_. Inr ()),
      sn_parse_machine_owners = (\<lambda>_. Inr ()), sn_parse_project_owners = (\<lambda>_. Inr ())\<rparr>"

definition demo_setup_sent :: "setup_call list" where
  "demo_setup_sent = [RegisterExtensionCall 0 3, MachineOwnersCall 7 [5], ProjectOwnersCall 7 [5], KeyTypesCall 7 [9]]"

lemma demo_setup_run: "SetupExtension demo_setup 9 3 0 [] = (Inr 7, demo_setup_sent)"
  by (simp add: SetupExtension_def registerExtension_def setup_machine_owner_def setup_project_owner_def setup_key_type_def
      allowTeeMachineOwners_def allowTeeProjectManagerOwners_def IsKeyTypeSupported_def AddSupportedKeyTypes_def
      addSupportedKeyTypesTx_def demo_setup_def demo_setup_sent_def demo_answers_def demo_receipt_def check_mined_def CheckTx_def
      transactor_def send_tx_def wait_checked_def ask_def given_def ret_def)

theorem setup_sends_only_missing_witness:
  "\<exists>i. grants_upto demo_setup [RegisterExtensionCall 0 3] (grant_calls demo_setup 9 i) demo_setup_sent"
  using setup_sends_only_missing [OF demo_setup_run] by (simp add: demo_setup_sent_def)

text \<open>(C36) Success of a set-up means what it says, on a chain where an executed grant takes
  effect and is not taken back: the extension's registration was executed in this run, and
  the deployer is a machine owner and a project owner of the new extension, which supports
  the key type.\<close>

theorem setup_success_grants:
  assumes "SetupExtension sn evmType sender ver w = (Inr i, w')"
    and "\<And>w c. executed sn w c \<Longrightarrow> held sn (w @ [c]) c"
    and "\<And>w w' c. held sn w c \<Longrightarrow> held sn (w @ w') c"
  shows "executed sn w (RegisterExtensionCall ver sender)
    \<and> sn_machine_owner sn w' i (sn_account sn) = Inr True
    \<and> sn_project_owner sn w' i (sn_account sn) = Inr True
    \<and> sn_key_type sn w' i evmType = Inr True"
  using assms(1)
proof (cases rule: SetupExtension_cases)
  case (3 j w1)
  then have "i = j \<and> list_all (held sn w') (grant_calls sn evmType j)"
    using grants_established [OF _ assms(2,3)] by blast
  then show ?thesis using registerExtension_ok [OF 3(2)] by (simp add: grant_calls_def)
qed simp_all

lemma demo_effect: "held demo_setup (w @ [c]) c"
  by (cases c) (auto simp: demo_setup_def list_all_iff)

lemma demo_kept: "held demo_setup w c \<Longrightarrow> held demo_setup (w @ w') c"
  by (cases c) (auto simp: demo_setup_def list_all_iff)

theorem setup_success_grants_witness:
  "sn_machine_owner demo_setup demo_setup_sent 7 5 = Inr True \<and> executed demo_setup [] (RegisterExtensionCall 0 3)"
proof -
  have "sn_account demo_setup = 5" by (simp add: demo_setup_def)
  then show ?thesis using setup_success_grants [OF demo_setup_run demo_effect demo_kept] by simp
qed

fun is_registration :: "setup_call \<Rightarrow> bool" where
  "is_registration (RegisterExtensionCall _ _) = True"
| "is_registration _ = False"

lemma grants_upto_registrations:
  assumes "grants_upto sn w (grant_calls sn evmType i) w'"
  shows "filter is_registration w' = filter is_registration w"
proof -
  obtain gs where "w' = w @ gs" "set gs \<subseteq> set (grant_calls sn evmType i)"
    using assms by (auto simp: grants_upto_def dest: list_emb_set)
  moreover have "\<not> is_registration c" if "c \<in> set (grant_calls sn evmType i)" for c
    using that by (auto simp: grant_calls_def)
  ultimately show ?thesis by (auto simp: filter_empty_conv)
qed

text \<open>Registration is not idempotent, unlike the grants after it: every run with a key that
  can sign registers one more extension as soon as the node accepts the transaction, also
  when an earlier run registered one and failed later.\<close>

theorem setup_registers_every_time:
  "length (filter is_registration (snd (SetupExtension sn evmType sender ver w))) =
     length (filter is_registration w) +
     (case nt_transactor sn of Some e \<Rightarrow> 0
      | None \<Rightarrow> (case nt_send sn w (RegisterExtensionCall ver sender) of Inl e \<Rightarrow> 0 | Inr h \<Rightarrow> 1))"
proof -
  obtain r w' where run: "SetupExtension sn evmType sender ver w = (r, w')" by fastforce
  then show ?thesis
  proof (cases rule: SetupExtension_cases)
    case (1 e)
    then show ?thesis using run registerExtension_sent [OF 1(2)] by (simp split: sum.splits)
  next
    case (3 i w1)
    then have "filter is_registration w' = filter is_registration w1"
      using grants_trace by (intro grants_upto_registrations) (simp add: grant_calls_def)
    then show ?thesis using run 3 registerExtension_sent [OF 3(2)] registerExtension_ok [OF 3(2)]
      by (auto simp: executed_def split: sum.splits)
  qed (use run in simp)
qed

section \<open>The printed id\<close>

lemma hex_nat_digits: "list_all (\<lambda>c. hex_val c \<noteq> None) (hex_nat n)"
proof (induction n rule: hex_nat.induct)
  case (1 n)
  then show ?case by (subst hex_nat.simps) simp
qed

lemma length_hex_nat: "n < 16 ^ k \<Longrightarrow> 0 < k \<Longrightarrow> length (hex_nat n) \<le> k"
proof (induction n arbitrary: k rule: hex_nat.induct)
  case (1 n)
  show ?case
  proof (cases "n < 16")
    case True
    then show ?thesis using 1(3) by (subst hex_nat.simps) simp
  next
    case False
    obtain j where k: "k = Suc j" using 1(3) by (cases k) auto
    with False 1(2) have "0 < j" by (cases j) auto
    moreover have "n div 16 < 16 ^ j" using 1(2) k by (simp add: less_mult_imp_div_less mult.commute)
    ultimately have "length (hex_nat (n div 16)) \<le> j" using 1(1) False by blast
    then show ?thesis using False k by (subst hex_nat.simps) simp
  qed
qed

lemma hex_to_int_append: "hex_to_int a (xs @ ys) = hex_to_int (hex_to_int a xs) ys"
  by (induction a xs rule: hex_to_int.induct) simp_all

lemma hex_to_int_hex_nat: "hex_to_int 0 (hex_nat n) = int n"
proof (induction n rule: hex_nat.induct)
  case (1 n)
  show ?case
  proof (cases "n < 16")
    case True
    then show ?thesis by (subst hex_nat.simps) simp
  next
    case False
    then have "hex_to_int 0 (hex_nat (n div 16)) = int (n div 16)" using 1 by simp
    then show ?thesis using False
      by (subst hex_nat.simps) (simp add: hex_to_int_append zdiv_int zmod_int)
  qed
qed

lemma hex_to_int_zeros: "hex_to_int 0 (replicate n CHR ''0'') = 0"
  by (induction n) (simp_all add: hex_val_def code_of_def)

lemma hex64_readable:
  assumes "0 \<le> i" "i < 2 ^ 256"
  shows "extensionIDRegex (hex64 i)" and "hex_to_int 0 (drop 2 (hex64 i)) = i"
proof -
  have zero: "hex_val CHR ''0'' = Some 0" by (simp add: hex_val_def code_of_def)
  have "nat i < 2 ^ 256" using assms by (simp add: nat_less_iff)
  then have "nat i < 16 ^ 64" by simp
  then have "length (hex_nat (nat i)) \<le> 64" by (rule length_hex_nat) simp
  moreover have "list_all (\<lambda>c. hex_val c \<noteq> None) (replicate n CHR ''0'')" for n
    by (induction n) (simp_all add: zero)
  ultimately show "extensionIDRegex (hex64 i)"
    using assms hex_nat_digits [of "nat i"]
    by (simp add: extensionIDRegex_def match_0x_hex_def hex64_def pad_left_def has_prefix_def)
  show "hex_to_int 0 (drop 2 (hex64 i)) = i"
    using assms by (simp add: hex64_def pad_left_def hex_to_int_append hex_to_int_zeros hex_to_int_hex_nat)
qed

text \<open>The id \<^verbatim>\<open>register-extension\<close> prints is one the deployment checks read back: it has
  the format they require of \<^verbatim>\<open>EXTENSION_ID\<close>, and it denotes the extension that was set up.\<close>

theorem registered_id_readable:
  assumes "register_extension wd cc sn evmType to_address senderF w = (Inr line, w')"
    and "\<And>l i. sn_parse_registered sn l = Inr i \<Longrightarrow> 0 \<le> i \<and> i < 2 ^ 256"
  shows "extensionIDRegex line
    \<and> SetupExtension sn evmType (to_address senderF) 0 w = (Inr (hex_to_int 0 (drop 2 line)), w')"
proof -
  obtain i where run: "SetupExtension sn evmType (to_address senderF) 0 w = (Inr i, w')" and line: "line = hex64 i"
    using assms(1) by (auto simp: register_extension_def Let_def fail_def ret_def then_do_def
        split: if_splits option.splits sum.splits prod.splits)
  from run obtain w1 where "registerExtension sn (to_address senderF) 0 w = (Inr i, w1)"
  proof (cases rule: SetupExtension_cases)
    case (3 j w1)
    then have "j = i" by (auto simp: grant_steps_def then_do_def ret_def split: sum.splits prod.splits)
    then show ?thesis using 3 that by blast
  qed simp_all
  then obtain l where "sn_parse_registered sn l = Inr i"
    by (auto simp: registerExtension_def setup_steps split: setup_splits)
  then have "0 \<le> i" "i < 2 ^ 256" using assms(2) by blast+
  then show ?thesis using hex64_readable [of i] run by (simp add: line)
qed

definition demo_world :: world where
  "demo_world =
     \<lparr>w_getenv = (\<lambda>_. []), w_open = (\<lambda>_. None), w_not_exist = (\<lambda>_. True), w_dial = (\<lambda>_. False), w_get = (\<lambda>_. Inl []),
      w_quote = go_quote, w_hex = (\<lambda>_. []), w_hex_to_address = (\<lambda>_. 3), w_account = (\<lambda>_. 5), w_evm_type = []\<rparr>"

definition demo_client :: chain_client where
  "demo_client = \<lparr>CodeAt = (\<lambda>_. Inr ''c''), BalanceAt = (\<lambda>_. Inr 0), ChainID = Inr 114\<rparr>"

theorem registered_id_readable_witness:
  "extensionIDRegex (hex64 7) \<and> hex_to_int 0 (drop 2 (hex64 7)) = 7"
proof -
  have run: "register_extension demo_world (Some demo_client) demo_setup 9 (\<lambda>_. 3) ''s'' [] = (Inr (hex64 7), demo_setup_sent)"
    by (simp add: register_extension_def AddressHasCode_def demo_client_def demo_setup_run ret_def)
  have uint: "sn_parse_registered demo_setup l = Inr i \<Longrightarrow> 0 \<le> i \<and> i < 2 ^ 256" for l i
    by (simp add: demo_setup_def)
  from registered_id_readable [OF run uint] show ?thesis by (simp add: demo_setup_run)
qed

end
