(* ===== verification/Venue_Calls.thy ===== *)
theory Venue_Calls
  imports Setup
begin

text \<open>
  Calls to the venue contract: \<^verbatim>\<open>tools/pkg/utils/instructions.go\<close> and the command
  \<^verbatim>\<open>tools/cmd/deploy-contract\<close>. A transaction carries its sender, its value and its gas
  limit, because the sender is what the venue binds an order to and the fee is what the
  registry asks for.
\<close>

section \<open>Transactions to the venue and its tokens\<close>

datatype venue_op =
    DeployOp address address address address
  | SetExtensionIdOp
  | SubmitOrderOp bytes
  | RunBatchOp
  | AddTeeOp address
  | SettleOp bytes "bytes list"
  | DepositOp int int
  | MintOp address int
  | TransferOp address int
  | ApproveOp address int

text \<open>No recipient for a deployment; no gas limit where the client estimates it.\<close>

record venue_call =
  vc_from :: address
  vc_to :: "address option"
  vc_value :: int
  vc_gas :: "int option"
  vc_op :: venue_op

definition plain_call :: "address \<Rightarrow> address \<Rightarrow> venue_op \<Rightarrow> venue_call" where
  "plain_call from to op = \<lparr>vc_from = from, vc_to = Some to, vc_value = 0, vc_gas = None, vc_op = op\<rparr>"

text \<open>
  \<open>vn_bind\<close> is the failure of the contract binding, \<open>vn_created\<close> the address a deployment
  gets, \<open>vn_parse_sent\<close> the parser of the registry's \<^verbatim>\<open>TeeInstructionsSent\<close> event.
\<close>

record venue_net = "venue_call net" +
  vn_bind :: "err option"
  vn_created :: "venue_call list \<Rightarrow> address"
  vn_parse_sent :: "bytes \<Rightarrow> err + hash"

definition bound :: "('z) venue_net_scheme \<Rightarrow> (err \<Rightarrow> err) \<Rightarrow> (venue_call, unit) run" where
  "bound vn reword = given (case vn_bind vn of Some e \<Rightarrow> Inl (reword e) | None \<Rightarrow> Inr ())"

section \<open>Deployment\<close>

definition DeployInstructionSender ::
  "('z) venue_net_scheme \<Rightarrow> (string \<Rightarrow> string) \<Rightarrow> (string \<Rightarrow> address) \<Rightarrow> address \<Rightarrow> address \<Rightarrow> (venue_call, address) run" where
  "DeployInstructionSender vn getenv to_address from manager w0 =
     then_do (transactor vn (prefixed ''failed to create transactor: '') w0) (\<lambda>_ w1.
       let baseToken = to_address (getenv ''BASE_TOKEN''); quoteToken = to_address (getenv ''QUOTE_TOKEN'') in
       if baseToken = 0 \<or> quoteToken = 0 then fail ''BASE_TOKEN and QUOTE_TOKEN must be set'' w1
       else
         then_do (send_tx vn (rpc_text ''failed to deploy contract: '')
             \<lparr>vc_from = from, vc_to = None, vc_value = 0, vc_gas = None, vc_op = DeployOp manager manager baseToken quoteToken\<rparr> w1) (\<lambda>tx w2.
         then_do (wait_mined vn (prefixed (''deployment tx not mined within 2 minutes (tx: '' @ nt_hash_hex vn tx @ ''): '')) tx w2) (\<lambda>receipt w3.
           if r_status receipt \<noteq> 1 then fail ''contract deployment failed'' w3
           else ret (vn_created vn w1) w3)))"

section \<open>Calls\<close>

text \<open>\<^verbatim>\<open>decodeRevert\<close>: the replayed call, and the reason its answer gives.\<close>

definition replay_reason :: "('z) venue_net_scheme \<Rightarrow> venue_call \<Rightarrow> venue_call list \<Rightarrow> string" where
  "replay_reason vn c sent =
     (case nt_simulate vn sent c of None \<Rightarrow> [] | Some reply \<Rightarrow> SimulateAndDecodeRevert (nt_unpack vn) reply)"

definition send_failed :: "('z) venue_net_scheme \<Rightarrow> string \<Rightarrow> venue_call \<Rightarrow> rpc_error \<Rightarrow> venue_call list \<Rightarrow> err" where
  "send_failed vn what c e sent =
     (let reason0 = DecodeRevertReason (nt_unpack vn) (Some e);
          reason = (if reason0 = [] then replay_reason vn c sent else reason0)
      in if reason \<noteq> [] then what @ e_text e @ '' (revert reason: '' @ reason @ '')'' else what @ e_text e)"

definition SetExtensionId :: "('z) venue_net_scheme \<Rightarrow> address \<Rightarrow> address \<Rightarrow> (venue_call, unit) run" where
  "SetExtensionId vn from venue w0 =
     (let c = plain_call from venue SetExtensionIdOp in
      then_do (bound vn (prefixed ''failed to bind contract: '') w0) (\<lambda>_ w1.
      then_do (transactor vn (prefixed ''failed to create transactor: '') w1) (\<lambda>_ w2.
      then_do (send_tx vn (send_failed vn ''failed to call setExtensionId: '' c) c w2) (\<lambda>tx w3.
      then_do (wait_mined vn (prefixed ''failed waiting for transaction: '') tx w3) (\<lambda>receipt w4.
        if r_status receipt \<noteq> 1 then
          (let reason = replay_reason vn c w4 in
           fail (if reason \<noteq> [] then ''setExtensionId transaction failed (revert reason: '' @ reason @ '')''
                 else ''setExtensionId transaction failed'') w4)
        else ret () w4)))))"

text \<open>The instruction fee, and the gas ceiling that replaces the estimate.\<close>

definition instruction_fee :: int where "instruction_fee = 1000000"
definition instruction_gas :: int where "instruction_gas = 1500000"

fun find_instruction :: "(bytes \<Rightarrow> err + hash) \<Rightarrow> bytes list \<Rightarrow> hash option" where
  "find_instruction parse [] = None"
| "find_instruction parse (l # ls) = (case parse l of Inr i \<Rightarrow> Some i | Inl e \<Rightarrow> find_instruction parse ls)"

definition instruction_call :: "address \<Rightarrow> address \<Rightarrow> venue_op \<Rightarrow> venue_call" where
  "instruction_call from venue op =
     \<lparr>vc_from = from, vc_to = Some venue, vc_value = instruction_fee, vc_gas = Some instruction_gas, vc_op = op\<rparr>"

definition sendInstruction :: "('z) venue_net_scheme \<Rightarrow> address \<Rightarrow> address \<Rightarrow> string \<Rightarrow> venue_op \<Rightarrow> (venue_call, hash \<times> hash) run" where
  "sendInstruction vn from venue callName op w0 =
     (let c = instruction_call from venue op in
      then_do (bound vn (prefixed ''failed to bind contract: '') w0) (\<lambda>_ w1.
      then_do (transactor vn (prefixed ''failed to create transactor: '') w1) (\<lambda>_ w2.
      then_do (send_tx vn (send_failed vn (''failed to send '' @ callName @ '': '') c) c w2) (\<lambda>tx w3.
      then_do (wait_mined vn (prefixed ''failed waiting for transaction: '') tx w3) (\<lambda>receipt w4.
        if r_status receipt \<noteq> 1 then
          (let reason = replay_reason vn c w4 in
           fail (if reason \<noteq> [] then callName @ '' failed (revert reason: '' @ reason @ '')''
                 else callName @ '' failed with status: '' @ dec_nat (r_status receipt)) w4)
        else if length (r_logs receipt) = 0 then fail ''no logs found in receipt'' w4
        else
          (case find_instruction (vn_parse_sent vn) (r_logs receipt) of
             Some i \<Rightarrow> ret (i, r_tx_hash receipt) w4
           | None \<Rightarrow> fail ''TeeInstructionsSent event not found in receipt'' w4))))))"

definition SubmitOrder :: "('z) venue_net_scheme \<Rightarrow> address \<Rightarrow> address \<Rightarrow> bytes \<Rightarrow> (venue_call, hash \<times> hash) run" where
  "SubmitOrder vn from venue ciphertext = sendInstruction vn from venue ''submitOrder'' (SubmitOrderOp ciphertext)"

definition RunBatch :: "('z) venue_net_scheme \<Rightarrow> address \<Rightarrow> address \<Rightarrow> (venue_call, hash \<times> hash) run" where
  "RunBatch vn from venue = sendInstruction vn from venue ''runBatch'' RunBatchOp"

section \<open>The command\<close>

text \<open>
  \<^verbatim>\<open>tools/cmd/deploy-contract\<close>: the checks before anything is sent, and the result as the
  line on standard output with the file that is written. \<open>prv\<close> is the deployer's key.
\<close>

definition preflight :: "world \<Rightarrow> chain_client option \<Rightarrow> private_key \<Rightarrow> address \<Rightarrow> err option" where
  "preflight wd cc prv manager =
     (case AddressNotZero wd manager ''FlareTeeManager'' of
        Some e \<Rightarrow> Some e
      | None \<Rightarrow>
        (case AddressHasCode wd cc manager ''FlareTeeManager'' of
           Some e \<Rightarrow> Some e
         | None \<Rightarrow> KeyHasFunds wd cc prv MinDeployBalance))"

definition deploy_contract ::
  "world \<Rightarrow> chain_client option \<Rightarrow> ('z) venue_net_scheme \<Rightarrow> private_key \<Rightarrow> address \<Rightarrow> string \<Rightarrow> bool
     \<Rightarrow> (venue_call, string option \<times> (string \<times> string) option) run" where
  "deploy_contract wd cc vn prv manager outFile preflightOnly w0 =
     (case preflight wd cc prv manager of
        Some e \<Rightarrow> fail e w0
      | None \<Rightarrow>
        if preflightOnly then ret (None, None) w0
        else
          then_do (DeployInstructionSender vn (w_getenv wd) (w_hex_to_address wd) (w_account wd prv) manager w0) (\<lambda>addr w1.
            ret (Some (w_hex wd addr), if outFile \<noteq> [] then Some (outFile, w_hex wd addr) else None) w1))"

section \<open>What the calls send\<close>

text \<open>
  Sending an instruction is one transaction with the fee, from the given account; success
  gives the instruction of the first log that is one.
\<close>

lemma sendInstruction_sent:
  "sendInstruction vn from venue name op w = (r, w') \<Longrightarrow> w' = w \<or> w' = w @ [instruction_call from venue op]"
  by (auto simp: sendInstruction_def bound_def transactor_def send_tx_def wait_mined_def ask_def given_def ret_def fail_def
      then_do_def Let_def split: sum.splits if_splits prod.splits option.splits)

lemma find_instruction_Some:
  "find_instruction parse ls = Some i \<longleftrightarrow> (\<exists>n < length ls. parse (ls ! n) = Inr i \<and> (\<forall>m < n. \<exists>e. parse (ls ! m) = Inl e))"
proof (induction ls)
  case (Cons l ls)
  then show ?case
    by (cases "parse l") (simp_all add: Ex_less_Suc2 All_less_Suc2 split del: if_split)
qed simp

end
