(* ===== verification/Client_Wire.thy ===== *)
theory Client_Wire
  imports Sealing
begin

text \<open>
  What the demo clients read of the enclave's replies: the response types
  \<^verbatim>\<open>tools/cmd/run-test\<close> and \<^verbatim>\<open>tools/cmd/make-market\<close> declare for themselves, decoded from
  the JSON the enclave writes. Big integers are pointers there, so a field that is absent is
  \<open>None\<close>. go-ethereum's decoder of an address is a parameter.
\<close>

section \<open>Decoding\<close>

text \<open>
  \<^verbatim>\<open>json.Unmarshal\<close> takes the whole input: one value and nothing after it. Unknown keys
  are skipped.
\<close>

fun pda_whole :: "phase \<Rightarrow> frame list \<Rightarrow> tok list \<Rightarrow> json option" where
  "pda_whole ph stk [] = None"
| "pda_whole ph stk (t # ts) =
     (case pda_step ph stk t of
        None \<Rightarrow> None
      | Some (Inl v) \<Rightarrow> if ts = [] then Some v else None
      | Some (Inr (ph', stk')) \<Rightarrow> pda_whole ph' stk' ts)"

definition json_unmarshal :: "string \<Rightarrow> json option" where
  "json_unmarshal s = pda_whole PValue [] (lex s)"

fun decode_fields :: "string list \<Rightarrow> (string \<Rightarrow> json \<Rightarrow> 'r \<Rightarrow> 'r option) \<Rightarrow> (string \<times> json) list \<Rightarrow> 'r \<Rightarrow> 'r option" where
  "decode_fields names set_field [] r = Some r"
| "decode_fields names set_field ((k, v) # kvs) r =
     (case json_field names k of
        None \<Rightarrow> decode_fields names set_field kvs r
      | Some f \<Rightarrow> (case set_field f v r of None \<Rightarrow> None | Some r' \<Rightarrow> decode_fields names set_field kvs r'))"

definition decode_struct :: "string list \<Rightarrow> (string \<Rightarrow> json \<Rightarrow> 'r \<Rightarrow> 'r option) \<Rightarrow> 'r \<Rightarrow> json \<Rightarrow> 'r option" where
  "decode_struct names set_field zero v =
     (case v of JObj kvs \<Rightarrow> decode_fields names set_field kvs zero | JNull \<Rightarrow> Some zero | _ \<Rightarrow> None)"

definition json_to_u64 :: "json \<Rightarrow> u64 \<Rightarrow> u64 option" where
  "json_to_u64 v old = (case v of JNum s \<Rightarrow> go_parse_uint64 s | JNull \<Rightarrow> Some old | _ \<Rightarrow> None)"

definition json_to_int :: "json \<Rightarrow> int \<Rightarrow> int option" where
  "json_to_int v old = (case v of JNum s \<Rightarrow> go_atoi s | JNull \<Rightarrow> Some old | _ \<Rightarrow> None)"

definition json_to_bool :: "json \<Rightarrow> bool \<Rightarrow> bool option" where
  "json_to_bool v old = (case v of JBool b \<Rightarrow> Some b | JNull \<Rightarrow> Some old | _ \<Rightarrow> None)"

text \<open>A pointer to a big integer: null is nil, and only a number without fraction or exponent decodes.\<close>

definition json_to_big :: "json \<Rightarrow> int option option" where
  "json_to_big v = (case v of JNum s \<Rightarrow> map_option Some (big_set_string s) | JNull \<Rightarrow> Some None | _ \<Rightarrow> None)"

definition json_to_slice :: "(json \<Rightarrow> 'r option) \<Rightarrow> json \<Rightarrow> 'r list option" where
  "json_to_slice elem v = (case v of JArr vs \<Rightarrow> those (map elem vs) | JNull \<Rightarrow> Some [] | _ \<Rightarrow> None)"

record submitOrderResponse =
  ck_order_id :: u64
  ck_batch_id :: u64
  ck_accepted :: bool
  ck_book_depth :: int

definition set_ack :: "string \<Rightarrow> json \<Rightarrow> submitOrderResponse \<Rightarrow> submitOrderResponse option" where
  "set_ack f v r =
     (if f = ''orderId'' then map_option (\<lambda>x. r\<lparr>ck_order_id := x\<rparr>) (json_to_u64 v (ck_order_id r))
      else if f = ''batchId'' then map_option (\<lambda>x. r\<lparr>ck_batch_id := x\<rparr>) (json_to_u64 v (ck_batch_id r))
      else if f = ''accepted'' then map_option (\<lambda>x. r\<lparr>ck_accepted := x\<rparr>) (json_to_bool v (ck_accepted r))
      else map_option (\<lambda>x. r\<lparr>ck_book_depth := x\<rparr>) (json_to_int v (ck_book_depth r)))"

definition decode_ack :: "bytes \<Rightarrow> submitOrderResponse option" where
  "decode_ack body =
     Option.bind (json_unmarshal body)
       (decode_struct [''orderId'', ''batchId'', ''accepted'', ''bookDepth''] set_ack
         \<lparr>ck_order_id = 0, ck_batch_id = 0, ck_accepted = False, ck_book_depth = 0\<rparr>)"

record fill =
  cf_trader :: address
  cf_base_delta :: "int option"
  cf_quote_delta :: "int option"

record runBatchResponse =
  cb_batch_id :: u64
  cb_clearing_price :: "int option"
  cb_matched_base :: "int option"
  cb_fills :: "fill list"
  cb_settlement :: bytes
  cb_signature :: bytes
  cb_unmatched :: int

definition set_fill :: "(json \<Rightarrow> address option) \<Rightarrow> string \<Rightarrow> json \<Rightarrow> fill \<Rightarrow> fill option" where
  "set_fill to_address f v r =
     (if f = ''trader'' then map_option (\<lambda>x. r\<lparr>cf_trader := x\<rparr>) (to_address v)
      else if f = ''baseDelta'' then map_option (\<lambda>x. r\<lparr>cf_base_delta := x\<rparr>) (json_to_big v)
      else map_option (\<lambda>x. r\<lparr>cf_quote_delta := x\<rparr>) (json_to_big v))"

definition decode_fill :: "(json \<Rightarrow> address option) \<Rightarrow> json \<Rightarrow> fill option" where
  "decode_fill to_address =
     decode_struct [''trader'', ''baseDelta'', ''quoteDelta''] (set_fill to_address)
       \<lparr>cf_trader = 0, cf_base_delta = None, cf_quote_delta = None\<rparr>"

definition set_batch :: "(json \<Rightarrow> address option) \<Rightarrow> string \<Rightarrow> json \<Rightarrow> runBatchResponse \<Rightarrow> runBatchResponse option" where
  "set_batch to_address f v r =
     (if f = ''batchId'' then map_option (\<lambda>x. r\<lparr>cb_batch_id := x\<rparr>) (json_to_u64 v (cb_batch_id r))
      else if f = ''clearingPrice'' then map_option (\<lambda>x. r\<lparr>cb_clearing_price := x\<rparr>) (json_to_big v)
      else if f = ''matchedBase'' then map_option (\<lambda>x. r\<lparr>cb_matched_base := x\<rparr>) (json_to_big v)
      else if f = ''fills'' then map_option (\<lambda>x. r\<lparr>cb_fills := x\<rparr>) (json_to_slice (decode_fill to_address) v)
      else if f = ''settlement'' then map_option (\<lambda>x. r\<lparr>cb_settlement := x\<rparr>) (json_to_bytes v)
      else if f = ''signature'' then map_option (\<lambda>x. r\<lparr>cb_signature := x\<rparr>) (json_to_bytes v)
      else map_option (\<lambda>x. r\<lparr>cb_unmatched := x\<rparr>) (json_to_int v (cb_unmatched r)))"

definition decode_batch :: "(json \<Rightarrow> address option) \<Rightarrow> bytes \<Rightarrow> runBatchResponse option" where
  "decode_batch to_address body =
     Option.bind (json_unmarshal body)
       (decode_struct [''batchId'', ''clearingPrice'', ''matchedBase'', ''fills'', ''settlement'', ''signature'', ''unmatched'']
         (set_batch to_address)
         \<lparr>cb_batch_id = 0, cb_clearing_price = None, cb_matched_base = None, cb_fills = [], cb_settlement = [],
          cb_signature = [], cb_unmatched = 0\<rparr>)"

section \<open>Reading the enclave's replies\<close>

text \<open>Text that lexes to \<open>T\<close>, which the automaton reads as the value \<open>j\<close> wherever one may begin.\<close>

definition resume :: "json + pda \<Rightarrow> tok list \<Rightarrow> json option" where
  "resume st ts = (case st of Inl v \<Rightarrow> if ts = [] then Some v else None | Inr (ph, stk) \<Rightarrow> pda_whole ph stk ts)"

lemma resume_simps [simp]: "resume (Inr (ph, stk)) ts = pda_whole ph stk ts" "resume (Inl v) [] = Some v"
  by (simp_all add: resume_def)

lemma pda_whole_value:
  "ph = PValue \<or> ph = PArrFirst \<Longrightarrow> pda_whole ph stk (TStr s # ts) = resume (complete (JStr s) stk) ts"
  "ph = PValue \<or> ph = PArrFirst \<Longrightarrow> pda_whole ph stk (TNum s # ts) = resume (complete (JNum s) stk) ts"
  by (auto simp: pda_step_def begin_value_def resume_def split: sum.splits)

definition fill_toks :: "node \<Rightarrow> Fill \<Rightarrow> tok list" where
  "fill_toks nd f =
     [TObjOpen, TStr ''trader'', TColon, TStr (n_address_text nd (fl_trader f)), TComma,
      TStr ''baseDelta'', TColon, TNum (big_string (fl_base_delta f)), TComma,
      TStr ''quoteDelta'', TColon, TNum (big_string (fl_quote_delta f)), TObjClose]"

definition fill_json :: "node \<Rightarrow> Fill \<Rightarrow> json" where
  "fill_json nd f = JObj
     [(''trader'', JStr (n_address_text nd (fl_trader f))), (''baseDelta'', JNum (big_string (fl_base_delta f))),
      (''quoteDelta'', JNum (big_string (fl_quote_delta f)))]"

lemma lex_fill:
  "plain (n_address_text nd (fl_trader f)) \<Longrightarrow> lex (Fill_json nd f @ rest) = fill_toks nd f @ lex rest"
  by (simp add: Fill_json_def fill_toks_def json_object_def plain_eval)

lemma read_fill:
  "length stk < max_nesting \<Longrightarrow> ph = PValue \<or> ph = PArrFirst \<Longrightarrow>
   pda_whole ph stk (fill_toks nd f @ ts) = resume (complete (fill_json nd f) stk) ts"
  by (elim disjE) (simp_all add: fill_toks_def fill_json_def pda_simps resume_def split: list.splits frame.splits)

fun array_toks :: "tok list list \<Rightarrow> tok list" where
  "array_toks [] = []"
| "array_toks [T] = T"
| "array_toks (T # U # Ts) = T @ TComma # array_toks (U # Ts)"

lemma lex_fills:
  "(\<And>f. f \<in> set fs \<Longrightarrow> plain (n_address_text nd (fl_trader f))) \<Longrightarrow>
   lex (join '','' (map (Fill_json nd) fs) @ rest) = array_toks (map (fill_toks nd) fs) @ lex rest"
proof (induction fs)
  case (Cons f fs)
  then show ?case by (cases fs) (simp_all add: lex_fill)
qed simp

lemma read_fills:
  assumes "length stk + 1 < max_nesting" "fs \<noteq> []" "ph = PValue \<or> ph = PArrFirst"
  shows "pda_whole ph (FArr vs # stk) (array_toks (map (fill_toks nd) fs) @ TArrClose # ts) =
    resume (complete (JArr (vs @ map (fill_json nd) fs)) stk) ts"
  using assms(2,3)
proof (induction fs arbitrary: vs ph)
  case (Cons f fs)
  have one: "pda_whole ph (FArr vs # stk) (fill_toks nd f @ us) = pda_whole PAfterElem (FArr (vs @ [fill_json nd f]) # stk) us" for us
    using read_fill [of "FArr vs # stk" ph nd f us] Cons.prems(2) assms(1) by (simp add: complete_def)
  show ?case
  proof (cases fs)
    case Nil
    then show ?thesis by (simp add: one pda_step_def close_array_def resume_def split: sum.splits)
  next
    case (Cons g gs)
    then show ?thesis using Cons.IH [of PValue "vs @ [fill_json nd f]"] by (simp add: one pda_step_def)
  qed
qed simp

lemma read_array:
  assumes "length stk + 1 < max_nesting"
  shows "pda_whole PArrFirst (FArr [] # stk) (array_toks (map (fill_toks nd) fs) @ TArrClose # ts) =
    resume (complete (JArr (map (fill_json nd) fs)) stk) ts"
proof (cases fs)
  case Nil
  then show ?thesis by (simp add: pda_step_def close_array_def resume_def split: sum.splits)
next
  case (Cons f gs)
  then show ?thesis using assms read_fills [of stk fs PArrFirst "[]" nd ts] by simp
qed

lemma json_unmarshal_batch:
  assumes "\<And>f. f \<in> set (rb_fills r) \<Longrightarrow> plain (n_address_text nd (fl_trader f))"
  shows "json_unmarshal (RunBatchResponse_json nd r) = Some (JObj
     [(''batchId'', JNum (u64_text (rb_batch_id r))), (''clearingPrice'', JNum (big_string (rb_clearing_price r))),
      (''matchedBase'', JNum (big_string (rb_matched_base r))), (''fills'', JArr (map (fill_json nd) (rb_fills r))),
      (''settlement'', JStr (base64 (rb_settlement r))), (''signature'', JStr (base64 (rb_signature r))),
      (''unmatched'', JNum (big_string (rb_unmatched r)))])"
proof -
  have toks: "lex (RunBatchResponse_json nd r) =
    [TObjOpen, TStr ''batchId'', TColon, TNum (u64_text (rb_batch_id r)), TComma,
     TStr ''clearingPrice'', TColon, TNum (big_string (rb_clearing_price r)), TComma,
     TStr ''matchedBase'', TColon, TNum (big_string (rb_matched_base r)), TComma,
     TStr ''fills'', TColon] @ (TArrOpen # array_toks (map (fill_toks nd) (rb_fills r)) @ TArrClose #
    [TComma, TStr ''settlement'', TColon, TStr (base64 (rb_settlement r)), TComma,
     TStr ''signature'', TColon, TStr (base64 (rb_signature r)), TComma,
     TStr ''unmatched'', TColon, TNum (big_string (rb_unmatched r)), TObjClose])"
    using lex_fills [OF assms, where fs = "rb_fills r"] lex_rec(1)
    by (simp add: RunBatchResponse_json_def json_object_def json_array_def u64_text_def plain_eval)
  show ?thesis
    unfolding json_unmarshal_def toks
    by (simp add: read_array pda_simps del: array_toks.simps)
qed

text \<open>What the client holds after decoding: the same values, the big integers present.\<close>

definition client_fill :: "Fill \<Rightarrow> fill" where
  "client_fill f = \<lparr>cf_trader = fl_trader f, cf_base_delta = Some (fl_base_delta f), cf_quote_delta = Some (fl_quote_delta f)\<rparr>"

definition client_batch :: "RunBatchResponse \<Rightarrow> runBatchResponse" where
  "client_batch r =
     \<lparr>cb_batch_id = rb_batch_id r, cb_clearing_price = Some (rb_clearing_price r), cb_matched_base = Some (rb_matched_base r),
      cb_fills = map client_fill (rb_fills r), cb_settlement = rb_settlement r, cb_signature = rb_signature r,
      cb_unmatched = rb_unmatched r\<rparr>"

lemma decode_fill_json:
  "to_address (JStr (n_address_text nd (fl_trader f))) = Some (fl_trader f) \<Longrightarrow>
   decode_fill to_address (fill_json nd f) = Some (client_fill f)"
  by (simp add: decode_fill_def decode_struct_def fill_json_def set_fill_def json_field_exact json_to_big_def client_fill_def)

lemma those_map_Some: "(\<And>x. x \<in> set xs \<Longrightarrow> g x = Some (h x)) \<Longrightarrow> those (map g xs) = Some (map h xs)"
  by (induction xs) simp_all

lemma u64_text_parses [simp]: "go_parse_uint64 (u64_text n) = Some n"
  using go_parse_uint64_dec_nat [of "unat n"] unsigned_less [where 'a = nat and w = n] by (simp add: u64_text_def)

text \<open>The clients read what the enclave wrote: a batch reply, whatever its fills, prices
  and bytes, decodes to the same values, provided the address text the node writes is read
  back as the same address and the count of unmatched orders is a 64-bit integer.\<close>

lemma batch_reply:
  assumes "\<And>a. plain (n_address_text nd a)" "\<And>a. to_address (JStr (n_address_text nd a)) = Some a"
    and "0 \<le> rb_unmatched r" "rb_unmatched r < 2 ^ 63"
  shows "decode_batch to_address (RunBatchResponse_json nd r) = Some (client_batch r)"
proof -
  have "those (map (decode_fill to_address \<circ> fill_json nd) (rb_fills r)) = Some (map client_fill (rb_fills r))"
    by (rule those_map_Some) (simp add: decode_fill_json assms(2))
  moreover have "go_atoi (big_string (rb_unmatched r)) = Some (rb_unmatched r)"
    using assms(3,4) by (intro go_atoi_big_string) simp_all
  ultimately show ?thesis
    by (simp add: decode_batch_def json_unmarshal_batch assms(1) decode_struct_def json_field_exact set_batch_def
        json_to_u64_def json_to_big_def json_to_slice_def json_to_bytes_def json_to_int_def client_batch_def)
qed

lemma ack_reply_roundtrip:
  assumes "sa_book_depth r < 2 ^ 63"
  shows "decode_ack (SubmitOrderResponse_json r) = Some
    \<lparr>ck_order_id = sa_order_id r, ck_batch_id = sa_batch_id r, ck_accepted = sa_accepted r, ck_book_depth = int (sa_book_depth r)\<rparr>"
proof -
  have "go_atoi (dec_nat (sa_book_depth r)) = Some (int (sa_book_depth r))"
    using go_atoi_big_string [of "int (sa_book_depth r)"] assms by (simp add: big_string_def)
  moreover have "json_unmarshal (SubmitOrderResponse_json r) = Some (JObj
     [(''orderId'', JNum (u64_text (sa_order_id r))), (''batchId'', JNum (u64_text (sa_batch_id r))),
      (''accepted'', JBool (sa_accepted r)), (''bookDepth'', JNum (dec_nat (sa_book_depth r)))])"
    by (simp add: json_unmarshal_def SubmitOrderResponse_json_def json_object_def u64_text_def plain_eval pda_simps lex_rec(1))
  ultimately show ?thesis
    by (simp add: decode_ack_def decode_struct_def json_field_exact set_ack_def json_to_u64_def json_to_bool_def json_to_int_def)
qed

text \<open>A decoder of addresses for the demo node, whose address text is the decimal number.\<close>

definition demo_to_address :: "json \<Rightarrow> address option" where
  "demo_to_address v = (case v of JStr s \<Rightarrow> map_option of_nat (scan_nat s) | _ \<Rightarrow> None)"

end
