(* ===== verification/Decimals.thy ===== *)
theory Decimals
  imports Wire_Types Go_Std
begin

text \<open>
  The decimal text of the demo and measuring tools: prices with 18 and amounts with 6
  fractional digits (\<^verbatim>\<open>tools/cmd/make-market\<close>, \<^verbatim>\<open>run-test\<close>, \<^verbatim>\<open>run-comparison\<close>), and the
  grouped numbers and percentages of \<^verbatim>\<open>tools/cmd/fxrp-depth\<close>. An input that
  \<^verbatim>\<open>SetString\<close> rejects is an error in \<^verbatim>\<open>run-test\<close> and a nil dereference, \<open>None\<close>, in
  the other two.
\<close>

section \<open>Prices and amounts\<close>

definition sixDecimals :: int where "sixDecimals = 1000000"

text \<open>\<^verbatim>\<open>strings.SplitN(dec, ".", 2)\<close> is \<open>split_n2\<close>.\<close>

definition scaled :: "string \<Rightarrow> int option" where
  "scaled dec =
     (case split_n2 CHR ''.'' dec of (w, part) \<Rightarrow>
        (case big_set_string w of
           None \<Rightarrow> None
         | Some whole \<Rightarrow>
           (case part of
              None \<Rightarrow> Some (whole * PriceScale)
            | Some f \<Rightarrow>
              (case big_set_string f of
                 None \<Rightarrow> None
               | Some fracVal \<Rightarrow> Some (whole * PriceScale + big_div (fracVal * PriceScale) (10 ^ length f))))))"

definition scaled_checked :: "string \<Rightarrow> err + int" where
  "scaled_checked dec = (case scaled dec of Some v \<Rightarrow> Inr v | None \<Rightarrow> Inl (''bad price '' @ go_quote dec))"

definition parseAmount :: "string \<Rightarrow> int option" where
  "parseAmount dec =
     (case split_n2 CHR ''.'' dec of (w, part) \<Rightarrow>
        (case big_set_string w of
           None \<Rightarrow> None
         | Some whole \<Rightarrow>
           (case part of
              None \<Rightarrow> Some (whole * sixDecimals)
            | Some f \<Rightarrow>
              (case big_set_string (take 6 (f @ ''000000'')) of
                 None \<Rightarrow> None
               | Some v \<Rightarrow> Some (whole * sixDecimals + v)))))"

text \<open>\<^verbatim>\<open>%018s\<close> pads a string on the left with zeros, as the loop of \<^verbatim>\<open>fmtAmount\<close> does.\<close>

definition zero_pad :: "nat \<Rightarrow> string \<Rightarrow> string" where
  "zero_pad n s = replicate (n - length s) CHR ''0'' @ s"

definition formatPrice :: "int \<Rightarrow> string" where
  "formatPrice p = big_string (big_div p PriceScale) @ ''.'' @ zero_pad 18 (big_string (big_mod p PriceScale))"

text \<open>\<open>digits\<close> is 4 in \<^verbatim>\<open>make-market\<close> and 2 in \<^verbatim>\<open>run-comparison\<close>.\<close>

definition fmtPrice :: "nat \<Rightarrow> int \<Rightarrow> string" where
  "fmtPrice digits p =
     big_string (big_div p PriceScale) @ ''.'' @ take digits (zero_pad 18 (big_string (big_mod p PriceScale)))"

definition fmtAmount :: "int \<Rightarrow> string" where
  "fmtAmount v = big_string (big_div v sixDecimals) @ ''.'' @ zero_pad 6 (big_string (big_mod v sixDecimals))"

section \<open>Grouped numbers and percentages\<close>

text \<open>A comma before every character but the first with a multiple of three characters from it on.\<close>

fun group_from :: "nat \<Rightarrow> nat \<Rightarrow> string \<Rightarrow> string" where
  "group_from len i [] = []"
| "group_from len i (c # cs) =
     (if i > 0 \<and> (len - i) mod 3 = 0 then [CHR '','', c] else [c]) @ group_from len (Suc i) cs"

definition amount :: "int option \<Rightarrow> nat \<Rightarrow> string" where
  "amount v decimals =
     (case v of
        None \<Rightarrow> ''0''
      | Some n \<Rightarrow> let whole = big_string (big_div n (10 ^ decimals)) in group_from (length whole) 0 whole)"

text \<open>Go's division and remainder of machine integers truncate towards zero.\<close>

definition quot :: "int \<Rightarrow> int \<Rightarrow> int" where
  "quot a b = sgn a * (\<bar>a\<bar> div b)"

definition low64 :: "int \<Rightarrow> int" where
  "low64 i = sint (word_of_int i :: u64)"

definition pct :: "int \<Rightarrow> int option \<Rightarrow> string" where
  "pct part whole =
     (case whole of
        Some w \<Rightarrow>
          if w = 0 then [char_of (0xE2::nat), char_of (0x80::nat), char_of (0x94::nat)]
          else
            let n = low64 (big_div (part * 10000) w); q = quot n 100; r = n - 100 * q
            in big_string q @ ''.'' @ (if r < 0 then CHR ''-'' # zero_pad 1 (dec_nat (nat (- r))) else zero_pad 2 (dec_nat (nat r))) @ ''%''
      | None \<Rightarrow> [char_of (0xE2::nat), char_of (0x80::nat), char_of (0x94::nat)])"

section \<open>Round trips\<close>

lemma big_string_no_point: "CHR ''.'' \<notin> set (big_string i)"
proof -
  have "digit_val CHR ''.'' = None" by (simp add: digit_val_def code_of_def)
  then have "CHR ''.'' \<notin> set (dec_nat n)" for n using dec_nat_digits [of n] by auto
  then show ?thesis by (simp add: big_string_def)
qed

lemma split_at_point: "CHR ''.'' \<notin> set s \<Longrightarrow> split_n2 CHR ''.'' (s @ CHR ''.'' # t) = (s, Some t)"
  by (induction s) auto

lemma length_dec_nat: "n < 10 ^ k \<Longrightarrow> 0 < k \<Longrightarrow> length (dec_nat n) \<le> k"
proof (induction n arbitrary: k rule: dec_nat.induct)
  case (1 n)
  show ?case
  proof (cases "n < 10")
    case True
    then show ?thesis using 1(3) by (subst dec_nat.simps) simp
  next
    case False
    obtain j where k: "k = Suc j" using 1(3) by (cases k) auto
    with False 1(2) have "0 < j" by (cases j) auto
    moreover have "n div 10 < 10 ^ j" using 1(2) k by (simp add: less_mult_imp_div_less mult.commute)
    ultimately have "length (dec_nat (n div 10)) \<le> j" using 1(1) False by blast
    then show ?thesis using False k by (subst dec_nat.simps) simp
  qed
qed

lemma scan_digits_zeros: "scan_digits 0 (replicate n CHR ''0'' @ s) = scan_digits 0 s"
  by (induction n) (simp_all add: digit_val_def code_of_def)

lemma scan_nat_zero_pad: "scan_nat (zero_pad n (dec_nat m)) = Some m"
  by (simp add: scan_nat_def zero_pad_def scan_digits_zeros)

lemma big_set_string_unsigned:
  "s \<noteq> [] \<Longrightarrow> hd s \<noteq> CHR ''-'' \<Longrightarrow> hd s \<noteq> CHR ''+'' \<Longrightarrow> big_set_string s = map_option int (scan_nat s)"
  by (cases s) auto

lemma hd_zero_pad: "hd (zero_pad n (dec_nat m)) \<noteq> CHR ''-'' \<and> hd (zero_pad n (dec_nat m)) \<noteq> CHR ''+''"
proof -
  obtain c cs where c: "dec_nat m = c # cs" by (cases "dec_nat m") auto
  then have "c \<noteq> CHR ''-''" "c \<noteq> CHR ''+''" using dec_nat_hd by blast+
  then show ?thesis by (cases "n - length (dec_nat m)") (simp_all add: zero_pad_def c)
qed

lemma big_set_string_zero_pad: "big_set_string (zero_pad n (dec_nat m)) = Some (int m)"
  using hd_zero_pad [of n m] by (subst big_set_string_unsigned) (simp_all add: scan_nat_zero_pad, simp add: zero_pad_def)

lemma length_zero_pad: "m < 10 ^ k \<Longrightarrow> 0 < k \<Longrightarrow> length (zero_pad k (dec_nat m)) = k"
  using length_dec_nat [of m k] by (simp add: zero_pad_def)

lemma big_string_nonneg: "0 \<le> i \<Longrightarrow> big_string i = dec_nat (nat i)"
  by (simp add: big_string_def)

text \<open>(C40) Printing and reading back is the identity for the exact formats: every amount with
  six digits and every price with eighteen, negative ones included.\<close>

theorem decimal_roundtrip:
  "parseAmount (fmtAmount v) = Some v \<and> scaled (formatPrice p) = Some p"
proof
  have six: "(0 :: int) < sixDecimals" by (simp add: sixDecimals_def)
  let ?r = "nat (v mod sixDecimals)"
  have "?r < 10 ^ 6" by (simp add: sixDecimals_def nat_less_iff)
  then have len: "length (zero_pad 6 (dec_nat ?r)) = 6" by (rule length_zero_pad) simp
  have "v div sixDecimals * sixDecimals + int ?r = v" using six by simp
  then show "parseAmount (fmtAmount v) = Some v"
    using six len by (simp add: fmtAmount_def parseAmount_def big_string_nonneg [of "v mod sixDecimals"]
        split_at_point [OF big_string_no_point] big_set_string_zero_pad)
next
  let ?r = "nat (p mod PriceScale)"
  have "?r < 10 ^ 18" by (simp add: PriceScale_def nat_less_iff)
  then have len: "length (zero_pad 18 (dec_nat ?r)) = 18" by (rule length_zero_pad) simp
  have "p div PriceScale * PriceScale + int ?r = p" by simp
  moreover have "big_div (int ?r * PriceScale) (10 ^ 18) = int ?r" by (simp add: PriceScale_def)
  ultimately show "scaled (formatPrice p) = Some p"
    using len by (simp add: formatPrice_def scaled_def big_string_nonneg [of "p mod PriceScale"]
        split_at_point [OF big_string_no_point] big_set_string_zero_pad)
qed

section \<open>Truncated prices\<close>

lemma scan_digits_bounds: "scan_digits acc s = Some n \<Longrightarrow> acc * 10 ^ length s \<le> n \<and> n < (acc + 1) * 10 ^ length s"
proof (induction acc s rule: scan_digits.induct)
  case (2 acc c cs)
  then obtain d where d: "digit_val c = Some d" by (auto split: option.splits)
  then have "d < 10" by (auto simp: digit_val_def split: if_splits)
  have b: "(10 * acc + d) * 10 ^ length cs \<le> n" "n < (10 * acc + d + 1) * 10 ^ length cs"
    using 2 d by auto
  have "(10 * acc) * 10 ^ length cs \<le> (10 * acc + d) * 10 ^ length cs" by (rule mult_le_mono1) simp
  moreover have "(10 * acc + d + 1) * 10 ^ length cs \<le> (10 * acc + 10) * 10 ^ length cs"
    by (rule mult_le_mono1) (use \<open>d < 10\<close> in simp)
  moreover have "(acc + 1) * 10 ^ length (c # cs) = (10 * acc + 10) * 10 ^ length cs"
    and "acc * 10 ^ length (c # cs) = (10 * acc) * 10 ^ length cs" by (simp_all add: algebra_simps)
  ultimately show ?case using b by linarith
qed simp

lemma scan_digits_take:
  assumes "scan_digits 0 s = Some n" "k \<le> length s"
  shows "scan_digits 0 (take k s) = Some (n div 10 ^ (length s - k))"
proof -
  have "scan_digits 0 (take k s @ drop k s) = Some n" using assms(1) by simp
  then obtain m where m: "scan_digits 0 (take k s) = Some m" "scan_digits m (drop k s) = Some n"
    by (simp only: scan_digits_append) (auto simp: bind_eq_Some_conv)
  then have "m * 10 ^ (length s - k) \<le> n" "n < (m + 1) * 10 ^ (length s - k)"
    using scan_digits_bounds [OF m(2)] by simp_all
  then have "n div 10 ^ (length s - k) = m" by (metis Suc_eq_plus1 div_nat_eqI mult.commute)
  then show ?thesis using m(1) by simp
qed

lemma zero_pad_take:
  assumes "m < 10 ^ n" "0 < k" "k \<le> n"
  shows "big_set_string (take k (zero_pad n (dec_nat m))) = Some (int (m div 10 ^ (n - k)))"
proof -
  let ?s = "zero_pad n (dec_nat m)"
  have len: "length ?s = n" using assms by (intro length_zero_pad) simp_all
  have "scan_digits 0 ?s = Some m" by (simp add: zero_pad_def scan_digits_zeros)
  then have "scan_digits 0 (take k ?s) = Some (m div 10 ^ (n - k))"
    using scan_digits_take [of ?s m k] len assms(3) by simp
  moreover have "take k ?s \<noteq> []" "hd (take k ?s) = hd ?s" using assms len by auto
  ultimately show ?thesis using hd_zero_pad [of n m] by (simp add: big_set_string_unsigned scan_nat_def)
qed

text \<open>A price printed with fewer digits is truncated, not rounded: it reads back as the
  price less its remainder at the last digit shown.\<close>

theorem price_text_truncates:
  assumes "0 < digits" "digits \<le> 18"
  shows "scaled (fmtPrice digits p) = Some (p - p mod 10 ^ (18 - digits))"
proof -
  define r where "r = nat (p mod PriceScale)"
  have r: "int r = p mod PriceScale" by (simp add: r_def)
  have "r < 10 ^ 18" by (simp add: r_def PriceScale_def nat_less_iff)
  then have f: "big_set_string (take digits (zero_pad 18 (dec_nat r))) = Some (int (r div 10 ^ (18 - digits)))"
    and len: "length (take digits (zero_pad 18 (dec_nat r))) = digits"
    using assms by (simp_all add: zero_pad_take length_zero_pad)
  define u :: int where "u = 10 ^ (18 - digits)"
  have scale: "PriceScale = u * 10 ^ digits" using assms by (simp add: u_def PriceScale_def flip: power_add)
  have "(int r div u) * PriceScale div 10 ^ digits = (int r div u) * u" by (simp add: scale)
  also have "\<dots> = int r - int r mod u" by (simp add: minus_mod_eq_div_mult)
  also have "int r mod u = p mod u" by (simp add: r scale mod_mod_cancel)
  finally have "p div PriceScale * PriceScale + (int r div u) * PriceScale div 10 ^ digits = p - p mod u"
    using r div_mult_mod_eq [of p PriceScale] by linarith
  then show ?thesis
    using f len r by (simp add: fmtPrice_def scaled_def big_string_nonneg [of "p mod PriceScale"] r_def [symmetric]
        split_at_point [OF big_string_no_point] u_def zdiv_int)
qed

theorem price_text_truncates_witness:
  "scaled (fmtPrice 2 1069000000000000000) = Some 1060000000000000000"
  using price_text_truncates [of 2 1069000000000000000] by simp

section \<open>Grouping\<close>

lemma group_from_digits: "CHR '','' \<notin> set s \<Longrightarrow> filter (\<lambda>c. c \<noteq> CHR '','') (group_from len i s) = s"
  by (induction s arbitrary: i) auto

lemma length_group: "0 < i \<Longrightarrow> length (group_from (i + length s) i s) = length s + length s div 3"
proof (induction s arbitrary: i)
  case (Cons c cs)
  then have "length (group_from (Suc i + length cs) (Suc i) cs) = length cs + length cs div 3" by blast
  moreover have "Suc (length cs) div 3 = length cs div 3 + (if Suc (length cs) mod 3 = 0 then 1 else 0)"
    by (simp add: div_Suc)
  ultimately show ?case using Cons.prems by simp
qed simp

definition grouped :: "string \<Rightarrow> bool" where
  "grouped s \<longleftrightarrow> (\<forall>k < length s. rev s ! k = CHR '','' \<longleftrightarrow> k mod 4 = 3)"

lemma grouped_Cons: "grouped (c # s) \<longleftrightarrow> grouped s \<and> (c = CHR '','' \<longleftrightarrow> length s mod 4 = 3)"
  by (auto simp: grouped_def nth_append less_Suc_eq)

lemma group_from_grouped:
  "CHR '','' \<notin> set s \<Longrightarrow> grouped (group_from (i + length s) i s)"
proof (induction s arbitrary: i)
  case Nil
  then show ?case by (simp add: grouped_def)
next
  case (Cons c cs)
  let ?t = "group_from (Suc i + length cs) (Suc i) cs"
  have t: "grouped ?t" and len: "length ?t = length cs + length cs div 3"
    using Cons.IH [of "Suc i"] Cons.prems length_group [of "Suc i" cs] by simp_all
  have "(length cs + length cs div 3) mod 4 \<noteq> 3" by presburger
  then have c: "grouped (c # ?t)" using t len Cons.prems by (auto simp: grouped_Cons)
  have "(Suc (length cs + length cs div 3)) mod 4 = 3" if "Suc (length cs) mod 3 = 0" using that by presburger
  then show ?case using c len by (simp add: grouped_Cons)
qed

text \<open>A grouped amount is the decimal number of whole units with a comma after every
  third digit from the right and nowhere else.\<close>

theorem amount_grouping:
  "filter (\<lambda>c. c \<noteq> CHR '','') (amount (Some (int n)) d) = big_string (int n div 10 ^ d)
    \<and> grouped (amount (Some (int n)) d)"
proof -
  have "digit_val CHR '','' = None" by (simp add: digit_val_def code_of_def)
  then have "CHR '','' \<notin> set (dec_nat m)" for m using dec_nat_digits [of m] by auto
  then have "CHR '','' \<notin> set (big_string (int n div 10 ^ d))" by (simp add: big_string_def)
  then show ?thesis
    using group_from_digits group_from_grouped [where i = 0] by (simp add: amount_def Let_def)
qed

end
