(* ===== verification/Demos.thy ===== *)
theory Demos
  imports Venue_Calls Client_Wire Decimals Registration
begin

text \<open>
  The demo clients \<^verbatim>\<open>tools/cmd/make-market\<close>, \<^verbatim>\<open>tools/cmd/run-test\<close> and
  \<^verbatim>\<open>tools/cmd/run-comparison\<close>: the orders they seal, the transactions they send, the
  results they poll for and the conditions under which they stop. A fatal exit is an error;
  what they print is left out but for the numbers it shows.
\<close>

section \<open>The venue as the clients see it\<close>

text \<open>
  The view calls, and \<open>vv_result\<close>: what the i-th \<^verbatim>\<open>fccutils.ActionResult\<close> for an instruction
  returns (\<open>action_result\<close> below relates it to the HTTP replies).
\<close>

record venue_view = venue_net +
  vv_tee_address :: "venue_call list \<Rightarrow> err + address"
  vv_batch_id :: "venue_call list \<Rightarrow> err + u64"
  vv_order_count :: "venue_call list \<Rightarrow> u64 \<Rightarrow> err + u64"
  vv_base_balance :: "venue_call list \<Rightarrow> address \<Rightarrow> err + int"
  vv_quote_balance :: "venue_call list \<Rightarrow> address \<Rightarrow> err + int"
  vv_fee_bps :: "venue_call list \<Rightarrow> err + int"
  vv_settled :: "venue_call list \<Rightarrow> u64 \<Rightarrow> err + bool"
  vv_result :: "venue_call list \<Rightarrow> hash \<Rightarrow> nat \<Rightarrow> err + ActionResult"

text \<open>
  What is not under \<^verbatim>\<open>src\<close> or comes from outside: the support of the flags' files with the
  deployer's account, the proxy's URL, the node's public key, encryption to it, address text, the decoder of
  addresses in JSON, and the clock.
\<close>

record demo_env =
  de_account :: "err + address"
  de_key :: "string \<Rightarrow> err + address"
  de_proxy_url :: string
  de_tee_info :: "err + bytes"
  de_parse_pubkey :: "bytes \<Rightarrow> err + bytes"
  de_pubkey_address :: "bytes \<Rightarrow> address"
  de_encrypt :: "bytes \<Rightarrow> bytes \<Rightarrow> err + bytes"
  de_hex :: "address \<Rightarrow> string"
  de_json_address :: "json \<Rightarrow> address option"
  de_now :: "nat \<Rightarrow> int"

definition nil_dereference :: err where
  "nil_dereference = ''invalid memory address or nil pointer dereference''"

definition from_option :: "err \<Rightarrow> 'a option \<Rightarrow> err + 'a" where
  "from_option e x = (case x of None \<Rightarrow> Inl e | Some a \<Rightarrow> Inr a)"

section \<open>Transactions that must succeed\<close>

definition mustMine :: "('c, 'z) net_scheme \<Rightarrow> string \<Rightarrow> hash \<Rightarrow> ('c, unit) run" where
  "mustMine nt what tx w0 =
     then_do (wait_mined nt (prefixed (what @ '' not mined: '')) tx w0) (\<lambda>receipt w1.
       if r_status receipt \<noteq> 1 then fail (what @ '' reverted (tx '' @ nt_hash_hex nt tx @ '')'') w1 else ret () w1)"

text \<open>\<open>mustAuth\<close>, the call, and \<open>mustMine\<close>.\<close>

definition must_send :: "('c, 'z) net_scheme \<Rightarrow> (rpc_error \<Rightarrow> 'c list \<Rightarrow> err) \<Rightarrow> string \<Rightarrow> 'c \<Rightarrow> ('c, unit) run" where
  "must_send nt reword what c w0 =
     then_do (transactor nt (prefixed []) w0) (\<lambda>_ w1.
     then_do (send_tx nt reword c w1) (\<lambda>tx w2. mustMine nt what tx w2))"

definition settle_call :: "address \<Rightarrow> address \<Rightarrow> runBatchResponse \<Rightarrow> venue_call" where
  "settle_call from venue r =
     \<lparr>vc_from = from, vc_to = Some venue, vc_value = 0, vc_gas = Some 1500000,
      vc_op = SettleOp (cb_settlement r) [cb_signature r]\<rparr>"

section \<open>Polling for a result\<close>

text \<open>One call: up to fifteen requests to the proxy, then the decoded body.\<close>

definition action_result :: "(nat \<Rightarrow> nat \<Rightarrow> err + int \<times> bytes) \<Rightarrow> (bytes \<Rightarrow> err + ActionResult) \<Rightarrow> nat \<Rightarrow> err + ActionResult" where
  "action_result get decode i = Registration.ActionResult (get i) decode"

fun poll_market :: "(nat \<Rightarrow> err + ActionResult) \<Rightarrow> nat \<Rightarrow> nat \<Rightarrow> err + ActionResult" where
  "poll_market get i 0 = Inl ''timed out''"
| "poll_market get i (Suc n) =
     (case get i of
        Inl e \<Rightarrow> poll_market get (Suc i) n
      | Inr r \<Rightarrow>
          if ar_status r = 0 then Inl (''batch abandoned: '' @ ar_log r)
          else if ar_status r \<noteq> 2 then Inr r
          else poll_market get (Suc i) n)"

definition pollResult_market :: "(nat \<Rightarrow> err + ActionResult) \<Rightarrow> err + ActionResult" where
  "pollResult_market get = poll_market get 0 40"

fun poll_test :: "(nat \<Rightarrow> err + ActionResult) \<Rightarrow> nat \<Rightarrow> nat \<Rightarrow> err option \<Rightarrow> err + ActionResult" where
  "poll_test get i 0 lastErr =
     Inl (case lastErr of Some e \<Rightarrow> ''timed out waiting for result: '' @ e | None \<Rightarrow> ''timed out waiting for result'')"
| "poll_test get i (Suc n) lastErr =
     (case get i of
        Inl e \<Rightarrow> poll_test get (Suc i) n (Some e)
      | Inr r \<Rightarrow>
          if ar_status r = 0 then Inl (''instruction failed: '' @ ar_log r)
          else if ar_status r = 2 then poll_test get (Suc i) n lastErr
          else Inr r)"

definition pollResult_test :: "(nat \<Rightarrow> err + ActionResult) \<Rightarrow> err + ActionResult" where
  "pollResult_test get = poll_test get 0 30 None"

section \<open>make-market\<close>

record quote =
  q_who :: string
  q_side :: side
  q_price :: string
  q_size :: string

definition ladder :: "quote list" where
  "ladder =
     [\<lparr>q_who = ''mm'', q_side = 0, q_price = ''0.99'', q_size = ''1.0''\<rparr>,
      \<lparr>q_who = ''mm'', q_side = 0, q_price = ''1.01'', q_size = ''1.0''\<rparr>,
      \<lparr>q_who = ''mm'', q_side = 1, q_price = ''1.03'', q_size = ''1.0''\<rparr>,
      \<lparr>q_who = ''mm'', q_side = 1, q_price = ''1.05'', q_size = ''1.0''\<rparr>,
      \<lparr>q_who = ''taker'', q_side = 1, q_price = ''1.00'', q_size = ''1.0''\<rparr>]"

definition quoter :: "address \<Rightarrow> address \<Rightarrow> quote \<Rightarrow> address" where
  "quoter mm taker q = (if q_who q = ''taker'' then taker else mm)"

text \<open>The nonce formats the side, a \<^verbatim>\<open>uint8\<close>, with \<^verbatim>\<open>%s\<close>.\<close>

definition market_nonce :: "int \<Rightarrow> quote \<Rightarrow> string" where
  "market_nonce now q =
     big_string now @ ''-'' @ ''%!s(uint8='' @ dec_nat (unat (q_side q)) @ '')'' @ ''-'' @ q_price q"

definition market_order :: "(address \<Rightarrow> string) \<Rightarrow> int \<Rightarrow> address \<Rightarrow> quote \<Rightarrow> SealedOrder option" where
  "market_order hex now who q =
     (case (scaled (q_price q), parseAmount (q_size q)) of
        (Some p, Some n) \<Rightarrow>
          Some \<lparr>so_trader = hex who, so_side = q_side q, so_limit_price = big_string p, so_size = big_string n,
                so_nonce = market_nonce now q\<rparr>
      | _ \<Rightarrow> None)"

definition submit :: "('z) venue_view_scheme \<Rightarrow> demo_env \<Rightarrow> bytes \<Rightarrow> address \<Rightarrow> address \<Rightarrow> SealedOrder \<Rightarrow> (venue_call, unit) run" where
  "submit vv env teePubKey who venue order w0 =
     then_do (given (map_err (prefixed ''encrypting: '') (de_encrypt env teePubKey (sealed_json order))) w0) (\<lambda>ciphertext w1.
       case SubmitOrder vv who venue ciphertext w1 of
         (r, w2) \<Rightarrow> (map_err (\<lambda>e. ''submitOrder for '' @ de_hex env who @ '': '' @ e) (map_sum id (\<lambda>_. ()) r), w2))"

fun submit_all ::
  "('z) venue_view_scheme \<Rightarrow> demo_env \<Rightarrow> bytes \<Rightarrow> address \<Rightarrow> address \<Rightarrow> address \<Rightarrow> nat \<Rightarrow> quote list \<Rightarrow> (venue_call, unit) run" where
  "submit_all vv env teePubKey mm taker venue i [] w = ret () w"
| "submit_all vv env teePubKey mm taker venue i (q # qs) w =
     then_do (given (from_option nil_dereference (market_order (de_hex env) (de_now env i) (quoter mm taker q) q)) w) (\<lambda>order w1.
     then_do (submit vv env teePubKey (quoter mm taker q) venue order w1) (\<lambda>_ w2.
       submit_all vv env teePubKey mm taker venue (Suc i) qs w2))"

record market_report =
  mr_orders :: u64
  mr_price :: string
  mr_matched :: string
  mr_filled :: nat
  mr_unmatched :: int

definition make_market ::
  "('z) venue_view_scheme \<Rightarrow> demo_env \<Rightarrow> (string \<Rightarrow> address) \<Rightarrow> string \<Rightarrow> string \<Rightarrow> (venue_call, market_report) run" where
  "make_market vv env to_address venueF takerKeyF w0 =
     (let venue = to_address venueF in
      then_do (given (de_account env) w0) (\<lambda>mm w1.
      then_do (given (map_err (prefixed ''bad taker key: '') (de_key env (trim_prefix takerKeyF ''0x''))) w1) (\<lambda>taker w2.
      then_do (bound vv (prefixed []) w2) (\<lambda>_ w3.
      then_do (given (map_err (prefixed ''fetching TEE info: '') (de_tee_info env)) w3) (\<lambda>key w4.
      then_do (given (de_parse_pubkey env key) w4) (\<lambda>teePubKey w5.
      then_do (ask (vv_batch_id vv) w5) (\<lambda>batchID w6.
      then_do (submit_all vv env teePubKey mm taker venue 0 ladder w6) (\<lambda>_ w7.
      then_do (ask (\<lambda>w. vv_order_count vv w batchID) w7) (\<lambda>count w8.
      then_do (case RunBatch vv mm venue w8 of (r, w) \<Rightarrow> (map_err (prefixed ''runBatch: '') r, w)) (\<lambda>(instructionID, _) w9.
      then_do (ask (\<lambda>w. map_err (prefixed ''polling: '') (pollResult_market (vv_result vv w instructionID))) w9) (\<lambda>result w10.
      then_do (given (from_option ''decoding settlement'' (decode_batch (de_json_address env) (ar_data result))) w10) (\<lambda>settlement w11.
      then_do (given (from_option nil_dereference (cb_clearing_price settlement)) w11) (\<lambda>price w12.
      then_do (given (from_option nil_dereference (cb_matched_base settlement)) w12) (\<lambda>matched w13.
      then_do (must_send vv (rpc_text ''settle: '') ''settle'' (settle_call mm venue settlement) w13) (\<lambda>_ w14.
        ret \<lparr>mr_orders = count, mr_price = fmtPrice 4 price, mr_matched = fmtAmount matched,
             mr_filled = length (cb_fills settlement), mr_unmatched = cb_unmatched settlement\<rparr> w14)))))))))))))))"

section \<open>run-test\<close>

definition depositQuote :: int where "depositQuote = 20 * sixDecimals"
definition depositBase :: int where "depositBase = 5 * sixDecimals"
definition needQuote :: int where "needQuote = 4 * sixDecimals"
definition needBase :: int where "needBase = 3 * sixDecimals"
definition test_size :: int where "test_size = 3 * sixDecimals"

definition deposit ::
  "('z) venue_view_scheme \<Rightarrow> demo_env \<Rightarrow> address \<Rightarrow> address \<Rightarrow> address \<Rightarrow> address \<Rightarrow> int \<Rightarrow> int \<Rightarrow> (venue_call, unit) run" where
  "deposit vv env who quote base venue baseAmt quoteAmt w0 =
     then_do (if baseAmt > 0 then must_send vv (rpc_text ''approve base: '') ''approve base'' (plain_call who base (ApproveOp venue baseAmt)) w0
              else ret () w0) (\<lambda>_ w1.
     then_do (if quoteAmt > 0 then must_send vv (rpc_text ''approve quote: '') ''approve quote'' (plain_call who quote (ApproveOp venue quoteAmt)) w1
              else ret () w1) (\<lambda>_ w2.
       must_send vv (rpc_text (''deposit for '' @ de_hex env who @ '': '')) ''deposit'' (plain_call who venue (DepositOp baseAmt quoteAmt)) w2))"

definition mustBalance :: "('z) venue_view_scheme \<Rightarrow> address \<Rightarrow> bool \<Rightarrow> (venue_call, int) run" where
  "mustBalance vv who wantBase = ask (\<lambda>w. if wantBase then vv_base_balance vv w who else vv_quote_balance vv w who)"

text \<open>Funding: nothing is sent for a trader that has what the test needs.\<close>

definition fund_quote ::
  "('z) venue_view_scheme \<Rightarrow> demo_env \<Rightarrow> address \<Rightarrow> address \<Rightarrow> address \<Rightarrow> address \<Rightarrow> (venue_call, unit) run" where
  "fund_quote vv env traderA quote base venue w0 =
     then_do (mustBalance vv traderA False w0) (\<lambda>v w1.
       if v < needQuote then
         then_do (must_send vv (rpc_text ''mint nUSD: '') ''mint nUSD'' (plain_call traderA quote (MintOp traderA depositQuote)) w1) (\<lambda>_ w2.
           deposit vv env traderA quote base venue 0 depositQuote w2)
       else ret () w1)"

definition fund_base ::
  "('z) venue_view_scheme \<Rightarrow> demo_env \<Rightarrow> address \<Rightarrow> address \<Rightarrow> address \<Rightarrow> address \<Rightarrow> address \<Rightarrow> (venue_call, unit) run" where
  "fund_base vv env traderA traderB quote base venue w0 =
     then_do (mustBalance vv traderB True w0) (\<lambda>v w1.
       if v < needBase then
         then_do (must_send vv (rpc_text ''transfer FXRP to trader B: '') ''transfer FXRP'' (plain_call traderA base (TransferOp traderB depositBase)) w1) (\<lambda>_ w2.
           deposit vv env traderB quote base venue depositBase 0 w2)
       else ret () w1)"

text \<open>The acknowledgement may not contain the order's price or size.\<close>

definition submitSealed ::
  "('z) venue_view_scheme \<Rightarrow> demo_env \<Rightarrow> bytes \<Rightarrow> address \<Rightarrow> address \<Rightarrow> SealedOrder \<Rightarrow> (venue_call, submitOrderResponse) run" where
  "submitSealed vv env teePubKey who venue order w0 =
     then_do (given (map_err (prefixed ''encrypting order: '') (de_encrypt env teePubKey (sealed_json order))) w0) (\<lambda>ciphertext w1.
     then_do (case SubmitOrder vv who venue ciphertext w1 of (r, w) \<Rightarrow> (map_err (prefixed ''submitOrder: '') r, w)) (\<lambda>(instructionID, _) w2.
     then_do (ask (\<lambda>w. map_err (prefixed ''polling submit result: '') (pollResult_test (vv_result vv w instructionID))) w2) (\<lambda>result w3.
     then_do (given (from_option ''decoding ack'' (decode_ack (ar_data result))) w3) (\<lambda>ack w4.
       if \<not> ck_accepted ack then fail ''order rejected by enclave'' w4
       else if contains (ar_data result) (so_limit_price order) \<or> contains (ar_data result) (so_size order) then
         fail (''acknowledgement leaked order terms: '' @ ar_data result) w4
       else ret ack w4))))"

text \<open>The extension id may be set already; the node's address is registered where it is not.\<close>

definition wire_venue :: "('z) venue_view_scheme \<Rightarrow> demo_env \<Rightarrow> address \<Rightarrow> address \<Rightarrow> (venue_call, bytes) run" where
  "wire_venue vv env traderA venue w0 =
     then_do (case SetExtensionId vv traderA venue w0 of
                (Inl e, w) \<Rightarrow> if contains e ''already set'' then ret () w else fail (''setExtensionId failed: '' @ e) w
              | (Inr _, w) \<Rightarrow> ret () w) (\<lambda>_ w1.
     then_do (given (map_err (prefixed (''fetching TEE info from '' @ de_proxy_url env @ '': '')) (de_tee_info env)) w1) (\<lambda>key w2.
     then_do (given (map_err (prefixed ''parsing TEE public key: '') (de_parse_pubkey env key)) w2) (\<lambda>teePubKey w3.
     then_do (bound vv (prefixed []) w3) (\<lambda>_ w4.
     then_do (ask (vv_tee_address vv) w4) (\<lambda>current w5.
     then_do (if current \<noteq> de_pubkey_address env teePubKey
              then must_send vv (rpc_text ''setTeeAddress: '') ''setTeeAddress''
                     (plain_call traderA venue (AddTeeOp (de_pubkey_address env teePubKey))) w5
              else ret () w5) (\<lambda>_ w6.
       ret teePubKey w6))))))"

definition settle_failed :: "('z) venue_net_scheme \<Rightarrow> venue_call \<Rightarrow> rpc_error \<Rightarrow> venue_call list \<Rightarrow> err" where
  "settle_failed vn c e sent =
     (let reason = replay_reason vn c sent in
      if reason \<noteq> [] then ''settle reverted: '' @ reason else ''settle: '' @ e_text e)"

text \<open>Settling, and the comparison of the balances with the settlement.\<close>

definition settle_and_check ::
  "('z) venue_view_scheme \<Rightarrow> address \<Rightarrow> address \<Rightarrow> address \<Rightarrow> u64 \<Rightarrow> runBatchResponse \<Rightarrow> int \<Rightarrow> (venue_call, int \<times> int) run" where
  "settle_and_check vv traderA traderB venue batchID settlement price w0 =
     then_do (mustBalance vv traderA True w0) (\<lambda>beforeBaseA w1.
     then_do (mustBalance vv traderB False w1) (\<lambda>beforeQuoteB w2.
     then_do (must_send vv (settle_failed vv (settle_call traderA venue settlement)) ''settle'' (settle_call traderA venue settlement) w2) (\<lambda>_ w3.
     then_do (mustBalance vv traderA True w3) (\<lambda>afterBaseA w4.
     then_do (mustBalance vv traderB False w4) (\<lambda>afterQuoteB w5.
       let gainedBase = afterBaseA - beforeBaseA; gainedQuote = afterQuoteB - beforeQuoteB in
       if gainedBase \<noteq> test_size then
         fail (''trader A gained '' @ big_string gainedBase @ '' base, expected '' @ big_string test_size) w5
       else
         then_do (ask (vv_fee_bps vv) w5) (\<lambda>feeBps w6.
           let notional = big_div (test_size * price) PriceScale; fee = big_div (notional * feeBps) 10000;
               expectedQuote = notional - fee in
           if gainedQuote \<noteq> expectedQuote then
             fail (''trader B gained '' @ big_string gainedQuote @ '' quote, expected '' @ big_string expectedQuote @
               '' (notional '' @ big_string notional @ '' less '' @ big_string feeBps @ '' bps fee '' @ big_string fee @ '')'') w6
           else if vv_settled vv w6 batchID \<noteq> Inr True then fail ''batch not marked settled on-chain'' w6
           else ret (gainedBase, gainedQuote) w6))))))"

definition test_order :: "demo_env \<Rightarrow> address \<Rightarrow> side \<Rightarrow> int \<Rightarrow> string \<Rightarrow> SealedOrder" where
  "test_order env who sd limit nonce =
     \<lparr>so_trader = de_hex env who, so_side = sd, so_limit_price = big_string limit, so_size = big_string test_size, so_nonce = nonce\<rparr>"

text \<open>The batch: two sealed orders that cross, the run, and the checks of its reply.\<close>

definition clear_and_check ::
  "('z) venue_view_scheme \<Rightarrow> demo_env \<Rightarrow> bytes \<Rightarrow> address \<Rightarrow> address \<Rightarrow> address \<Rightarrow> int \<Rightarrow> int \<Rightarrow> (venue_call, runBatchResponse \<times> int) run" where
  "clear_and_check vv env teePubKey traderA traderB venue bid ask_price w0 =
     then_do (submitSealed vv env teePubKey traderA venue (test_order env traderA 0 bid ''1'') w0) (\<lambda>_ w1.
     then_do (submitSealed vv env teePubKey traderB venue (test_order env traderB 1 ask_price ''2'') w1) (\<lambda>_ w2.
     then_do (case RunBatch vv traderA venue w2 of (r, w) \<Rightarrow> (map_err (prefixed ''runBatch: '') r, w)) (\<lambda>(instructionID, _) w3.
     then_do (ask (\<lambda>w. map_err (prefixed ''polling batch result: '') (pollResult_test (vv_result vv w instructionID))) w3) (\<lambda>result w4.
     then_do (given (from_option ''decoding settlement'' (decode_batch (de_json_address env) (ar_data result))) w4) (\<lambda>settlement w5.
     then_do (given (from_option nil_dereference (cb_clearing_price settlement)) w5) (\<lambda>price w6.
       if length (cb_signature settlement) \<noteq> 65 then
         fail (''expected 65-byte signature, got '' @ dec_nat (length (cb_signature settlement))) w6
       else if price < ask_price \<or> price > bid then
         fail (''clearing price '' @ big_string price @ '' outside ['' @ big_string ask_price @ '', '' @ big_string bid @ '']'') w6
       else ret (settlement, price) w6))))))"

definition run_test ::
  "('z) venue_view_scheme \<Rightarrow> demo_env \<Rightarrow> (string \<Rightarrow> address) \<Rightarrow> string \<Rightarrow> string \<Rightarrow> string \<Rightarrow> string \<Rightarrow> (venue_call, int \<times> int) run" where
  "run_test vv env to_address venueF baseF quoteF traderBKeyF w0 =
     (let venue = to_address venueF; baseToken = to_address baseF; quoteToken = to_address quoteF in
      then_do (given (de_account env) w0) (\<lambda>traderA w1.
      then_do (given (map_err (prefixed ''bad traderB key: '') (de_key env (trim_prefix traderBKeyF ''0x''))) w1) (\<lambda>traderB w2.
      then_do (wire_venue vv env traderA venue w2) (\<lambda>teePubKey w3.
      then_do (fund_quote vv env traderA quoteToken baseToken venue w3) (\<lambda>_ w4.
      then_do (fund_base vv env traderA traderB quoteToken baseToken venue w4) (\<lambda>_ w5.
      then_do (ask (vv_batch_id vv) w5) (\<lambda>batchID w6.
      then_do (given (scaled_checked ''1.06'') w6) (\<lambda>bid w7.
      then_do (given (scaled_checked ''1.02'') w7) (\<lambda>ask_price w8.
      then_do (clear_and_check vv env teePubKey traderA traderB venue bid ask_price w8) (\<lambda>(settlement, price) w9.
        settle_and_check vv traderA traderB venue batchID settlement price w9))))))))))"

section \<open>run-comparison\<close>

datatype comparison_op =
    DeployTransparentOp address address
  | MintQuoteOp address int
  | ApproveTokenOp address address int
  | DepositTransparentOp int int
  | PostOrderOp side int int
  | TakeOrderOp u64 int

record comparison_call =
  cc_from :: address
  cc_to :: "address option"
  cc_gas :: int
  cc_op :: comparison_op

text \<open>Every call has the same gas limit; a deployment needs far more than a call.\<close>

fun comparison_gas :: "comparison_op \<Rightarrow> int" where
  "comparison_gas (DeployTransparentOp _ _) = 6000000"
| "comparison_gas _ = 1500000"

record posted_order =
  po_side :: side
  po_limit_price :: int
  po_size :: int

record comparison_net = "comparison_call net" +
  cn_bind :: "err option"
  cn_created :: "comparison_call list \<Rightarrow> address"
  cn_quote_balance :: "comparison_call list \<Rightarrow> address \<Rightarrow> err + int"
  cn_base_balance :: "comparison_call list \<Rightarrow> address \<Rightarrow> err + int"
  cn_next_order :: "comparison_call list \<Rightarrow> err + u64"
  cn_order :: "comparison_call list \<Rightarrow> u64 \<Rightarrow> err + posted_order"

text \<open>Errors of the balance calls are dropped: the nil balance is dereferenced.\<close>

definition balance_or_panic :: "(comparison_call list \<Rightarrow> address \<Rightarrow> err + int) \<Rightarrow> address \<Rightarrow> (comparison_call, int) run" where
  "balance_or_panic q who = ask (\<lambda>w. map_err (\<lambda>_. nil_dereference) (q w who))"

definition compare_send :: "comparison_net \<Rightarrow> string \<Rightarrow> address \<Rightarrow> address option \<Rightarrow> comparison_op \<Rightarrow> (comparison_call, unit) run" where
  "compare_send cn what from to op = must_send cn (rpc_text (what @ '': '')) what \<lparr>cc_from = from, cc_to = to, cc_gas = comparison_gas op, cc_op = op\<rparr>"

definition transparent_venue :: "comparison_net \<Rightarrow> (string \<Rightarrow> address) \<Rightarrow> string \<Rightarrow> address \<Rightarrow> address \<Rightarrow> address \<Rightarrow> (comparison_call, address) run" where
  "transparent_venue cn to_address venueF alice baseToken quoteToken w0 =
     (if venueF \<noteq> [] then ret (to_address venueF) w0
      else then_do (compare_send cn ''deploy TransparentVenue'' alice None (DeployTransparentOp baseToken quoteToken) w0) (\<lambda>_ w1.
             ret (cn_created cn w0) w1))"

definition fund_both :: "comparison_net \<Rightarrow> address \<Rightarrow> address \<Rightarrow> address \<Rightarrow> address \<Rightarrow> address \<Rightarrow> int \<Rightarrow> (comparison_call, unit) run" where
  "fund_both cn alice bob baseToken quoteToken venue size0 w0 =
     (let quoteNeeded = 20 * sixDecimals in
      then_do (balance_or_panic (cn_quote_balance cn) alice w0) (\<lambda>v w1.
      then_do (if v < quoteNeeded then
                 then_do (compare_send cn ''mint nUSD'' alice (Some quoteToken) (MintQuoteOp alice quoteNeeded) w1) (\<lambda>_ w2.
                 then_do (compare_send cn ''approve nUSD'' alice (Some quoteToken) (ApproveTokenOp quoteToken venue quoteNeeded) w2) (\<lambda>_ w3.
                   compare_send cn ''alice deposit'' alice (Some venue) (DepositTransparentOp 0 quoteNeeded) w3))
               else ret () w1) (\<lambda>_ w4.
      then_do (balance_or_panic (cn_base_balance cn) bob w4) (\<lambda>b w5.
        if b < size0 then
          then_do (compare_send cn ''approve FXRP'' bob (Some baseToken) (ApproveTokenOp baseToken venue size0) w5) (\<lambda>_ w6.
            compare_send cn ''bob deposit'' bob (Some venue) (DepositTransparentOp size0 0) w6)
        else ret () w5))))"

record comparison =
  co_transparent :: int
  co_nightjar :: int
  co_extra :: int
  co_bps :: int

text \<open>The result: what Nightjar would have charged is computed, not measured.\<close>

definition comparison_of :: "int \<Rightarrow> int \<Rightarrow> int \<Rightarrow> comparison" where
  "comparison_of size0 ask_price transparentCost =
     (let nightjarCost = big_div (size0 * ask_price) PriceScale; extra = transparentCost - nightjarCost in
      \<lparr>co_transparent = transparentCost, co_nightjar = nightjarCost, co_extra = extra,
       co_bps = big_div (extra * 10000) nightjarCost\<rparr>)"

definition run_comparison ::
  "comparison_net \<Rightarrow> (string \<Rightarrow> err + address) \<Rightarrow> (string \<Rightarrow> address) \<Rightarrow> string \<Rightarrow> string \<Rightarrow> string \<Rightarrow> string \<Rightarrow> string
     \<Rightarrow> (comparison_call, comparison) run" where
  "run_comparison cn key to_address aliceKeyF bobKeyF baseF quoteF venueF w0 =
     (let baseToken = to_address baseF; quoteToken = to_address quoteF; size0 = 3 * sixDecimals in
      then_do (given (map_err (prefixed ''bad key: '') (key (trim_prefix aliceKeyF ''0x''))) w0) (\<lambda>alice w1.
      then_do (given (map_err (prefixed ''bad key: '') (key (trim_prefix bobKeyF ''0x''))) w1) (\<lambda>bob w2.
      then_do (given (from_option nil_dereference (scaled ''1.06'')) w2) (\<lambda>bid w3.
      then_do (given (from_option nil_dereference (scaled ''1.02'')) w3) (\<lambda>ask_price w4.
      then_do (transparent_venue cn to_address venueF alice baseToken quoteToken w4) (\<lambda>venue w5.
      then_do (given (case cn_bind cn of Some e \<Rightarrow> Inl e | None \<Rightarrow> Inr ()) w5) (\<lambda>_ w6.
      then_do (fund_both cn alice bob baseToken quoteToken venue size0 w6) (\<lambda>_ w7.
      then_do (balance_or_panic (cn_quote_balance cn) alice w7) (\<lambda>beforeQuote w8.
      then_do (compare_send cn ''postOrder'' alice (Some venue) (PostOrderOp 0 bid size0) w8) (\<lambda>_ w9.
      then_do (ask (cn_next_order cn) w9) (\<lambda>nextID w10.
      then_do (ask (\<lambda>w. cn_order cn w (nextID - 1)) w10) (\<lambda>o0 w11.
      then_do (compare_send cn ''takeOrder'' bob (Some venue) (TakeOrderOp (nextID - 1) (po_limit_price o0)) w11) (\<lambda>_ w12.
      then_do (balance_or_panic (cn_quote_balance cn) alice w12) (\<lambda>afterQuote w13.
        ret (comparison_of size0 ask_price (beforeQuote - afterQuote)) w13))))))))))))))"

end
