(* ===== verification/Demo_Facts.thy ===== *)
theory Demo_Facts
  imports Demos Enclave Setup_Facts
begin

text \<open>
  What the demos show. Their batches are cleared by the model of the matching engine: the
  ladder of \<^verbatim>\<open>make-market\<close> and the crossing pair of \<^verbatim>\<open>run-test\<close>, opened in the enclave from the
  text the clients seal. Then the polling loops against a reference definition, and what a
  passed test and a funded test guarantee.
\<close>

section \<open>A batch of one crossing pair\<close>

text \<open>The price of a pair that crosses: the ask, or the bid where a positive reference is nearer to it.\<close>

definition pair_price :: "int \<Rightarrow> int \<Rightarrow> int option \<Rightarrow> int" where
  "pair_price s b ref = (case ref of None \<Rightarrow> s | Some r \<Rightarrow> if r > 0 \<and> s + b < 2 * r then b else s)"

definition crossing_orders :: "u64 \<Rightarrow> u64 \<Rightarrow> address \<Rightarrow> address \<Rightarrow> int \<Rightarrow> int \<Rightarrow> int \<Rightarrow> Order list" where
  "crossing_orders i j a c s b n = [demo_order i a SideBuy b n, demo_order j c SideSell s n]"

definition pair_settlement :: "address \<Rightarrow> address \<Rightarrow> int \<Rightarrow> int \<Rightarrow> int \<Rightarrow> Settlement" where
  "pair_settlement a c p n unmatched =
     \<lparr>s_clearing_price = p, s_matched_base = n,
      s_fills = [\<lparr>fl_trader = a, fl_base_delta = n, fl_quote_delta = - QuoteFor n p\<rparr>,
                 \<lparr>fl_trader = c, fl_base_delta = - n, fl_quote_delta = QuoteFor n p\<rparr>],
      s_unmatched = unmatched\<rparr>"

lemmas choice_eval = candidatePrices_eval clear_step_eq matched_at_def imbalance_at_def demand_at_def supply_at_def
  bids_def asks_def better_def
lemmas fill_eval = allocate_def eligible_eq bids_def asks_def
  buy_before_def sell_before_def touch_def add_delta_def fill_of_def Let_def

lemma nearer: "s < b \<Longrightarrow> \<bar>b - r\<bar> < \<bar>s - r\<bar> \<longleftrightarrow> s + b < 2 * (r :: int)"
  and nearer_eq: "s < b \<Longrightarrow> \<bar>b - r\<bar> = \<bar>s - r\<bar> \<longleftrightarrow> s + b = 2 * (r :: int)"
  by auto

lemma pair_price_between: "s < b \<Longrightarrow> s \<le> pair_price s b ref \<and> pair_price s b ref \<le> b"
  by (simp add: pair_price_def split: option.splits)

lemma Clear_of_best:
  assumes "best_candidate orders ref (candidatePrices orders) None = Some (p, n, i)" "0 < n" "orders \<noteq> []"
    and "allocate orders p n = (fills, k)"
  shows "Clear orders ref dev =
    (if withinBand p ref dev
     then Inr \<lparr>s_clearing_price = p, s_matched_base = n, s_fills = fills, s_unmatched = int (length orders) - int k\<rparr>
     else Inl ErrOutOfBand)"
  using assms by (simp add: Clear_def)

lemma crossing_pair:
  assumes "s < b" "0 < n" "a \<noteq> c"
  shows "Clear (crossing_orders i j a c s b n) ref dev =
    (if withinBand (pair_price s b ref) ref dev then Inr (pair_settlement a c (pair_price s b ref) n 0) else Inl ErrOutOfBand)"
proof -
  have best: "best_candidate (crossing_orders i j a c s b n) ref (candidatePrices (crossing_orders i j a c s b n)) None
      = Some (pair_price s b ref, n, 0)"
    using assms by (cases ref) (simp_all add: crossing_orders_def choice_eval pair_price_def nearer nearer_eq)
  have fills: "allocate (crossing_orders i j a c s b n) p n = (s_fills (pair_settlement a c p n 0), 2)" if "s \<le> p" "p \<le> b" for p
    using that assms by (simp add: crossing_orders_def pair_settlement_def fill_eval)
  show ?thesis
    using Clear_of_best [OF best assms(2) _ fills] pair_price_between [OF assms(1), of ref]
    by (simp add: crossing_orders_def pair_settlement_def)
qed

section \<open>The ladder\<close>

definition ladder_orders :: "(nat \<Rightarrow> u64) \<Rightarrow> address \<Rightarrow> address \<Rightarrow> Order list" where
  "ladder_orders i m t =
     [demo_order (i 0) m SideBuy 990000000000000000 1000000, demo_order (i 1) m SideBuy 1010000000000000000 1000000,
      demo_order (i 2) m SideSell 1030000000000000000 1000000, demo_order (i 3) m SideSell 1050000000000000000 1000000,
      demo_order (i 4) t SideSell 1000000000000000000 1000000]"

lemma ladder_clears:
  assumes "m \<noteq> t" and p: "p = pair_price 1000000000000000000 1010000000000000000 ref"
  shows "Clear (ladder_orders i m t) ref dev =
    (if withinBand p ref dev then Inr (pair_settlement m t p 1000000 3) else Inl ErrOutOfBand)"
proof -
  have best: "best_candidate (ladder_orders i m t) ref (candidatePrices (ladder_orders i m t)) None = Some (p, 1000000, 0)"
    unfolding p by (cases ref) (simp_all add: ladder_orders_def choice_eval pair_price_def nearer nearer_eq)
  have fills: "allocate (ladder_orders i m t) q 1000000 = (s_fills (pair_settlement m t q 1000000 3), 2)"
    if "1000000000000000000 \<le> q" "q \<le> 1010000000000000000" for q
    using that assms by (simp add: ladder_orders_def pair_settlement_def fill_eval)
  have "1000000000000000000 \<le> p" "p \<le> 1010000000000000000"
    unfolding p using pair_price_between [of 1000000000000000000 1010000000000000000 ref] by simp_all
  then show ?thesis
    using Clear_of_best [OF best _ _ fills] by (simp add: ladder_orders_def pair_settlement_def)
qed

text \<open>What the enclave makes of sealed orders: the text is sealed, submitted and opened one by one.\<close>

definition opened :: "node \<Rightarrow> (nat \<Rightarrow> SubmitOrderRequest) \<Rightarrow> SealedOrder option list \<Rightarrow> (err + Order) option list" where
  "opened nd req sealed = map (\<lambda>(k, so). map_option (\<lambda>order. parseSealedOrder nd (sealed_json order) (req k)) so) (enumerate 0 sealed)"

text \<open>Addresses as the node and the clients write and read them.\<close>

definition address_text_ok :: "node \<Rightarrow> (address \<Rightarrow> string) \<Rightarrow> bool" where
  "address_text_ok nd hex \<longleftrightarrow> (\<forall>a. plain (hex a) \<and> n_is_hex_address nd (hex a) \<and> n_hex_to_address nd (hex a) = a)"

lemma parse_sealed:
  assumes "address_text_ok nd hex" "sr_trader req = who" "sd = SideBuy \<or> sd = SideSell" "0 < limit" "0 < n" "plain nonce"
  shows "parseSealedOrder nd (sealed_json \<lparr>so_trader = hex who, so_side = sd, so_limit_price = big_string limit,
      so_size = big_string n, so_nonce = nonce\<rparr>) req = Inr (demo_order (sr_order_id req) who sd limit n)"
  using assms by (auto simp: parseSealedOrder_def decode_sealed_json address_text_ok_def demo_order_def)

lemma ladder_texts:
  "scaled ''0.99'' = Some 990000000000000000" "scaled ''1.01'' = Some 1010000000000000000"
  "scaled ''1.03'' = Some 1030000000000000000" "scaled ''1.05'' = Some 1050000000000000000"
  "scaled ''1.00'' = Some 1000000000000000000" "parseAmount ''1.0'' = Some 1000000"
  "scaled ''1.06'' = Some 1060000000000000000" "scaled ''1.02'' = Some 1020000000000000000"
  by (simp_all add: scaled_def parseAmount_def scan_nat_def digit_val_def code_of_def PriceScale_def sixDecimals_def)

lemma plain_append [simp]: "plain (s @ t) \<longleftrightarrow> plain s \<and> plain t"
  by (simp add: plain_def)

lemma plain_market_nonce: "plain (q_price q) \<Longrightarrow> plain (market_nonce now q)"
  by (simp add: market_nonce_def plain_eval)

definition ladder_sealed :: "(address \<Rightarrow> string) \<Rightarrow> (nat \<Rightarrow> int) \<Rightarrow> address \<Rightarrow> address \<Rightarrow> SealedOrder option list" where
  "ladder_sealed hex now mm taker = map (\<lambda>(k, q). market_order hex (now k) (quoter mm taker q) q) (enumerate 0 ladder)"

text \<open>The whole demo: sealed by the client, opened and cleared by the enclave.\<close>

lemma ladder_opened:
  assumes "address_text_ok nd hex" "\<And>k. k < 5 \<Longrightarrow> sr_trader (req k) = quoter mm taker (ladder ! k)"
  shows "opened nd req (ladder_sealed hex now mm taker) = map (Some \<circ> Inr) (ladder_orders (\<lambda>k. sr_order_id (req k)) mm taker)"
proof -
  have who: "sr_trader (req 0) = mm" "sr_trader (req 1) = mm" "sr_trader (req (Suc 0)) = mm" "sr_trader (req 2) = mm"
    "sr_trader (req 3) = mm" "sr_trader (req 4) = taker"
    using assms(2) [of 0] assms(2) [of 1] assms(2) [of 2] assms(2) [of 3] assms(2) [of 4]
    by (simp_all add: ladder_def quoter_def)
  have idx: "(2::nat) = Suc (Suc 0)" "(3::nat) = Suc (Suc (Suc 0))" "(4::nat) = Suc (Suc (Suc (Suc 0)))" by simp_all
  show ?thesis
    unfolding opened_def ladder_sealed_def
    by (simp add: ladder_def market_order_def ladder_texts quoter_def ladder_orders_def parse_sealed [OF assms(1)] who [unfolded idx] idx
        SideBuy_def SideSell_def plain_market_nonce plain_eval)
qed

text \<open>(C31) The ladder demo shows what it says. Whatever the oracle price, the addresses and the
  order ids: the five quotes \<^verbatim>\<open>make-market\<close> seals are opened by the enclave, and the batch either
  clears the maker's bid at 1.01 against the taker, at 1.00 or 1.01, leaving three orders
  unmatched and naming two traders, or is refused for its distance from the oracle.\<close>

theorem market_ladder_clears:
  assumes "address_text_ok nd hex" and "mm \<noteq> taker"
    and "\<And>k. k < 5 \<Longrightarrow> sr_trader (req k) = quoter mm taker (ladder ! k)"
  shows "\<exists>orders p. opened nd req (ladder_sealed hex now mm taker) = map (Some \<circ> Inr) orders
    \<and> (p = 1000000000000000000 \<or> p = 1010000000000000000)
    \<and> Clear orders ref dev = (if withinBand p ref dev then Inr (pair_settlement mm taker p 1000000 3) else Inl ErrOutOfBand)"
proof -
  let ?p = "pair_price 1000000000000000000 1010000000000000000 ref"
  have "?p = 1000000000000000000 \<or> ?p = 1010000000000000000" by (simp add: pair_price_def split: option.splits)
  then show ?thesis
    using ladder_opened [OF assms(1,3)] ladder_clears [OF assms(2) refl] by blast
qed

definition decimal_node :: node where
  "decimal_node = (demo_node (demo_tee []))\<lparr>n_hex_to_address := (\<lambda>s. case scan_nat s of Some n \<Rightarrow> of_nat n | None \<Rightarrow> 0)\<rparr>"

definition decimal_hex :: "address \<Rightarrow> string" where
  "decimal_hex a = dec_nat (unat a)"

lemma decimal_text_ok: "address_text_ok decimal_node decimal_hex"
  by (simp add: address_text_ok_def decimal_node_def decimal_hex_def demo_node_def)

definition ladder_request :: "nat \<Rightarrow> SubmitOrderRequest" where
  "ladder_request k = \<lparr>sr_order_id = of_nat k, sr_batch_id = 5, sr_trader = (if k = 4 then 11 else 10), sr_ciphertext = ''c''\<rparr>"

theorem market_ladder_clears_witness:
  "\<exists>orders p. opened decimal_node ladder_request (ladder_sealed decimal_hex int 10 11) = map (Some \<circ> Inr) orders
    \<and> (p = 1000000000000000000 \<or> p = 1010000000000000000)
    \<and> Clear orders (Some 1000000000000000000) 500 =
        (if withinBand p (Some 1000000000000000000) 500 then Inr (pair_settlement 10 11 p 1000000 3) else Inl ErrOutOfBand)"
proof (rule market_ladder_clears [OF decimal_text_ok])
  show "sr_trader (ladder_request k) = quoter 10 11 (ladder ! k)" if "k < 5" for k
  proof -
    from that consider "k = 0" | "k = 1" | "k = 2" | "k = 3" | "k = 4" by linarith
    then show ?thesis by cases (simp_all add: ladder_request_def quoter_def ladder_def)
  qed
qed simp

section \<open>The crossing pair of run-test\<close>

definition test_sealed :: "demo_env \<Rightarrow> address \<Rightarrow> address \<Rightarrow> SealedOrder option list" where
  "test_sealed env a b =
     [map_option (\<lambda>limit. test_order env a 0 limit ''1'') (scaled ''1.06''),
      map_option (\<lambda>limit. test_order env b 1 limit ''2'') (scaled ''1.02'')]"

lemma test_opened:
  assumes "address_text_ok nd (de_hex env)" "sr_trader (req 0) = a" "sr_trader (req 1) = b"
  shows "opened nd req (test_sealed env a b) =
    map (Some \<circ> Inr) (crossing_orders (sr_order_id (req 0)) (sr_order_id (req 1)) a b 1020000000000000000 1060000000000000000 test_size)"
  using assms by (simp add: opened_def test_sealed_def ladder_texts test_order_def crossing_orders_def parse_sealed [OF assms(1)]
      SideBuy_def SideSell_def test_size_def sixDecimals_def plain_eval)

text \<open>The enclave passes the end-to-end test. The two orders \<^verbatim>\<open>run-test\<close> seals are opened as
  they were meant, and every settlement of that batch passes the tool's checks: the price
  lies between the two limits, and the deltas are what the tool then expects of the balances,
  the whole size for the buyer and the notional, before the fee, for the seller.\<close>

theorem test_batch_passes:
  assumes "address_text_ok nd (de_hex env)" and "a \<noteq> b" and "sr_trader (req 0) = a" "sr_trader (req 1) = b"
    and "map (Some \<circ> Inr) orders = opened nd req (test_sealed env a b)"
    and "Clear orders ref dev = Inr s"
  shows "1020000000000000000 \<le> s_clearing_price s \<and> s_clearing_price s \<le> 1060000000000000000
    \<and> s_fills s = [\<lparr>fl_trader = a, fl_base_delta = test_size, fl_quote_delta = - big_div (test_size * s_clearing_price s) PriceScale\<rparr>,
                   \<lparr>fl_trader = b, fl_base_delta = - test_size, fl_quote_delta = big_div (test_size * s_clearing_price s) PriceScale\<rparr>]"
proof -
  let ?p = "pair_price 1020000000000000000 1060000000000000000 ref"
  have "map (Some \<circ> Inr) orders =
    (map (Some \<circ> Inr) (crossing_orders (sr_order_id (req 0)) (sr_order_id (req 1)) a b 1020000000000000000 1060000000000000000 test_size)
      :: (err + Order) option list)"
    using assms(5) test_opened [OF assms(1,3,4)] by simp
  then have "orders = crossing_orders (sr_order_id (req 0)) (sr_order_id (req 1)) a b 1020000000000000000 1060000000000000000 test_size"
    by (rule map_injective) (simp add: inj_def)
  moreover have "0 < test_size" by (simp add: test_size_def sixDecimals_def)
  ultimately have "s = pair_settlement a b ?p test_size 0"
    using assms(6) crossing_pair [of 1020000000000000000 1060000000000000000 test_size a b] assms(2) by (simp split: if_splits)
  then show ?thesis
    using pair_price_between [of 1020000000000000000 1060000000000000000 ref] by (simp add: pair_settlement_def QuoteFor_def)
qed

definition demo_client_env :: demo_env where
  "demo_client_env =
     \<lparr>de_account = Inr 10, de_key = (\<lambda>_. Inr 11), de_proxy_url = [], de_tee_info = Inr ''k'', de_parse_pubkey = Inr, de_pubkey_address = (\<lambda>_. 77),
      de_encrypt = (\<lambda>_ m. Inr m), de_hex = decimal_hex, de_json_address = demo_to_address, de_now = int\<rparr>"

definition test_request :: "nat \<Rightarrow> SubmitOrderRequest" where
  "test_request k = \<lparr>sr_order_id = of_nat k + 1, sr_batch_id = 5, sr_trader = (if k = 0 then 10 else 11), sr_ciphertext = ''c''\<rparr>"

theorem test_batch_passes_witness:
  "1020000000000000000 \<le> s_clearing_price (pair_settlement 10 11 1020000000000000000 test_size 0)"
proof -
  let ?orders = "crossing_orders 1 2 10 11 1020000000000000000 1060000000000000000 test_size"
  have "map (Some \<circ> Inr) ?orders = opened decimal_node test_request (test_sealed demo_client_env 10 11)"
    using test_opened [of decimal_node demo_client_env test_request 10 11] decimal_text_ok
    by (simp add: demo_client_env_def test_request_def)
  moreover have "Clear ?orders (Some 1030000000000000000) 500 = Inr (pair_settlement 10 11 1020000000000000000 test_size 0)"
    by (subst crossing_pair) (simp_all add: test_size_def sixDecimals_def pair_price_def withinBand_def)
  ultimately show ?thesis
    using test_batch_passes [of decimal_node demo_client_env 10 11 test_request ?orders "Some 1030000000000000000" 500] decimal_text_ok
    by (simp add: demo_client_env_def test_request_def)
qed

text \<open>The comparison tool's price for Nightjar is an assumption. \<^verbatim>\<open>run-comparison\<close> computes what
  the batch auction would have charged from the seller's limit; the matching engine charges
  that only where the oracle price is at most the midpoint of the two limits, and the buyer's
  own limit, which leaves her no saving, where it is above.\<close>

theorem comparison_needs_low_oracle:
  assumes "Clear (crossing_orders i j alice bob 1020000000000000000 1060000000000000000 (3 * sixDecimals)) (Some oracle) dev = Inr s"
    and "0 < oracle" and "alice \<noteq> bob"
  shows "- fl_quote_delta (s_fills s ! 0) =
    (if oracle \<le> 1040000000000000000 then co_nightjar (comparison_of (3 * sixDecimals) 1020000000000000000 transparentCost)
     else 3180000)"
proof -
  have "s = pair_settlement alice bob (pair_price 1020000000000000000 1060000000000000000 (Some oracle)) (3 * sixDecimals) 0"
    using assms crossing_pair [of 1020000000000000000 1060000000000000000 "3 * sixDecimals" alice bob i j "Some oracle" dev]
    by (simp add: sixDecimals_def split: if_splits)
  then show ?thesis
    using assms(2) by (simp add: pair_settlement_def pair_price_def QuoteFor_def comparison_of_def Let_def sixDecimals_def PriceScale_def)
qed

theorem comparison_needs_low_oracle_witness:
  "- fl_quote_delta (s_fills (pair_settlement 10 11 1060000000000000000 (3 * sixDecimals) 0) ! 0) = 3180000"
proof -
  have "Clear (crossing_orders 1 2 10 11 1020000000000000000 1060000000000000000 (3 * sixDecimals)) (Some 1050000000000000000) 500
      = Inr (pair_settlement 10 11 1060000000000000000 (3 * sixDecimals) 0)"
    by (subst crossing_pair) (simp_all add: sixDecimals_def pair_price_def withinBand_def)
  from comparison_needs_low_oracle [OF this] show ?thesis by simp
qed

section \<open>The reply the client decodes\<close>

text \<open>(C32) What the enclave signs is what the client reads. A run of the batch that ends with
  status ok left a reply that the clients' own types decode to the settlement \<open>Clear\<close> found for
  the orders that were resting: batch, price, matched base, each fill's trader and deltas, and
  the number left unmatched. The two byte fields are the encoding of that settlement, in the layout
  the venue takes, and the signature the node gave for exactly those bytes, of the 65 bytes
  \<^verbatim>\<open>run-test\<close> asks for.\<close>

theorem settled_reply_reaches_client:
  assumes "processRunBatch nd action df e = (e', ar)" and "ar_status ar = 1"
    and "book_ok e" and "\<And>b. length (book_at e b) < 2 ^ 63"
    and "\<And>a. plain (n_address_text nd a)" "\<And>a. to_address (JStr (n_address_text nd a)) = Some a"
  shows "\<exists>req s m sig. n_decode_run nd RunBatchMessageArg (df_original_message df) = Inr req
    \<and> Clear (book_at e (rr_batch_id req)) (rr_ref_price req) (rr_max_deviation_bps req) = Inr s
    \<and> EncodeSettlement (n_pack nd) (rr_chain_id req) (rr_venue req) (rr_batch_id req)
        (s_clearing_price s) (s_matched_base s) (s_fills s) = Inr m
    \<and> Sign (n_tee nd) m = Inr sig \<and> length sig = 65
    \<and> decode_batch to_address (ar_data ar) = Some
        \<lparr>cb_batch_id = rr_batch_id req, cb_clearing_price = Some (s_clearing_price s), cb_matched_base = Some (s_matched_base s),
         cb_fills = map (\<lambda>f. \<lparr>cf_trader = fl_trader f, cf_base_delta = Some (fl_base_delta f),
                                cf_quote_delta = Some (fl_quote_delta f)\<rparr>) (s_fills s),
         cb_settlement = m, cb_signature = sig, cb_unmatched = s_unmatched s\<rparr>"
proof (cases rule: run_batch_cases [of nd action df e])
  case (settled req s m sig)
  have "0 \<le> s_unmatched s \<and> s_unmatched s \<le> int (length (book_at e (rr_batch_id req))) - 2"
    by (rule unmatched_bounds [OF book_ok_sizes [OF assms(3)] settled(2)])
  then have "0 \<le> s_unmatched s" "s_unmatched s < 2 ^ 63" using assms(4) [of "rr_batch_id req"] by simp_all
  then have "decode_batch to_address (RunBatchResponse_json nd (run_response req s m sig)) = Some (client_batch (run_response req s m sig))"
    by (intro batch_reply assms(5,6)) (simp_all add: run_response_def)
  moreover have "ar_data ar = RunBatchResponse_json nd (run_response req s m sig)"
    using assms(1) settled(5) by (auto simp: buildResult_def)
  ultimately have "decode_batch to_address (ar_data ar) = Some (client_batch (run_response req s m sig))" by simp
  then show ?thesis
    using settled(1-4) tee.signature_length [OF settled(4)]
    by (intro exI [where x = req] exI [where x = s] exI [where x = m] exI [where x = sig])
      (simp add: client_batch_def client_fill_def [abs_def] run_response_def)
next
  case (abandoned req ce)
  then show ?thesis using assms(1,2) by (simp add: buildResult_def)
next
  case (unchanged t)
  then show ?thesis using assms(1,2) by (simp add: buildResult_def)
qed

lemma demo_node_addresses:
  "plain (n_address_text (demo_node c) a)" "demo_to_address (JStr (n_address_text (demo_node c) a)) = Some a"
  by (simp_all add: demo_node_def demo_to_address_def)

definition demo_resting :: extension where
  "demo_resting = New\<lparr>book := [5 \<mapsto> demo_pair]\<rparr>"

lemma demo_resting_book [simp]: "book_at demo_resting b = (if b = 5 then demo_pair else [])"
  by (simp add: demo_resting_def book_at_def New_def)

lemma demo_resting_run:
  "processRunBatch (demo_node (demo_tee [])) (demo_action 9) demo_df demo_resting =
    (commit_batch 5 demo_pair_settlement demo_resting,
     buildResult (demo_action 9) demo_df
       (RunBatchResponse_json (demo_node (demo_tee [])) (run_response demo_run demo_pair_settlement ''m'' demo_signature)) 1 None)"
proof -
  let ?nd = "demo_node (demo_tee [])"
  have nd: "n_decode_run ?nd t b = Inr demo_run" "n_pack ?nd l x = Inr ''m''" "n_tee ?nd = demo_tee []" for t b l x
    by (simp_all add: demo_node_def)
  have run: "rr_batch_id demo_run = 5" "rr_ref_price demo_run = Some (2 * PriceScale)" "rr_max_deviation_bps demo_run = 500"
    by (simp_all add: demo_run_def)
  have "demo_pair \<noteq> []" by (simp add: demo_pair_def)
  then show ?thesis
    by (simp add: processRunBatch_def nd run finish_batch_def clear_and_sign_def demo_pair_clear EncodeSettlement_def)
qed

theorem settled_reply_reaches_client_witness:
  "\<exists>b. decode_batch demo_to_address (ar_data (snd (processRunBatch (demo_node (demo_tee [])) (demo_action 9) demo_df demo_resting))) = Some b
    \<and> cb_batch_id b = 5 \<and> cb_clearing_price b = Some (2 * PriceScale) \<and> cb_matched_base b = Some 3 \<and> cb_unmatched b = 0
    \<and> cb_fills b = [\<lparr>cf_trader = 10, cf_base_delta = Some 0, cf_quote_delta = Some 0\<rparr>]
    \<and> Sign (demo_tee []) (cb_settlement b) = Inr (cb_signature b)"
proof -
  have ok: "book_ok demo_resting" by (simp add: book_ok_def demo_pair_def order_ok_def PriceScale_def)
  have small: "length (book_at demo_resting b) < 2 ^ 63" for b by (simp add: demo_pair_def)
  have decode: "n_decode_run (demo_node (demo_tee [])) RunBatchMessageArg (df_original_message demo_df) = Inr demo_run"
    by (simp add: demo_node_def)
  have "ar_status (buildResult a df x 1 y) = 1" for a df x y by (simp add: buildResult_def)
  from settled_reply_reaches_client [OF demo_resting_run this ok small demo_node_addresses]
  obtain s m sig where c: "Clear demo_pair (Some (2 * PriceScale)) 500 = Inr s" "Sign (demo_tee []) m = Inr sig"
    and d: "decode_batch demo_to_address (ar_data (snd (processRunBatch (demo_node (demo_tee [])) (demo_action 9) demo_df demo_resting))) = Some
      \<lparr>cb_batch_id = 5, cb_clearing_price = Some (s_clearing_price s), cb_matched_base = Some (s_matched_base s),
       cb_fills = map (\<lambda>f. \<lparr>cf_trader = fl_trader f, cf_base_delta = Some (fl_base_delta f),
                              cf_quote_delta = Some (fl_quote_delta f)\<rparr>) (s_fills s),
       cb_settlement = m, cb_signature = sig, cb_unmatched = s_unmatched s\<rparr>"
    unfolding decode demo_resting_run by (auto simp: demo_run_def demo_node_def)
  have "s = demo_pair_settlement" using c(1) demo_pair_clear by simp
  then show ?thesis using c(2) d by (simp add: demo_pair_settlement_def)
qed

section \<open>Polling\<close>

text \<open>An attempt that decides nothing: an error of the proxy, or a result that is still pending.\<close>

definition pending :: "err + ActionResult \<Rightarrow> bool" where
  "pending x = (case x of Inl e \<Rightarrow> True | Inr r \<Rightarrow> ar_status r = 2)"

definition decided :: "string \<Rightarrow> err + ActionResult \<Rightarrow> err + ActionResult" where
  "decided what x = (case x of Inl e \<Rightarrow> Inl e | Inr r \<Rightarrow> if ar_status r = 0 then Inl (what @ ar_log r) else Inr r)"

definition first_decided :: "(nat \<Rightarrow> err + ActionResult) \<Rightarrow> nat \<Rightarrow> nat option" where
  "first_decided get n = find (\<lambda>k. \<not> pending (get k)) [0..<n]"

text \<open>The error of the last attempt that had one.\<close>

definition last_error :: "(nat \<Rightarrow> err + ActionResult) \<Rightarrow> nat list \<Rightarrow> err option \<Rightarrow> err option" where
  "last_error get ks e0 = foldl (\<lambda>e k. case get k of Inl x \<Rightarrow> Some x | Inr r \<Rightarrow> e) e0 ks"

lemma poll_market_find:
  "poll_market get i n = (case find (\<lambda>k. \<not> pending (get k)) [i..<i + n] of
     Some k \<Rightarrow> decided ''batch abandoned: '' (get k) | None \<Rightarrow> Inl ''timed out'')"
proof (induction n arbitrary: i)
  case (Suc n)
  have "[i..<i + Suc n] = i # [Suc i..<Suc i + n]" by (simp add: upt_conv_Cons)
  then show ?case using Suc [of "Suc i"] by (simp add: pending_def decided_def split: sum.splits)
qed simp

lemma poll_test_find:
  "poll_test get i n e0 = (case find (\<lambda>k. \<not> pending (get k)) [i..<i + n] of
     Some k \<Rightarrow> decided ''instruction failed: '' (get k)
   | None \<Rightarrow> Inl (case last_error get [i..<i + n] e0 of Some e \<Rightarrow> ''timed out waiting for result: '' @ e
                 | None \<Rightarrow> ''timed out waiting for result''))"
proof (induction n arbitrary: i e0)
  case (Suc n)
  define ks where "ks = [Suc i..<Suc i + n]"
  have up: "[i..<i + Suc n] = i # ks" by (simp add: ks_def upt_conv_Cons)
  show ?case
    unfolding up using Suc [of "Suc i", folded ks_def]
    by (cases "get i") (simp_all add: pending_def decided_def last_error_def cong: option.case_cong)
qed (simp add: last_error_def)

text \<open>(C34) Polling ends, and with the first answer that decides: among the thirty (or forty)
  attempts the loops return the first result that is neither an error of the proxy nor
  pending, as a failure where its status says so, and time out, with the last error seen,
  exactly when there is none.\<close>

theorem polling_returns_first_decided:
  "pollResult_test get = (case first_decided get 30 of
      Some k \<Rightarrow> decided ''instruction failed: '' (get k)
    | None \<Rightarrow> Inl (case last_error get [0..<30] None of Some e \<Rightarrow> ''timed out waiting for result: '' @ e
                  | None \<Rightarrow> ''timed out waiting for result''))
   \<and> pollResult_market get = (case first_decided get 40 of
      Some k \<Rightarrow> decided ''batch abandoned: '' (get k) | None \<Rightarrow> Inl ''timed out'')"
  using poll_test_find [of get 0 30 None, unfolded add_0] poll_market_find [of get 0 40, unfolded add_0]
  by (simp add: pollResult_test_def pollResult_market_def first_decided_def)

section \<open>What a run of the test sends\<close>

text \<open>Nothing but the wiring, the orders, the run and the settlement: no token moves.\<close>

fun spends_nothing :: "venue_op \<Rightarrow> bool" where
  "spends_nothing SetExtensionIdOp = True"
| "spends_nothing (AddTeeOp _) = True"
| "spends_nothing (SubmitOrderOp _) = True"
| "spends_nothing RunBatchOp = True"
| "spends_nothing (SettleOp _ _) = True"
| "spends_nothing _ = False"

definition no_tokens :: "venue_call \<Rightarrow> bool" where
  "no_tokens c \<longleftrightarrow> spends_nothing (vc_op c)"

lemma sends_mustMine [sends]: "sends_only ok (mustMine nt what tx)"
  unfolding mustMine_def [abs_def] by (intro sends_do sends_if sends)

lemma sends_must_send: "ok c \<Longrightarrow> sends_only ok (must_send nt g what c)"
  unfolding must_send_def [abs_def] by (intro sends_do sends_tx sends)

lemma sends_bound [sends]: "sends_only ok (bound vn g)"
  by (simp add: bound_def sends)

lemma sends_instruction: "ok (instruction_call from venue op) \<Longrightarrow> sends_only ok (sendInstruction vn from venue name op)"
  unfolding sends_only_def
proof
  fix w assume ok: "ok (instruction_call from venue op)"
  obtain r w' where run: "sendInstruction vn from venue name op w = (r, w')" by fastforce
  then have "w' = w @ [] \<or> w' = w @ [instruction_call from venue op]" using sendInstruction_sent by fastforce
  then show "\<exists>cs. snd (sendInstruction vn from venue name op w) = w @ cs \<and> list_all ok cs"
    using run ok by (auto intro: exI [where x = "[]"])
qed

lemma sends_set_extension_id: "ok (plain_call from venue SetExtensionIdOp) \<Longrightarrow> sends_only ok (SetExtensionId vn from venue)"
  unfolding SetExtensionId_def [abs_def] Let_def by (intro sends_do sends_if sends_tx sends)

lemma sends_balance [sends]: "sends_only ok (mustBalance vv who b)"
  by (simp add: mustBalance_def sends)

lemma sends_submitSealed: "(\<And>c. ok (instruction_call who venue (SubmitOrderOp c))) \<Longrightarrow> sends_only ok (submitSealed vv env k who venue order)"
  unfolding submitSealed_def [abs_def] SubmitOrder_def
  by (intro sends_do sends_map sends_pair sends_if sends_instruction sends)

lemma no_tokens_calls [simp]:
  "no_tokens (plain_call a b SetExtensionIdOp)" "no_tokens (plain_call a b (AddTeeOp t))"
  "no_tokens (instruction_call a b (SubmitOrderOp c))" "no_tokens (instruction_call a b RunBatchOp)"
  "no_tokens (settle_call a b r)"
  by (simp_all add: no_tokens_def plain_call_def instruction_call_def settle_call_def)

lemma sends_wire [sends]: "sends_only no_tokens (wire_venue vv env a venue)"
  unfolding wire_venue_def [abs_def]
  by (intro sends_do sends_handle sends_sum sends_if sends_set_extension_id sends_must_send no_tokens_calls sends)

lemma sends_clear [sends]: "sends_only no_tokens (clear_and_check vv env k a b venue bid ask_price)"
  unfolding clear_and_check_def [abs_def] RunBatch_def
  by (intro sends_do sends_map sends_pair sends_if sends_submitSealed sends_instruction no_tokens_calls sends)

lemma sends_settle [sends]: "sends_only no_tokens (settle_and_check vv a b venue batch r p)"
  unfolding settle_and_check_def [abs_def] Let_def
  by (intro sends_do sends_if sends_if_at sends_must_send no_tokens_calls sends)

text \<open>Funding sends nothing where the trader has what the test needs.\<close>

definition funded :: "('z) venue_view_scheme \<Rightarrow> address \<Rightarrow> address \<Rightarrow> bool" where
  "funded vv a b \<longleftrightarrow> (\<forall>w. (\<exists>v. vv_quote_balance vv w a = Inr v \<and> needQuote \<le> v) \<and> (\<exists>v. vv_base_balance vv w b = Inr v \<and> needBase \<le> v))"

lemma funded_skips:
  assumes "funded vv a b"
  shows "fund_quote vv env a q t venue = ret ()" "fund_base vv env a b q t venue = ret ()"
proof -
  show "fund_quote vv env a q t venue = ret ()"
  proof
    fix w
    obtain v where "vv_quote_balance vv w a = Inr v" "needQuote \<le> v" using assms by (auto simp: funded_def)
    then show "fund_quote vv env a q t venue w = ret () w" by (simp add: fund_quote_def mustBalance_def ask_def)
  qed
  show "fund_base vv env a b q t venue = ret ()"
  proof
    fix w
    obtain v where "vv_base_balance vv w b = Inr v" "needBase \<le> v" using assms by (auto simp: funded_def)
    then show "fund_base vv env a b q t venue w = ret () w" by (simp add: fund_base_def mustBalance_def ask_def)
  qed
qed

text \<open>Re-running the test burns nothing: with both traders funded, whatever its outcome, a run
  of \<^verbatim>\<open>run-test\<close> sends no mint, no transfer, no approval and no deposit.\<close>

theorem funded_test_moves_no_tokens:
  assumes "de_account env = Inr a" and "de_key env (trim_prefix keyF ''0x'') = Inr b" and "funded vv a b"
    and "run_test vv env to_address venueF baseF quoteF keyF w = (r, w')"
  shows "\<exists>cs. w' = w @ cs \<and> list_all (\<lambda>c. spends_nothing (vc_op c)) cs"
proof -
  have "run_test vv env to_address venueF baseF quoteF keyF = (\<lambda>w0. then_do (wire_venue vv env a (to_address venueF) w0) (\<lambda>k w3.
      then_do (ret () w3) (\<lambda>_ w4. then_do (ret () w4) (\<lambda>_ w5. then_do (ask (vv_batch_id vv) w5) (\<lambda>batchID w6.
      then_do (given (scaled_checked ''1.06'') w6) (\<lambda>bid w7. then_do (given (scaled_checked ''1.02'') w7) (\<lambda>ask_price w8.
      then_do (clear_and_check vv env k a b (to_address venueF) bid ask_price w8) (\<lambda>(settlement, price) w9.
        settle_and_check vv a b (to_address venueF) batchID settlement price w9))))))))"
    unfolding run_test_def [abs_def] Let_def
    by (simp add: assms(1,2) given_def funded_skips [OF assms(3)])
  moreover have "sends_only no_tokens \<dots>"
    by (intro sends_do sends_pair sends)
  ultimately have "sends_only no_tokens (run_test vv env to_address venueF baseF quoteF keyF)" by simp
  then show ?thesis using assms(4) sends_onlyD [of no_tokens] unfolding no_tokens_def [abs_def] by metis
qed

section \<open>What a passed test means\<close>

lemma must_send_ok: "must_send nt g what c w = (Inr u, w') \<Longrightarrow> w' = w @ [c] \<and> executed nt w c"
  by (auto simp: must_send_def mustMine_def wait_mined_def setup_steps intro: executedI split: setup_splits)

lemma settle_and_check_ok:
  assumes "settle_and_check vv a c venue batch r p w = (Inr (gb, gq), w')"
  obtains x y fee where "w' = w @ [settle_call a venue r]" "executed vv w (settle_call a venue r)"
    "vv_base_balance vv w a = Inr x" "vv_base_balance vv w' a = Inr (x + test_size)"
    "vv_quote_balance vv w c = Inr y" "vv_fee_bps vv w' = Inr fee"
    "vv_quote_balance vv w' c = Inr (y + (big_div (test_size * p) PriceScale - big_div (big_div (test_size * p) PriceScale * fee) 10000))"
    "vv_settled vv w' batch = Inr True"
  using assms
  by (auto simp: settle_and_check_def mustBalance_def ask_def then_do_Inr_iff Let_def fail_def ret_def
      dest!: must_send_ok split: if_splits)

lemma clear_and_check_ok:
  assumes "clear_and_check vv env k a c venue bid ask_price w = (Inr (r, p), w')"
  shows "cb_clearing_price r = Some p \<and> ask_price \<le> p \<and> p \<le> bid \<and> length (cb_signature r) = 65"
  using assms
  by (auto simp: clear_and_check_def given_def then_do_Inr_iff fail_def ret_def from_option_def split: if_splits prod.splits option.splits)

text \<open>(C33) ``All tests passed'' is a statement about the chain: when \<^verbatim>\<open>run-test\<close> succeeds, the last
  transaction is the settlement the enclave signed with 65 bytes, it was executed, its price
  lies between the two limits, the buyer's base balance grew by exactly the size, the
  seller's quote balance by the notional less the fee at the rate on chain, and the chain
  marks the batch that was current before the orders as settled.\<close>

theorem passed_test_means:
  assumes "run_test vv env to_address venueF baseF quoteF keyF w = (Inr gains, w')"
  shows "\<exists>a c w1 r p x y fee. de_account env = Inr a \<and> de_key env (trim_prefix keyF ''0x'') = Inr c
    \<and> w' = w1 @ [settle_call a (to_address venueF) r] \<and> executed vv w1 (settle_call a (to_address venueF) r)
    \<and> cb_clearing_price r = Some p \<and> 1020000000000000000 \<le> p \<and> p \<le> 1060000000000000000 \<and> length (cb_signature r) = 65
    \<and> vv_base_balance vv w1 a = Inr x \<and> vv_base_balance vv w' a = Inr (x + test_size)
    \<and> vv_quote_balance vv w1 c = Inr y \<and> vv_fee_bps vv w' = Inr fee
    \<and> vv_quote_balance vv w' c = Inr (y + (big_div (test_size * p) PriceScale - big_div (big_div (test_size * p) PriceScale * fee) 10000))
    \<and> (\<exists>w0 batch. vv_batch_id vv w0 = Inr batch \<and> vv_settled vv w' batch = Inr True)"
proof -
  obtain a c k bid ask_price batch r p w0 w8 w1 gb gq where
    keys: "de_account env = Inr a" "de_key env (trim_prefix keyF ''0x'') = Inr c"
    and limits: "scaled_checked ''1.06'' = Inr bid" "scaled_checked ''1.02'' = Inr ask_price"
    and batch: "vv_batch_id vv w0 = Inr batch"
    and clear: "clear_and_check vv env k a c (to_address venueF) bid ask_price w8 = (Inr (r, p), w1)"
    and settle: "settle_and_check vv a c (to_address venueF) batch r p w1 = (Inr (gb, gq), w')"
    using assms
    by (cases gains) (auto simp: run_test_def Let_def then_do_Inr_iff given_def ask_def)
  have "bid = 1060000000000000000" "ask_price = 1020000000000000000"
    using limits by (simp_all add: scaled_checked_def ladder_texts)
  with clear_and_check_ok [OF clear] have price: "cb_clearing_price r = Some p" "1020000000000000000 \<le> p"
    "p \<le> 1060000000000000000" "length (cb_signature r) = 65" by simp_all
  from settle show ?thesis
    by (rule settle_and_check_ok) (use keys batch price in blast)
qed

section \<open>A concrete venue\<close>

text \<open>
  Every transaction is accepted and executed; settling credits the two traders, at a fee of
  10 basis points; the enclave acknowledges orders and clears the pair at 1.02.
\<close>

fun is_settle :: "venue_op \<Rightarrow> bool" where
  "is_settle (SettleOp _ _) = True"
| "is_settle _ = False"

fun is_run :: "venue_op \<Rightarrow> bool" where
  "is_run RunBatchOp = True"
| "is_run _ = False"

definition demo_ack :: SubmitOrderResponse where
  "demo_ack = \<lparr>sa_order_id = 1, sa_batch_id = 5, sa_accepted = True, sa_book_depth = 1\<rparr>"

definition demo_batch_reply :: RunBatchResponse where
  "demo_batch_reply = run_response demo_run (pair_settlement 10 11 1020000000000000000 test_size 0) ''m'' demo_signature"

definition demo_result :: "venue_call list \<Rightarrow> ActionResult" where
  "demo_result w = \<lparr>ar_id = 0, ar_submission_tag = [], ar_version = [], ar_op_type = 0, ar_op_command = 0,
     ar_data = (if is_run (vc_op (last w)) then RunBatchResponse_json (demo_node (demo_tee [])) demo_batch_reply
                else SubmitOrderResponse_json demo_ack),
     ar_status = 1, ar_log = []\<rparr>"

definition demo_settled :: "venue_call list \<Rightarrow> bool" where
  "demo_settled w = list_ex (\<lambda>c. is_settle (vc_op c)) w"

definition demo_view :: venue_view where
  "demo_view =
     \<lparr>nt_transactor = None, nt_send = (\<lambda>w c. Inr 0), nt_answers = (\<lambda>w h. demo_answers), nt_simulate = (\<lambda>w c. None),
      nt_unpack = (\<lambda>_. None), nt_hash_hex = (\<lambda>_. []),
      vn_bind = None, vn_created = (\<lambda>_. 0), vn_parse_sent = (\<lambda>_. Inr 1),
      vv_tee_address = (\<lambda>_. Inr 77), vv_batch_id = (\<lambda>_. Inr 5), vv_order_count = (\<lambda>_ _. Inr 2),
      vv_base_balance = (\<lambda>w a. Inr (needBase + (if a = 10 \<and> demo_settled w then test_size else 0))),
      vv_quote_balance = (\<lambda>w a. Inr (needQuote + (if a = 11 \<and> demo_settled w then 3056940 else 0))),
      vv_fee_bps = (\<lambda>_. Inr 10), vv_settled = (\<lambda>w b. Inr (demo_settled w)),
      vv_result = (\<lambda>w h i. Inr (demo_result w))\<rparr>"

lemma demo_poll: "pollResult_test (\<lambda>i. Inr (demo_result w)) = Inr (demo_result w)"
proof -
  have "ar_status (demo_result w) = 1" by (simp add: demo_result_def)
  then have "poll_test (\<lambda>i. Inr (demo_result w)) 0 (Suc n) None = Inr (demo_result w)" for n by simp
  from this [of 29] show ?thesis by (simp add: pollResult_test_def)
qed

lemma demo_ack_decodes:
  "decode_ack (SubmitOrderResponse_json demo_ack) = Some \<lparr>ck_order_id = 1, ck_batch_id = 5, ck_accepted = True, ck_book_depth = 1\<rparr>"
  using ack_reply_roundtrip [of demo_ack] by (simp add: demo_ack_def)

lemma demo_batch_decodes:
  "decode_batch demo_to_address (RunBatchResponse_json (demo_node (demo_tee [])) demo_batch_reply) = Some (client_batch demo_batch_reply)"
  by (rule batch_reply [OF demo_node_addresses]) (simp_all add: demo_batch_reply_def run_response_def pair_settlement_def)

lemma demo_send: "sendInstruction demo_view from venue name op w = (Inr (1, 0), w @ [instruction_call from venue op])"
  by (simp add: sendInstruction_def bound_def setup_steps wait_mined_def demo_view_def demo_answers_def demo_receipt_def Let_def)

lemma contains_subset: "contains s p \<Longrightarrow> set p \<subseteq> set s"
proof (induction s)
  case (Cons c cs)
  have "set p \<subseteq> set (c # cs)" if "has_prefix (c # cs) p"
    using that set_take_subset [of "length p" "c # cs"] by (simp add: has_prefix_def)
  then show ?case using Cons by auto
qed simp

lemma dec_nat_tens: "0 < n \<Longrightarrow> CHR ''0'' \<in> set (dec_nat (10 * n))"
  by (subst dec_nat.simps) (simp add: digit_char_0)

lemma demo_no_leak:
  "\<not> contains (SubmitOrderResponse_json demo_ack) (big_string 1060000000000000000)"
  "\<not> contains (SubmitOrderResponse_json demo_ack) (big_string 1020000000000000000)"
  "\<not> contains (SubmitOrderResponse_json demo_ack) (big_string test_size)"
proof -
  have "dec_nat 1 = [digit_char 1]" "dec_nat 5 = [digit_char 5]" by (subst dec_nat.simps, simp)+
  moreover have "digit_char 1 \<noteq> CHR ''0''" "digit_char 5 \<noteq> CHR ''0''" by (simp_all add: digit_char_0_iff)
  ultimately have ack: "CHR ''0'' \<notin> set (SubmitOrderResponse_json demo_ack)"
    by (simp add: SubmitOrderResponse_json_def demo_ack_def json_object_def json_quote_def u64_text_def)
  have "CHR ''0'' \<in> set (big_string (int (10 * n)))" if "0 < n" for n
    using dec_nat_tens [OF that] by (simp add: big_string_def nat_mult_distrib)
  from this [of 106000000000000000] this [of 102000000000000000] this [of 300000] ack
  show "\<not> contains (SubmitOrderResponse_json demo_ack) (big_string 1060000000000000000)"
    "\<not> contains (SubmitOrderResponse_json demo_ack) (big_string 1020000000000000000)"
    "\<not> contains (SubmitOrderResponse_json demo_ack) (big_string test_size)"
    by (auto simp: test_size_def sixDecimals_def dest: contains_subset)
qed

abbreviation demo_sealed_by :: "address \<Rightarrow> side \<Rightarrow> int \<Rightarrow> string \<Rightarrow> bytes" where
  "demo_sealed_by a sd limit nonce \<equiv> sealed_json (test_order demo_client_env a sd limit nonce)"

definition demo_calls :: "venue_call list" where
  "demo_calls =
     [plain_call 10 99 SetExtensionIdOp,
      instruction_call 10 99 (SubmitOrderOp (demo_sealed_by 10 0 1060000000000000000 ''1'')),
      instruction_call 11 99 (SubmitOrderOp (demo_sealed_by 11 1 1020000000000000000 ''2'')),
      instruction_call 10 99 RunBatchOp]"

lemma demo_wire: "wire_venue demo_view demo_client_env 10 99 w = (Inr ''k'', w @ [plain_call 10 99 SetExtensionIdOp])"
  by (simp add: wire_venue_def SetExtensionId_def bound_def setup_steps wait_mined_def demo_view_def demo_client_env_def
      demo_answers_def demo_receipt_def Let_def)

lemma demo_funded: "funded demo_view 10 11"
  by (simp add: funded_def demo_view_def test_size_def sixDecimals_def)

lemma demo_views:
  "vv_result demo_view w h = (\<lambda>i. Inr (demo_result w))" "vv_batch_id demo_view w = Inr 5"
  "vv_base_balance demo_view w a = Inr (needBase + (if a = 10 \<and> demo_settled w then test_size else 0))"
  "vv_quote_balance demo_view w a = Inr (needQuote + (if a = 11 \<and> demo_settled w then 3056940 else 0))"
  "vv_fee_bps demo_view w = Inr 10" "vv_settled demo_view w b = Inr (demo_settled w)"
  by (simp_all add: demo_view_def)

lemma demo_env_simps:
  "de_encrypt demo_client_env k m = Inr m" "de_json_address demo_client_env = demo_to_address"
  "de_account demo_client_env = Inr 10" "de_key demo_client_env s = Inr 11"
  by (simp_all add: demo_client_env_def)

lemma demo_submit_sealed:
  assumes "\<not> contains (SubmitOrderResponse_json demo_ack) (big_string limit)"
  shows "\<exists>ack. submitSealed demo_view demo_client_env k a 99 (test_order demo_client_env a sd limit nonce) w =
    (Inr ack, w @ [instruction_call a 99 (SubmitOrderOp (demo_sealed_by a sd limit nonce))])"
proof -
  let ?w = "w @ [instruction_call a 99 (SubmitOrderOp (demo_sealed_by a sd limit nonce))]"
  have data: "ar_data (demo_result ?w) = SubmitOrderResponse_json demo_ack"
    by (simp add: demo_result_def instruction_call_def)
  show ?thesis
    using assms demo_no_leak(3)
    by (simp add: submitSealed_def SubmitOrder_def demo_send demo_env_simps demo_views demo_poll data demo_ack_decodes
        given_def ask_def ret_def fail_def from_option_def) (simp add: test_order_def)
qed

lemma demo_clear_checked:
  "clear_and_check demo_view demo_client_env k 10 11 99 1060000000000000000 1020000000000000000 [plain_call 10 99 SetExtensionIdOp] =
    (Inr (client_batch demo_batch_reply, 1020000000000000000), demo_calls)"
proof -
  let ?one = "instruction_call 10 99 (SubmitOrderOp (demo_sealed_by 10 0 1060000000000000000 ''1''))"
  let ?two = "instruction_call 11 99 (SubmitOrderOp (demo_sealed_by 11 1 1020000000000000000 ''2''))"
  obtain a1 where 1: "submitSealed demo_view demo_client_env k 10 99 (test_order demo_client_env 10 0 1060000000000000000 ''1'')
      [plain_call 10 99 SetExtensionIdOp] = (Inr a1, [plain_call 10 99 SetExtensionIdOp, ?one])"
    using demo_submit_sealed [OF demo_no_leak(1), of k 10 0 "''1''" "[plain_call 10 99 SetExtensionIdOp]"] by auto
  obtain a2 where 2: "submitSealed demo_view demo_client_env k 11 99 (test_order demo_client_env 11 1 1020000000000000000 ''2'')
      [plain_call 10 99 SetExtensionIdOp, ?one] = (Inr a2, [plain_call 10 99 SetExtensionIdOp, ?one, ?two])"
    using demo_submit_sealed [OF demo_no_leak(2), of k 11 1 "''2''" "[plain_call 10 99 SetExtensionIdOp, ?one]"] by auto
  have 3: "RunBatch demo_view 10 99 [plain_call 10 99 SetExtensionIdOp, ?one, ?two] = (Inr (1, 0), demo_calls)"
    by (simp add: RunBatch_def demo_send demo_calls_def)
  have data: "ar_data (demo_result demo_calls) = RunBatchResponse_json (demo_node (demo_tee [])) demo_batch_reply"
    by (simp add: demo_result_def demo_calls_def instruction_call_def)
  have cleared: "cb_clearing_price (client_batch demo_batch_reply) = Some 1020000000000000000"
    "length (cb_signature (client_batch demo_batch_reply)) = 65"
    by (simp_all add: client_batch_def demo_batch_reply_def run_response_def pair_settlement_def demo_signature_def)
  show ?thesis
    by (simp add: clear_and_check_def 1 2 3 data cleared demo_views demo_poll
        demo_env_simps demo_batch_decodes given_def ask_def ret_def from_option_def)
qed

lemma demo_run_test:
  "run_test demo_view demo_client_env (\<lambda>_. 99) [] [] [] [] [] =
    (Inr (test_size, 3056940), demo_calls @ [settle_call 10 99 (client_batch demo_batch_reply)])"
proof -
  have wired: "wire_venue demo_view demo_client_env 10 99 [] = (Inr ''k'', [plain_call 10 99 SetExtensionIdOp])"
    using demo_wire [of "[]"] by simp
  have before: "\<not> demo_settled demo_calls"
    by (simp add: demo_settled_def demo_calls_def plain_call_def instruction_call_def)
  have settled: "demo_settled (demo_calls @ [settle_call 10 99 r])" for r
    by (simp add: demo_settled_def settle_call_def)
  have "must_send demo_view reword what c w = (Inr (), w @ [c])" for reword what c w
    by (simp add: must_send_def mustMine_def setup_steps wait_mined_def demo_view_def demo_answers_def demo_receipt_def)
  then have checked: "settle_and_check demo_view 10 11 99 5 (client_batch demo_batch_reply) 1020000000000000000 demo_calls =
      (Inr (test_size, 3056940), demo_calls @ [settle_call 10 99 (client_batch demo_batch_reply)])"
    using before settled
    by (simp add: settle_and_check_def mustBalance_def demo_views ask_def ret_def Let_def)
       (simp add: test_size_def sixDecimals_def big_div_def PriceScale_def)
  show ?thesis
    by (simp add: run_test_def demo_env_simps given_def ret_def wired funded_skips [OF demo_funded] ask_def demo_views
        scaled_checked_def ladder_texts demo_clear_checked checked)
qed

theorem funded_test_moves_no_tokens_witness:
  "\<exists>cs. demo_calls @ [settle_call 10 99 (client_batch demo_batch_reply)] = [] @ cs \<and> list_all (\<lambda>c. spends_nothing (vc_op c)) cs"
  using funded_test_moves_no_tokens [OF _ _ demo_funded demo_run_test]
  by (simp add: demo_env_simps)

theorem passed_test_means_witness:
  "\<exists>a c w1 r p. de_account demo_client_env = Inr a \<and> de_key demo_client_env [] = Inr c
    \<and> demo_calls @ [settle_call 10 99 (client_batch demo_batch_reply)] = w1 @ [settle_call a 99 r]
    \<and> cb_clearing_price r = Some p \<and> p \<le> 1060000000000000000"
proof -
  have "trim_prefix [] ''0x'' = []" by (simp add: trim_prefix_def has_prefix_def)
  with passed_test_means [OF demo_run_test] show ?thesis by auto
qed

end
