(* ===== verification/Support.thy ===== *)
theory Support
  imports Client_Wire Checks
begin

text \<open>
  What every tool starts from: \<^verbatim>\<open>tools/pkg/configs/configs.go\<close> and the part of
  \<^verbatim>\<open>tools/pkg/support/support.go\<close> that reads the addresses, the deployer's key and the
  contract bindings. The environment of a process is a map; \<^verbatim>\<open>godotenv.Load\<close> never overrides
  a variable that is set.
\<close>

section \<open>Environment\<close>

type_synonym env = "string \<rightharpoonup> string"

definition Getenv :: "env \<Rightarrow> string \<Rightarrow> string" where
  "Getenv e k = (case e k of Some v \<Rightarrow> v | None \<Rightarrow> [])"

text \<open>\<open>dotenv\<close> reads and parses a file; its error leaves the environment alone.\<close>

definition godotenv_Load :: "(string \<Rightarrow> err + env) \<Rightarrow> string \<Rightarrow> env \<Rightarrow> err option \<times> env" where
  "godotenv_Load dotenv path e = (case dotenv path of Inl t \<Rightarrow> (Some t, e) | Inr vars \<Rightarrow> (None, vars ++ e))"

section \<open>configs.go\<close>

definition AddressesFile :: string where "AddressesFile = ''../docker/sim_dump/deployed-addresses.json''"
definition ExtensionProxyURL :: string where "ExtensionProxyURL = ''http://localhost:6664''"
definition ChainNodeURL :: string where "ChainNodeURL = ''http://127.0.0.1:8545''"

definition dev_key :: string where
  "dev_key = ''804b01a8c27a65cc694a867be76edae3ccce7a7161cda1f67a8349df696d2207''"

text \<open>\<open>to_ecdsa\<close> is \<^verbatim>\<open>crypto.HexToECDSA\<close>; a failure here is a panic before \<^verbatim>\<open>main\<close>.\<close>

definition PrvWithFunds :: "(string \<Rightarrow> err + private_key) \<Rightarrow> err + private_key" where
  "PrvWithFunds to_ecdsa = map_err (\<lambda>_. ''cannot read privateKey with funds'') (to_ecdsa dev_key)"

section \<open>Addresses\<close>

record Addresses =
  ad_systems_manager :: address
  ad_fdc2_hub :: address
  ad_tee_manager :: address

definition no_addresses :: Addresses where
  "no_addresses = \<lparr>ad_systems_manager = 0, ad_fdc2_hub = 0, ad_tee_manager = 0\<rparr>"

text \<open>The field's tag and the field: \<open>fieldMap\<close>, as its keys and the store through its pointers.\<close>

definition fieldMap :: "string list" where
  "fieldMap = [''FlareSystemsManager'', ''Fdc2Hub'', ''FlareTeeManager'']"

definition store_address :: "string \<Rightarrow> address \<Rightarrow> Addresses \<Rightarrow> Addresses" where
  "store_address f x a =
     (if f = ''FlareSystemsManager'' then a\<lparr>ad_systems_manager := x\<rparr>
      else if f = ''Fdc2Hub'' then a\<lparr>ad_fdc2_hub := x\<rparr>
      else a\<lparr>ad_tee_manager := x\<rparr>)"

text \<open>
  The file: what \<^verbatim>\<open>os.ReadFile\<close> returns for the path, the text of a JSON error, go-ethereum's
  JSON decoder of an address and its lenient \<^verbatim>\<open>HexToAddress\<close>.
\<close>

record address_files =
  af_read :: "string \<Rightarrow> err + string"
  af_json_error :: "string \<Rightarrow> err"
  af_json_address :: "json \<Rightarrow> address option"
  af_hex_to_address :: "string \<Rightarrow> address"

definition unmarshal_to :: "address_files \<Rightarrow> (json \<Rightarrow> 'r option) \<Rightarrow> string \<Rightarrow> err + 'r" where
  "unmarshal_to af decode s =
     (case Option.bind (json_unmarshal s) decode of None \<Rightarrow> Inl (af_json_error af s) | Some r \<Rightarrow> Inr r)"

definition decode_addresses :: "address_files \<Rightarrow> json \<Rightarrow> Addresses option" where
  "decode_addresses af =
     decode_struct fieldMap (\<lambda>f v a. map_option (\<lambda>x. store_address f x a) (af_json_address af v)) no_addresses"

definition ReadAddresses :: "address_files \<Rightarrow> string \<Rightarrow> err + Addresses" where
  "ReadAddresses af path = and_then (af_read af path) (unmarshal_to af (decode_addresses af))"

record RawContract =
  rc_name :: string
  rc_contract_name :: string
  rc_address :: string

definition set_raw :: "string \<Rightarrow> json \<Rightarrow> RawContract \<Rightarrow> RawContract option" where
  "set_raw f v r =
     (if f = ''name'' then map_option (\<lambda>x. r\<lparr>rc_name := x\<rparr>) (json_to_string v (rc_name r))
      else if f = ''contractName'' then map_option (\<lambda>x. r\<lparr>rc_contract_name := x\<rparr>) (json_to_string v (rc_contract_name r))
      else map_option (\<lambda>x. r\<lparr>rc_address := x\<rparr>) (json_to_string v (rc_address r)))"

definition decode_raw :: "json \<Rightarrow> RawContract option" where
  "decode_raw =
     decode_struct [''name'', ''contractName'', ''address''] set_raw
       \<lparr>rc_name = [], rc_contract_name = [], rc_address = []\<rparr>"

fun place_all :: "(string \<Rightarrow> address) \<Rightarrow> RawContract list \<Rightarrow> Addresses \<Rightarrow> Addresses" where
  "place_all to_address [] a = a"
| "place_all to_address (c # cs) a =
     place_all to_address cs (if rc_name c \<in> set fieldMap then store_address (rc_name c) (to_address (rc_address c)) a else a)"

definition ParseAddresses :: "address_files \<Rightarrow> string \<Rightarrow> err + Addresses" where
  "ParseAddresses af path =
     and_then (and_then (af_read af path) (unmarshal_to af (json_to_slice decode_raw)))
       (\<lambda>raw. Inr (place_all (af_hex_to_address af) raw no_addresses))"

text \<open>The two readers in \<open>DefaultSupport\<close>'s order.\<close>

definition load_addresses :: "address_files \<Rightarrow> string \<Rightarrow> err + Addresses" where
  "load_addresses af path =
     (case ReadAddresses af path of Inr a \<Rightarrow> Inr a | Inl _ \<Rightarrow> ParseAddresses af path)"

section \<open>The deployer's key\<close>

definition strip_0x :: "string \<Rightarrow> string" where
  "strip_0x s = (if has_prefix s ''0x'' \<or> has_prefix s ''0X'' then drop 2 s else s)"

definition DefaultPrivateKey ::
  "(string \<Rightarrow> err + env) \<Rightarrow> (string \<Rightarrow> err + private_key) \<Rightarrow> private_key \<Rightarrow> env \<Rightarrow> (err + private_key) \<times> env" where
  "DefaultPrivateKey dotenv to_ecdsa funds e =
     (let e1 = snd (godotenv_Load dotenv ''.env'' e); k = Getenv e1 ''DEPLOYMENT_PRIVATE_KEY'' in
      (if k = [] then Inr funds else to_ecdsa (strip_0x k), e1))"

section \<open>Bindings\<close>

text \<open>\<open>NewSupport\<close>'s bindings in its order, each with the contract it is bound to.\<close>

definition bindings :: "Addresses \<Rightarrow> (string \<times> address) list" where
  "bindings a =
     [(''MachineManager'', ad_tee_manager a), (''WalletManager'', ad_tee_manager a),
      (''WalletKeyManager'', ad_tee_manager a), (''WalletProjectManager'', ad_tee_manager a),
      (''FlareSystemsManager'', ad_systems_manager a), (''Fdc2Hub'', ad_fdc2_hub a),
      (''Verification'', ad_tee_manager a), (''ExtensionManager'', ad_tee_manager a),
      (''OwnerAllowlist'', ad_tee_manager a), (''ExtensionGovernance'', ad_tee_manager a)]"

fun bind_all :: "(string \<Rightarrow> address \<Rightarrow> err option) \<Rightarrow> (string \<times> address) list \<Rightarrow> err option" where
  "bind_all b [] = None"
| "bind_all b ((n, a) # bs) = (case b n a of Some e \<Rightarrow> Some e | None \<Rightarrow> bind_all b bs)"

record support =
  s_prv :: private_key
  s_addresses :: Addresses
  s_chain :: chain_client
  s_chain_id :: int

definition NewSupport ::
  "(string \<Rightarrow> address \<Rightarrow> err option) \<Rightarrow> private_key \<Rightarrow> chain_client \<Rightarrow> Addresses \<Rightarrow> err + support" where
  "NewSupport b prv cc a =
     (case bind_all b (bindings a) of
        Some e \<Rightarrow> Inl e
      | None \<Rightarrow> and_then (ChainID cc) (\<lambda>i. Inr \<lparr>s_prv = prv, s_addresses = a, s_chain = cc, s_chain_id = i\<rparr>))"

record start =
  st_files :: address_files
  st_dial :: "string \<Rightarrow> err + chain_client"
  st_dotenv :: "string \<Rightarrow> err + env"
  st_to_ecdsa :: "string \<Rightarrow> err + private_key"
  st_funds :: private_key
  st_bind :: "string \<Rightarrow> address \<Rightarrow> err option"

definition DefaultSupport :: "start \<Rightarrow> string \<Rightarrow> string \<Rightarrow> env \<Rightarrow> (err + support) \<times> env" where
  "DefaultSupport st path url e =
     (case load_addresses (st_files st) path of
        Inl t \<Rightarrow> (Inl t, e)
      | Inr a \<Rightarrow>
        (case st_dial st url of
           Inl t \<Rightarrow> (Inl t, e)
         | Inr cc \<Rightarrow>
           (case DefaultPrivateKey (st_dotenv st) (st_to_ecdsa st) (st_funds st) e of
              (Inl t, e1) \<Rightarrow> (Inl t, e1)
            | (Inr k, e1) \<Rightarrow> (NewSupport (st_bind st) k cc a, e1))))"

section \<open>Either layout of the addresses file\<close>

text \<open>The address a field holds, by the field's key.\<close>

definition address_at :: "string \<Rightarrow> Addresses \<Rightarrow> address" where
  "address_at f a =
     (if f = ''FlareSystemsManager'' then ad_systems_manager a
      else if f = ''Fdc2Hub'' then ad_fdc2_hub a
      else ad_tee_manager a)"

text \<open>A key that names a field does so letter by letter; any other key differs from all by more than case.\<close>

definition plain_key :: "string \<Rightarrow> bool" where
  "plain_key k \<longleftrightarrow> k \<in> set fieldMap \<or> (\<forall>n \<in> set fieldMap. fold_name n \<noteq> fold_name k)"

lemma fieldMap_field: "plain_key k \<Longrightarrow> json_field fieldMap k = (if k \<in> set fieldMap then Some k else None)"
proof -
  assume plain: "plain_key k"
  have exact: "find (\<lambda>n. n = k) ns = (if k \<in> set ns then Some k else None)" for ns
    by (induction ns) auto
  have "find (\<lambda>n. fold_name n = fold_name k) fieldMap = None" if "k \<notin> set fieldMap"
    using that plain unfolding plain_key_def find_None_iff by blast
  then show ?thesis unfolding json_field_def exact by simp
qed

definition object_layout :: "(string \<times> string) list \<Rightarrow> json" where
  "object_layout kts = JObj (map (\<lambda>(k, t). (k, JStr t)) kts)"

definition array_layout :: "(string \<times> string) list \<Rightarrow> json" where
  "array_layout kts =
     JArr (map (\<lambda>(k, t). JObj [(''name'', JStr k), (''contractName'', JStr k), (''address'', JStr t)]) kts)"

lemma object_layout_decodes:
  assumes "\<forall>(k, t) \<in> set kts. plain_key k \<and> (k \<in> set fieldMap \<longrightarrow> af_json_address af (JStr t) = Some (af_hex_to_address af t))"
  shows "decode_fields fieldMap (\<lambda>f v a. map_option (\<lambda>x. store_address f x a) (af_json_address af v))
      (map (\<lambda>(k, t). (k, JStr t)) kts) a =
    Some (place_all (af_hex_to_address af) (map (\<lambda>(k, t). \<lparr>rc_name = k, rc_contract_name = k, rc_address = t\<rparr>) kts) a)"
  using assms
proof (induction kts arbitrary: a)
  case (Cons kt kts)
  obtain k t where kt: "kt = (k, t)" by fastforce
  have "plain_key k" "k \<in> set fieldMap \<Longrightarrow> af_json_address af (JStr t) = Some (af_hex_to_address af t)"
    using Cons.prems kt by auto
  then show ?case using Cons kt by (simp add: fieldMap_field)
qed simp

lemma array_layout_decodes:
  "json_to_slice decode_raw (array_layout kts) =
    Some (map (\<lambda>(k, t). \<lparr>rc_name = k, rc_contract_name = k, rc_address = t\<rparr>) kts)"
proof -
  have "those (map (\<lambda>v. decode_raw (case v of (k, t) \<Rightarrow> JObj [(''name'', JStr k), (''contractName'', JStr k), (''address'', JStr t)])) kts) =
      Some (map (\<lambda>(k, t). \<lparr>rc_name = k, rc_contract_name = k, rc_address = t\<rparr>) kts)"
    by (induction kts) (auto simp: decode_raw_def decode_struct_def json_field_def set_raw_def json_to_string_def)
  then show ?thesis by (simp add: array_layout_def json_to_slice_def comp_def)
qed

text \<open>The two layouts of the addresses file are interchangeable: an object of names and
  addresses and the array of contract entries with the same names load as the same addresses,
  later entries overriding earlier ones and unknown names ignored, provided the strict and
  the lenient reader of addresses agree on the texts and no name differs from a field only in
  case.\<close>

theorem address_layouts_agree:
  assumes "\<forall>(k, t) \<in> set kts. plain_key k \<and> (k \<in> set fieldMap \<longrightarrow> af_json_address af (JStr t) = Some (af_hex_to_address af t))"
    and "af_read af p = Inr s" "json_unmarshal s = Some (object_layout kts)"
    and "af_read af q = Inr t" "json_unmarshal t = Some (array_layout kts)"
  shows "load_addresses af p = load_addresses af q \<and> (\<exists>a. load_addresses af q = Inr a \<and>
    (\<forall>f \<in> set fieldMap. address_at f a = (case map_of (rev kts) f of Some x \<Rightarrow> af_hex_to_address af x | None \<Rightarrow> 0)))"
proof -
  let ?raw = "map (\<lambda>(k, t). \<lparr>rc_name = k, rc_contract_name = k, rc_address = t\<rparr>) kts"
  let ?a = "place_all (af_hex_to_address af) ?raw no_addresses"
  have p: "load_addresses af p = Inr ?a"
    using object_layout_decodes [OF assms(1)] assms(2,3)
    by (simp add: load_addresses_def ReadAddresses_def unmarshal_to_def decode_addresses_def decode_struct_def object_layout_def)
  have "decode_addresses af (array_layout kts) = None"
    by (simp add: decode_addresses_def decode_struct_def array_layout_def)
  then have q: "load_addresses af q = Inr ?a"
    using array_layout_decodes [of kts] assms(4,5)
    by (simp add: load_addresses_def ReadAddresses_def ParseAddresses_def unmarshal_to_def)
  have "address_at f (place_all h (map (\<lambda>(k, t). \<lparr>rc_name = k, rc_contract_name = k, rc_address = t\<rparr>) kts) a) =
      (case map_of (rev kts) f of Some x \<Rightarrow> h x | None \<Rightarrow> address_at f a)" if "f \<in> set fieldMap" for f h a
    using that
  proof (induction kts arbitrary: a)
    case (Cons kt kts)
    obtain k t where kt: "kt = (k, t)" by fastforce
    have "address_at f (if k \<in> set fieldMap then store_address k (h t) a else a) = (if k = f then h t else address_at f a)"
      using Cons.prems by (auto simp: address_at_def store_address_def fieldMap_def)
    then have "(case map_of (rev kts) f of None \<Rightarrow> address_at f (if k \<in> set fieldMap then store_address k (h t) a else a)
        | Some x \<Rightarrow> h x) = (case map_of (rev (kt # kts)) f of None \<Rightarrow> address_at f a | Some x \<Rightarrow> h x)"
      using kt by (simp only:) (simp add: map_add_def split: option.splits)
    then show ?case using Cons.IH [OF Cons.prems, of "if k \<in> set fieldMap then store_address k (h t) a else a"] kt
      by (simp split del: if_split del: rev.simps cong: if_cong)
  qed simp
  from this [of _ "af_hex_to_address af" no_addresses] show ?thesis
    using p q by (auto simp: address_at_def no_addresses_def split: option.splits)
qed

text \<open>Two files that name the hub, one in each layout.\<close>

definition object_file :: string where
  "object_file = json_object [(''Fdc2Hub'', json_quote ''7'')]"

definition array_file :: string where
  "array_file = CHR 0x5B # json_object [(''name'', json_quote ''Fdc2Hub''), (''contractName'', json_quote ''Fdc2Hub''),
     (''address'', json_quote ''7'')] @ [CHR 0x5D]"

definition demo_address_files :: address_files where
  "demo_address_files = \<lparr>af_read = (\<lambda>p. Inr (if p = ''o'' then object_file else array_file)), af_json_error = (\<lambda>_. []),
     af_json_address = demo_to_address, af_hex_to_address = (\<lambda>t. case scan_nat t of Some n \<Rightarrow> of_nat n | None \<Rightarrow> 0)\<rparr>"

lemma demo_address_files_read:
  "json_unmarshal object_file = Some (object_layout [(''Fdc2Hub'', ''7'')])"
  "json_unmarshal array_file = Some (array_layout [(''Fdc2Hub'', ''7'')])"
  by (simp_all add: json_unmarshal_def object_file_def array_file_def object_layout_def array_layout_def json_object_def plain_eval
      pda_simps lex_rec(1))

lemma demo_address_files_ok:
  "af_json_address demo_address_files (JStr ''7'') = Some 7" "af_hex_to_address demo_address_files ''7'' = 7"
  "af_read demo_address_files ''o'' = Inr object_file" "af_read demo_address_files ''a'' = Inr array_file"
  "\<forall>(k, t) \<in> set [(''Fdc2Hub'', ''7'')]. plain_key k \<and> (k \<in> set fieldMap \<longrightarrow>
     af_json_address demo_address_files (JStr t) = Some (af_hex_to_address demo_address_files t))"
proof -
  have "scan_nat ''7'' = Some 7" by (simp add: scan_nat_def digit_val_def code_of_def)
  then show seven: "af_json_address demo_address_files (JStr ''7'') = Some 7" "af_hex_to_address demo_address_files ''7'' = 7"
    by (simp_all add: demo_address_files_def demo_to_address_def)
  show "\<forall>(k, t) \<in> set [(''Fdc2Hub'', ''7'')]. plain_key k \<and> (k \<in> set fieldMap \<longrightarrow>
      af_json_address demo_address_files (JStr t) = Some (af_hex_to_address demo_address_files t))"
    by (simp add: seven plain_key_def fieldMap_def)
qed (simp_all add: demo_address_files_def)

lemma demo_addresses: "\<exists>a. load_addresses demo_address_files ''o'' = Inr a"
  using object_layout_decodes [OF demo_address_files_ok(5)] demo_address_files_ok(3) demo_address_files_read(1)
  by (simp add: load_addresses_def ReadAddresses_def unmarshal_to_def decode_addresses_def decode_struct_def object_layout_def)

theorem address_layouts_agree_witness:
  "load_addresses demo_address_files ''o'' = load_addresses demo_address_files ''a'' \<and>
    (\<exists>a. load_addresses demo_address_files ''a'' = Inr a \<and> ad_fdc2_hub a = 7 \<and> ad_tee_manager a = 0)"
  using address_layouts_agree [OF demo_address_files_ok(5,3) demo_address_files_read(1) demo_address_files_ok(4) demo_address_files_read(2)]
  by (auto simp: fieldMap_def address_at_def demo_address_files_ok)

section \<open>Precedence of the environment\<close>

text \<open>The process environment wins over the \<^verbatim>\<open>.env\<close> file, and the development key is
  used exactly when neither names a key.\<close>

lemma default_key:
  assumes "DefaultPrivateKey dotenv to_ecdsa funds e = (r, e1)"
  shows "(\<forall>k v. e k = Some v \<longrightarrow> e1 k = Some v)
    \<and> r = (if Getenv e1 ''DEPLOYMENT_PRIVATE_KEY'' = [] then Inr funds else to_ecdsa (strip_0x (Getenv e1 ''DEPLOYMENT_PRIVATE_KEY'')))"
  using assms by (auto simp: DefaultPrivateKey_def godotenv_Load_def Let_def split: sum.splits)

end
