(* ===== verification/Fxrp_Depth.thy ===== *)
theory Fxrp_Depth
  imports Decimals Checks
begin

text \<open>
  \<^verbatim>\<open>tools/cmd/fxrp-depth\<close>: what it reads of the chain, how it tolerates tokens and pools that
  do not answer, and the sums it prints. A call that cannot be packed ends the program; every
  other failure reads as nothing.
\<close>

section \<open>Reading contracts\<close>

text \<open>The Go values the ABI decoder produces for these methods.\<close>

datatype abi_value = AvBig int | AvU64 u64 | AvU8 u8 | AvAddress address | AvString string | AvOther

text \<open>
  The dial, the ABI's packing of a method with its arguments, \<^verbatim>\<open>eth_call\<close>, the unpacking, the
  block number, and \<^verbatim>\<open>HexToAddress\<close>.
\<close>

record reader =
  rd_dial :: "string \<Rightarrow> err option"
  rd_pack :: "string \<Rightarrow> address list \<Rightarrow> err + bytes"
  rd_call :: "address \<Rightarrow> bytes \<Rightarrow> err + bytes"
  rd_unpack :: "string \<Rightarrow> bytes \<Rightarrow> abi_value list option"
  rd_block :: "err + u64"
  rd_hex_to_address :: "string \<Rightarrow> address"

definition call :: "reader \<Rightarrow> address \<Rightarrow> string \<Rightarrow> address list \<Rightarrow> err + abi_value list" where
  "call r to method args =
     (case rd_pack r method args of
        Inl e \<Rightarrow> Inl (''pack '' @ method @ '': '' @ e)
      | Inr inp \<Rightarrow>
        (case rd_call r to inp of
           Inl e \<Rightarrow> Inr []
         | Inr out \<Rightarrow>
             if length out = 0 then Inr []
             else (case rd_unpack r method out of None \<Rightarrow> Inr [] | Some vals \<Rightarrow> Inr vals)))"

definition uint_of :: "abi_value list \<Rightarrow> int" where
  "uint_of v = (case v of AvBig n # _ \<Rightarrow> n | _ \<Rightarrow> 0)"

definition read_uint :: "reader \<Rightarrow> address \<Rightarrow> string \<Rightarrow> err + int" where
  "read_uint r to method = and_then (call r to method []) (\<lambda>v. Inr (uint_of v))"

definition balanceOf :: "reader \<Rightarrow> address \<Rightarrow> address \<Rightarrow> err + int" where
  "balanceOf r token who = and_then (call r token ''balanceOf'' [who]) (\<lambda>v. Inr (uint_of v))"

definition read_addr :: "reader \<Rightarrow> address \<Rightarrow> string \<Rightarrow> err + address" where
  "read_addr r to method =
     and_then (call r to method []) (\<lambda>v. Inr (case v of AvAddress a # _ \<Rightarrow> a | _ \<Rightarrow> 0))"

definition read_str :: "reader \<Rightarrow> address \<Rightarrow> string \<Rightarrow> err + string" where
  "read_str r to method =
     and_then (call r to method []) (\<lambda>v. Inr (case v of [] \<Rightarrow> ''?'' | AvString s # _ \<Rightarrow> s | _ \<Rightarrow> []))"

definition read_decimals :: "reader \<Rightarrow> address \<Rightarrow> err + nat" where
  "read_decimals r to =
     and_then (call r to ''decimals'' []) (\<lambda>v. Inr (case v of [] \<Rightarrow> 18 | AvU8 d # _ \<Rightarrow> unat d | _ \<Rightarrow> 0))"

section \<open>What is read\<close>

definition fxrpAddr :: string where "fxrpAddr = ''0xAd552A648C74D49E10027AB8a618A3ad4901c5bE''"

record holder =
  h_addr :: string
  h_name :: string
  h_note :: string

definition parked :: "holder list" where
  "parked =
     [\<lparr>h_addr = ''0x4C18Ff3C89632c3Dd62E796c0aFA5c07c4c1B2b3'', h_name = ''Firelight vault'', h_note = (''yield vault '' @ dash @ '' deposited, not quoted'')\<rparr>,
      \<lparr>h_addr = ''0xF4346F5132e810f80a28487a79c7559d9797E8B0'', h_name = ''Morpho'', h_note = ''lending collateral''\<rparr>,
      \<lparr>h_addr = ''0xD1b7A5eFa9bd88F291F7A4563a8f6185c0249CB3'', h_name = ''Kinetic'', h_note = ''lending collateral''\<rparr>,
      \<lparr>h_addr = ''0xd70659a6396285BF7214d7Ea9673184e7C72E07E'', h_name = ''LayerZero OFT adapter'', h_note = ''bridged off Flare''\<rparr>]"

definition pools :: "string list" where
  "pools =
     [''0x2a91D9296ee2fe4139b49c7071b2f29f59a9f9aE'',
      ''0xa4cE7dAfC6fB5acEEDd0070620b72aB8f09b0770'',
      ''0x927485d88a66253c63Af9163dca5f21c25A57393'',
      ''0x686f53F0950Ef193C887527eC027E6A574A4DbE1'',
      ''0x9f6c46f190351275e47D7aD8D3F2c9487569211E'',
      ''0xf02DBD2A21D8E6fe48a51eD51dDc0d4621db45D0'',
      ''0xb4CB11a84CFbd8F6336Dc9417aC45c1F8E5B59E7'',
      ''0x88D46717b16619B37fa2DfD2F038DEFB4459F1F7'']"

definition stable :: "string \<Rightarrow> bool" where
  "stable symbol \<longleftrightarrow>
     symbol \<in> {''USD'' @ [char_of (0xE2::nat), char_of (0x82::nat), char_of (0xAE::nat)] @ ''0'',
       ''USDT0'', ''USDC'', ''USDC.e'', ''USDT'', ''eUSDT''}"

section \<open>The float\<close>

record parked_row =
  pr_name :: string
  pr_amount :: string
  pr_share :: string
  pr_note :: string

fun read_parked :: "reader \<Rightarrow> address \<Rightarrow> int \<Rightarrow> holder list \<Rightarrow> int \<Rightarrow> err + parked_row list \<times> int" where
  "read_parked r fxrp supply [] tot = Inr ([], tot)"
| "read_parked r fxrp supply (h # hs) tot =
     and_then (balanceOf r fxrp (rd_hex_to_address r (h_addr h))) (\<lambda>bal.
     and_then (read_parked r fxrp supply hs (tot + bal)) (\<lambda>(rows, t).
       Inr (\<lparr>pr_name = h_name h, pr_amount = amount (Some bal) 6, pr_share = pct bal (Some supply), pr_note = h_note h\<rparr> # rows, t)))"

section \<open>The pools\<close>

record pool_row =
  po_starred :: bool
  po_addr :: string
  po_fxrp :: string
  po_other :: string
  po_symbol :: string

record depth =
  d_pool_fxrp :: int
  d_exit :: int
  d_exits :: nat

text \<open>One pool: skipped where its first token cannot be read; \<open>None\<close> for no row.\<close>

definition read_pool :: "reader \<Rightarrow> address \<Rightarrow> string \<Rightarrow> depth \<Rightarrow> err + pool_row option \<times> depth" where
  "read_pool r fxrp p d =
     (let a = rd_hex_to_address r p in
      and_then (read_addr r a ''token0'') (\<lambda>t0.
      and_then (read_addr r a ''token1'') (\<lambda>t1.
        if t0 = 0 then Inr (None, d)
        else
          let other = (if t0 = fxrp then t1 else t0) in
          and_then (read_str r other ''symbol'') (\<lambda>symbol.
          and_then (read_decimals r other) (\<lambda>dec.
          and_then (balanceOf r fxrp a) (\<lambda>mine.
          and_then (balanceOf r other a) (\<lambda>theirs.
            let d1 = d\<lparr>d_pool_fxrp := d_pool_fxrp d + mine\<rparr>;
                d2 = (if stable symbol then d1\<lparr>d_exit := d_exit d + theirs, d_exits := Suc (d_exits d)\<rparr> else d1)
            in Inr (Some \<lparr>po_starred = stable symbol, po_addr = p, po_fxrp = amount (Some mine) 6,
                      po_other = amount (Some theirs) dec, po_symbol = symbol\<rparr>, d2))))))))"

fun read_pools :: "reader \<Rightarrow> address \<Rightarrow> string list \<Rightarrow> depth \<Rightarrow> err + pool_row list \<times> depth" where
  "read_pools r fxrp [] d = Inr ([], d)"
| "read_pools r fxrp (p # ps) d =
     and_then (read_pool r fxrp p d) (\<lambda>(row, d1).
     and_then (read_pools r fxrp ps d1) (\<lambda>(rows, d2).
       Inr ((case row of None \<Rightarrow> rows | Some x \<Rightarrow> x # rows), d2)))"

section \<open>The report\<close>

record depth_report =
  dr_block :: u64
  dr_supply :: string
  dr_parked :: "parked_row list"
  dr_parked_total :: "string \<times> string"
  dr_pools :: "pool_row list"
  dr_pool_total :: "string \<times> string"
  dr_exit_total :: "string \<times> string"
  dr_exits :: nat

definition fxrp_depth :: "reader \<Rightarrow> string \<Rightarrow> err + depth_report" where
  "fxrp_depth r rpc =
     (case rd_dial r rpc of
        Some e \<Rightarrow> Inl (''dial '' @ rpc @ '': '' @ e)
      | None \<Rightarrow>
        let fxrp = rd_hex_to_address r fxrpAddr in
        and_then (read_uint r fxrp ''totalSupply'') (\<lambda>supply.
        and_then (map_err (\<lambda>e. ''block number: '' @ e) (rd_block r)) (\<lambda>block.
        and_then (read_parked r fxrp supply parked 0) (\<lambda>(rows, tot).
        and_then (read_pools r fxrp pools \<lparr>d_pool_fxrp = 0, d_exit = 0, d_exits = 0\<rparr>) (\<lambda>(prows, d).
          Inr \<lparr>dr_block = block, dr_supply = amount (Some supply) 6, dr_parked = rows,
               dr_parked_total = (amount (Some tot) 6, pct tot (Some supply)),
               dr_pools = prows,
               dr_pool_total = (amount (Some (d_pool_fxrp d)) 6, pct (d_pool_fxrp d) (Some supply)),
               dr_exit_total = (amount (Some (d_exit d)) 6, pct (d_exit d) (Some supply)),
               dr_exits = d_exits d\<rparr>)))))"

end
