(* ===== verification/Depth_Facts.thy ===== *)
theory Depth_Facts
  imports Fxrp_Depth
begin

text \<open>
  The sums of \<^verbatim>\<open>fxrp-depth\<close>: what is counted, what an unreadable pool does to the totals, and
  the unit the exit depth is printed in.
\<close>

section \<open>What the calls answer\<close>

text \<open>Every method packs: the ABI is a constant of the program.\<close>

definition packs :: "reader \<Rightarrow> bool" where
  "packs r \<longleftrightarrow> (\<forall>m args. \<exists>b. rd_pack r m args = Inr b)"

definition answer :: "reader \<Rightarrow> address \<Rightarrow> string \<Rightarrow> address list \<Rightarrow> abi_value list" where
  "answer r to m args = (case call r to m args of Inr v \<Rightarrow> v | Inl e \<Rightarrow> [])"

lemma call_answers: "packs r \<Longrightarrow> call r to m args = Inr (answer r to m args)"
proof -
  assume "packs r"
  then obtain b where "rd_pack r m args = Inr b" unfolding packs_def by blast
  then show ?thesis by (simp add: answer_def call_def split: sum.splits option.splits)
qed

definition balance_of :: "reader \<Rightarrow> address \<Rightarrow> address \<Rightarrow> int" where
  "balance_of r token who = uint_of (answer r token ''balanceOf'' [who])"

definition first_token :: "reader \<Rightarrow> string \<Rightarrow> address" where
  "first_token r p = (case answer r (rd_hex_to_address r p) ''token0'' [] of AvAddress a # _ \<Rightarrow> a | _ \<Rightarrow> 0)"

definition far_token :: "reader \<Rightarrow> string \<Rightarrow> address" where
  "far_token r p =
     (if first_token r p = rd_hex_to_address r fxrpAddr
      then (case answer r (rd_hex_to_address r p) ''token1'' [] of AvAddress a # _ \<Rightarrow> a | _ \<Rightarrow> 0)
      else first_token r p)"

definition far_symbol :: "reader \<Rightarrow> string \<Rightarrow> string" where
  "far_symbol r p = (case answer r (far_token r p) ''symbol'' [] of [] \<Rightarrow> ''?'' | AvString s # _ \<Rightarrow> s | _ \<Rightarrow> [])"

definition far_decimals :: "reader \<Rightarrow> string \<Rightarrow> nat" where
  "far_decimals r p = (case answer r (far_token r p) ''decimals'' [] of [] \<Rightarrow> 18 | AvU8 d # _ \<Rightarrow> unat d | _ \<Rightarrow> 0)"

text \<open>The pools that count, and those that count as an exit.\<close>

definition readable :: "reader \<Rightarrow> string list" where
  "readable r = filter (\<lambda>p. first_token r p \<noteq> 0) pools"

definition exits :: "reader \<Rightarrow> string list" where
  "exits r = filter (\<lambda>p. stable (far_symbol r p)) (readable r)"

definition near_balance :: "reader \<Rightarrow> string \<Rightarrow> int" where
  "near_balance r p = balance_of r (rd_hex_to_address r fxrpAddr) (rd_hex_to_address r p)"

definition far_balance :: "reader \<Rightarrow> string \<Rightarrow> int" where
  "far_balance r p = balance_of r (far_token r p) (rd_hex_to_address r p)"

definition pool_shown :: "reader \<Rightarrow> string \<Rightarrow> pool_row" where
  "pool_shown r p =
     \<lparr>po_starred = stable (far_symbol r p), po_addr = p, po_fxrp = amount (Some (near_balance r p)) 6,
      po_other = amount (Some (far_balance r p)) (far_decimals r p), po_symbol = far_symbol r p\<rparr>"

section \<open>The sums\<close>

lemma parked_sum:
  assumes "packs r"
  shows "\<exists>rows. read_parked r fxrp supply hs tot =
      Inr (rows, tot + (\<Sum>h \<leftarrow> hs. balance_of r fxrp (rd_hex_to_address r (h_addr h))))
    \<and> map pr_name rows = map h_name hs"
proof (induction hs arbitrary: tot)
  case (Cons h hs)
  let ?b = "balance_of r fxrp (rd_hex_to_address r (h_addr h))"
  obtain rows where "read_parked r fxrp supply hs (tot + ?b) =
      Inr (rows, tot + ?b + (\<Sum>h \<leftarrow> hs. balance_of r fxrp (rd_hex_to_address r (h_addr h))))"
    "map pr_name rows = map h_name hs" using Cons.IH [of "tot + ?b"] by blast
  moreover have "balanceOf r fxrp (rd_hex_to_address r (h_addr h)) = Inr ?b"
    using call_answers [OF assms] by (simp add: balanceOf_def balance_of_def)
  ultimately show ?case by (simp add: add.assoc)
qed simp

lemma pool_read:
  assumes "packs r"
  shows "read_pool r (rd_hex_to_address r fxrpAddr) p d =
    (if first_token r p = 0 then Inr (None, d)
     else Inr (Some (pool_shown r p),
       d\<lparr>d_pool_fxrp := d_pool_fxrp d + near_balance r p,
         d_exit := d_exit d + (if stable (far_symbol r p) then far_balance r p else 0),
         d_exits := d_exits d + (if stable (far_symbol r p) then 1 else 0)\<rparr>))"
proof -
  let ?a = "rd_hex_to_address r p" and ?f = "rd_hex_to_address r fxrpAddr"
  have t0: "read_addr r ?a ''token0'' = Inr (first_token r p)"
    using call_answers [OF assms] by (simp add: read_addr_def first_token_def)
  have t1: "\<exists>t1. read_addr r ?a ''token1'' = Inr t1 \<and> (if first_token r p = ?f then t1 else first_token r p) = far_token r p"
    using call_answers [OF assms] by (auto simp: read_addr_def far_token_def)
  have far: "read_str r (far_token r p) ''symbol'' = Inr (far_symbol r p)" "read_decimals r (far_token r p) = Inr (far_decimals r p)"
    "balanceOf r ?f ?a = Inr (near_balance r p)" "balanceOf r (far_token r p) ?a = Inr (far_balance r p)"
    using call_answers [OF assms]
    by (simp_all add: read_str_def far_symbol_def read_decimals_def far_decimals_def balanceOf_def near_balance_def far_balance_def balance_of_def)
  from t1 obtain t where "read_addr r ?a ''token1'' = Inr t" "(if first_token r p = ?f then t else first_token r p) = far_token r p"
    by blast
  then show ?thesis by (simp add: read_pool_def Let_def t0 far pool_shown_def)
qed

lemma pools_sum:
  assumes "packs r"
  shows "read_pools r (rd_hex_to_address r fxrpAddr) ps d =
    (let rs = filter (\<lambda>p. first_token r p \<noteq> 0) ps; es = filter (\<lambda>p. stable (far_symbol r p)) rs in
     Inr (map (pool_shown r) rs, d\<lparr>d_pool_fxrp := d_pool_fxrp d + (\<Sum>p \<leftarrow> rs. near_balance r p),
       d_exit := d_exit d + (\<Sum>p \<leftarrow> es. far_balance r p), d_exits := d_exits d + length es\<rparr>))"
proof (induction ps arbitrary: d)
  case (Cons p ps)
  then show ?case by (simp add: pool_read [OF assms] Let_def add.assoc)
qed (simp add: Let_def)

lemma depth_report:
  assumes "packs r" "rd_dial r rpc = None" "rd_block r = Inr block"
  shows "\<exists>rows. fxrp_depth r rpc = Inr
    (let supply = uint_of (answer r (rd_hex_to_address r fxrpAddr) ''totalSupply'' []);
         held = (\<Sum>h \<leftarrow> parked. balance_of r (rd_hex_to_address r fxrpAddr) (rd_hex_to_address r (h_addr h)));
         pooled = (\<Sum>p \<leftarrow> readable r. near_balance r p); exit = (\<Sum>p \<leftarrow> exits r. far_balance r p)
     in \<lparr>dr_block = block, dr_supply = amount (Some supply) 6, dr_parked = rows,
         dr_parked_total = (amount (Some held) 6, pct held (Some supply)),
         dr_pools = map (pool_shown r) (readable r),
         dr_pool_total = (amount (Some pooled) 6, pct pooled (Some supply)),
         dr_exit_total = (amount (Some exit) 6, pct exit (Some supply)), dr_exits = length (exits r)\<rparr>)
    \<and> map pr_name rows = map h_name parked"
proof -
  let ?fxrp = "rd_hex_to_address r fxrpAddr"
  let ?supply = "uint_of (answer r ?fxrp ''totalSupply'' [])"
  obtain rows where "read_parked r ?fxrp ?supply parked 0 =
      Inr (rows, 0 + (\<Sum>h \<leftarrow> parked. balance_of r ?fxrp (rd_hex_to_address r (h_addr h))))"
    "map pr_name rows = map h_name parked" using parked_sum [OF assms(1)] by blast
  moreover have "read_uint r ?fxrp ''totalSupply'' = Inr ?supply"
    using call_answers [OF assms(1)] by (simp add: read_uint_def)
  ultimately show ?thesis
    using assms(2,3) pools_sum [OF assms(1)]
    by (simp add: fxrp_depth_def Let_def readable_def exits_def del: sum_list_simps)
qed

text \<open>(C14) Whatever the chain answers, the report is produced and adds up: the four contracts'
  line is the sum of the four balances, the pool line the FXRP of exactly the pools whose
  first token can be read, and the exit line the far side of exactly those of them whose far
  token is a listed stablecoin. A token or pool that does not answer counts as nothing; it
  never stops the report.\<close>

theorem depth_sums:
  assumes "packs r" and "rd_dial r rpc = None" and "rd_block r = Inr block"
  shows "\<exists>rep. fxrp_depth r rpc = Inr rep
    \<and> fst (dr_parked_total rep) = amount (Some (\<Sum>h \<leftarrow> parked. balance_of r (rd_hex_to_address r fxrpAddr) (rd_hex_to_address r (h_addr h)))) 6
    \<and> fst (dr_pool_total rep) = amount (Some (\<Sum>p \<leftarrow> readable r. near_balance r p)) 6
    \<and> fst (dr_exit_total rep) = amount (Some (\<Sum>p \<leftarrow> exits r. far_balance r p)) 6
    \<and> dr_exits rep = length (filter po_starred (dr_pools rep))
    \<and> dr_pools rep = map (pool_shown r) (readable r)"
proof -
  have "filter po_starred (map (pool_shown r) ps) = map (pool_shown r) (filter (\<lambda>p. stable (far_symbol r p)) ps)" for ps
    by (induction ps) (simp_all add: pool_shown_def)
  then show ?thesis
    using depth_report [OF assms] by (auto simp: Let_def exits_def)
qed

section \<open>The unit of the exit depth\<close>

text \<open>A chain with one readable pool, whose far token is USDC with the given decimals.\<close>

definition one_pool :: "nat \<Rightarrow> u8 \<Rightarrow> reader" where
  "one_pool n decs =
     \<lparr>rd_dial = (\<lambda>_. None), rd_pack = (\<lambda>m args. Inr m),
      rd_call = (\<lambda>to m. if to = 3 then Inl [] else Inr ''x''),
      rd_unpack = (\<lambda>m out. Some
        (if m = ''token0'' then [AvAddress 1] else if m = ''token1'' then [AvAddress 9]
         else if m = ''symbol'' then [AvString ''USDC''] else if m = ''decimals'' then [AvU8 decs]
         else [AvBig (int n)])),
      rd_block = Inr 7,
      rd_hex_to_address = (\<lambda>a. if a = fxrpAddr then 1 else if a = hd pools then 2 else 3)\<rparr>"

lemma pools_distinct: "pools = hd pools # tl pools" "hd pools \<notin> set (tl pools)" "fxrpAddr \<notin> set pools"
  by (simp_all add: pools_def fxrpAddr_def)

lemma one_pool_packs: "packs (one_pool n decs)"
  by (simp add: packs_def one_pool_def)

lemma one_pool_up: "rd_dial (one_pool n decs) rpc = None" "rd_block (one_pool n decs) = Inr 7"
  by (simp_all add: one_pool_def)

lemma one_pool_answers:
  "to \<noteq> 3 \<Longrightarrow> answer (one_pool n decs) to m args = the (rd_unpack (one_pool n decs) m ''x'')"
  "answer (one_pool n decs) 3 m args = []"
  by (simp_all add: answer_def call_def one_pool_def)

lemma one_pool_address:
  "rd_hex_to_address (one_pool n decs) p = (if p = fxrpAddr then 1 else if p = hd pools then 2 else 3)"
  by (simp add: one_pool_def)

lemma one_pool_first:
  "first_token (one_pool n decs) (hd pools) = 1" "p \<in> set (tl pools) \<Longrightarrow> first_token (one_pool n decs) p = 0"
proof -
  have "rd_hex_to_address (one_pool n decs) (hd pools) = 2"
    using pools_distinct(3) by (simp add: one_pool_def pools_def fxrpAddr_def)
  then show "first_token (one_pool n decs) (hd pools) = 1"
    by (simp add: first_token_def one_pool_answers) (simp add: one_pool_def)
  assume "p \<in> set (tl pools)"
  then have "rd_hex_to_address (one_pool n decs) p = 3"
    using pools_distinct by (metis (no_types, lifting) list.set_intros(2) one_pool_address)
  then show "first_token (one_pool n decs) p = 0" by (simp add: first_token_def one_pool_answers)
qed

lemma one_pool_far:
  "far_token (one_pool n decs) (hd pools) = 9" "far_symbol (one_pool n decs) (hd pools) = ''USDC''"
  "far_decimals (one_pool n decs) (hd pools) = unat decs" "far_balance (one_pool n decs) (hd pools) = int n"
proof -
  have at: "rd_hex_to_address (one_pool n decs) (hd pools) = 2" "rd_hex_to_address (one_pool n decs) fxrpAddr = 1"
    by (simp_all add: one_pool_def pools_def fxrpAddr_def)
  show far: "far_token (one_pool n decs) (hd pools) = 9"
    by (simp add: far_token_def one_pool_first(1) at one_pool_answers) (simp add: one_pool_def)
  show "far_symbol (one_pool n decs) (hd pools) = ''USDC''" "far_decimals (one_pool n decs) (hd pools) = unat decs"
    "far_balance (one_pool n decs) (hd pools) = int n"
    by (simp_all add: far_symbol_def far_decimals_def far_balance_def balance_of_def uint_of_def far at one_pool_answers)
       (simp_all add: one_pool_def)
qed

lemma one_pool_exits: "readable (one_pool n decs) = [hd pools]" "exits (one_pool n decs) = [hd pools]"
proof -
  have "filter (\<lambda>p. first_token (one_pool n decs) p \<noteq> 0) (hd pools # tl pools) = [hd pools]"
    by (simp add: one_pool_first)
  then show "readable (one_pool n decs) = [hd pools]" unfolding readable_def by (subst pools_distinct(1)) simp
  then show "exits (one_pool n decs) = [hd pools]" by (simp add: exits_def one_pool_far stable_def)
qed

text \<open>The exit depth is printed as if every stablecoin had six decimals. A chain whose only
  exit is one pool holding n units of a stablecoin with 18 decimals: its own row shows n, and
  the line that sums the exits shows a million million times as much.\<close>

theorem exit_depth_assumes_six_decimals:
  "\<exists>rep. fxrp_depth (one_pool (n * 10 ^ 18) 18) rpc = Inr rep
    \<and> map po_other (dr_pools rep) = [amount (Some (int n)) 0] \<and> map po_starred (dr_pools rep) = [True]
    \<and> fst (dr_exit_total rep) = amount (Some (int n * 10 ^ 12)) 0"
proof -
  let ?r = "one_pool (n * 10 ^ 18) 18"
  have "int n * 10 ^ 18 div 10 ^ 6 = int n * 10 ^ 12" by simp
  then have "amount (Some (int (n * 10 ^ 18))) 18 = amount (Some (int n)) 0"
    "amount (Some (int (n * 10 ^ 18))) 6 = amount (Some (int n * 10 ^ 12)) 0"
    by (simp_all add: amount_def mult.commute)
  then show ?thesis
    using depth_report [OF one_pool_packs one_pool_up, of "n * 10 ^ 18" 18 rpc]
    by (auto simp: Let_def one_pool_exits one_pool_far pool_shown_def stable_def)
qed

theorem depth_sums_witness:
  "\<exists>rep. fxrp_depth (one_pool 5000000 6) ''u'' = Inr rep \<and> fst (dr_exit_total rep) = ''5'' \<and> dr_exits rep = 1"
proof -
  have "code_of CHR ''5'' = 53" by (simp add: code_of_def)
  then have "char_of (53::nat) = CHR ''5''" using char_of_code_of [of "CHR ''5''"] by simp
  then have "dec_nat 5 = ''5''" by (subst dec_nat.simps) (simp add: digit_char_def)
  then have "amount (Some 5000000) 6 = ''5''" by (simp add: amount_def big_string_def Let_def)
  then show ?thesis
    using depth_sums [OF one_pool_packs one_pool_up, of 5000000 6 "''u''"]
    by (auto simp: one_pool_exits one_pool_far pool_shown_def stable_def)
qed

end
