(* ===== verification/Xrpl_Fund.thy ===== *)
theory Xrpl_Fund
  imports Transactions Client_Wire Support Fxrp_Depth
begin

text \<open>
  \<^verbatim>\<open>tools/cmd/xrpl-fund\<close>: from the hash of an XRP Ledger payment to the call of the gateway
  that credits it. The verifier, the data availability layer and the chain answer from
  outside; what is sent, when, and why the program stops are the code's.
\<close>

section \<open>The request and the proof\<close>

definition flareRegistry :: string where "flareRegistry = ''0xaD67FE66660Fb8dFE9d6b1b4240d8650e30F6019''"

definition attestationType :: string where
  "attestationType = ''0x5061796d656e7400000000000000000000000000000000000000000000000000''"

definition sourceIDTestXRP :: string where
  "sourceIDTestXRP = ''0x7465737458525000000000000000000000000000000000000000000000000000''"

record prepareResponse =
  pp_status :: string
  pp_request :: string

definition set_prepare :: "string \<Rightarrow> json \<Rightarrow> prepareResponse \<Rightarrow> prepareResponse option" where
  "set_prepare f v r =
     (if f = ''status'' then map_option (\<lambda>x. r\<lparr>pp_status := x\<rparr>) (json_to_string v (pp_status r))
      else map_option (\<lambda>x. r\<lparr>pp_request := x\<rparr>) (json_to_string v (pp_request r)))"

definition decode_prepare :: "bytes \<Rightarrow> prepareResponse option" where
  "decode_prepare raw =
     Option.bind (json_unmarshal raw)
       (decode_struct [''status'', ''abiEncodedRequest''] set_prepare \<lparr>pp_status = [], pp_request = []\<rparr>)"

record daProof =
  dp_response_hex :: string
  dp_proof :: "string list"

definition set_proof :: "string \<Rightarrow> json \<Rightarrow> daProof \<Rightarrow> daProof option" where
  "set_proof f v r =
     (if f = ''response_hex'' then map_option (\<lambda>x. r\<lparr>dp_response_hex := x\<rparr>) (json_to_string v (dp_response_hex r))
      else map_option (\<lambda>x. r\<lparr>dp_proof := x\<rparr>) (json_to_slice (\<lambda>e. json_to_string e []) v))"

definition decode_proof :: "bytes \<Rightarrow> daProof option" where
  "decode_proof raw =
     Option.bind (json_unmarshal raw)
       (decode_struct [''response_hex'', ''proof''] set_proof \<lparr>dp_response_hex = [], dp_proof = []\<rparr>)"

text \<open>The attested payment as the gateway's ABI lays it out.\<close>

record fdcRequestBody =
  fq_transaction_id :: hash
  fq_in_utxo :: int
  fq_utxo :: int

record fdcResponseBody =
  fb_block_number :: u64
  fb_block_timestamp :: u64
  fb_source_address_hash :: hash
  fb_source_addresses_root :: hash
  fb_receiving_address_hash :: hash
  fb_intended_receiving_address_hash :: hash
  fb_spent_amount :: int
  fb_intended_spent_amount :: int
  fb_received_amount :: int
  fb_intended_received_amount :: int
  fb_standard_payment_reference :: hash
  fb_one_to_one :: bool
  fb_status :: u8

record fdcResponse =
  fr_attestation_type :: hash
  fr_source_id :: hash
  fr_voting_round :: u64
  fr_lowest_used_timestamp :: u64
  fr_request_body :: fdcRequestBody
  fr_response_body :: fdcResponseBody

record fdcPaymentProof =
  pf_merkle_proof :: "hash list"
  pf_data :: fdcResponse

section \<open>The services and the chain\<close>

record fund_call =
  xc_to :: address
  xc_value :: int
  xc_data :: bytes
  xc_nonce :: u64
  xc_gas :: int
  xc_tip_cap :: int
  xc_fee_cap :: int

text \<open>
  \<open>nt_transactor\<close> is here the failure of \<^verbatim>\<open>types.SignTx\<close>. A header's base fee is absent before
  London. \<open>xn_da\<close> is the data availability layer's answer to the i-th request; \<open>xn_from_hex\<close>
  and \<open>xn_hex_to_address\<close> are go-ethereum's lenient readers; \<open>xn_pack\<close>, \<open>xn_unpack\<close>,
  \<open>xn_pack_fund\<close> and \<open>xn_unpack_response\<close> its ABI coder.
\<close>

record fund_net = "fund_call net" +
  xn_dial :: "string \<Rightarrow> err option"
  xn_chain_id :: "err + int"
  xn_verifier :: "string \<Rightarrow> err + string \<times> bytes"
  xn_da :: "nat \<Rightarrow> string \<Rightarrow> err + bytes"
  xn_pack :: "string \<Rightarrow> bytes list \<Rightarrow> err + bytes"
  xn_call :: "fund_call list \<Rightarrow> address \<Rightarrow> bytes \<Rightarrow> err + bytes"
  xn_unpack :: "string \<Rightarrow> bytes \<Rightarrow> abi_value list option"
  xn_pending_nonce :: "fund_call list \<Rightarrow> err + u64"
  xn_gas_tip :: "fund_call list \<Rightarrow> err + int"
  xn_base_fee :: "fund_call list \<Rightarrow> err + int option"
  xn_block_time :: "fund_call list \<Rightarrow> receipt \<Rightarrow> err + u64"
  xn_from_hex :: "string \<Rightarrow> bytes"
  xn_hex_to_address :: "string \<Rightarrow> address"
  xn_unpack_response :: "bytes \<Rightarrow> err + fdcResponse"
  xn_pack_fund :: "fdcPaymentProof \<Rightarrow> err + bytes"

type_synonym 'a fund_run = "(fund_call, 'a) run"

definition packed :: "fund_net \<Rightarrow> string \<Rightarrow> bytes list \<Rightarrow> bytes fund_run" where
  "packed xn method args = given (map_err (prefixed (''pack '' @ method @ '': '')) (xn_pack xn method args))"

definition lookup :: "fund_net \<Rightarrow> string \<Rightarrow> address fund_run" where
  "lookup xn name w0 =
     then_do (packed xn ''getContractAddressByName'' [name] w0) (\<lambda>data w1.
     then_do (ask (\<lambda>w. map_err (prefixed (''registry lookup '' @ name @ '': '')) (xn_call xn w (xn_hex_to_address xn flareRegistry) data)) w1) (\<lambda>out w2.
       case xn_unpack xn ''getContractAddressByName'' out of
         Some (AvAddress a # _) \<Rightarrow> ret a w2
       | Some (_ # _) \<Rightarrow> fail ''interface conversion'' w2
       | _ \<Rightarrow> fail (''registry lookup '' @ name @ '': bad response'') w2))"

definition callBig :: "fund_net \<Rightarrow> address \<Rightarrow> string \<Rightarrow> bytes list \<Rightarrow> int fund_run" where
  "callBig xn to method args w0 =
     then_do (packed xn method args w0) (\<lambda>data w1.
     then_do (ask (\<lambda>w. map_err (prefixed (method @ '': '')) (xn_call xn w to data)) w1) (\<lambda>out w2.
       case xn_unpack xn method out of
         Some (AvBig n # _) \<Rightarrow> ret n w2
       | Some (AvU64 n # _) \<Rightarrow> ret (uint n) w2
       | Some (_ # _) \<Rightarrow> fail (method @ '': unexpected type'') w2
       | _ \<Rightarrow> fail (method @ '': bad response'') w2))"

text \<open>A revert is returned, not fatal; the tip defaults to 1 where the node suggests none.\<close>

definition send :: "fund_net \<Rightarrow> address \<Rightarrow> bytes \<Rightarrow> int \<Rightarrow> receipt fund_run" where
  "send xn to data value w0 =
     then_do (ask (\<lambda>w. map_err (prefixed ''nonce: '') (xn_pending_nonce xn w)) w0) (\<lambda>nonce w1.
     then_do (ask (\<lambda>w. case xn_gas_tip xn w of Inl _ \<Rightarrow> Inr 1 | Inr t \<Rightarrow> Inr t) w1) (\<lambda>tip w2.
     then_do (ask (\<lambda>w. map_err (prefixed ''head: '') (xn_base_fee xn w)) w2) (\<lambda>baseFee w3.
       case baseFee of
         None \<Rightarrow> fail ''invalid memory address or nil pointer dereference'' w3
       | Some bf \<Rightarrow>
           then_do (transactor xn (prefixed ''sign: '') w3) (\<lambda>_ w4.
           then_do (send_tx xn (rpc_text ''send: '')
               \<lparr>xc_to = to, xc_value = value, xc_data = data, xc_nonce = nonce, xc_gas = 2000000,
                xc_tip_cap = tip, xc_fee_cap = bf * 2 + tip\<rparr> w4) (\<lambda>tx w5.
             wait_mined xn (prefixed ''not mined: '') tx w5)))))"

section \<open>The steps\<close>

definition prepare_body :: "string \<Rightarrow> string" where
  "prepare_body txID =
     ''{'' @ json_quote ''attestationType'' @ '':'' @ go_quote attestationType @ '','' @
     json_quote ''sourceId'' @ '':'' @ go_quote sourceIDTestXRP @ '','' @
     json_quote ''requestBody'' @ '':{'' @ json_quote ''transactionId'' @ '':'' @ go_quote txID @ '','' @
     json_quote ''inUtxo'' @ '':'' @ json_quote ''0'' @ '','' @ json_quote ''utxo'' @ '':'' @ json_quote ''0'' @ ''}}''"

definition prepare :: "fund_net \<Rightarrow> string \<Rightarrow> prepareResponse fund_run" where
  "prepare xn txID = given
     (case xn_verifier xn (prepare_body txID) of
        Inl e \<Rightarrow> Inl (''verifier: '' @ e)
      | Inr (status, raw) \<Rightarrow>
          (case decode_prepare raw of
             None \<Rightarrow> Inl (''verifier returned '' @ status @ '': '' @ trim_space raw)
           | Some r \<Rightarrow> Inr r))"

definition proof_body :: "int \<Rightarrow> string \<Rightarrow> string" where
  "proof_body voting_round requestHex =
     ''{'' @ json_quote ''votingRoundId'' @ '':'' @ big_string voting_round @ '','' @
     json_quote ''requestBytes'' @ '':'' @ go_quote requestHex @ ''}''"

text \<open>An answer that is a proof: it decodes and names a response.\<close>

definition proof_in :: "err + bytes \<Rightarrow> daProof option" where
  "proof_in answer =
     (case answer of
        Inl _ \<Rightarrow> None
      | Inr raw \<Rightarrow> (case decode_proof raw of None \<Rightarrow> None | Some p \<Rightarrow> if dp_response_hex p \<noteq> [] then Some p else None))"

fun await_loop :: "(nat \<Rightarrow> err + bytes) \<Rightarrow> nat \<Rightarrow> nat \<Rightarrow> daProof option" where
  "await_loop ask_da i 0 = None"
| "await_loop ask_da i (Suc n) =
     (case proof_in (ask_da i) of Some p \<Rightarrow> Some p | None \<Rightarrow> await_loop ask_da (Suc i) n)"

definition awaitProof :: "fund_net \<Rightarrow> int \<Rightarrow> string \<Rightarrow> daProof fund_run" where
  "awaitProof xn voting_round requestHex = given
     (case await_loop (\<lambda>i. xn_da xn i (proof_body voting_round requestHex)) 0 40 of
        Some p \<Rightarrow> Inr p
      | None \<Rightarrow> Inl (''timed out waiting for round '' @ big_string voting_round @ '' to finalise''))"

text \<open>\<^verbatim>\<open>copy\<close> into a 32-byte array: the rest of a longer text is dropped, a shorter one is padded with zeros.\<close>

definition node_of :: "bytes \<Rightarrow> hash" where
  "node_of bs = of_nat (foldl (\<lambda>acc c. 256 * acc + code_of c) 0 (take 32 (bs @ replicate 32 (CHR 0x00))))"

text \<open>The payment it claims, as printed: the amount in drops and the last twenty bytes of the reference.\<close>

definition claimed :: "fdcResponse \<Rightarrow> int \<times> address" where
  "claimed data =
     (fb_received_amount (fr_response_body data), ucast (fb_standard_payment_reference (fr_response_body data)))"

definition fund_proof :: "fund_net \<Rightarrow> daProof \<Rightarrow> fdcResponse \<Rightarrow> fdcPaymentProof" where
  "fund_proof xn p data = \<lparr>pf_merkle_proof = map (\<lambda>n. node_of (xn_from_hex xn n)) (dp_proof p), pf_data = data\<rparr>"

definition buildFundCall :: "fund_net \<Rightarrow> daProof \<Rightarrow> (bytes \<times> (int \<times> address)) fund_run" where
  "buildFundCall xn p w0 =
     then_do (given (map_err (prefixed ''decoding the DA layer response: '') (xn_unpack_response xn (xn_from_hex xn (dp_response_hex p)))) w0) (\<lambda>data w1.
     then_do (given (map_err (prefixed ''packing fund(): '') (xn_pack_fund xn (fund_proof xn p data))) w1) (\<lambda>out w2.
       ret (out, claimed data) w2))"

section \<open>The command\<close>

text \<open>\<^verbatim>\<open>strings.ToLower\<close>: byte by byte for ASCII, by the Unicode tables \<open>other\<close> otherwise.\<close>

definition ascii_lower :: "char \<Rightarrow> char" where
  "ascii_lower c = (if 65 \<le> code_of c \<and> code_of c \<le> 90 then char_of (code_of c + 32) else c)"

definition to_lower :: "(string \<Rightarrow> string) \<Rightarrow> string \<Rightarrow> string" where
  "to_lower other s = (if list_all (\<lambda>c. code_of c < 128) s then map ascii_lower s else other s)"

record fund_report =
  fx_fee :: int
  fx_round :: int
  fx_nodes :: nat
  fx_claimed :: "int \<times> address"

definition is_tx_hash :: "string \<Rightarrow> bool" where
  "is_tx_hash s \<longleftrightarrow> has_prefix s ''0x'' \<and> length s = 66"

text \<open>Steps 2 to 4, once the verifier said VALID.\<close>

definition fund_valid :: "fund_net \<Rightarrow> address \<Rightarrow> string \<Rightarrow> fund_report fund_run" where
  "fund_valid xn gw request w0 =
     (let requestBytes = xn_from_hex xn request in
      then_do (lookup xn ''FdcHub'' w0) (\<lambda>hubAddr w1.
      then_do (lookup xn ''FdcRequestFeeConfigurations'' w1) (\<lambda>feeAddr w2.
      then_do (lookup xn ''FlareSystemsManager'' w2) (\<lambda>fsmAddr w3.
      then_do (callBig xn feeAddr ''getRequestFee'' [requestBytes] w3) (\<lambda>fee w4.
      then_do (packed xn ''requestAttestation'' [requestBytes] w4) (\<lambda>data w5.
      then_do (send xn hubAddr data fee w5) (\<lambda>receipt w6.
        if r_status receipt \<noteq> 1 then
          fail (''FdcHub rejected the request (tx '' @ nt_hash_hex xn (r_tx_hash receipt) @ '')'') w6
        else
          then_do (ask (\<lambda>w. map_err (prefixed ''header: '') (xn_block_time xn w receipt)) w6) (\<lambda>time w7.
          then_do (callBig xn fsmAddr ''firstVotingRoundStartTs'' [] w7) (\<lambda>t0 w8.
          then_do (callBig xn fsmAddr ''votingEpochDurationSeconds'' [] w8) (\<lambda>dur w9.
            if dur = 0 then fail ''division by zero'' w9
            else
              let voting_round = big_div (sint time - t0) dur in
              then_do (awaitProof xn voting_round request w9) (\<lambda>da w10.
              then_do (buildFundCall xn da w10) (\<lambda>(call_data, claim) w11.
              then_do (send xn gw call_data 0 w11) (\<lambda>rc w12.
                if r_status rc \<noteq> 1 then
                  fail (''fund() reverted '' @ dash @ '' the gateway rejected the proof (tx '' @ nt_hash_hex xn (r_tx_hash rc) @ '')'') w12
                else ret \<lparr>fx_fee = fee, fx_round = voting_round, fx_nodes = length (dp_proof da), fx_claimed = claim\<rparr> w12))))))))))))) "

definition xrpl_fund ::
  "fund_net \<Rightarrow> (string \<Rightarrow> string) \<Rightarrow> (string \<Rightarrow> err + private_key) \<Rightarrow> env \<Rightarrow> string \<Rightarrow> string \<Rightarrow> string \<Rightarrow> fund_report fund_run" where
  "xrpl_fund xn other to_ecdsa e txF gwF rpcF w0 =
     (let txID = to_lower other (trim_space txF); k = Getenv e ''DEPLOYMENT_PRIVATE_KEY'' in
      if \<not> is_tx_hash txID then fail ''need -tx 0x<64 hex chars>: an XRPL transaction hash'' w0
      else if k = [] then fail (''DEPLOYMENT_PRIVATE_KEY not set '' @ dash @ '' needed to pay the FDC request fee'') w0
      else
        then_do (given (map_err (prefixed ''bad DEPLOYMENT_PRIVATE_KEY: '') (to_ecdsa (trim_prefix k ''0x''))) w0) (\<lambda>_ w1.
        then_do (given (case xn_dial xn rpcF of Some t \<Rightarrow> Inl (''dial: '' @ t) | None \<Rightarrow> Inr ()) w1) (\<lambda>_ w2.
        then_do (given (map_err (prefixed ''chain id: '') (xn_chain_id xn)) w2) (\<lambda>_ w3.
        then_do (prepare xn txID w3) (\<lambda>req w4.
          if pp_status req \<noteq> ''VALID'' then
            fail (''verifier says '' @ go_quote (pp_status req) @ '' '' @ dash @ '' is that transaction on XRPL testnet and finalised?'') w4
          else fund_valid xn (xn_hex_to_address xn gwF) (pp_request req) w4)))))"

end
