(* ===== verification/Fund_Facts.thy ===== *)
theory Fund_Facts
  imports Xrpl_Fund Setup_Facts
begin

text \<open>
  What \<^verbatim>\<open>xrpl-fund\<close> may send and when: by rules for runs that only read, the attestation
  request is sent only for a payment the verifier accepts, and the gateway is called only with
  a proof of the data availability layer for the voting round of that request.
\<close>

section \<open>Runs that only read\<close>

named_theorems reads \<open>runs that leave the transactions sent as they are\<close>

lemma reads_do: "(\<And>w. snd (m w) = w) \<Longrightarrow> (\<And>a w. snd (f a w) = w) \<Longrightarrow> snd (then_do (m w) f) = w"
  by (metis prod.collapse sum.exhaust then_do_simps snd_conv)

lemma reads_basic [reads]: "snd (ret a w) = w" "snd (fail e w) = w" "snd (ask q w) = w" "snd (given r w) = w"
  by (simp_all add: ret_def fail_def ask_def given_def)

lemma reads_packed [reads]: "snd (packed xn m args w) = w"
  by (simp add: packed_def reads)

lemma reads_lookup [reads]: "snd (lookup xn n w) = w"
  unfolding lookup_def by (intro reads_do) (simp_all add: reads split: option.splits list.splits abi_value.splits)

lemma reads_callBig [reads]: "snd (callBig xn to m args w) = w"
  unfolding callBig_def by (intro reads_do) (simp_all add: reads split: option.splits list.splits abi_value.splits)

lemma reads_steps [reads]:
  "snd (prepare xn t w) = w" "snd (awaitProof xn vr h w) = w" "snd (buildFundCall xn p w) = w"
  by (simp_all add: prepare_def awaitProof_def buildFundCall_def reads reads_do)

lemma triple_read:
  "(\<And>w. snd (m w) = w) \<Longrightarrow> (\<And>w. P w \<Longrightarrow> E w) \<Longrightarrow> triple P m (\<lambda>a w. P w \<and> m w = (Inr a, w)) E"
  by (rule tripleI) (metis (mono_tags, lifting) Inl_Inr_False old.sum.exhaust old.sum.simps(5,6) snd_conv)

section \<open>Sending\<close>

definition carries :: "fund_call \<Rightarrow> address \<Rightarrow> bytes \<Rightarrow> int \<Rightarrow> bool" where
  "carries c to data value \<longleftrightarrow> xc_to c = to \<and> xc_data c = data \<and> xc_value c = value \<and> xc_gas c = 2000000"

definition mined_as :: "fund_net \<Rightarrow> fund_call list \<Rightarrow> fund_call \<Rightarrow> receipt \<Rightarrow> bool" where
  "mined_as xn w c rc \<longleftrightarrow> (\<exists>h. nt_send xn w c = Inr h \<and> t_mined (nt_answers xn (w @ [c]) h) = Inr rc)"

lemma triple_send_call:
  assumes "\<And>v. P v \<Longrightarrow> E v" and "\<And>v c. P v \<Longrightarrow> carries c to data value \<Longrightarrow> E (v @ [c])"
  shows "triple P (send xn to data value)
    (\<lambda>rc w. \<exists>v c. P v \<and> w = v @ [c] \<and> carries c to data value \<and> mined_as xn v c rc) E"
proof (rule tripleI)
  fix w r w'
  assume "P w" "send xn to data value w = (r, w')"
  then show "case r of Inl e \<Rightarrow> E w' | Inr rc \<Rightarrow> \<exists>v c. P v \<and> w' = v @ [c] \<and> carries c to data value \<and> mined_as xn v c rc"
    using assms
    by (auto simp: send_def ask_def transactor_def send_tx_def wait_mined_def fail_def then_do_def carries_def mined_as_def
        split: sum.splits option.splits prod.splits)
qed

section \<open>What is sent\<close>

text \<open>The payment the verifier accepted, and the request for its attestation.\<close>

definition accepted :: "fund_net \<Rightarrow> string \<Rightarrow> prepareResponse \<Rightarrow> bool" where
  "accepted xn txID rq \<longleftrightarrow> is_tx_hash txID \<and> pp_status rq = ''VALID''
     \<and> (\<exists>status raw. xn_verifier xn (prepare_body txID) = Inr (status, raw) \<and> decode_prepare raw = Some rq)"

definition is_request :: "fund_net \<Rightarrow> string \<Rightarrow> fund_call list \<Rightarrow> fund_call \<Rightarrow> bool" where
  "is_request xn request w c \<longleftrightarrow>
     lookup xn ''FdcHub'' w = (Inr (xc_to c), w)
     \<and> xn_pack xn ''requestAttestation'' [xn_from_hex xn request] = Inr (xc_data c)
     \<and> (\<exists>feeAddr. lookup xn ''FdcRequestFeeConfigurations'' w = (Inr feeAddr, w)
          \<and> callBig xn feeAddr ''getRequestFee'' [xn_from_hex xn request] w = (Inr (xc_value c), w))"

text \<open>The voting round of a request that was mined with success.\<close>

definition round_of :: "fund_net \<Rightarrow> fund_call list \<Rightarrow> fund_call \<Rightarrow> int \<Rightarrow> bool" where
  "round_of xn w c vr \<longleftrightarrow>
     (\<exists>rc time fsmAddr t0 dur. mined_as xn w c rc \<and> r_status rc = 1 \<and> xn_block_time xn (w @ [c]) rc = Inr time
        \<and> lookup xn ''FlareSystemsManager'' w = (Inr fsmAddr, w)
        \<and> callBig xn fsmAddr ''firstVotingRoundStartTs'' [] (w @ [c]) = (Inr t0, w @ [c])
        \<and> callBig xn fsmAddr ''votingEpochDurationSeconds'' [] (w @ [c]) = (Inr dur, w @ [c])
        \<and> dur \<noteq> 0 \<and> vr = big_div (sint time - t0) dur)"

text \<open>The call of the gateway with a proof for that round, from one of the forty answers.\<close>

definition is_fund :: "fund_net \<Rightarrow> string \<Rightarrow> int \<Rightarrow> address \<Rightarrow> fund_call \<Rightarrow> bool" where
  "is_fund xn request vr gw c \<longleftrightarrow> xc_to c = gw \<and> xc_value c = 0 \<and>
     (\<exists>i da data. i < 40 \<and> proof_in (xn_da xn i (proof_body vr request)) = Some da \<and> dp_response_hex da \<noteq> []
        \<and> xn_unpack_response xn (xn_from_hex xn (dp_response_hex da)) = Inr data
        \<and> xn_pack_fund xn (fund_proof xn da data) = Inr (xc_data c))"

definition allowed :: "fund_net \<Rightarrow> string \<Rightarrow> address \<Rightarrow> fund_call list \<Rightarrow> fund_call list \<Rightarrow> bool" where
  "allowed xn request gw w w' \<longleftrightarrow>
     w' = w \<or> (\<exists>c. is_request xn request w c \<and> w' = w @ [c])
     \<or> (\<exists>c d vr. is_request xn request w c \<and> round_of xn w c vr \<and> is_fund xn request vr gw d \<and> w' = w @ [c, d])"

definition credited :: "fund_net \<Rightarrow> string \<Rightarrow> address \<Rightarrow> fund_call list \<Rightarrow> int \<Rightarrow> fund_call list \<Rightarrow> bool" where
  "credited xn request gw w vr w' \<longleftrightarrow>
     (\<exists>c d rc. is_request xn request w c \<and> round_of xn w c vr \<and> is_fund xn request vr gw d \<and> w' = w @ [c, d]
        \<and> mined_as xn (w @ [c]) d rc \<and> r_status rc = 1)"

lemma credited_allowed: "credited xn request gw w vr w' \<Longrightarrow> allowed xn request gw w w'"
  unfolding credited_def allowed_def by blast

lemma proof_in_hex: "proof_in a = Some p \<Longrightarrow> dp_response_hex p \<noteq> []"
  by (auto simp: proof_in_def split: sum.splits option.splits if_splits)

lemma await_loop_Some: "await_loop f i n = Some p \<Longrightarrow> \<exists>k < i + n. i \<le> k \<and> proof_in (f k) = Some p"
proof (induction n arbitrary: i)
  case (Suc n)
  show ?case
  proof (cases "proof_in (f i)")
    case None
    then obtain k where "k < Suc i + n" "Suc i \<le> k" "proof_in (f k) = Some p"
      using Suc.IH [of "Suc i"] Suc.prems by (simp del: add_Suc) blast
    then show ?thesis by (intro exI [of _ k]) simp
  next
    case (Some q)
    then show ?thesis using Suc.prems by (intro exI [of _ i]) simp
  qed
qed simp

lemma awaitProof_Inr:
  "awaitProof xn vr h w = (Inr p, w') \<Longrightarrow> \<exists>i < 40. proof_in (xn_da xn i (proof_body vr h)) = Some p"
  by (auto simp: awaitProof_def given_def dest!: await_loop_Some split: option.splits)

lemma buildFundCall_Inr:
  "buildFundCall xn p w = (Inr (out, claim), w') \<Longrightarrow>
    \<exists>data. xn_unpack_response xn (xn_from_hex xn (dp_response_hex p)) = Inr data \<and> xn_pack_fund xn (fund_proof xn p data) = Inr out"
  by (auto simp: buildFundCall_def given_def ret_def then_do_Inr_iff)

section \<open>The command\<close>

text \<open>The state after the request was mined with success; then after the queries for the round.\<close>

definition requested :: "fund_net \<Rightarrow> string \<Rightarrow> fund_call list \<Rightarrow> address \<Rightarrow> receipt \<Rightarrow> fund_call list \<Rightarrow> bool" where
  "requested xn request w fsm rc v \<longleftrightarrow>
     (\<exists>c. is_request xn request w c \<and> v = w @ [c] \<and> mined_as xn w c rc \<and> r_status rc = 1
        \<and> lookup xn ''FlareSystemsManager'' w = (Inr fsm, w))"

lemma requested_allowed: "requested xn request w fsm rc v \<Longrightarrow> allowed xn request gw w v"
  by (auto simp: requested_def allowed_def)

definition proven :: "fund_net \<Rightarrow> string \<Rightarrow> fund_call list \<Rightarrow> int \<Rightarrow> bytes \<Rightarrow> fund_call list \<Rightarrow> bool" where
  "proven xn request w vr out v \<longleftrightarrow>
     (\<exists>c. is_request xn request w c \<and> v = w @ [c] \<and> round_of xn w c vr \<and>
        (\<forall>gw d. carries d gw out 0 \<longrightarrow> is_fund xn request vr gw d))"

lemma proven_allowed:
  "proven xn request w vr out v \<Longrightarrow> allowed xn request gw w v"
  "proven xn request w vr out v \<Longrightarrow> carries d gw out 0 \<Longrightarrow> allowed xn request gw w (v @ [d])"
  by (auto simp: proven_def allowed_def)

lemma provenI:
  assumes "requested xn request w fsm rc v" and "ask (\<lambda>w. map_err g (xn_block_time xn w rc)) v = (Inr time, v)"
    and "callBig xn fsm ''firstVotingRoundStartTs'' [] v = (Inr t0, v)"
    and "callBig xn fsm ''votingEpochDurationSeconds'' [] v = (Inr dur, v)" and "dur \<noteq> 0"
    and "awaitProof xn (big_div (sint time - t0) dur) request v = (Inr da, v)"
    and "buildFundCall xn da v = (Inr (out, claim), v)"
  shows "proven xn request w (big_div (sint time - t0) dur) out v"
proof -
  obtain c where c: "is_request xn request w c" "v = w @ [c]" "mined_as xn w c rc" "r_status rc = 1"
    "lookup xn ''FlareSystemsManager'' w = (Inr fsm, w)" using assms(1) unfolding requested_def by blast
  have "round_of xn w c (big_div (sint time - t0) dur)"
    using assms(2-5) c unfolding round_of_def by (intro exI conjI) (auto simp: ask_def)
  moreover have "is_fund xn request (big_div (sint time - t0) dur) gw d" if "carries d gw out 0" for gw d
    using that awaitProof_Inr [OF assms(6)] buildFundCall_Inr [OF assms(7)] proof_in_hex
    unfolding is_fund_def carries_def by blast
  ultimately show ?thesis using c(1,2) unfolding proven_def by blast
qed

lemma fund_valid_sends:
  "triple (\<lambda>v. v = w) (fund_valid xn gw request) (\<lambda>rep v. credited xn request gw w (fx_round rep) v) (allowed xn request gw w)"
  unfolding fund_valid_def [abs_def] Let_def
  apply (rule triple_do, rule triple_read, rule reads, simp add: allowed_def)+
  apply (rule triple_do, rule triple_send_call)
    apply (simp add: allowed_def)
   apply (auto simp: allowed_def is_request_def carries_def packed_def given_def) [1]
  apply (rule triple_if)
   apply (rule triple_fail, auto simp: allowed_def is_request_def carries_def packed_def given_def) [1]
  subgoal for hub feeAddr fsm fee data rc
    apply (rule triple_pre [where P = "requested xn request w fsm rc"])
     apply (rule triple_do, rule triple_read, rule reads, blast intro: requested_allowed)+
     apply (rule triple_if)
      apply (rule triple_fail, blast intro: requested_allowed)
     apply (rule triple_do, rule triple_read, rule reads, blast intro: requested_allowed)
     apply (rule triple_do, rule triple_read, rule reads, blast intro: requested_allowed)
    subgoal for time t0 dur da built
      apply (cases built)
      apply (simp only: prod.case)
      apply (rule triple_pre [where P = "proven xn request w (big_div (sint time - t0) dur) (fst built)"])
       apply (rule triple_do, rule triple_send_call)
         apply (simp_all add: proven_allowed)
       apply (rule triple_if)
        apply (rule triple_fail)
        apply (auto simp: proven_allowed) [1]
       apply (rule triple_ret)
       apply (auto simp: proven_def credited_def) [1]
      apply (elim conjE)
      apply (rule provenI)
            apply assumption+
      done
    apply (auto simp: requested_def is_request_def carries_def packed_def given_def)
    done
  done

text \<open>(C37) No credit without an attested payment. Whatever the services answer, \<^verbatim>\<open>xrpl-fund\<close> sends
  nothing, or one request for the attestation of a payment the verifier called VALID, at the
  fee the chain asks for; and it calls the gateway only after that request was mined with
  success, with the decoded response and Merkle nodes of a proof that one of forty answers of
  the data availability layer gave for the voting round of the request's block. It reports
  success only where both transactions were mined with success.\<close>

theorem fund_needs_attested_payment:
  assumes "xrpl_fund xn other to_ecdsa e txF gwF rpcF w = (r, w')"
  shows "(w' = w \<and> (\<exists>t. r = Inl t)) \<or>
    (\<exists>rq. accepted xn (to_lower other (trim_space txF)) rq
      \<and> allowed xn (pp_request rq) (xn_hex_to_address xn gwF) w w'
      \<and> (\<forall>rep. r = Inr rep \<longrightarrow> credited xn (pp_request rq) (xn_hex_to_address xn gwF) w (fx_round rep) w'))"
proof (cases "fst (xrpl_fund xn other to_ecdsa e txF gwF rpcF w) = r \<and>
    (\<exists>rq. accepted xn (to_lower other (trim_space txF)) rq
      \<and> fund_valid xn (xn_hex_to_address xn gwF) (pp_request rq) w = (r, w'))")
  case True
  then obtain rq where "accepted xn (to_lower other (trim_space txF)) rq"
    and "fund_valid xn (xn_hex_to_address xn gwF) (pp_request rq) w = (r, w')" by blast
  moreover have "case r of Inl e \<Rightarrow> allowed xn (pp_request rq) (xn_hex_to_address xn gwF) w w'
      | Inr rep \<Rightarrow> credited xn (pp_request rq) (xn_hex_to_address xn gwF) w (fx_round rep) w'"
    using tripleD [OF fund_valid_sends refl] calculation(2) by blast
  ultimately show ?thesis
    by (intro disjI2 exI [of _ rq]) (auto dest: credited_allowed split: sum.splits)
next
  case False
  then have "w' = w \<and> (\<exists>t. r = Inl t)"
    using assms
    by (auto simp: xrpl_fund_def Let_def fail_def given_def prepare_def accepted_def then_do_def
        split: if_splits sum.splits option.splits prod.splits)
  then show ?thesis by blast
qed

section \<open>A concrete payment\<close>

definition demo_payment :: string where
  "demo_payment = ''0x'' @ replicate 64 CHR ''a''"

definition demo_response :: fdcResponse where
  "demo_response =
     \<lparr>fr_attestation_type = 0, fr_source_id = 0, fr_voting_round = 8, fr_lowest_used_timestamp = 0,
      fr_request_body = \<lparr>fq_transaction_id = 0, fq_in_utxo = 0, fq_utxo = 0\<rparr>,
      fr_response_body = \<lparr>fb_block_number = 0, fb_block_timestamp = 0, fb_source_address_hash = 0, fb_source_addresses_root = 0,
        fb_receiving_address_hash = 0, fb_intended_receiving_address_hash = 0, fb_spent_amount = 0, fb_intended_spent_amount = 0,
        fb_received_amount = 2000000, fb_intended_received_amount = 0, fb_standard_payment_reference = 42,
        fb_one_to_one = True, fb_status = 0\<rparr>\<rparr>"

definition valid_reply :: bytes where
  "valid_reply = json_object [(''status'', json_quote ''VALID''), (''abiEncodedRequest'', json_quote ''0xab'')]"

definition proof_reply :: bytes where
  "proof_reply = json_object [(''response_hex'', json_quote ''0xcd''), (''proof'', CHR 0x5B # json_quote ''0xef'' @ [CHR 0x5D])]"

definition demo_fund :: fund_net where
  "demo_fund =
     \<lparr>nt_transactor = None, nt_send = (\<lambda>w c. Inr 0), nt_answers = (\<lambda>w h. demo_answers), nt_simulate = (\<lambda>w c. None),
      nt_unpack = (\<lambda>_. None), nt_hash_hex = (\<lambda>_. []),
      xn_dial = (\<lambda>_. None), xn_chain_id = Inr 114, xn_verifier = (\<lambda>_. Inr (''200'', valid_reply)),
      xn_da = (\<lambda>i _. if i = 0 then Inl ''not found'' else Inr proof_reply),
      xn_pack = (\<lambda>m args. Inr (m @ concat args)), xn_call = (\<lambda>w to d. Inr d),
      xn_unpack = (\<lambda>m out. Some
        (if m = ''getContractAddressByName'' then [AvAddress 5] else if m = ''votingEpochDurationSeconds'' then [AvU64 90]
         else if m = ''firstVotingRoundStartTs'' then [AvU64 1000] else [AvBig 3])),
      xn_pending_nonce = (\<lambda>w. Inr (of_nat (length w))), xn_gas_tip = (\<lambda>_. Inl ''unsupported''), xn_base_fee = (\<lambda>_. Inr (Some 25)),
      xn_block_time = (\<lambda>w rc. Inr 1720), xn_from_hex = (\<lambda>s. drop 2 s), xn_hex_to_address = (\<lambda>_. 9),
      xn_unpack_response = (\<lambda>_. Inr demo_response), xn_pack_fund = (\<lambda>p. Inr ''fund'')\<rparr>"

definition demo_request_call :: fund_call where
  "demo_request_call =
     \<lparr>xc_to = 5, xc_value = 3, xc_data = ''requestAttestationab'', xc_nonce = 0, xc_gas = 2000000, xc_tip_cap = 1, xc_fee_cap = 51\<rparr>"

definition demo_fund_call :: fund_call where
  "demo_fund_call =
     \<lparr>xc_to = 9, xc_value = 0, xc_data = ''fund'', xc_nonce = 1, xc_gas = 2000000, xc_tip_cap = 1, xc_fee_cap = 51\<rparr>"

lemma demo_replies:
  "decode_prepare valid_reply = Some \<lparr>pp_status = ''VALID'', pp_request = ''0xab''\<rparr>"
  "decode_proof proof_reply = Some \<lparr>dp_response_hex = ''0xcd'', dp_proof = [''0xef'']\<rparr>"
proof -
  have "json_unmarshal valid_reply = Some (JObj [(''status'', JStr ''VALID''), (''abiEncodedRequest'', JStr ''0xab'')])"
    "json_unmarshal proof_reply = Some (JObj [(''response_hex'', JStr ''0xcd''), (''proof'', JArr [JStr ''0xef''])])"
    by (simp_all add: json_unmarshal_def valid_reply_def proof_reply_def json_object_def plain_eval pda_simps lex_rec(1))
  then show "decode_prepare valid_reply = Some \<lparr>pp_status = ''VALID'', pp_request = ''0xab''\<rparr>"
    "decode_proof proof_reply = Some \<lparr>dp_response_hex = ''0xcd'', dp_proof = [''0xef'']\<rparr>"
    by (simp_all add: decode_prepare_def decode_proof_def decode_struct_def json_field_exact set_prepare_def set_proof_def
        json_to_string_def json_to_slice_def)
qed

lemma demo_queries:
  "lookup demo_fund n w = (Inr 5, w)" "callBig demo_fund a ''getRequestFee'' args w = (Inr 3, w)"
  "callBig demo_fund a ''firstVotingRoundStartTs'' args w = (Inr 1000, w)"
  "callBig demo_fund a ''votingEpochDurationSeconds'' args w = (Inr 90, w)"
  by (simp_all add: lookup_def callBig_def packed_def given_def ask_def ret_def demo_fund_def)

lemma demo_send_call:
  "send demo_fund to data value w = (Inr demo_receipt, w @ [\<lparr>xc_to = to, xc_value = value, xc_data = data,
     xc_nonce = of_nat (length w), xc_gas = 2000000, xc_tip_cap = 1, xc_fee_cap = 51\<rparr>])"
  by (simp add: send_def ask_def transactor_def send_tx_def wait_mined_def demo_fund_def demo_answers_def)

lemma demo_await: "awaitProof demo_fund vr h w = (Inr \<lparr>dp_response_hex = ''0xcd'', dp_proof = [''0xef'']\<rparr>, w)"
proof -
  have "await_loop (\<lambda>i. xn_da demo_fund i b) 0 (Suc (Suc n)) = Some \<lparr>dp_response_hex = ''0xcd'', dp_proof = [''0xef'']\<rparr>" for b n
    by (simp add: demo_fund_def proof_in_def demo_replies)
  from this [of _ 38] show ?thesis by (simp add: awaitProof_def given_def numeral_eq_Suc)
qed

lemma demo_fund_run:
  "fund_valid demo_fund 9 ''0xab'' [] =
    (Inr \<lparr>fx_fee = 3, fx_round = 8, fx_nodes = 1, fx_claimed = (2000000, 42)\<rparr>, [demo_request_call, demo_fund_call])"
  by (simp add: fund_valid_def demo_queries demo_send_call demo_await packed_def given_def ask_def ret_def buildFundCall_def Let_def
      demo_receipt_def)
     (simp add: demo_fund_def demo_request_call_def demo_fund_call_def claimed_def demo_response_def)

theorem fund_needs_attested_payment_witness:
  "\<exists>rq. accepted demo_fund demo_payment rq \<and> allowed demo_fund (pp_request rq) 9 [] [demo_request_call, demo_fund_call]
    \<and> credited demo_fund (pp_request rq) 9 [] 8 [demo_request_call, demo_fund_call]"
proof -
  have "trim_space demo_payment = demo_payment" unfolding demo_payment_def
    by (rule trim_space_visible) (simp_all add: visible_def code_of_def)
  moreover have "to_lower id demo_payment = demo_payment"
    by (simp add: to_lower_def demo_payment_def code_of_def ascii_lower_def list_all_iff)
  moreover have "is_tx_hash demo_payment" by (simp add: is_tx_hash_def demo_payment_def has_prefix_def)
  ultimately have "xrpl_fund demo_fund id Inr [''DEPLOYMENT_PRIVATE_KEY'' \<mapsto> ''k''] demo_payment [] [] [] =
    (Inr \<lparr>fx_fee = 3, fx_round = 8, fx_nodes = 1, fx_claimed = (2000000, 42)\<rparr>, [demo_request_call, demo_fund_call])"
    using demo_fund_run by (simp add: xrpl_fund_def Getenv_def given_def prepare_def)
      (simp add: demo_fund_def demo_replies)
  from fund_needs_attested_payment [OF this] show ?thesis
    using \<open>trim_space demo_payment = demo_payment\<close> \<open>to_lower id demo_payment = demo_payment\<close>
    by (auto simp: demo_fund_def)
qed

end
