(* ===== verification/Start_Up.thy ===== *)
theory Start_Up
  imports Support Transactions Registration Extension Ext_Config
begin

text \<open>
  Starting the processes: \<^verbatim>\<open>go/cmd/start-tee\<close>, \<^verbatim>\<open>go/cmd/docker\<close>, \<^verbatim>\<open>go/cmd/main.go\<close>,
  \<^verbatim>\<open>go/pkg/server\<close> and \<^verbatim>\<open>tools/cmd/start-proxy\<close>, with the calls to the node of
  \<^verbatim>\<open>tools/pkg/fccutils/tee_calls.go\<close> they use. The sleeps and the goroutines are left out: what
  a process sees of them is whether the server had failed by the time it looks, and which of
  a signal and a failure comes first.
\<close>

section \<open>Calls to the node\<close>

text \<open>\<open>get\<close> is the body of an HTTP GET, whatever its status; \<open>decode\<close> the JSON decoder of the node's type.\<close>

definition TeeInfo :: "(string \<Rightarrow> err + bytes) \<Rightarrow> (bytes \<Rightarrow> err + signed_info) \<Rightarrow> string \<Rightarrow> err + signed_info" where
  "TeeInfo get decode nodeURL = and_then (get (nodeURL @ ''/info'')) decode"

text \<open>The claims of an attestation token, with the two fields read of them.\<close>

definition CodeHashAndPlatform ::
  "(bytes \<Rightarrow> err + 'c) \<Rightarrow> ('c \<Rightarrow> err + hash) \<Rightarrow> ('c \<Rightarrow> err + hash) \<Rightarrow> bytes \<Rightarrow> err + hash \<times> hash" where
  "CodeHashAndPlatform parse code plat attestation =
     and_then (parse attestation) (\<lambda>claims.
     and_then (code claims) (\<lambda>codeHash.
     and_then (plat claims) (\<lambda>platform. Inr (codeHash, platform))))"

definition GetTeeProxyID ::
  "crypto \<Rightarrow> (string \<Rightarrow> err + bytes) \<Rightarrow> (bytes \<Rightarrow> err + signed_info) \<Rightarrow> string \<Rightarrow> err + address \<times> address" where
  "GetTeeProxyID cr get decode proxyURL = and_then (TeeInfo get decode proxyURL) (TeeProxyId cr)"

text \<open>\<open>marshal\<close> is the JSON of the node's request type, \<open>http_post\<close> the status of the answer.\<close>

definition setProxyURL ::
  "(string \<Rightarrow> err + bytes) \<Rightarrow> (string \<Rightarrow> bytes \<Rightarrow> err + int) \<Rightarrow> int \<Rightarrow> int \<Rightarrow> err option" where
  "setProxyURL marshal http_post configurationPort proxyPort =
     (case marshal (''http://localhost:'' @ big_string proxyPort) of
        Inl e \<Rightarrow> Some e
      | Inr body \<Rightarrow>
        (case http_post (''http://localhost:'' @ big_string configurationPort @ ''/proxy'') body of
           Inl e \<Rightarrow> Some e
         | Inr code \<Rightarrow> if code \<noteq> 200 then Some (''unexpected status code: '' @ big_string code) else None))"

definition SetProxyUrl ::
  "(string \<Rightarrow> err + bytes) \<Rightarrow> (string \<Rightarrow> bytes \<Rightarrow> err + int) \<Rightarrow> int \<Rightarrow> int \<Rightarrow> err option" where
  "SetProxyUrl marshal http_post configurationPort proxyPort = setProxyURL marshal http_post configurationPort proxyPort"

section \<open>Paths and environment files\<close>

text \<open>An absolute clean path by its components; \<open>up n\<close> joins the directory of a file with n times \<^verbatim>\<open>..\<close>.\<close>

type_synonym path = "string list"

definition path_text :: "path \<Rightarrow> string" where
  "path_text cs = concat (map (\<lambda>c. ''/'' @ c) cs)"

definition up :: "nat \<Rightarrow> path \<Rightarrow> path" where
  "up n file = take (length file - Suc n) file"

definition load_env :: "(string \<Rightarrow> err + env) \<Rightarrow> path \<Rightarrow> env \<Rightarrow> err option \<times> env" where
  "load_env dotenv rootEnv e =
     (case godotenv_Load dotenv (path_text rootEnv) e of
        (None, e1) \<Rightarrow> (None, e1)
      | (Some _, e1) \<Rightarrow> godotenv_Load dotenv ''.env'' e1)"

section \<open>The extension server\<close>

text \<open>\<open>listen\<close> is the error of \<^verbatim>\<open>ListenAndServe\<close>, if it returned one by the time the caller looks.\<close>

definition StartExtension :: "(int \<Rightarrow> err option) \<Rightarrow> int \<Rightarrow> int \<Rightarrow> extension \<times> err option" where
  "StartExtension listen extensionPort signPort = (New, listen extensionPort)"

datatype event = Interrupted | ServerReturned "err option"
datatype exit = Clean | Fatal err

definition ErrServerClosed :: err where "ErrServerClosed = ''http: Server closed''"

text \<open>\<^verbatim>\<open>go/cmd/main.go\<close>: a failure of the graceful shutdown is only logged.\<close>

definition go_main :: "event \<Rightarrow> exit" where
  "go_main ev =
     (case ev of
        Interrupted \<Rightarrow> Clean
      | ServerReturned None \<Rightarrow> Clean
      | ServerReturned (Some e) \<Rightarrow> if e \<noteq> ErrServerClosed then Fatal (''server: '' @ e) else Clean)"

text \<open>\<^verbatim>\<open>go/cmd/docker\<close>: \<open>early\<close> is what the error channel holds after the pause, \<open>ev\<close> what comes first.\<close>

definition docker_main :: "getenv \<Rightarrow> (int \<Rightarrow> err option) \<Rightarrow> event \<Rightarrow> (int \<times> int \<times> int) \<times> exit" where
  "docker_main getenv listen ev =
     (case docker_ports getenv of
        (configPort, signPort, extensionPort) \<Rightarrow>
          ((configPort, signPort, extensionPort),
           case snd (StartExtension listen extensionPort signPort) of
             Some e \<Rightarrow> Fatal (''extension server failed to start: '' @ e)
           | None \<Rightarrow>
               (case ev of
                  ServerReturned (Some e) \<Rightarrow> Fatal (''extension server error: '' @ e)
                | _ \<Rightarrow> Clean)))"

section \<open>start-tee\<close>

definition tee_ports :: "int \<times> int \<times> int \<times> int" where
  "tee_ports = (5501, 6663, 7701, 7702)"

definition tee_root_env :: "path \<Rightarrow> path" where
  "tee_root_env thisFile = up 2 thisFile @ [''.env'']"

record host =
  ho_this_file :: path
  ho_dotenv :: "string \<Rightarrow> err + env"
  ho_to_ecdsa :: "string \<Rightarrow> err + private_key"
  ho_account :: "private_key \<Rightarrow> address"
  ho_hex :: "address \<Rightarrow> string"
  ho_hex_to_address :: "string \<Rightarrow> address"
  ho_listen :: "int \<Rightarrow> err option"
  ho_marshal :: "string \<Rightarrow> err + bytes"
  ho_post :: "string \<Rightarrow> bytes \<Rightarrow> err + int"

definition owner_key :: "host \<Rightarrow> string \<Rightarrow> err + private_key" where
  "owner_key h privKeyString =
     (if privKeyString = [] then map_err (\<lambda>_. ''cannot parse default private key'') (ho_to_ecdsa h dev_key)
      else map_err (prefixed ''Error: '') (ho_to_ecdsa h (strip_0x privKeyString)))"

text \<open>The returned address reads the variable before it was set.\<close>

definition setOwnerAddress :: "host \<Rightarrow> env \<Rightarrow> (err + address) \<times> env" where
  "setOwnerAddress h e =
     (let owner = Getenv e ''INITIAL_OWNER'' in
      if owner = [] then
        (case owner_key h (Getenv e ''DEPLOYMENT_PRIVATE_KEY'') of
           Inl t \<Rightarrow> (Inl t, e)
         | Inr k \<Rightarrow> (Inr (ho_hex_to_address h owner), e(''INITIAL_OWNER'' \<mapsto> ho_hex h (ho_account h k))))
      else (Inr (ho_hex_to_address h owner), e))"

definition runExtension :: "host \<Rightarrow> exit" where
  "runExtension h =
     (case tee_ports of
        (configurationPort, proxyInternal, serverPort, extensionPort) \<Rightarrow>
          (case snd (StartExtension (ho_listen h) extensionPort serverPort) of
             Some e \<Rightarrow> Fatal (''extension server failed to start: '' @ e)
           | None \<Rightarrow>
             (case setProxyURL (ho_marshal h) (ho_post h) configurationPort proxyInternal of
                Some e \<Rightarrow> Fatal (''Error: '' @ e)
              | None \<Rightarrow> Clean)))"

definition start_tee :: "host \<Rightarrow> string \<Rightarrow> env \<Rightarrow> exit \<times> env" where
  "start_tee h extensionID e =
     (let e1 = snd (load_env (ho_dotenv h) (tee_root_env (ho_this_file h)) e) in
      case setOwnerAddress h e1 of
        (Inl t, e2) \<Rightarrow> (Fatal t, e2)
      | (Inr _, e2) \<Rightarrow>
          (runExtension h, if extensionID \<noteq> [] then e2(''EXTENSION_ID'' \<mapsto> extensionID) else e2))"

section \<open>start-proxy\<close>

definition projectRoot :: "path \<Rightarrow> path" where
  "projectRoot thisFile = up 3 thisFile"

definition proxy_root_env :: "path \<Rightarrow> path" where
  "proxy_root_env thisFile = projectRoot thisFile @ [''.env'']"

text \<open>\<open>exists\<close> is \<^verbatim>\<open>os.Stat\<close> without error.\<close>

definition findProxyConfig :: "path \<Rightarrow> (string \<Rightarrow> bool) \<Rightarrow> env \<Rightarrow> string" where
  "findProxyConfig thisFile exists e =
     (let envConfig = Getenv e ''PROXY_CONFIG'';
          candidate = path_text (projectRoot thisFile @ [''config'', ''proxy'', ''extension_proxy.toml''])
      in if envConfig \<noteq> [] then envConfig
         else if exists candidate then candidate
         else ''./config/proxy/extension_proxy.toml'')"

text \<open>\<open>read_config\<close> is the external port the proxy's configuration names.\<close>

definition logProxyAndTeeIds ::
  "(string \<Rightarrow> err + string) \<Rightarrow> crypto \<Rightarrow> (string \<Rightarrow> err + bytes) \<Rightarrow> (bytes \<Rightarrow> err + signed_info) \<Rightarrow> (address \<Rightarrow> string) \<Rightarrow> string
     \<Rightarrow> err + string" where
  "logProxyAndTeeIds read_config cr get decode hex configFile =
     and_then (map_err (prefixed ''failed to read proxy config: '') (read_config configFile)) (\<lambda>external.
     and_then (map_err (prefixed ''failed to extract teeID and proxyID: '')
         (GetTeeProxyID cr get decode (''http://localhost:'' @ external))) (\<lambda>(teeID, proxyID).
       Inr (''Proxy started - TeeID: '' @ hex teeID @ '', ProxyID: '' @ hex proxyID)))"

text \<open>The command: the configuration file it starts the proxy with, the environment, and the log line.\<close>

definition start_proxy ::
  "path \<Rightarrow> (string \<Rightarrow> err + env) \<Rightarrow> (string \<Rightarrow> bool) \<Rightarrow> (string \<Rightarrow> err + string) \<Rightarrow> crypto \<Rightarrow> (string \<Rightarrow> err + bytes)
     \<Rightarrow> (bytes \<Rightarrow> err + signed_info) \<Rightarrow> (address \<Rightarrow> string) \<Rightarrow> env \<Rightarrow> (string \<times> string) \<times> env" where
  "start_proxy thisFile dotenv exists read_config cr get decode hex e =
     (let e1 = snd (load_env dotenv (proxy_root_env thisFile) e);
          cfg = findProxyConfig thisFile exists e1
      in ((cfg, case logProxyAndTeeIds read_config cr get decode hex cfg of
                  Inl t \<Rightarrow> ''Failed to log proxy and tee IDs: '' @ t
                | Inr line \<Rightarrow> line), e1))"

section \<open>What the environment of the node is\<close>

lemma load_env_keeps: "e k = Some v \<Longrightarrow> snd (load_env dotenv root e) k = Some v"
  by (simp add: load_env_def godotenv_Load_def split: sum.splits)

lemma load_env_from_root:
  "dotenv (path_text root) = Inr vars \<Longrightarrow> load_env dotenv root e = (None, vars ++ e)"
  by (simp add: load_env_def godotenv_Load_def)

text \<open>The node always starts with an owner: where \<^verbatim>\<open>start-tee\<close> does not stop at a key it
  cannot parse, the variable \<^verbatim>\<open>INITIAL_OWNER\<close> of the environment it hands to the node is the one
  that was set, in the process or in the file, and otherwise the address of the deployment
  key or of the development key. The extension id is the flag's where one is given, and no
  other variable of the process is changed by the files.\<close>

theorem start_tee_environment:
  assumes "setOwnerAddress h (snd (load_env (ho_dotenv h) (tee_root_env (ho_this_file h)) e)) = (Inr a, e2)"
    and "\<And>x. ho_hex h x \<noteq> []"
  shows "\<exists>x e1. start_tee h extensionID e = (x, e1) \<and> Getenv e1 ''INITIAL_OWNER'' \<noteq> []
    \<and> (Getenv e ''INITIAL_OWNER'' \<noteq> [] \<longrightarrow> Getenv e1 ''INITIAL_OWNER'' = Getenv e ''INITIAL_OWNER'')
    \<and> (extensionID \<noteq> [] \<longrightarrow> Getenv e1 ''EXTENSION_ID'' = extensionID)
    \<and> (\<forall>k v. e k = Some v \<and> k \<noteq> ''INITIAL_OWNER'' \<and> k \<noteq> ''EXTENSION_ID'' \<longrightarrow> e1 k = Some v)"
proof -
  let ?e1 = "snd (load_env (ho_dotenv h) (tee_root_env (ho_this_file h)) e)"
  have kept: "Getenv ?e1 ''INITIAL_OWNER'' = Getenv e ''INITIAL_OWNER''" if "Getenv e ''INITIAL_OWNER'' \<noteq> []"
    using that by (auto simp: Getenv_def load_env_keeps split: option.splits)
  have e2: "(Getenv ?e1 ''INITIAL_OWNER'' \<noteq> [] \<and> e2 = ?e1) \<or> (Getenv ?e1 ''INITIAL_OWNER'' = [] \<and> (\<exists>t. t \<noteq> [] \<and> e2 = ?e1(''INITIAL_OWNER'' \<mapsto> t)))"
    using assms by (auto simp: setOwnerAddress_def Let_def split: if_splits sum.splits)
  have owner: "Getenv e2 ''INITIAL_OWNER'' \<noteq> []"
    "Getenv e ''INITIAL_OWNER'' \<noteq> [] \<longrightarrow> Getenv e2 ''INITIAL_OWNER'' = Getenv e ''INITIAL_OWNER''"
    using e2 kept by (auto simp: Getenv_def split: option.splits)
  have rest: "e2 k = Some v" if "e k = Some v" "k \<noteq> ''INITIAL_OWNER''" for k v
    using e2 that load_env_keeps [of e k v] by auto
  let ?e3 = "if extensionID \<noteq> [] then e2(''EXTENSION_ID'' \<mapsto> extensionID) else e2"
  have "start_tee h extensionID e = (runExtension h, ?e3)" using assms(1) by (simp add: start_tee_def)
  moreover have "Getenv ?e3 ''INITIAL_OWNER'' = Getenv e2 ''INITIAL_OWNER''" by (simp add: Getenv_def)
  moreover have "extensionID \<noteq> [] \<longrightarrow> Getenv ?e3 ''EXTENSION_ID'' = extensionID" by (simp add: Getenv_def)
  ultimately show ?thesis using owner rest by auto
qed

text \<open>The two commands look for the environment of the project in different places: for a
  checkout at any directory, \<^verbatim>\<open>start-proxy\<close> reads the file at the root, while \<^verbatim>\<open>start-tee\<close>,
  which climbs one directory less, reads one in \<^verbatim>\<open>go\<close> and not the root's.\<close>

theorem root_env_paths:
  "proxy_root_env (root @ [''tools'', ''cmd'', ''start-proxy'', ''main.go'']) = root @ [''.env'']
   \<and> tee_root_env (root @ [''go'', ''cmd'', ''start-tee'', ''main.go'']) = root @ [''go'', ''.env'']"
  by (simp add: proxy_root_env_def tee_root_env_def projectRoot_def up_def)

theorem start_tee_environment_witness:
  "\<exists>x e1. start_tee \<lparr>ho_this_file = [], ho_dotenv = (\<lambda>_. Inr [''EXTENSION_ID'' \<mapsto> ''1'']), ho_to_ecdsa = Inr, ho_account = (\<lambda>_. 1),
        ho_hex = (\<lambda>_. ''0x''), ho_hex_to_address = (\<lambda>_. 0), ho_listen = (\<lambda>_. None), ho_marshal = Inr, ho_post = (\<lambda>_ _. Inr 200)\<rparr>
      ''7'' Map.empty = (x, e1) \<and> Getenv e1 ''INITIAL_OWNER'' \<noteq> [] \<and> Getenv e1 ''EXTENSION_ID'' = ''7''"
proof -
  let ?h = "\<lparr>ho_this_file = [], ho_dotenv = (\<lambda>_. Inr [''EXTENSION_ID'' \<mapsto> ''1'']), ho_to_ecdsa = Inr, ho_account = (\<lambda>_. 1),
        ho_hex = (\<lambda>_. ''0x''), ho_hex_to_address = (\<lambda>_. 0), ho_listen = (\<lambda>_. None), ho_marshal = Inr, ho_post = (\<lambda>_ _. Inr 200)\<rparr> :: host"
  have "\<exists>e2. setOwnerAddress ?h (snd (load_env (ho_dotenv ?h) (tee_root_env (ho_this_file ?h)) Map.empty)) = (Inr 0, e2)"
    by (simp add: setOwnerAddress_def load_env_def godotenv_Load_def Getenv_def owner_key_def)
  then obtain e2 where "setOwnerAddress ?h (snd (load_env (ho_dotenv ?h) (tee_root_env (ho_this_file ?h)) Map.empty)) = (Inr 0, e2)" ..
  from start_tee_environment [OF this, of "''7''"] show ?thesis by auto
qed

end
