(* ===== verification/Inspect.thy ===== *)
theory Inspect
  imports Transactions Registration Support
begin

text \<open>
  Looking at a deployment: \<^verbatim>\<open>tools/cmd/audit-deploy\<close>, \<^verbatim>\<open>tools/cmd/query-tee\<close>,
  \<^verbatim>\<open>tools/cmd/inspect-tee\<close> and the diagnosis of a failed availability check in
  \<^verbatim>\<open>tools/pkg/fccutils/diag.go\<close>. The two programs that replay a call explain its revert in
  the same way, over different lists of contracts.
\<close>

section \<open>Explaining revert data\<close>

text \<open>
  A custom error with its id and the decoder of its arguments, as \<^verbatim>\<open>%v\<close> prints them; a source
  is a contract with its ABI, which may fail to load. \<^verbatim>\<open>a.Errors\<close> is a map: the list is the
  order in which it is visited.
\<close>

record error_def =
  ed_name :: string
  ed_id :: bytes
  ed_args :: "bytes \<Rightarrow> err + string"

type_synonym error_source = "string \<times> (err + error_def list)"

text \<open>A match: the contract, the error, its arguments.\<close>

type_synonym error_match = "string \<times> string \<times> (err + string)"

fun match_error :: "string \<Rightarrow> bytes \<Rightarrow> error_def list \<Rightarrow> error_match option" where
  "match_error src revertData [] = None"
| "match_error src revertData (e # es) =
     (if take 4 (ed_id e) \<noteq> take 4 revertData then match_error src revertData es
      else Some (src, ed_name e, ed_args e (drop 4 revertData)))"

fun match_source :: "bytes \<Rightarrow> error_source list \<Rightarrow> error_match option" where
  "match_source revertData [] = None"
| "match_source revertData ((src, Inl t) # ss) = match_source revertData ss"
| "match_source revertData ((src, Inr es) # ss) =
     (case match_error src revertData es of
        Some m \<Rightarrow> Some m
      | None \<Rightarrow> match_source revertData ss)"

datatype explanation =
    Reason string
  | Named error_match
  | Unknown

definition error_selector :: bytes where
  "error_selector = map char_of [0x08::nat, 0xc3, 0x79, 0xa0]"

definition explain_revert :: "(bytes \<Rightarrow> string option) \<Rightarrow> error_source list \<Rightarrow> bytes \<Rightarrow> explanation" where
  "explain_revert unpack sources revertData =
     (case (if take 4 revertData = error_selector then unpack revertData else None) of
        Some reason \<Rightarrow> Reason reason
      | None \<Rightarrow>
          (case match_source revertData sources of
             Some m \<Rightarrow> Named m
           | None \<Rightarrow> Unknown))"

section \<open>diag.go\<close>

text \<open>
  The generated bindings: what \<^verbatim>\<open>GetAbi\<close> returns for a contract, by its name. The contracts
  each program tries, in its order.
\<close>

type_synonym abis = "string \<Rightarrow> err + error_def list"

definition diag_contracts :: "string list" where
  "diag_contracts = [''Verification'', ''Fdc2Hub'', ''MachineManager'', ''ExtensionManager'']"

definition sources_of :: "abis \<Rightarrow> string list \<Rightarrow> error_source list" where
  "sources_of abi names = map (\<lambda>name. (name, abi name)) names"

text \<open>
  The replayed availability check: loading the ABI, packing the call, and the error of
  \<^verbatim>\<open>eth_call\<close> if it fails; \<open>from_hex\<close> as for \<open>ExtractRevertData\<close>. The result is the last line it
  logs.
\<close>

definition diagAvailabilityCheckRevert ::
  "(bytes \<Rightarrow> string option) \<Rightarrow> (string \<Rightarrow> bytes) \<Rightarrow> abis \<Rightarrow> err option \<Rightarrow> rpc_error option \<Rightarrow> string" where
  "diagAvailabilityCheckRevert unpack from_hex abi packErr callErr =
     (case abi ''Verification'' of
        Inl e \<Rightarrow> ''diag: load Verification ABI: '' @ e
      | Inr _ \<Rightarrow>
      (case packErr of
        Some e \<Rightarrow> ''diag: pack calldata: '' @ e
      | None \<Rightarrow>
      (case callErr of
        None \<Rightarrow> ''diag: eth_call unexpectedly succeeded '' @ dash @ '' revert may be tx-time/gas-related''
      | Some e \<Rightarrow>
        let revertData = ExtractRevertData from_hex callErr in
        if length revertData = 0 then ''diag: eth_call error has no revert data: '' @ e_text e
        else if length revertData < 4 then
          ''diag: revert data too short to contain a selector: 0x'' @ hex_encode revertData
        else
          (case explain_revert unpack (sources_of abi diag_contracts) revertData of
             Reason reason \<Rightarrow> ''diag: revert reason (string): '' @ go_quote reason
           | Named (src, name, Inl t) \<Rightarrow>
               ''diag: revert -> '' @ src @ ''.'' @ name @ '' (arg unpack failed: '' @ t @ '') data=0x'' @ hex_encode revertData
           | Named (src, name, Inr args) \<Rightarrow> ''diag: revert -> '' @ src @ ''.'' @ name @ ''('' @ args @ '')''
           | Unknown \<Rightarrow>
               ''diag: revert with unknown selector 0x'' @ hex_encode (take 4 revertData) @ ''; full data: 0x'' @
               hex_encode revertData))))"

section \<open>audit-deploy\<close>

definition bytes32ToString :: "bytes \<Rightarrow> string" where
  "bytes32ToString b = trim_space (rev (dropWhile (\<lambda>c. c = CHR 0x00) (rev b)))"

definition audit_contracts :: "string list" where
  "audit_contracts = [''ExtensionManager'', ''MachineManager'', ''Verification'']"

text \<open>The replay of \<^verbatim>\<open>addTeeVersion\<close>: the ABI, the packed version, the call.\<close>

definition replayAddTeeVersion ::
  "(bytes \<Rightarrow> string option) \<Rightarrow> (string \<Rightarrow> bytes) \<Rightarrow> abis \<Rightarrow> string \<Rightarrow> (bytes \<Rightarrow> err + rpc_error option) \<Rightarrow> string" where
  "replayAddTeeVersion unpack from_hex abi version replay =
     (case abi ''ExtensionManager'' of
        Inl e \<Rightarrow> ''  load ABI: '' @ e
      | Inr _ \<Rightarrow>
      (case StringToBytes32 version of
        Inl e \<Rightarrow> ''  version: '' @ e
      | Inr versionBytes \<Rightarrow>
      (case replay versionBytes of
        Inl e \<Rightarrow> ''  pack: '' @ e
      | Inr None \<Rightarrow> ''  eth_call succeeded '' @ dash @ '' tx-time-only revert (gas/state race?)''
      | Inr (Some e) \<Rightarrow>
        let revertData = ExtractRevertData from_hex (Some e) in
        if length revertData < 4 then ''  no/short revert data: '' @ e_text e
        else
          (case explain_revert unpack (sources_of abi audit_contracts) revertData of
             Reason reason \<Rightarrow> ''  revert reason (string): '' @ go_quote reason
           | Named (src, name, Inl t) \<Rightarrow>
               ''  revert -> '' @ src @ ''.'' @ name @ '' (unpack failed: '' @ t @ '') data=0x'' @ hex_encode revertData
           | Named (src, name, Inr args) \<Rightarrow> ''  revert -> '' @ src @ ''.'' @ name @ args
           | Unknown \<Rightarrow>
               ''  revert with unknown selector 0x'' @ hex_encode (take 4 revertData) @ '' (full: 0x'' @ hex_encode revertData @ '')''))))"

definition address_status :: "chain_client \<Rightarrow> address \<Rightarrow> string" where
  "address_status cc a =
     (case CodeAt cc a of
        Inl e \<Rightarrow> ''ERROR '' @ e
      | Inr code \<Rightarrow>
          if a = 0 then ''ZERO ADDRESS''
          else if length code = 0 then ''NO CODE''
          else ''ok ('' @ dec_nat (length code) @ '' bytes)'')"

definition pad_right :: "nat \<Rightarrow> string \<Rightarrow> string" where
  "pad_right n s = s @ replicate (n - length s) CHR '' ''"

definition audited :: "Addresses \<Rightarrow> (string \<times> address) list" where
  "audited a =
     [(''FlareTeeManager'', ad_tee_manager a), (''FlareSystemsManager'', ad_systems_manager a), (''Fdc2Hub'', ad_fdc2_hub a)]"

text \<open>The facet's views, and the text of a hash and of an address. The lines printed are listed one by one, an empty one before each heading.\<close>

record extension_view =
  ev_bind :: "err option"
  ev_platforms :: "err + hash list"
  ev_next_id :: "err + int"
  ev_owner :: "int \<Rightarrow> err + address"
  ev_code_hashes :: "int \<Rightarrow> err + hash list"
  ev_key_types :: "int \<Rightarrow> err + hash list"
  ev_hash_hex :: "hash \<Rightarrow> string"
  ev_hash_bytes :: "hash \<Rightarrow> bytes"

definition status_lines :: "(address \<Rightarrow> string) \<Rightarrow> chain_client \<Rightarrow> Addresses \<Rightarrow> string list" where
  "status_lines hex cc a =
     map (\<lambda>(name, x). ''  '' @ pad_right 25 name @ '' '' @ hex x @ ''   '' @ address_status cc x) (audited a)"

definition named_hash :: "extension_view \<Rightarrow> hash \<Rightarrow> string" where
  "named_hash ev h = ''    '' @ ev_hash_hex ev h @ ''   '' @ go_quote (bytes32ToString (ev_hash_bytes ev h))"

definition facet_lines :: "(address \<Rightarrow> string) \<Rightarrow> extension_view \<Rightarrow> address \<Rightarrow> string list" where
  "facet_lines hex ev manager =
     [] # (''=== ExtensionManager facet @ FlareTeeManager '' @ hex manager @ '' ==='') #
     (case ev_platforms ev of
        Inl e \<Rightarrow> [''  getSystemSupportedPlatforms ERROR: '' @ e]
      | Inr plats \<Rightarrow> (''  systemSupportedPlatforms ('' @ dec_nat (length plats) @ ''):'') # map (named_hash ev) plats) @
     (case ev_next_id ev of Inl _ \<Rightarrow> [] | Inr cnt \<Rightarrow> [''  nextPublicExtensionId: '' @ big_string cnt])"

definition extension_lines :: "(address \<Rightarrow> string) \<Rightarrow> extension_view \<Rightarrow> int \<Rightarrow> string list" where
  "extension_lines hex ev eid =
     [] # (''=== Extension id='' @ big_string eid @ '' ==='') #
     (case ev_owner ev eid of
        Inl e \<Rightarrow> [''  getExtensionOwner ERROR: '' @ e]
      | Inr owner \<Rightarrow> [''  owner: '' @ hex owner]) @
     (case ev_code_hashes ev eid of
        Inl e \<Rightarrow> [''  getSupportedCodeHashes ERROR: '' @ e]
      | Inr ch \<Rightarrow> (''  supportedCodeHashes ('' @ dec_nat (length ch) @ ''):'') # map (\<lambda>h. ''    '' @ ev_hash_hex ev h) ch) @
     (case ev_key_types ev eid of
        Inl _ \<Rightarrow> []
      | Inr kt \<Rightarrow> (''  supportedKeyTypes ('' @ dec_nat (length kt) @ ''):'') # map (named_hash ev) kt)"

text \<open>
  The command: a failure to start, or the lines on standard output and the line on standard
  error. \<open>replay\<close> is the last line of the replay for the given flags.
\<close>

definition audit_deploy ::
  "(address \<Rightarrow> string) \<Rightarrow> err + Addresses \<Rightarrow> err + chain_client \<Rightarrow> (err + u64) \<Rightarrow> extension_view \<Rightarrow> int \<Rightarrow> string \<Rightarrow> string
     \<Rightarrow> (address \<Rightarrow> int \<Rightarrow> string) \<Rightarrow> err + string list \<times> err option" where
  "audit_deploy hex addrs dialled block ev extID codeHash platform replay =
     and_then (map_err (prefixed ''parse addresses: '') addrs) (\<lambda>addr.
     and_then (map_err (prefixed ''dial: '') dialled) (\<lambda>cc.
     and_then (map_err (prefixed ''chainId: '') (ChainID cc)) (\<lambda>chainID.
       let bn = (case block of Inl _ \<Rightarrow> 0 | Inr b \<Rightarrow> unat b);
           start = (''Chain ID: '' @ big_string chainID @ ''   block: '' @ dec_nat bn) # status_lines hex cc addr
       in if ad_tee_manager addr = 0 then Inr (start, None)
          else (case ev_bind ev of
              Some e \<Rightarrow> Inr (start, Some (''bind ExtensionManager: '' @ e))
            | None \<Rightarrow>
                Inr (start @ facet_lines hex ev (ad_tee_manager addr) @
                  (if extID \<ge> 0 then extension_lines hex ev extID else []) @
                  (if codeHash \<noteq> [] \<and> platform \<noteq> [] \<and> extID \<ge> 0 then
                     [[], ''=== addTeeVersion eth_call replay (decoding revert) ==='', replay (ad_tee_manager addr) extID] else []), None)))))"

section \<open>query-tee and inspect-tee\<close>

record tee_machine =
  tm_tee_id :: address
  tm_proxy_id :: address
  tm_url :: string

record machine_view =
  mv_dial :: "err option"
  mv_bind :: "err option"
  mv_active :: "int \<Rightarrow> err + address list \<times> string list"
  mv_machine :: "address \<Rightarrow> err + tee_machine"
  mv_status :: "address \<Rightarrow> err + nat"
  mv_owner :: "address \<Rightarrow> err + address"
  mv_extension :: "address \<Rightarrow> err + int"
  mv_changed :: "address \<Rightarrow> err + int"
  mv_policy :: "address \<Rightarrow> err + nat"
  mv_hex :: "address \<Rightarrow> string"
  mv_hex_to_address :: "string \<Rightarrow> address"

text \<open>The i-th active machine with its URL; a missing URL is an index out of range.\<close>

fun active_lines :: "machine_view \<Rightarrow> nat \<Rightarrow> address list \<Rightarrow> string list \<Rightarrow> err + string list" where
  "active_lines mv i [] urls = Inr []"
| "active_lines mv i (t # ts) urls =
     (if i < length urls then
        and_then (active_lines mv (Suc i) ts urls)
          (\<lambda>ls. Inr ((''  '' @ dec_nat i @ '': '' @ mv_hex mv t @ '' url='' @ go_quote (urls ! i)) # ls))
      else Inl ''index out of range'')"

definition view_line :: "string \<Rightarrow> ('a \<Rightarrow> string) \<Rightarrow> err + 'a \<Rightarrow> string" where
  "view_line name show_value r =
     (case r of Inl e \<Rightarrow> ''  '' @ name @ '' ERROR: '' @ e | Inr v \<Rightarrow> ''  '' @ name @ '': '' @ show_value v)"

definition machine_lines :: "machine_view \<Rightarrow> string \<Rightarrow> string list" where
  "machine_lines mv raw =
     (let i = mv_hex_to_address mv raw in
      [] # (''=== TEE '' @ mv_hex mv i @ '' ==='') #
      (case mv_machine mv i of
         Inl e \<Rightarrow> [''  getTeeMachine ERROR: '' @ e]
       | Inr m \<Rightarrow>
           (''  getTeeMachine: teeId='' @ mv_hex mv (tm_tee_id m) @ '' teeProxyId='' @ mv_hex mv (tm_proxy_id m) @
            '' url='' @ go_quote (tm_url m)) # (if tm_tee_id m = 0 then [''  -> EMPTY/UNREGISTERED''] else [])) @
      [view_line ''getTeeMachineStatus'' dec_nat (mv_status mv i),
       view_line ''getTeeMachineOwner'' (mv_hex mv) (mv_owner mv i),
       view_line ''getExtensionId'' big_string (mv_extension mv i),
       view_line ''getLastStatusChangeTs'' big_string (mv_changed mv i),
       view_line ''getInitialSigningPolicyId'' dec_nat (mv_policy mv i)])"

definition connect :: "machine_view \<Rightarrow> err + unit" where
  "connect mv =
     (case mv_dial mv of
        Some e \<Rightarrow> Inl (''dial: '' @ e)
      | None \<Rightarrow> (case mv_bind mv of Some e \<Rightarrow> Inl (''bind: '' @ e) | None \<Rightarrow> Inr ()))"

definition query_tee :: "machine_view \<Rightarrow> int \<Rightarrow> string list \<Rightarrow> err + string list" where
  "query_tee mv listExt args =
     and_then (connect mv) (\<lambda>_.
     and_then
       (if listExt \<ge> 0 then
          and_then
            (case mv_active mv listExt of
               Inl e \<Rightarrow> Inr [''getActiveTeeMachines ERROR: '' @ e]
             | Inr (ids, urls) \<Rightarrow>
                 and_then (active_lines mv 0 ids urls) (\<lambda>ls. Inr (if length ids = 0 then [''  (none)''] else ls)))
            (\<lambda>ls. Inr ([] # (''=== Active TEEs for extensionId='' @ big_string listExt @ '' ==='') # ls))
        else Inr []) (\<lambda>actives.
       Inr (actives @ concat (map (machine_lines mv) args))))"

text \<open>\<open>show_machine\<close> is \<^verbatim>\<open>%+v\<close> of the binding's struct; a failure to connect is a panic.\<close>

definition inspect_tee :: "machine_view \<Rightarrow> (tee_machine \<Rightarrow> string) \<Rightarrow> string \<Rightarrow> err + string" where
  "inspect_tee mv show_machine tee =
     (case mv_dial mv of
        Some e \<Rightarrow> Inl e
      | None \<Rightarrow>
        (case mv_bind mv of
           Some e \<Rightarrow> Inl e
         | None \<Rightarrow>
             Inr (case mv_machine mv (mv_hex_to_address mv tee) of
                    Inl e \<Rightarrow> ''getTeeMachine ERROR: '' @ e
                  | Inr m \<Rightarrow> show_machine m)))"

section \<open>What explains a revert\<close>

text \<open>
  An ABI recognises revert data by the four bytes of one of its errors. \<open>explains\<close> says, of the set of
  errors of each ABI, what the explanation is to be: the reason where the data is a Solidity
  \<^verbatim>\<open>Error(string)\<close> that unpacks; else the error of the first contract in order that recognises
  the data, with the arguments of the rest; else none.
\<close>

definition recognises :: "abis \<Rightarrow> string \<Rightarrow> bytes \<Rightarrow> bool" where
  "recognises abi src d \<longleftrightarrow> (\<exists>es ed. abi src = Inr es \<and> ed \<in> set es \<and> take 4 (ed_id ed) = take 4 d)"

definition error_string :: "(bytes \<Rightarrow> string option) \<Rightarrow> bytes \<Rightarrow> string \<Rightarrow> bool" where
  "error_string unpack d reason \<longleftrightarrow> take 4 d = map char_of [0x08::nat, 0xc3, 0x79, 0xa0] \<and> unpack d = Some reason"

definition first_match :: "abis \<Rightarrow> string list \<Rightarrow> bytes \<Rightarrow> error_match \<Rightarrow> bool" where
  "first_match abi names d m \<longleftrightarrow>
     (\<exists>before src others es ed. names = before @ src # others \<and> (\<forall>s \<in> set before. \<not> recognises abi s d)
        \<and> abi src = Inr es \<and> ed \<in> set es \<and> take 4 (ed_id ed) = take 4 d
        \<and> m = (src, ed_name ed, ed_args ed (drop 4 d)))"

definition explains :: "(bytes \<Rightarrow> string option) \<Rightarrow> abis \<Rightarrow> string list \<Rightarrow> bytes \<Rightarrow> explanation \<Rightarrow> bool" where
  "explains unpack abi names d x \<longleftrightarrow>
     (case x of
        Reason reason \<Rightarrow> error_string unpack d reason
      | Named m \<Rightarrow> (\<nexists>reason. error_string unpack d reason) \<and> first_match abi names d m
      | Unknown \<Rightarrow> (\<nexists>reason. error_string unpack d reason) \<and> (\<forall>s \<in> set names. \<not> recognises abi s d))"

definition distinct_selectors :: "abis \<Rightarrow> bool" where
  "distinct_selectors abi \<longleftrightarrow> (\<forall>src es. abi src = Inr es \<longrightarrow> distinct (map (\<lambda>ed. take 4 (ed_id ed)) es))"

lemma match_error_find:
  "match_error src d es = map_option (\<lambda>ed. (src, ed_name ed, ed_args ed (drop 4 d))) (find (\<lambda>ed. take 4 (ed_id ed) = take 4 d) es)"
  by (induction es) simp_all

lemma match_source_first:
  "case match_source d (sources_of abi names) of
     Some m \<Rightarrow> first_match abi names d m
   | None \<Rightarrow> \<forall>s \<in> set names. \<not> recognises abi s d"
proof (induction names)
  case (Cons src names)
  define known where "known = (case abi src of Inl t \<Rightarrow> None | Inr es \<Rightarrow> match_error src d es)"
  have split: "match_source d (sources_of abi (src # names)) =
      (case known of Some m \<Rightarrow> Some m | None \<Rightarrow> match_source d (sources_of abi names))"
    unfolding sources_of_def known_def by (cases "abi src") simp_all
  show ?case
  proof (cases known)
    case None
    then have no: "\<not> recognises abi src d"
      by (auto simp: known_def match_error_find recognises_def find_None_iff)
    have "first_match abi (src # names) d m" if "first_match abi names d m" for m
      using that no unfolding first_match_def by (metis append_Cons set_ConsD)
    then show ?thesis using Cons no None unfolding split by (auto split: option.splits)
  next
    case (Some m)
    then obtain es ed where "abi src = Inr es" "find (\<lambda>ed. take 4 (ed_id ed) = take 4 d) es = Some ed"
      "m = (src, ed_name ed, ed_args ed (drop 4 d))"
      by (auto simp: known_def match_error_find split: sum.splits)
    moreover from this have "ed \<in> set es" "take 4 (ed_id ed) = take 4 d" by (auto simp: find_Some_iff)
    ultimately have "first_match abi (src # names) d m"
      unfolding first_match_def by (intro exI [where x = "[]"] exI [where x = src] exI [where x = names]
        exI [where x = es] exI [where x = ed]) simp
    then show ?thesis unfolding split Some by simp
  qed
qed (simp add: sources_of_def)

text \<open>The first contract that recognises the data is one, and so is its error.\<close>

lemma first_match_unique:
  assumes "distinct_selectors abi" "first_match abi names d m" "first_match abi names d m'"
  shows "m = m'"
proof -
  obtain before src others es ed where m: "names = before @ src # others" "\<forall>s \<in> set before. \<not> recognises abi s d"
    "abi src = Inr es" "ed \<in> set es" "take 4 (ed_id ed) = take 4 d" "m = (src, ed_name ed, ed_args ed (drop 4 d))"
    using assms(2) unfolding first_match_def by blast
  obtain before' src' others' es' ed' where m': "names = before' @ src' # others'" "\<forall>s \<in> set before'. \<not> recognises abi s d"
    "abi src' = Inr es'" "ed' \<in> set es'" "take 4 (ed_id ed') = take 4 d" "m' = (src', ed_name ed', ed_args ed' (drop 4 d))"
    using assms(3) unfolding first_match_def by blast
  have "recognises abi src d" "recognises abi src' d" using m(3-5) m'(3-5) unfolding recognises_def by blast+
  then have "src \<notin> set before'" "src' \<notin> set before" using m(2) m'(2) by blast+
  then have "src = src'" using m(1) m'(1) by (auto simp: append_eq_append_conv2 append_eq_Cons_conv Cons_eq_append_conv)
  moreover from this have "es' = es" using m(3) m'(3) by simp
  moreover have "inj_on (\<lambda>ed. take 4 (ed_id ed)) (set es)"
    using assms(1) m(3) by (simp add: distinct_selectors_def distinct_map)
  then have "ed = ed'" by (rule inj_onD) (use m(4,5) m'(4,5) calculation in simp_all)
  ultimately show ?thesis using m(6) m'(6) by simp
qed

lemma explain_revert_explains: "explains unpack abi names d (explain_revert unpack (sources_of abi names) d)"
proof -
  have E: "(if take 4 d = error_selector then unpack d else None) = Some t \<longleftrightarrow> error_string unpack d t" for t
    by (auto simp: error_selector_def error_string_def)
  show ?thesis
    using match_source_first [where d = d and abi = abi and names = names]
    by (auto simp: explain_revert_def explains_def error_selector_def error_string_def split: option.splits explanation.splits if_splits)
qed

lemma explains_iff:
  assumes "distinct_selectors abi"
  shows "explains unpack abi names d x \<longleftrightarrow> x = explain_revert unpack (sources_of abi names) d"
proof
  assume x: "explains unpack abi names d x"
  note y = explain_revert_explains [of unpack abi names d]
  have no: "\<not> (\<forall>s \<in> set names. \<not> recognises abi s d)" if "first_match abi names d m" for m
    using that unfolding first_match_def recognises_def by fastforce
  show "x = explain_revert unpack (sources_of abi names) d"
    using x y no first_match_unique [OF assms]
    by (cases x; cases "explain_revert unpack (sources_of abi names) d") (auto simp: explains_def error_string_def)
qed (use explain_revert_explains in simp)

text \<open>The lines the two programs print for an explanation.\<close>

fun diag_line :: "bytes \<Rightarrow> explanation \<Rightarrow> string" where
  "diag_line d (Reason reason) = ''diag: revert reason (string): '' @ go_quote reason"
| "diag_line d (Named (src, name, Inl t)) = ''diag: revert -> '' @ src @ ''.'' @ name @ '' (arg unpack failed: '' @ t @ '') data=0x'' @ hex_encode d"
| "diag_line d (Named (src, name, Inr args)) = ''diag: revert -> '' @ src @ ''.'' @ name @ ''('' @ args @ '')''"
| "diag_line d Unknown = ''diag: revert with unknown selector 0x'' @ hex_encode (take 4 d) @ ''; full data: 0x'' @ hex_encode d"

fun audit_line :: "bytes \<Rightarrow> explanation \<Rightarrow> string" where
  "audit_line d (Reason reason) = ''  revert reason (string): '' @ go_quote reason"
| "audit_line d (Named (src, name, Inl t)) = ''  revert -> '' @ src @ ''.'' @ name @ '' (unpack failed: '' @ t @ '') data=0x'' @ hex_encode d"
| "audit_line d (Named (src, name, Inr args)) = ''  revert -> '' @ src @ ''.'' @ name @ args"
| "audit_line d Unknown = ''  revert with unknown selector 0x'' @ hex_encode (take 4 d) @ '' (full: 0x'' @ hex_encode d @ '')''"

lemma diag_explained:
  assumes "abi ''Verification'' = Inr es" "4 \<le> length (ExtractRevertData from_hex (Some e))"
  shows "diagAvailabilityCheckRevert unpack from_hex abi None (Some e) =
    (let d = ExtractRevertData from_hex (Some e) in diag_line d (explain_revert unpack (sources_of abi diag_contracts) d))"
proof -
  let ?d = "ExtractRevertData from_hex (Some e)"
  have "?d \<noteq> []" "\<not> length ?d < 4" using assms(2) by auto
  then show ?thesis
    by (simp add: diagAvailabilityCheckRevert_def assms(1) Let_def split: explanation.splits sum.splits prod.splits)
qed

lemma audit_explained:
  assumes "abi ''ExtensionManager'' = Inr es" "StringToBytes32 version = Inr vb" "replay vb = Inr (Some e)"
    and "4 \<le> length (ExtractRevertData from_hex (Some e))"
  shows "replayAddTeeVersion unpack from_hex abi version replay =
    (let d = ExtractRevertData from_hex (Some e) in audit_line d (explain_revert unpack (sources_of abi audit_contracts) d))"
proof -
  have "\<not> length (ExtractRevertData from_hex (Some e)) < 4" using assms(4) by simp
  then show ?thesis
    by (simp add: replayAddTeeVersion_def assms(1-3) Let_def split: explanation.splits sum.splits prod.splits)
qed

text \<open>(C38) The two replays explain a revert as they promise. Given the ABIs, of which it is assumed that no
  two errors of one have the same four-byte selector, the line printed for an error of the call is
  decided by its revert data: missing or shorter than a selector, it is reported so; else it has
  exactly one explanation, which is a Solidity reason where there is one that unpacks, else the
  error of the first contract in the program's order (Verification, Fdc2Hub, MachineManager,
  ExtensionManager for the diagnosis; ExtensionManager, MachineManager, Verification for the audit) that
  recognises the selector, with its arguments decoded from the bytes after it, else an
  unknown selector. The order in which Go visits an ABI's map of errors plays no part: \<open>explains\<close>
  speaks of their set.\<close>

theorem revert_is_explained:
  assumes "distinct_selectors abi" and "abi ''Verification'' = Inr es1" and "abi ''ExtensionManager'' = Inr es2"
    and "StringToBytes32 version = Inr vb" and "replay vb = Inr (Some e)"
    and "d = ExtractRevertData from_hex (Some e)"
    and "line = diagAvailabilityCheckRevert unpack from_hex abi None (Some e)"
    and "line' = replayAddTeeVersion unpack from_hex abi version replay"
  shows "(length d = 0 \<longrightarrow> line = ''diag: eth_call error has no revert data: '' @ e_text e)
    \<and> (0 < length d \<and> length d < 4 \<longrightarrow> line = ''diag: revert data too short to contain a selector: 0x'' @ hex_encode d)
    \<and> (length d < 4 \<longrightarrow> line' = ''  no/short revert data: '' @ e_text e)
    \<and> (4 \<le> length d \<longrightarrow>
        (\<exists>x. (\<forall>y. explains unpack abi [''Verification'', ''Fdc2Hub'', ''MachineManager'', ''ExtensionManager''] d y \<longleftrightarrow> y = x)
          \<and> line = diag_line d x)
      \<and> (\<exists>x. (\<forall>y. explains unpack abi [''ExtensionManager'', ''MachineManager'', ''Verification''] d y \<longleftrightarrow> y = x)
          \<and> line' = audit_line d x))"
proof -
  have short: "length d = 0 \<longrightarrow> line = ''diag: eth_call error has no revert data: '' @ e_text e"
    "0 < length d \<and> length d < 4 \<longrightarrow> line = ''diag: revert data too short to contain a selector: 0x'' @ hex_encode d"
    "length d < 4 \<longrightarrow> line' = ''  no/short revert data: '' @ e_text e"
    unfolding assms(7,8) diagAvailabilityCheckRevert_def replayAddTeeVersion_def
    by (simp_all add: assms(2-5) assms(6) [symmetric] Let_def)
  have "line = diag_line d (explain_revert unpack (sources_of abi diag_contracts) d)"
    "line' = audit_line d (explain_revert unpack (sources_of abi audit_contracts) d)" if "4 \<le> length d"
    using diag_explained [where abi = abi, OF assms(2)] audit_explained [where abi = abi and replay = replay, OF assms(3-5)] that
    by (simp_all add: assms(6-8) Let_def)
  then show ?thesis
    using short explains_iff [OF assms(1), of unpack diag_contracts d] explains_iff [OF assms(1), of unpack audit_contracts d]
    unfolding diag_contracts_def audit_contracts_def by blast
qed

text \<open>Two errors of one contract, and one of the same selector in a later contract.\<close>

definition demo_abis :: abis where
  "demo_abis name =
     (if name = ''MachineManager'' then Inr
        [\<lparr>ed_name = ''A'', ed_id = ''abcd'', ed_args = (\<lambda>_. Inr ''[1]'')\<rparr>, \<lparr>ed_name = ''B'', ed_id = ''wxyz'', ed_args = (\<lambda>b. Inr b)\<rparr>]
      else if name = ''ExtensionManager'' then Inr [\<lparr>ed_name = ''C'', ed_id = ''wxyz'', ed_args = (\<lambda>_. Inl ''bad'')\<rparr>]
      else if name = ''Fdc2Hub'' then Inl ''no ABI'' else Inr [])"

theorem revert_is_explained_witness:
  "\<exists>x x'. explains (\<lambda>_. None) demo_abis [''Verification'', ''Fdc2Hub'', ''MachineManager'', ''ExtensionManager''] ''wxyz1'' x
   \<and> explains (\<lambda>_. None) demo_abis [''ExtensionManager'', ''MachineManager'', ''Verification''] ''wxyz1'' x'
   \<and> x = Named (''MachineManager'', ''B'', Inr ''1'') \<and> x' = Named (''ExtensionManager'', ''C'', Inl ''bad'')"
proof -
  define e where "e = \<lparr>e_text = ''execution reverted'', e_data = Some (DataBytes ''wxyz1'')\<rparr>"
  have distinct: "distinct_selectors demo_abis" by (auto simp: distinct_selectors_def demo_abis_def split: if_splits)
  obtain vb where vb: "StringToBytes32 ''v1'' = Inr vb" by (simp add: StringToBytes32_def)
  have d: "''wxyz1'' = ExtractRevertData id (Some e)" by (simp add: ExtractRevertData_def e_def)
  have abis: "demo_abis ''Verification'' = Inr []"
    "demo_abis ''ExtensionManager'' = Inr [\<lparr>ed_name = ''C'', ed_id = ''wxyz'', ed_args = (\<lambda>_. Inl ''bad'')\<rparr>]"
    by (simp_all add: demo_abis_def)
  from revert_is_explained [OF distinct abis vb, of "\<lambda>_. Inr (Some e)", OF refl d refl refl, of "\<lambda>_. None"]
  obtain x x' where x: "\<forall>y. explains (\<lambda>_. None) demo_abis [''Verification'', ''Fdc2Hub'', ''MachineManager'', ''ExtensionManager''] ''wxyz1'' y \<longleftrightarrow> y = x"
    and x': "\<forall>y. explains (\<lambda>_. None) demo_abis [''ExtensionManager'', ''MachineManager'', ''Verification''] ''wxyz1'' y \<longleftrightarrow> y = x'"
    by auto
  have "x = Named (''MachineManager'', ''B'', Inr ''1'')" "x' = Named (''ExtensionManager'', ''C'', Inl ''bad'')"
    using x x' explain_revert_explains [of "\<lambda>_. None" demo_abis diag_contracts "''wxyz1''"]
      explain_revert_explains [of "\<lambda>_. None" demo_abis audit_contracts "''wxyz1''"]
    by (simp_all add: diag_contracts_def audit_contracts_def explain_revert_def sources_of_def demo_abis_def)
  then show ?thesis using x x' by blast
qed

section \<open>Version names\<close>

text \<open>A version name of visible characters that fits is what the audit reads back from the 32
  bytes the registration packs it into; a longer one is refused.\<close>

theorem version_name_roundtrip:
  "(length s > 32 \<longrightarrow> (\<exists>e. StringToBytes32 s = Inl e))
   \<and> (length s \<le> 32 \<and> list_all visible s \<longrightarrow>
       (\<exists>b. StringToBytes32 s = Inr b \<and> length b = 32 \<and> bytes32ToString b = s))"
proof -
  have "bytes32ToString (s @ replicate n (CHR 0x00)) = s" if "list_all visible s" for n
  proof -
    have "\<not> visible (CHR 0x00)" by (simp add: visible_def code_of_def)
    moreover have "\<exists>c cs. rev s = c # cs \<and> visible c" if "s \<noteq> []"
      using that \<open>list_all visible s\<close> by (metis list_all_iff neq_Nil_conv rev_is_Nil_conv set_rev list.set_intros(1))
    ultimately have "dropWhile (\<lambda>c. c = CHR 0x00) (rev s) = rev s" by (cases "s = []") (auto split: if_splits)
    then have "dropWhile (\<lambda>c. c = CHR 0x00) (replicate n (CHR 0x00) @ rev s) = rev s"
      by (induction n) simp_all
    moreover have "trim_space s = s"
      using that by (intro trim_space_visible) (cases "s = []", simp_all add: list_all_iff)
    ultimately show ?thesis by (simp add: bytes32ToString_def)
  qed
  then show ?thesis by (auto simp: StringToBytes32_def)
qed

theorem version_name_roundtrip_witness:
  "\<exists>b. StringToBytes32 ''v0.1.0'' = Inr b \<and> length b = 32 \<and> bytes32ToString b = ''v0.1.0''"
  using version_name_roundtrip [of "''v0.1.0''"] by (simp add: visible_def code_of_def)

end
