(* ===== verification/Commands.thy ===== *)
theory Commands
  imports Start_Up Registration_Facts
begin

text \<open>
  The commands \<^verbatim>\<open>tools/cmd/allow-tee-version\<close>, \<^verbatim>\<open>tools/cmd/set-governance\<close> and
  \<^verbatim>\<open>tools/cmd/register-tee\<close> from their flags on: the support they start from, the key that
  signs, the node they ask, and the operation of \<^verbatim>\<open>Registration\<close> they end in.
\<close>

section \<open>The extension owner's key\<close>

text \<open>Both commands prefer \<^verbatim>\<open>EXTENSION_OWNER_KEY\<close>; they differ in how they strip its prefix.\<close>

definition allow_key :: "(string \<Rightarrow> err + private_key) \<Rightarrow> private_key \<Rightarrow> env \<Rightarrow> err + private_key" where
  "allow_key to_ecdsa deployment e =
     (let k = Getenv e ''EXTENSION_OWNER_KEY'' in
      if k \<noteq> [] then to_ecdsa (strip_0x k) else Inr deployment)"

definition governance_key :: "(string \<Rightarrow> err + private_key) \<Rightarrow> private_key \<Rightarrow> env \<Rightarrow> err + private_key" where
  "governance_key to_ecdsa deployment e =
     (let k = Getenv e ''EXTENSION_OWNER_KEY'' in
      if k \<noteq> [] then to_ecdsa (trim_prefix (trim_prefix k ''0x'') ''0X'') else Inr deployment)"

text \<open>A key text without a second prefix inside is read alike by both.\<close>

lemma owner_keys_agree:
  assumes "\<not> has_prefix (strip_0x (Getenv e ''EXTENSION_OWNER_KEY'')) ''0X''"
  shows "allow_key to_ecdsa deployment e = governance_key to_ecdsa deployment e"
proof -
  let ?k = "Getenv e ''EXTENSION_OWNER_KEY''"
  have "\<not> (has_prefix ?k ''0x'' \<and> has_prefix ?k ''0X'')" by (auto simp: has_prefix_def)
  then have "strip_0x ?k = trim_prefix (trim_prefix ?k ''0x'') ''0X''"
    using assms by (auto simp: strip_0x_def trim_prefix_def numeral_2_eq_2)
  then show ?thesis by (simp add: allow_key_def governance_key_def Let_def)
qed

section \<open>The commands\<close>

text \<open>
  \<open>chain_of\<close> is the chain as bound with the given support and signing key, \<open>get\<close> and \<open>decode\<close> the
  node's \<^verbatim>\<open>/info\<close>.
\<close>

record command_env =
  co_start :: start
  co_chain_of :: "support \<Rightarrow> private_key \<Rightarrow> chain"
  co_crypto :: crypto
  co_get :: "string \<Rightarrow> err + bytes"
  co_decode :: "bytes \<Rightarrow> err + signed_info"
  co_account :: "private_key \<Rightarrow> address"
  co_hex_to_address :: "string \<Rightarrow> address"

definition allow_tee_version_main ::
  "command_env \<Rightarrow> (call list \<Rightarrow> int \<Rightarrow> hash \<Rightarrow> hash \<Rightarrow> err + bool) \<Rightarrow> string \<Rightarrow> string \<Rightarrow> string \<Rightarrow> string \<Rightarrow> env \<Rightarrow> world_state
     \<Rightarrow> err option \<times> world_state" where
  "allow_tee_version_main co supported af cf pf versionF e w =
     (case DefaultSupport (co_start co) af cf e of
        (Inl t, e1) \<Rightarrow> (Some t, w)
      | (Inr s, e1) \<Rightarrow>
        (case TeeInfo (co_get co) (co_decode co) pf of
           Inl t \<Rightarrow> (Some t, w)
         | Inr info \<Rightarrow>
           (case allow_key (st_to_ecdsa (co_start co)) (s_prv s) e1 of
              Inl t \<Rightarrow> (Some t, w)
            | Inr k \<Rightarrow> allow_tee_version (co_chain_of co s k) (co_crypto co) supported info versionF w)))"

definition set_governance_main ::
  "command_env \<Rightarrow> string \<Rightarrow> string \<Rightarrow> string \<Rightarrow> env \<Rightarrow> world_state \<Rightarrow> err option \<times> world_state" where
  "set_governance_main co af cf pf e w =
     (case DefaultSupport (co_start co) af cf e of
        (Inl t, e1) \<Rightarrow> (Some t, w)
      | (Inr s, e1) \<Rightarrow>
        (case governance_key (st_to_ecdsa (co_start co)) (s_prv s) e1 of
           Inl t \<Rightarrow> (Some t, w)
         | Inr k \<Rightarrow>
             set_governance (co_chain_of co s k) (co_crypto co) (co_hex_to_address co) (Getenv e1) (co_account co k)
               (TeeInfo (co_get co) (co_decode co) pf) w))"

text \<open>The stale state file is removed before anything else can fail.\<close>

definition register_tee_main ::
  "command_env \<Rightarrow> file_system \<Rightarrow> proof_decoders \<Rightarrow> ftdc_proxy \<Rightarrow> (string \<Rightarrow> hash) \<Rightarrow> (hash \<Rightarrow> string)
     \<Rightarrow> string \<Rightarrow> string \<Rightarrow> string \<Rightarrow> string \<Rightarrow> string \<Rightarrow> string \<Rightarrow> bool \<Rightarrow> env \<Rightarrow> world_state \<Rightarrow> (err + unit) \<times> world_state" where
  "register_tee_main co fs pd fp hex_to_hash hash_text af cf pf hf command instructionF resume_flag e w =
     (let w0 = (if \<not> resume_flag then remove_state fs w else w) in
      case DefaultSupport (co_start co) af cf e of
        (Inl t, e1) \<Rightarrow> (Inl t, w0)
      | (Inr s, e1) \<Rightarrow>
          register_tee (co_chain_of co s (s_prv s)) (co_crypto co) fs pd fp hex_to_hash hash_text (Getenv e1)
            (TeeInfo (co_get co) (co_decode co) pf) pf hf command instructionF True w0)"

section \<open>Allowing a version\<close>

text \<open>The call that adds the version the node reports, signed with the owner's key.\<close>

definition version_call :: "signed_info \<Rightarrow> bytes \<Rightarrow> call" where
  "version_call info packed_version =
     AddVersionCall (uint (md_extension_id (si_machine info))) packed_version (md_code_hash (si_machine info))
       [md_platform (si_machine info)]"

lemma AddTeeVersion_cases:
  obtains (refused) t where "AddTeeVersion ch i c p v w = (Some t, w)"
  | (sent) b h r where "StringToBytes32 v = Inr b" "ch_send ch (ws_sent w) (AddVersionCall i b c [p]) = Inr h"
      "AddTeeVersion ch i c p v w = (r, w\<lparr>ws_sent := ws_sent w @ [AddVersionCall i b c [p]]\<rparr>)"
      "r = None \<Longrightarrow> \<exists>rc. check_tx ch (w\<lparr>ws_sent := ws_sent w @ [AddVersionCall i b c [p]]\<rparr>) h = Inr rc"
proof -
  have "(\<exists>t. AddTeeVersion ch i c p v w = (Some t, w)) \<or>
    (\<exists>b h r. StringToBytes32 v = Inr b \<and> ch_send ch (ws_sent w) (AddVersionCall i b c [p]) = Inr h
      \<and> AddTeeVersion ch i c p v w = (r, w\<lparr>ws_sent := ws_sent w @ [AddVersionCall i b c [p]]\<rparr>)
      \<and> (r = None \<longrightarrow> (\<exists>rc. check_tx ch (w\<lparr>ws_sent := ws_sent w @ [AddVersionCall i b c [p]]\<rparr>) h = Inr rc)))"
    by (simp add: AddTeeVersion_def send_call_def split: option.splits sum.splits)
  then show thesis using that by blast
qed

definition supported_now ::
  "(call list \<Rightarrow> int \<Rightarrow> hash \<Rightarrow> hash \<Rightarrow> err + bool) \<Rightarrow> signed_info \<Rightarrow> world_state \<Rightarrow> err + bool" where
  "supported_now supported info w =
     (let md = si_machine info in supported (ws_sent w) (uint (md_extension_id md)) (md_code_hash md) (md_platform md))"

definition add_version :: "chain \<Rightarrow> signed_info \<Rightarrow> string \<Rightarrow> world_state \<Rightarrow> err option \<times> world_state" where
  "add_version ch info v w =
     (let md = si_machine info in AddTeeVersion ch (uint (md_extension_id md)) (md_code_hash md) (md_platform md) v w)"

definition version_sent :: "chain \<Rightarrow> signed_info \<Rightarrow> string \<Rightarrow> world_state \<Rightarrow> world_state \<Rightarrow> hash \<Rightarrow> bool" where
  "version_sent ch info v w w' h \<longleftrightarrow>
     (\<exists>b. StringToBytes32 v = Inr b \<and> ch_send ch (ws_sent w) (version_call info b) = Inr h
        \<and> w' = w\<lparr>ws_sent := ws_sent w @ [version_call info b]\<rparr>)"

definition already_exists :: "chain \<Rightarrow> signed_info \<Rightarrow> string \<Rightarrow> world_state \<Rightarrow> bool" where
  "already_exists ch info v w \<longleftrightarrow> (\<exists>t. fst (add_version ch info v w) = Some t \<and> contains t ''VersionAlreadyExists'')"

lemma add_version_cases:
  "add_version ch info v w = (q, w') \<Longrightarrow>
     (w' = w \<and> q \<noteq> None) \<or> (\<exists>h. version_sent ch info v w w' h \<and> (q = None \<longrightarrow> (\<exists>rc. check_tx ch w' h = Inr rc)))"
  by (cases rule: AddTeeVersion_cases [of ch "uint (md_extension_id (si_machine info))" "md_code_hash (si_machine info)"
        "md_platform (si_machine info)" v w])
     (auto simp: add_version_def version_sent_def version_call_def Let_def)

text \<open>What the command works with: the node's report, and the chain bound with the owner's key.\<close>

definition works_with :: "command_env \<Rightarrow> string \<Rightarrow> string \<Rightarrow> string \<Rightarrow> env \<Rightarrow> signed_info \<Rightarrow> chain \<Rightarrow> bool" where
  "works_with co af cf pf e info ch \<longleftrightarrow>
     (\<exists>s e1 k. DefaultSupport (co_start co) af cf e = (Inr s, e1) \<and> TeeInfo (co_get co) (co_decode co) pf = Inr info
        \<and> allow_key (st_to_ecdsa (co_start co)) (s_prv s) e1 = Inr k \<and> ch = co_chain_of co s k)"

text \<open>(C39) Allowing a version is idempotent and honest. The command fails before anything is sent,
  or it works with the node's own report and the owner's key: where the registry supports
  the code and platform it succeeds and sends nothing; otherwise it sends at most one
  transaction, which adds that version, and succeeds only where that transaction was mined
  with success or the registry said that the version already exists.\<close>

theorem allowing_a_version:
  assumes "allow_tee_version_main co supported af cf pf versionF e w = (r, w')"
  shows "(w' = w \<and> r \<noteq> None) \<or>
    (\<exists>info ch. works_with co af cf pf e info ch
      \<and> (supported_now supported info w = Inr True \<and> r = None \<and> w' = w
         \<or> supported_now supported info w = Inr False \<and> r = None \<and> w' = w \<and> already_exists ch info versionF w
         \<or> supported_now supported info w = Inr False \<and> (\<exists>h. version_sent ch info versionF w w' h \<and>
              (r = None \<longrightarrow> (\<exists>rc. check_tx ch w' h = Inr rc) \<or> already_exists ch info versionF w))))"
proof (cases "\<exists>s e1 info k. DefaultSupport (co_start co) af cf e = (Inr s, e1) \<and> TeeInfo (co_get co) (co_decode co) pf = Inr info
    \<and> allow_key (st_to_ecdsa (co_start co)) (s_prv s) e1 = Inr k")
  case False
  then have "w' = w \<and> r \<noteq> None"
    using assms by (auto simp: allow_tee_version_main_def split: prod.splits sum.splits)
  then show ?thesis by blast
next
  case True
  then obtain s e1 info k where st: "DefaultSupport (co_start co) af cf e = (Inr s, e1)"
    "TeeInfo (co_get co) (co_decode co) pf = Inr info" "allow_key (st_to_ecdsa (co_start co)) (s_prv s) e1 = Inr k" by blast
  let ?ch = "co_chain_of co s k"
  have working: "works_with co af cf pf e info ?ch" unfolding works_with_def using st by blast
  have run: "allow_tee_version ?ch (co_crypto co) supported info versionF w = (r, w')"
    using assms st by (simp add: allow_tee_version_main_def)
  have "(w' = w \<and> r \<noteq> None) \<or> (supported_now supported info w = Inr True \<and> r = None \<and> w' = w)
      \<or> (supported_now supported info w = Inr False \<and> snd (add_version ?ch info versionF w) = w'
         \<and> (r = None \<longrightarrow> fst (add_version ?ch info versionF w) = None \<or> already_exists ?ch info versionF w))"
    using run by (auto simp: allow_tee_version_def Let_def supported_now_def already_exists_def add_version_def
        split: sum.splits bool.splits prod.splits option.splits if_splits)
  then show ?thesis
  proof (elim disjE)
    assume added: "supported_now supported info w = Inr False \<and> snd (add_version ?ch info versionF w) = w'
      \<and> (r = None \<longrightarrow> fst (add_version ?ch info versionF w) = None \<or> already_exists ?ch info versionF w)"
    then have "add_version ?ch info versionF w = (fst (add_version ?ch info versionF w), w')" by (simp add: prod_eq_iff)
    from add_version_cases [OF this] added
    have "(w' = w \<and> r \<noteq> None) \<or> (r = None \<and> w' = w \<and> already_exists ?ch info versionF w)
      \<or> (\<exists>h. version_sent ?ch info versionF w w' h \<and> (r = None \<longrightarrow> (\<exists>rc. check_tx ?ch w' h = Inr rc) \<or> already_exists ?ch info versionF w))"
      by auto
    with added working show ?thesis by blast
  qed (use working in blast)+
qed

section \<open>A concrete run\<close>

definition demo_command :: command_env where
  "demo_command =
     \<lparr>co_start = \<lparr>st_files = demo_address_files, st_dial = (\<lambda>_. Inr \<lparr>CodeAt = (\<lambda>_. Inr ''c''), BalanceAt = (\<lambda>_. Inr 0), ChainID = Inr 114\<rparr>),
        st_dotenv = (\<lambda>_. Inl ''no file''), st_to_ecdsa = Inr, st_funds = ''f'', st_bind = (\<lambda>_ _. None)\<rparr>,
      co_chain_of = (\<lambda>s k. demo_chain 5), co_crypto = demo_crypto, co_get = (\<lambda>_. Inr ''i''), co_decode = (\<lambda>_. Inr (demo_info 5)),
      co_account = (\<lambda>_. 7), co_hex_to_address = (\<lambda>_. 0)\<rparr>"

lemma demo_allow:
  "allow_tee_version_main demo_command (\<lambda>cs i c p. Inr (cs \<noteq> [])) ''o'' [] [] ''v1'' Map.empty \<lparr>ws_file = None, ws_sent = []\<rparr> =
    (None, \<lparr>ws_file = None, ws_sent = [version_call (demo_info 5) (''v1'' @ replicate 30 (CHR 0x00))]\<rparr>)"
proof -
  obtain a where "load_addresses demo_address_files ''o'' = Inr a" using demo_addresses by blast
  then have "\<exists>s. DefaultSupport (co_start demo_command) ''o'' [] Map.empty = (Inr s, Map.empty) \<and> s_prv s = ''f''"
    by (simp add: DefaultSupport_def demo_command_def DefaultPrivateKey_def godotenv_Load_def Getenv_def NewSupport_def bindings_def)
  then obtain s where s: "DefaultSupport (co_start demo_command) ''o'' [] Map.empty = (Inr s, Map.empty)" "s_prv s = ''f''" by blast
  show ?thesis
    by (simp add: allow_tee_version_main_def s TeeInfo_def)
       (simp add: allow_key_def Getenv_def demo_command_def allow_tee_version_def Let_def TeeProxyId_def demo_crypto_def demo_info_def demo_machine_def
         AddTeeVersion_def demo_chain_def StringToBytes32_def send_call_def check_tx_def CheckTx_def version_call_def)
qed

theorem allowing_a_version_witness:
  "\<exists>ch h. version_sent ch (demo_info 5) ''v1'' \<lparr>ws_file = None, ws_sent = []\<rparr>
     \<lparr>ws_file = None, ws_sent = [version_call (demo_info 5) (''v1'' @ replicate 30 (CHR 0x00))]\<rparr> h"
proof -
  have "TeeInfo (co_get demo_command) (co_decode demo_command) [] = Inr (demo_info 5)"
    by (simp add: TeeInfo_def demo_command_def)
  with allowing_a_version [OF demo_allow] show ?thesis by (auto simp: works_with_def)
qed

end
