(* ===== verification/Protocol.thy ===== *)
theory Protocol
  imports Enclave Client_Wire
begin

text \<open>
  The type of a reply. The extension is untyped at its edge: bytes come in and bytes go out.
  This theory states the contract of \<^verbatim>\<open>docs/extension-contract.md\<close> section 4 as a predicate on
  the reply to a request, with the clients' own decoders as the types of the payloads, and
  shows that \<^verbatim>\<open>actionHandler\<close> of \<^verbatim>\<open>go/internal/extension/utils.go\<close> never leaves it.
\<close>

section \<open>Types of payloads\<close>

text \<open>An acknowledgement of an accepted order: it decodes, and counts the order itself.\<close>

definition ack_typed :: "bytes \<Rightarrow> bool" where
  "ack_typed body =
     (case decode_ack body of
        None \<Rightarrow> False
      | Some ack \<Rightarrow> ck_accepted ack \<and> 1 \<le> ck_book_depth ack)"

text \<open>A settled batch: every number is there, and the signature has the length the contract recovers from.\<close>

definition fill_typed :: "fill \<Rightarrow> bool" where
  "fill_typed f \<longleftrightarrow> cf_base_delta f \<noteq> None \<and> cf_quote_delta f \<noteq> None"

definition batch_typed :: "(json \<Rightarrow> address option) \<Rightarrow> bytes \<Rightarrow> bool" where
  "batch_typed to_address body =
     (case decode_batch to_address body of
        None \<Rightarrow> False
      | Some b \<Rightarrow> cb_clearing_price b \<noteq> None \<and> cb_matched_base b \<noteq> None \<and> list_all fill_typed (cb_fills b)
          \<and> length (cb_signature b) = 65 \<and> 0 \<le> cb_unmatched b)"

text \<open>
  The result of an action: it echoes the action and its fixed data, and its status, log and
  data go together as sections 4.4 and 4.6 of the contract have them.
\<close>

definition echoes :: "Action \<Rightarrow> DataFixed \<Rightarrow> ActionResult \<Rightarrow> bool" where
  "echoes a df r \<longleftrightarrow>
     ar_id r = a_id a \<and> ar_submission_tag r = a_submission_tag a \<and> ar_version r = Version
     \<and> ar_op_type r = df_op_type df \<and> ar_op_command r = df_op_command df"

definition failed_typed :: "ActionResult \<Rightarrow> bool" where
  "failed_typed r \<longleftrightarrow> ar_status r = 0 \<and> has_prefix (ar_log r) ''error: '' \<and> ar_data r = []"

definition done_typed :: "(bytes \<Rightarrow> bool) \<Rightarrow> ActionResult \<Rightarrow> bool" where
  "done_typed payload r \<longleftrightarrow> ar_status r = 1 \<and> ar_log r = ''ok'' \<and> payload (ar_data r)"

definition result_typed :: "(bytes \<Rightarrow> bool) \<Rightarrow> Action \<Rightarrow> DataFixed \<Rightarrow> ActionResult \<Rightarrow> bool" where
  "result_typed payload a df r \<longleftrightarrow> echoes a df r \<and> (failed_typed r \<or> done_typed payload r)"

text \<open>The reply to an action, by the handler the action reaches.\<close>

definition answers :: "node \<Rightarrow> (bytes \<Rightarrow> bool) \<Rightarrow> Action \<Rightarrow> DataFixed \<Rightarrow> http_reply \<Rightarrow> bool" where
  "answers nd payload a df reply \<longleftrightarrow>
     (\<exists>r. reply = (StatusOK, n_result_json nd r) \<and> result_typed payload a df r)"

definition reply_typed :: "node \<Rightarrow> (json \<Rightarrow> address option) \<Rightarrow> bytes \<Rightarrow> http_reply \<Rightarrow> bool" where
  "reply_typed nd to_address body reply =
     (case n_action_json nd body of
        Inl t \<Rightarrow> fst reply = StatusBadRequest \<and> has_prefix (snd reply) ''decoding action: ''
      | Inr a \<Rightarrow>
        (case n_parse nd (a_message a) of
           Inl t \<Rightarrow> fst reply = StatusBadRequest \<and> has_prefix (snd reply) ''decoding fixed data: ''
         | Inr df \<Rightarrow>
             (case route nd a of
                ToSubmit _ \<Rightarrow> answers nd ack_typed a df reply
              | ToRun _ \<Rightarrow> answers nd (batch_typed to_address) a df reply
              | Refused \<Rightarrow> fst reply = StatusNotImplemented \<and> has_prefix (snd reply) ''unsupported op '')))"

section \<open>The handlers keep to their types\<close>

lemma echoes_buildResult [simp]: "echoes a df (buildResult a df data st er)"
  by (simp add: echoes_def buildResult_def)

lemma failed_buildResult [simp]: "failed_typed (buildResult a df [] 0 (Some t))"
  by (simp add: failed_typed_def buildResult_def has_prefix_def)

lemma done_buildResult: "payload data \<Longrightarrow> done_typed payload (buildResult a df data 1 None)"
  by (simp add: done_typed_def buildResult_def)

lemma book_length: "length (book_at (history evs) b) \<le> length evs"
proof -
  have one: "length (submission b ev) \<le> 1" for ev
    by (simp add: submission_def split: routed.splits option.splits prod.splits)
  have "length (submissions b evs) \<le> length evs"
  proof (induction evs)
    case (Cons ev evs)
    then show ?case using one [of ev] by (simp add: submissions_def)
  qed (simp add: submissions_def)
  then show ?thesis using book_suffix [of evs b] by fastforce
qed

lemma submit_typed:
  assumes "\<And>b. length (book_at e b) < 2 ^ 63 - 1"
  shows "result_typed ack_typed a df (snd (processSubmitOrder nd a df e))"
proof (cases "opened_order nd df")
  case None
  then show ?thesis using submit_refused [OF None, of a e] by (auto simp: result_typed_def)
next
  case (Some p)
  obtain req ord where p: "p = (req, ord)" by (cases p)
  obtain e' depth where r: "rest_order req ord e = (e', depth)" by (cases "rest_order req ord e")
  let ?ack = "\<lparr>sa_order_id = sr_order_id req, sa_batch_id = sr_batch_id req, sa_accepted = True, sa_book_depth = depth\<rparr>"
  have "depth < 2 ^ 63" "1 \<le> depth" using rest_order_facts(2) [OF r] assms [of "sr_batch_id req"] by simp_all
  then have "ack_typed (SubmitOrderResponse_json ?ack)"
    using ack_reply_roundtrip [of ?ack] by (simp add: ack_typed_def)
  then show ?thesis
    using submit_accepted [OF _ r, of nd df a] Some p by (simp add: result_typed_def done_buildResult)
qed

lemma run_typed:
  assumes "book_ok e" "\<And>b. length (book_at e b) < 2 ^ 63"
    and "\<And>x. plain (n_address_text nd x)" "\<And>x. to_address (JStr (n_address_text nd x)) = Some x"
  shows "result_typed (batch_typed to_address) a df (snd (processRunBatch nd a df e))"
proof (cases rule: run_batch_cases [of nd a df e])
  case (settled req s m sig)
  have "0 \<le> s_unmatched s \<and> s_unmatched s \<le> int (length (book_at e (rr_batch_id req))) - 2"
    by (rule unmatched_bounds [OF book_ok_sizes [OF assms(1)] settled(2)])
  then have left: "0 \<le> s_unmatched s" "s_unmatched s < 2 ^ 63" using assms(2) [of "rr_batch_id req"] by simp_all
  then have "decode_batch to_address (RunBatchResponse_json nd (run_response req s m sig)) = Some (client_batch (run_response req s m sig))"
    by (intro batch_reply assms(3,4)) (simp_all add: run_response_def)
  then have "batch_typed to_address (RunBatchResponse_json nd (run_response req s m sig))"
    using left tee.signature_length [OF settled(4)]
    by (simp add: batch_typed_def client_batch_def run_response_def fill_typed_def client_fill_def list_all_iff)
  then show ?thesis by (simp add: settled(5) result_typed_def done_buildResult)
qed (simp_all add: result_typed_def)

text \<open>(C26) The endpoint is well typed. Whatever the history and whatever bytes are posted, the reply
  is one the contract allows: status 400 for a body or fixed data that does not decode, 501
  for an operation the extension does not have, and otherwise status 200 with the result of
  the action, which echoes the action, and either failed, with status 0, a log that starts
  with \<^verbatim>\<open>error: \<close> and no data, or succeeded, with status 1, the log \<^verbatim>\<open>ok\<close> and data that the
  client's own type for that command decodes, with every number present.\<close>

theorem replies_are_typed:
  assumes "length evs < 2 ^ 63 - 1"
    and "\<And>x. plain (n_address_text nd x)" "\<And>x. to_address (JStr (n_address_text nd x)) = Some x"
  shows "reply_typed nd to_address body (snd (actionHandler nd body (history evs)))"
proof -
  let ?e = "history evs"
  have small: "length (book_at ?e b) < 2 ^ 63 - 1" for b using book_length [of evs b] assms(1) by simp
  have small': "length (book_at ?e b) < 2 ^ 63" for b
    using small [of b] by (rule less_trans) simp
  have ok: "book_ok ?e"
    using enclave.run_inv [OF book_ok_New] by (metis history_def prod.collapse)
  have run: "result_typed (batch_typed to_address) a df (snd (processRunBatch nd a df ?e))" for a df
    by (rule run_typed [OF ok small' assms(2,3)])
  have submit: "result_typed ack_typed a df (snd (processSubmitOrder nd a df ?e))" for a df
    by (rule submit_typed [OF small])
  show ?thesis
    using run submit
    by (auto simp: reply_typed_def actionHandler_def processAction_def processAuction_def route_def answers_def has_prefix_def
        case_prod_beta split: sum.splits)
qed

definition posting_node :: node where
  "posting_node = demo_node (demo_tee [])\<lparr>n_action_json := \<lambda>_. Inr (demo_action 12)\<rparr>"

theorem replies_are_typed_witness:
  "\<exists>df. n_parse posting_node (a_message (demo_action 12)) = Inr df
    \<and> answers posting_node ack_typed (demo_action 12) df
        (snd (actionHandler posting_node ''x'' (history [demo_event SideBuy, demo_event SideSell])))"
proof -
  have addresses: "plain (n_address_text posting_node a)" "demo_to_address (JStr (n_address_text posting_node a)) = Some a" for a
    by (simp_all add: posting_node_def demo_node_def demo_to_address_def)
  have "n_action_json posting_node ''x'' = Inr (demo_action 12)" by (simp add: posting_node_def)
  moreover have "\<exists>df. n_parse posting_node (a_message (demo_action 12)) = Inr df \<and> route posting_node (demo_action 12) = ToSubmit df"
    by (simp add: posting_node_def demo_node_def route_def demo_action_def OPTypeAuction_def OPCommandSubmitOrder_def)
  ultimately show ?thesis
    using replies_are_typed [of "[demo_event SideBuy, demo_event SideSell]" posting_node demo_to_address "''x''"] addresses
    by (auto simp: reply_typed_def)
qed

end
