(* ===== verification/Sealed_Auction.thy ===== *)
theory Sealed_Auction
  imports Enclave "HOL-Library.Multiset"
begin

text \<open>
  What the enclave promises, without its data structures. A batch is a multiset of orders: there
  is no arrival order, no loop over candidates and no table of traders. A settlement is fair
  for a batch if its price is the preferred one, and its fills are the net of trades that respect
  price-time priority. The extension of \<^verbatim>\<open>go/internal/extension\<close> and the engine of
  \<^verbatim>\<open>go/internal/matching\<close> together refine a machine that, asked to, accepts an order, settles a
  batch fairly, abandons a hopeless one, and does nothing where nothing was asked of it.
\<close>

section \<open>A fair settlement\<close>

definition marketable :: "int \<Rightarrow> Order \<Rightarrow> bool" where
  "marketable p ord \<longleftrightarrow> (if o_side ord = SideBuy then p \<le> o_limit_price ord else o_side ord = SideSell \<and> o_limit_price ord \<le> p)"

definition volume_of :: "(Order \<Rightarrow> bool) \<Rightarrow> Order multiset \<Rightarrow> int" where
  "volume_of P M = (\<Sum>ord \<in># filter_mset P M. o_size ord)"

definition bid_volume :: "Order multiset \<Rightarrow> int \<Rightarrow> int" where
  "bid_volume M p = volume_of (\<lambda>ord. o_side ord = SideBuy \<and> p \<le> o_limit_price ord) M"

definition ask_volume :: "Order multiset \<Rightarrow> int \<Rightarrow> int" where
  "ask_volume M p = volume_of (\<lambda>ord. o_side ord = SideSell \<and> o_limit_price ord \<le> p) M"

definition tradable :: "Order multiset \<Rightarrow> int \<Rightarrow> int" where
  "tradable M p = min (bid_volume M p) (ask_volume M p)"

definition gap :: "Order multiset \<Rightarrow> int \<Rightarrow> int" where
  "gap M p = \<bar>bid_volume M p - ask_volume M p\<bar>"

text \<open>More volume, then a smaller gap, then nearer to a positive reference, then lower.\<close>

definition preferred :: "Order multiset \<Rightarrow> int option \<Rightarrow> int \<Rightarrow> int \<Rightarrow> bool" where
  "preferred M ref p q \<longleftrightarrow>
     tradable M q < tradable M p \<or> tradable M p = tradable M q \<and>
      (gap M p < gap M q \<or> gap M p = gap M q \<and>
        (oracle_distance ref p < oracle_distance ref q \<or> oracle_distance ref p = oracle_distance ref q \<and> p < q))"

definition clearing_price :: "Order multiset \<Rightarrow> int option \<Rightarrow> int \<Rightarrow> bool" where
  "clearing_price M ref p \<longleftrightarrow>
     p \<in> o_limit_price ` set_mset M \<and> 0 < tradable M p
     \<and> (\<forall>q \<in> o_limit_price ` set_mset M. q \<noteq> p \<longrightarrow> preferred M ref p q)"

definition in_band :: "int \<Rightarrow> int option \<Rightarrow> u32 \<Rightarrow> bool" where
  "in_band p ref bps \<longleftrightarrow> (\<forall>r. ref = Some r \<and> 0 < r \<longrightarrow> \<bar>p - r\<bar> * 10000 \<le> r * uint bps)"

text \<open>Trades: orders with the amount they trade. An order that is ahead of one that trades is filled.\<close>

definition ahead :: "Order \<Rightarrow> Order \<Rightarrow> bool" where
  "ahead a b \<longleftrightarrow> o_side a = o_side b \<and>
     (if o_side b = SideBuy then o_limit_price b < o_limit_price a else o_limit_price a < o_limit_price b) \<or>
     o_side a = o_side b \<and> o_limit_price a = o_limit_price b \<and> o_id a < o_id b"

definition amount :: "(int \<Rightarrow> int) \<Rightarrow> side \<Rightarrow> (Order \<Rightarrow> bool) \<Rightarrow> trade multiset \<Rightarrow> int" where
  "amount f sd P T = (\<Sum>tr \<in># filter_mset (\<lambda>tr. o_side (fst tr) = sd \<and> P (fst tr)) T. f (snd tr))"

definition fair_trades :: "Order multiset \<Rightarrow> int \<Rightarrow> int \<Rightarrow> trade multiset \<Rightarrow> bool" where
  "fair_trades M p v T \<longleftrightarrow>
     image_mset fst T \<subseteq># M
     \<and> (\<forall>tr \<in># T. 0 < snd tr \<and> snd tr \<le> o_size (fst tr) \<and> marketable p (fst tr))
     \<and> amount id SideBuy (\<lambda>_. True) T = v \<and> amount id SideSell (\<lambda>_. True) T = v
     \<and> (\<forall>tr \<in># T. \<forall>ord \<in># M. ahead ord (fst tr) \<longrightarrow> (ord, o_size ord) \<in># T)"

definition pays :: "trade multiset \<Rightarrow> int \<Rightarrow> Fill list \<Rightarrow> bool" where
  "pays T p fills \<longleftrightarrow>
     distinct (map fl_trader fills) \<and> fl_trader ` set fills = (o_trader \<circ> fst) ` set_mset T
     \<and> (\<forall>f \<in> set fills. let own = (\<lambda>ord. o_trader ord = fl_trader f) in
          fl_base_delta f = amount id SideBuy own T - amount id SideSell own T
          \<and> fl_quote_delta f =
              amount (\<lambda>t. t * p div PriceScale) SideSell own T - amount (\<lambda>t. t * p div PriceScale) SideBuy own T)"

definition fair :: "Order multiset \<Rightarrow> int option \<Rightarrow> u32 \<Rightarrow> Settlement \<Rightarrow> bool" where
  "fair M ref bps s \<longleftrightarrow>
     clearing_price M ref (s_clearing_price s) \<and> in_band (s_clearing_price s) ref bps
     \<and> s_matched_base s = tradable M (s_clearing_price s)
     \<and> (\<exists>T. fair_trades M (s_clearing_price s) (s_matched_base s) T \<and> pays T (s_clearing_price s) (s_fills s)
          \<and> s_unmatched s = int (size M) - int (size T))"

definition hopeless :: "Order multiset \<Rightarrow> int option \<Rightarrow> u32 \<Rightarrow> bool" where
  "hopeless M ref bps \<longleftrightarrow>
     (\<forall>p. \<not> 0 < tradable M p) \<or> (\<exists>p. clearing_price M ref p \<and> \<not> in_band p ref bps)"

text \<open>A batch has at most one clearing price, so it is never both.\<close>

lemma clearing_price_unique:
  assumes "clearing_price M ref p" "clearing_price M ref q"
  shows "p = q"
proof (rule ccontr)
  assume "p \<noteq> q"
  then have "preferred M ref p q" "preferred M ref q p"
    using assms by (auto simp: clearing_price_def)
  then show False by (auto simp: preferred_def)
qed

lemma fair_not_hopeless:
  assumes "fair M ref bps s"
  shows "\<not> hopeless M ref bps"
proof -
  have p: "clearing_price M ref (s_clearing_price s)" "in_band (s_clearing_price s) ref bps"
    using assms by (simp_all add: fair_def)
  have "0 < tradable M (s_clearing_price s)" using p(1) by (simp add: clearing_price_def)
  moreover have "in_band q ref bps" if "clearing_price M ref q" for q
    using clearing_price_unique [OF p(1) that] p(2) by simp
  ultimately show ?thesis unfolding hopeless_def by blast
qed

section \<open>The engine is fair\<close>

lemma volume_of_mset: "volume_of P (mset xs) = sum_list (map o_size (filter P xs))"
  by (induction xs) (simp_all add: volume_of_def)

lemma abstract_depth [simp]:
  "bid_volume (mset xs) p = demand_at xs p" "ask_volume (mset xs) p = supply_at xs p"
  "tradable (mset xs) p = matched_at xs p" "gap (mset xs) p = imbalance_at xs p"
  by (simp_all add: bid_volume_def ask_volume_def tradable_def gap_def volume_of_mset demand_at_def supply_at_def bids_def asks_def
      matched_at_def imbalance_at_def)

lemma preferred_beats: "preferred (mset xs) ref p q \<longleftrightarrow> beats xs ref p q"
  by (auto simp: preferred_def beats_def better_iff)

lemma in_band_withinBand: "in_band p ref bps \<longleftrightarrow> withinBand p ref bps"
  by (auto simp: in_band_def withinBand_def Let_def split: option.splits)

lemma clearing_priceI:
  assumes "sizes_pos xs" "p \<in> o_limit_price ` set xs" "matched_at xs p \<noteq> 0"
    and "\<And>q. q \<in> o_limit_price ` set xs \<Longrightarrow> q \<noteq> p \<Longrightarrow> matched_at xs q \<noteq> 0 \<Longrightarrow> beats xs ref p q"
  shows "clearing_price (mset xs) ref p"
proof -
  have pos: "0 < matched_at xs p" using assms(3) matched_nonneg [OF assms(1), of p] by simp
  have "beats xs ref p q" if "q \<in> o_limit_price ` set xs" "q \<noteq> p" for q
    using assms(4) [OF that] pos by (cases "matched_at xs q = 0") (auto simp: beats_def better_def)
  then show ?thesis using assms(2) pos by (auto simp: clearing_price_def preferred_beats)
qed

lemma Clear_hopeless:
  assumes pos: "sizes_pos xs" and "Clear xs ref bps = Inl ce"
  shows "hopeless (mset xs) ref bps"
proof -
  let ?b = "best_candidate xs ref (candidatePrices xs) None"
  have spec: "incumbent_of xs ref (o_limit_price ` set xs) ?b" by (rule best_candidate_spec)
  show ?thesis
  proof (cases ce)
    case ErrNoCross
    then have "\<not> crosses xs" using assms no_cross_iff [OF pos] by simp
    then show ?thesis using crosses_iff_matched [OF pos] by (simp add: hopeless_def)
  next
    case ErrOutOfBand
    then obtain bp bm bi where b: "?b = Some (bp, bm, bi)" "\<not> withinBand bp ref bps"
      using assms(2) by (auto simp: Clear_def split: if_splits option.splits prod.splits)
    then have "clearing_price (mset xs) ref bp"
      using spec by (intro clearing_priceI [OF pos]) (auto simp: incumbent_of_def)
    then show ?thesis using b(2) by (auto simp: hopeless_def in_band_withinBand)
  qed
qed

section \<open>The trades are fair\<close>

definition trades_of :: "Order list \<Rightarrow> int \<Rightarrow> int \<Rightarrow> trade multiset" where
  "trades_of xs p v = mset (buy_trades xs p v @ sell_trades xs p v)"

lemma amount_mset:
  "amount f sd P (mset ts) = sum_list (map (f \<circ> snd) (filter (\<lambda>tr. o_side (fst tr) = sd \<and> P (fst tr)) ts))"
  by (induction ts) (simp_all add: amount_def)

lemma amount_trades:
  assumes "sizes_pos xs" "0 \<le> v"
  shows "amount f SideBuy P (trades_of xs p v) = sum_list (map (f \<circ> snd) (filter (\<lambda>tr. P (fst tr)) (buy_trades xs p v)))"
    and "amount f SideSell P (trades_of xs p v) = sum_list (map (f \<circ> snd) (filter (\<lambda>tr. P (fst tr)) (sell_trades xs p v)))"
proof -
  have sides: "o_side (fst tr) = SideBuy" if "tr \<in> set (buy_trades xs p v)" for tr
    using buy_tradesD(2) [OF assms that] .
  have sides': "o_side (fst tr) = SideSell" if "tr \<in> set (sell_trades xs p v)" for tr
    using sell_tradesD(2) [OF assms that] .
  have ne: "SideBuy \<noteq> SideSell" by (simp add: SideBuy_def SideSell_def)
  have "filter (\<lambda>tr. o_side (fst tr) = SideBuy \<and> P (fst tr)) (buy_trades xs p v @ sell_trades xs p v) =
      filter (\<lambda>tr. P (fst tr)) (buy_trades xs p v)"
    using sides sides' ne by (auto simp: filter_empty_conv intro!: filter_cong)
  then show "amount f SideBuy P (trades_of xs p v) = sum_list (map (f \<circ> snd) (filter (\<lambda>tr. P (fst tr)) (buy_trades xs p v)))"
    by (simp only: trades_of_def amount_mset)
  have "filter (\<lambda>tr. o_side (fst tr) = SideSell \<and> P (fst tr)) (buy_trades xs p v @ sell_trades xs p v) =
      filter (\<lambda>tr. P (fst tr)) (sell_trades xs p v)"
    using sides sides' ne by (auto simp: filter_empty_conv intro!: filter_cong)
  then show "amount f SideSell P (trades_of xs p v) = sum_list (map (f \<circ> snd) (filter (\<lambda>tr. P (fst tr)) (sell_trades xs p v)))"
    by (simp only: trades_of_def amount_mset)
qed

lemma mset_take_subset: "mset (take n xs) \<subseteq># mset xs"
  by (metis append_take_drop_id mset_append mset_subset_eq_add_left)

lemma trades_subset:
  assumes "sizes_pos xs" "0 \<le> v"
  shows "image_mset fst (trades_of xs p v) \<subseteq># mset xs"
proof -
  have "mset (map fst (buy_trades xs p v)) \<subseteq># mset (bids xs p)"
    using trades_prefix [of "go_sort buy_before (bids xs p)" v] assms mset_take_subset [of _ "go_sort buy_before (bids xs p)"]
    by (metis buy_trades_def gosort.perm sizes_pos_bids sizes_pos_sorted)
  moreover have "mset (map fst (sell_trades xs p v)) \<subseteq># mset (asks xs p)"
    using trades_prefix [of "go_sort sell_before (asks xs p)" v] assms mset_take_subset [of _ "go_sort sell_before (asks xs p)"]
    by (metis sell_trades_def gosort.perm sizes_pos_asks sizes_pos_sorted)
  moreover have "mset (bids xs p) + mset (asks xs p) \<subseteq># mset xs"
    by (induction xs) (auto simp: bids_def asks_def SideBuy_def SideSell_def intro: subset_mset.order_trans)
  ultimately show ?thesis
    unfolding trades_of_def mset_append image_mset_union mset_map
    by (meson subset_mset.add_mono subset_mset.order_trans)
qed

lemma ahead_iff:
  "ahead a b \<Longrightarrow> o_side b = SideBuy \<Longrightarrow> o_side a = SideBuy \<and> buy_before a b"
  "ahead a b \<Longrightarrow> o_side b = SideSell \<Longrightarrow> o_side a = SideSell \<and> sell_before a b"
  by (auto simp: ahead_def buy_before_iff sell_before_iff SideBuy_def SideSell_def split: if_splits)

lemma engine_trades_fair:
  assumes pos: "sizes_pos xs" and v: "0 < v" "v \<le> matched_at xs p"
  shows "fair_trades (mset xs) p v (trades_of xs p v)"
proof -
  let ?bt = "buy_trades xs p v" and ?st = "sell_trades xs p v"
  have v0: "0 \<le> v" using v(1) by simp
  note B = buy_tradesD [OF pos v0] and S = sell_tradesD [OF pos v0]
  have each: "0 < snd tr \<and> snd tr \<le> o_size (fst tr) \<and> marketable p (fst tr)" if "tr \<in># trades_of xs p v" for tr
    using that B [of tr p] S [of tr p] by (auto simp: trades_of_def marketable_def SideBuy_def SideSell_def)
  have filled: "(ord, o_size ord) \<in># trades_of xs p v"
    if "tr \<in># trades_of xs p v" "ord \<in> set xs" "ahead ord (fst tr)" for tr ord
  proof (cases "tr \<in> set ?bt")
    case True
    have side: "o_side ord = SideBuy" "buy_before ord (fst tr)" using ahead_iff(1) [OF that(3)] B(2) [OF True] by simp_all
    then have "ord \<in> set (bids xs p)"
      using that(2) B(3) [OF True] by (auto simp: set_bids buy_before_iff)
    then have "(ord, o_size ord) \<in> set ?bt"
      using trades_priority [OF strict_weak_buy_before sizes_pos_bids [OF pos] v0, of "fst tr" "snd tr"] True side(2)
      by (simp add: buy_trades_def)
    then show ?thesis by (simp add: trades_of_def)
  next
    case False
    then have st: "tr \<in> set ?st" using that(1) by (simp add: trades_of_def)
    have side: "o_side ord = SideSell" "sell_before ord (fst tr)" using ahead_iff(2) [OF that(3)] S(2) [OF st] by simp_all
    then have "ord \<in> set (asks xs p)"
      using that(2) S(3) [OF st] by (auto simp: set_asks sell_before_iff)
    then have "(ord, o_size ord) \<in> set ?st"
      using trades_priority [OF strict_weak_sell_before sizes_pos_asks [OF pos] v0, of "fst tr" "snd tr"] st side(2)
      by (simp add: sell_trades_def)
    then show ?thesis by (simp add: trades_of_def)
  qed
  show ?thesis
    unfolding fair_trades_def
    using trades_subset [OF pos v0] each filled side_volumes [OF pos v0 v(2)] by (simp add: amount_trades [OF pos v0])
qed

lemma engine_pays:
  assumes pos: "sizes_pos xs" and cl: "Clear xs ref bps = Inr s"
  shows "pays (trades_of xs (s_clearing_price s) (s_matched_base s)) (s_clearing_price s) (s_fills s)"
proof -
  let ?p = "s_clearing_price s" and ?v = "s_matched_base s"
  have v: "0 \<le> ?v" using Clear_matched_pos [OF pos cl] by simp
  obtain n where al: "allocate xs ?p ?v = (s_fills s, n)" using cl by (rule Clear_InrD)
  note F = allocate_fills [OF al]
  have quote: "(\<lambda>tr. QuoteFor (snd tr) ?p) = (\<lambda>t. t * ?p div PriceScale) \<circ> snd"
    by (simp add: fun_eq_iff QuoteFor_def)
  have "fl_trader ` set (s_fills s) = (o_trader \<circ> fst) ` set_mset (trades_of xs ?p ?v)"
    using F(2) by (auto simp: trades_of_def trader_of_def)
  then show ?thesis
    unfolding pays_def Let_def
    using F(1,3) by (simp add: amount_trades [OF pos v] net_base_def net_quote_def trader_of_def quote)
qed

lemma Clear_fair:
  assumes pos: "sizes_pos xs" and cl: "Clear xs ref bps = Inr s"
  shows "fair (mset xs) ref bps s"
proof -
  let ?T = "trades_of xs (s_clearing_price s) (s_matched_base s)"
  note facts = Clear_facts [OF cl] and v = Clear_matched_pos [OF pos cl]
  have "clearing_price (mset xs) ref (s_clearing_price s)"
    using facts v Clear_best [OF cl] by (intro clearing_priceI [OF pos]) simp_all
  moreover have "in_band (s_clearing_price s) ref bps" using facts(3) by (simp add: in_band_withinBand)
  moreover have "fair_trades (mset xs) (s_clearing_price s) (s_matched_base s) ?T"
    using facts(1) v by (intro engine_trades_fair [OF pos]) simp_all
  moreover have "s_unmatched s = int (size (mset xs)) - int (size ?T)"
    using Clear_trades(7) [OF pos cl] by (simp add: trades_of_def)
  ultimately show ?thesis
    using engine_pays [OF pos cl] facts(1) unfolding fair_def by auto
qed

section \<open>The abstract machine\<close>

text \<open>
  The machine is asked something: nothing it knows, to take an order, or to run a batch under a
  reference price and a tolerance, by a signer that will sign some settlements and not others.
  What it does is then forced by what the batch holds: a fair settlement is released and
  empties the batch, or, unsigned, leaves it; a hopeless batch is abandoned; an empty one, and
  a request of no kind, leave everything as it is. Doing nothing is never an alternative.
\<close>

datatype ask =
    NoAsk
  | Offer u64 Order
  | Run u64 "int option" u32 "Settlement \<Rightarrow> bool"

datatype act =
    Accept u64 Order nat
  | Settle u64 Settlement
  | Withhold u64 Settlement
  | Abandon u64
  | Idle

inductive auction_step :: "(u64 \<Rightarrow> Order multiset) \<Rightarrow> ask \<Rightarrow> act \<Rightarrow> (u64 \<Rightarrow> Order multiset) \<Rightarrow> bool" where
  accept: "order_ok ord \<Longrightarrow> auction_step A (Offer b ord) (Accept b ord (size (A b) + 1)) (A(b := add_mset ord (A b)))"
| settle: "fair (A b) ref bps s \<Longrightarrow> signs s \<Longrightarrow> auction_step A (Run b ref bps signs) (Settle b s) (A(b := {#}))"
| withhold: "fair (A b) ref bps s \<Longrightarrow> \<not> signs s \<Longrightarrow> auction_step A (Run b ref bps signs) (Withhold b s) A"
| abandon: "A b \<noteq> {#} \<Longrightarrow> hopeless (A b) ref bps \<Longrightarrow> auction_step A (Run b ref bps signs) (Abandon b) (A(b := {#}))"
| empty: "A b = {#} \<Longrightarrow> auction_step A (Run b ref bps signs) Idle A"
| nothing: "auction_step A NoAsk Idle A"

inductive_cases auction_runE: "auction_step A (Run b ref bps signs) c A'"

text \<open>The kinds of step exclude each other: the batch and the request decide between them.\<close>

lemma hopeless_empty [simp]: "hopeless {#} ref bps"
  by (simp add: hopeless_def tradable_def bid_volume_def ask_volume_def volume_of_def)

lemma auction_run_decided:
  assumes "auction_step A (Run b ref bps signs) c A'"
  shows "c = Idle \<longleftrightarrow> A b = {#}" "c = Abandon b \<longleftrightarrow> A b \<noteq> {#} \<and> hopeless (A b) ref bps"
    and "(\<exists>s. c = Settle b s \<or> c = Withhold b s) \<longleftrightarrow> (\<exists>s. fair (A b) ref bps s)"
proof -
  show "c = Idle \<longleftrightarrow> A b = {#}"
    by (rule auction_runE [OF assms]) (auto dest: fair_not_hopeless)
  show "c = Abandon b \<longleftrightarrow> A b \<noteq> {#} \<and> hopeless (A b) ref bps"
    by (rule auction_runE [OF assms]) (auto dest: fair_not_hopeless)
  show "(\<exists>s. c = Settle b s \<or> c = Withhold b s) \<longleftrightarrow> (\<exists>s. fair (A b) ref bps s)"
    by (rule auction_runE [OF assms]) (auto dest: fair_not_hopeless)
qed

inductive path :: "('a \<Rightarrow> 'q \<Rightarrow> 'c \<Rightarrow> 'a \<Rightarrow> bool) \<Rightarrow> 'a \<Rightarrow> 'q list \<Rightarrow> 'c list \<Rightarrow> 'a \<Rightarrow> bool" for spec where
  path_Nil: "path spec a [] [] a"
| path_Cons: "spec a q c a1 \<Longrightarrow> path spec a1 qs cs a2 \<Longrightarrow> path spec a (q # qs) (c # cs) a2"

text \<open>
  A machine simulates a specification if every step it takes from a state that satisfies its
  invariant is the abstract step the event asks for, which the output shows.
\<close>

locale simulation =
  fixes step :: "'e \<Rightarrow> 's \<Rightarrow> 's \<times> 'o"
    and inv :: "'s \<Rightarrow> bool"
    and abs :: "'s \<Rightarrow> 'a"
    and asks :: "'e \<Rightarrow> 'q"
    and spec :: "'a \<Rightarrow> 'q \<Rightarrow> 'c \<Rightarrow> 'a \<Rightarrow> bool"
    and shown :: "'e \<Rightarrow> 'c \<Rightarrow> 'o \<Rightarrow> bool"
  assumes simulates: "inv s \<Longrightarrow> step e s = (s', out) \<Longrightarrow>
    inv s' \<and> (\<exists>c. spec (abs s) (asks e) c (abs s') \<and> shown e c out)"
begin

lemma run_simulates:
  "inv s \<Longrightarrow> run_events step es s = (s', outs) \<Longrightarrow>
   \<exists>cs. path spec (abs s) (map asks es) cs (abs s') \<and> length cs = length es
     \<and> list_all2 (\<lambda>(e, c) out. shown e c out) (zip es cs) outs"
proof (induction es arbitrary: s outs)
  case Nil
  then show ?case by (auto intro!: exI [of _ "[]"] path_Nil)
next
  case (Cons e es)
  obtain s1 out1 where one: "step e s = (s1, out1)" by (cases "step e s")
  obtain outs2 where rest: "run_events step es s1 = (s', outs2)" "outs = out1 # outs2"
    using Cons.prems(2) one by (auto split: prod.splits)
  obtain c where c: "spec (abs s) (asks e) c (abs s1)" "shown e c out1" "inv s1"
    using simulates [OF Cons.prems(1) one] by blast
  obtain cs where "path spec (abs s1) (map asks es) cs (abs s')" "length cs = length es"
    "list_all2 (\<lambda>(e, c) out. shown e c out) (zip es cs) outs2"
    using Cons.IH [OF c(3) rest(1)] by blast
  then show ?case using c rest(2) by (intro exI [of _ "c # cs"]) (auto intro: path_Cons)
qed

end

section \<open>The enclave refines it\<close>

definition batches :: "extension \<Rightarrow> u64 \<Rightarrow> Order multiset" where
  "batches e b = mset (book_at e b)"

text \<open>What an action asks: the order it carries if it opens, the run it requests if it decodes.\<close>

definition can_sign :: "node \<Rightarrow> RunBatchRequest \<Rightarrow> Settlement \<Rightarrow> bytes \<Rightarrow> bytes \<Rightarrow> bool" where
  "can_sign nd req s m sig \<longleftrightarrow>
     EncodeSettlement (n_pack nd) (rr_chain_id req) (rr_venue req) (rr_batch_id req)
       (s_clearing_price s) (s_matched_base s) (s_fills s) = Inr m
     \<and> Sign (n_tee nd) m = Inr sig"

definition run_asked :: "node \<Rightarrow> RunBatchRequest \<Rightarrow> ask" where
  "run_asked nd req = Run (rr_batch_id req) (rr_ref_price req) (rr_max_deviation_bps req) (\<lambda>s. \<exists>m sig. can_sign nd req s m sig)"

definition asked :: "event \<Rightarrow> ask" where
  "asked ev =
     (case route (fst ev) (snd ev) of
        ToSubmit df \<Rightarrow>
          (case opened_order (fst ev) df of Some (req, ord) \<Rightarrow> Offer (sr_batch_id req) ord | None \<Rightarrow> NoAsk)
      | ToRun df \<Rightarrow>
          (case n_decode_run (fst ev) RunBatchMessageArg (df_original_message df) of
             Inr req \<Rightarrow> run_asked (fst ev) req
           | Inl t \<Rightarrow> NoAsk)
      | Refused \<Rightarrow> NoAsk)"

text \<open>What a reply shows of the abstract step: a settlement leaves the enclave in a settling step only.\<close>

definition released :: "node \<Rightarrow> Action \<Rightarrow> u64 \<Rightarrow> Settlement \<Rightarrow> http_reply \<Rightarrow> bool" where
  "released nd a b s reply \<longleftrightarrow>
     (\<exists>df req m sig. n_decode_run nd RunBatchMessageArg (df_original_message df) = Inr req \<and> rr_batch_id req = b
        \<and> can_sign nd req s m sig \<and> length sig = 65
        \<and> reply = (StatusOK, n_result_json nd (buildResult a df (RunBatchResponse_json nd (run_response req s m sig)) 1 None)))"

definition acknowledged :: "node \<Rightarrow> Action \<Rightarrow> u64 \<Rightarrow> Order \<Rightarrow> nat \<Rightarrow> http_reply \<Rightarrow> bool" where
  "acknowledged nd a b ord depth reply \<longleftrightarrow>
     (\<exists>df. reply = (StatusOK, n_result_json nd (buildResult a df
        (SubmitOrderResponse_json \<lparr>sa_order_id = o_id ord, sa_batch_id = b, sa_accepted = True, sa_book_depth = depth\<rparr>) 1 None)))"

definition not_settled :: "node \<Rightarrow> Action \<Rightarrow> u64 \<Rightarrow> http_reply \<Rightarrow> bool" where
  "not_settled nd a b reply \<longleftrightarrow>
     (\<exists>df ce. reply = (StatusOK, n_result_json nd (buildResult a df [] 0
        (Some (batch_text b ('' not settled: '' @ clear_error_text ce))))))"

definition refused :: "node \<Rightarrow> Action \<Rightarrow> http_reply \<Rightarrow> bool" where
  "refused nd a reply \<longleftrightarrow>
     fst reply \<noteq> StatusOK \<or> (\<exists>df t. reply = (StatusOK, n_result_json nd (buildResult a df [] 0 (Some t))))"

definition shows_act :: "event \<Rightarrow> act \<Rightarrow> http_reply \<Rightarrow> bool" where
  "shows_act ev c reply =
     (case c of
        Accept b ord depth \<Rightarrow> acknowledged (fst ev) (snd ev) b ord depth reply
      | Settle b s \<Rightarrow> released (fst ev) (snd ev) b s reply
      | Abandon b \<Rightarrow> not_settled (fst ev) (snd ev) b reply
      | _ \<Rightarrow> refused (fst ev) (snd ev) reply)"

lemma batches_update: "book_at e' = (book_at e)(b := xs) \<Longrightarrow> batches e' = (batches e)(b := mset xs)"
  by (simp add: batches_def [abs_def] fun_eq_iff)

lemma submit_simulates:
  assumes "route nd a = ToSubmit df" "processSubmitOrder nd a df e = (e', ar)"
  shows "\<exists>c. auction_step (batches e) (asked (nd, a)) c (batches e') \<and> shows_act (nd, a) c (StatusOK, n_result_json nd ar)"
proof (cases "opened_order nd df")
  case None
  then have "e' = e" "refused nd a (StatusOK, n_result_json nd ar)"
    using submit_refused [OF None, of a e] assms(2) by (auto simp: refused_def)
  then show ?thesis
    using None assms(1) by (intro exI [of _ Idle]) (simp add: shows_act_def asked_def auction_step.nothing)
next
  case (Some p)
  obtain req ord where p: "p = (req, ord)" by (cases p)
  obtain e1 depth where r: "rest_order req ord e = (e1, depth)" by (cases "rest_order req ord e")
  note ok = opened_order_ok [OF Some [unfolded p]]
  let ?b = "sr_batch_id req"
  have run: "e' = e1" "ar = buildResult a df (SubmitOrderResponse_json
       \<lparr>sa_order_id = o_id ord, sa_batch_id = ?b, sa_accepted = True, sa_book_depth = depth\<rparr>) 1 None"
    using submit_accepted [OF _ r, of nd df a] Some p assms(2) ok(2) by simp_all
  have "batches e' = (batches e)(?b := mset (book_at e ?b @ [ord]))"
    using rest_order_facts(1) [OF r] run(1) by (intro batches_update) (simp add: fun_eq_iff)
  moreover have depth: "depth = size (batches e ?b) + 1" using rest_order_facts(2) [OF r] by (simp add: batches_def)
  ultimately have "auction_step (batches e) (Offer ?b ord) (Accept ?b ord depth) (batches e')"
    using auction_step.accept [OF ok(1), of "batches e" ?b] by (simp add: batches_def)
  moreover have "acknowledged nd a ?b ord depth (StatusOK, n_result_json nd ar)"
    using run(2) by (auto simp: acknowledged_def)
  ultimately show ?thesis
    using Some p assms(1) by (intro exI [of _ "Accept ?b ord depth"]) (simp add: shows_act_def asked_def)
qed

lemma clear_outcomes:
  assumes ok: "sizes_pos os" and ne: "os \<noteq> []"
  obtains (abandoned) ce where "clear_and_sign nd req os = NotCleared ce" "hopeless (mset os) (rr_ref_price req) (rr_max_deviation_bps req)"
  | (unsigned) s t where "clear_and_sign nd req os = NotSigned t" "fair (mset os) (rr_ref_price req) (rr_max_deviation_bps req) s"
      "\<not> (\<exists>m sig. can_sign nd req s m sig)"
  | (settled) s m sig where "clear_and_sign nd req os = Settled s m sig"
      "fair (mset os) (rr_ref_price req) (rr_max_deviation_bps req) s" "can_sign nd req s m sig" "length sig = 65"
proof (cases "Clear os (rr_ref_price req) (rr_max_deviation_bps req)")
  case (Inl ce)
  then show thesis using abandoned Clear_hopeless [OF ok Inl] by (simp add: clear_and_sign_def)
next
  case (Inr s)
  note fair = Clear_fair [OF ok Inr]
  let ?m = "EncodeSettlement (n_pack nd) (rr_chain_id req) (rr_venue req) (rr_batch_id req)
     (s_clearing_price s) (s_matched_base s) (s_fills s)"
  show thesis
  proof (cases "\<exists>m sig. can_sign nd req s m sig")
    case True
    then obtain m sig where "can_sign nd req s m sig" by blast
    then show thesis
      using settled [OF _ fair] Inr tee.signature_length [of "n_tee nd" m sig] by (simp add: clear_and_sign_def can_sign_def)
  next
    case False
    then have "\<exists>t. clear_and_sign nd req os = NotSigned t"
      using Inr by (auto simp: clear_and_sign_def can_sign_def split: sum.splits)
    then show thesis using unsigned [OF _ fair] False by blast
  qed
qed

lemma batch_simulates:
  assumes ok: "book_ok e" and to: "route nd a = ToRun df" and run: "processRunBatch nd a df e = (e', ar)"
  shows "\<exists>c. auction_step (batches e) (asked (nd, a)) c (batches e') \<and> shows_act (nd, a) c (StatusOK, n_result_json nd ar)"
proof (cases "n_decode_run nd RunBatchMessageArg (df_original_message df)")
  case (Inl t)
  then have "e' = e" "refused nd a (StatusOK, n_result_json nd ar)"
    using run by (auto simp: processRunBatch_def refused_def)
  then show ?thesis
    using Inl to by (intro exI [of _ Idle]) (simp add: shows_act_def asked_def auction_step.nothing)
next
  case (Inr req)
  let ?b = "rr_batch_id req" and ?os = "book_at e (rr_batch_id req)"
  have asked: "asked (nd, a) = run_asked nd req" using Inr to by (simp add: asked_def)
  have books: "batches (discard ?b e) = (batches e)(?b := {#})" "batches (commit_batch ?b s e) = (batches e)(?b := {#})" for s
    by (simp_all add: batches_def [abs_def] fun_eq_iff)
  show ?thesis
  proof (cases "?os = []")
    case True
    then have "e' = e" "refused nd a (StatusOK, n_result_json nd ar)" "batches e ?b = {#}"
      using run Inr by (auto simp: processRunBatch_def refused_def batches_def)
    then show ?thesis
      by (intro exI [of _ Idle]) (simp add: shows_act_def asked run_asked_def auction_step.empty)
  next
    case False
    then have fin: "(e', ar) = finish_batch nd a df req (clear_and_sign nd req ?os) e"
      using run Inr by (simp add: processRunBatch_def)
    have ne: "batches e ?b \<noteq> {#}" and os: "mset ?os = batches e ?b" using False by (simp_all add: batches_def)
    from book_ok_sizes [OF ok] False show ?thesis
    proof (cases rule: clear_outcomes [where nd = nd and req = req])
      case (abandoned ce)
      then have "e' = discard ?b e" "not_settled nd a ?b (StatusOK, n_result_json nd ar)"
        using fin by (auto simp: finish_batch_def not_settled_def)
      then show ?thesis
        using auction_step.abandon [where A = "batches e", OF ne abandoned(2) [unfolded os]]
        by (intro exI [of _ "Abandon ?b"]) (simp add: shows_act_def asked run_asked_def books)
    next
      case (unsigned s t)
      then have "e' = e" "refused nd a (StatusOK, n_result_json nd ar)"
        using fin by (auto simp: finish_batch_def refused_def)
      then show ?thesis
        using auction_step.withhold [where A = "batches e" and signs = "\<lambda>s. \<exists>m sig. can_sign nd req s m sig", OF unsigned(2) [unfolded os] unsigned(3)]
        by (intro exI [of _ "Withhold ?b s"]) (simp add: shows_act_def asked run_asked_def)
    next
      case (settled s m sig)
      then have "e' = commit_batch ?b s e" "released nd a ?b s (StatusOK, n_result_json nd ar)"
        using fin Inr by (auto simp: finish_batch_def released_def)
      moreover have "\<exists>m sig. can_sign nd req s m sig" using settled(3) by blast
      ultimately show ?thesis
        using auction_step.settle [where A = "batches e" and signs = "\<lambda>s. \<exists>m sig. can_sign nd req s m sig", OF settled(2) [unfolded os]]
        by (intro exI [of _ "Settle ?b s"]) (simp add: shows_act_def asked run_asked_def books)
    qed
  qed
qed

interpretation auction: simulation enclave_step book_ok batches asked auction_step shows_act
proof unfold_locales
  fix e ev e' out
  assume ok: "book_ok e" and st: "enclave_step ev e = (e', out)"
  obtain nd a where ev: "ev = (nd, a)" by (cases ev)
  have "book_ok e'" using enclave.step_inv [OF ok st] .
  moreover have "\<exists>c. auction_step (batches e) (asked ev) c (batches e') \<and> shows_act ev c out"
  proof (cases "route nd a")
    case Refused
    then have "e' = e" "fst out \<noteq> StatusOK"
      using st ev by (auto simp: enclave_step_def processAction_def processAuction_def route_def StatusOK_def StatusBadRequest_def
          StatusNotImplemented_def split: sum.splits if_splits)
    then show ?thesis
      using Refused ev by (intro exI [of _ Idle]) (simp add: shows_act_def asked_def auction_step.nothing refused_def)
  next
    case (ToSubmit df)
    then obtain ar where "processSubmitOrder nd a df e = (e', ar)" "out = (StatusOK, n_result_json nd ar)"
      using st ev by (auto simp: enclave_step_def processAction_def processAuction_def route_def
          split: sum.splits if_splits prod.splits)
    then show ?thesis using submit_simulates [OF ToSubmit] ev by simp
  next
    case (ToRun df)
    then obtain ar where "processRunBatch nd a df e = (e', ar)" "out = (StatusOK, n_result_json nd ar)"
      using st ev by (auto simp: enclave_step_def processAction_def processAuction_def route_def
          split: sum.splits if_splits prod.splits)
    then show ?thesis using batch_simulates [OF ok ToRun] ev by simp
  qed
  ultimately show "book_ok e' \<and> (\<exists>c. auction_step (batches e) (asked ev) c (batches e') \<and> shows_act ev c out)" by blast
qed

text \<open>(C2) The enclave is a sealed auction. Every history of actions, of whatever kind and against
  whatever node, is a run of the abstract machine on what those actions ask: it starts with
  empty batches, ends with the multisets of orders the enclave holds, and takes for each action the
  step that what is asked and what the batch holds demand. An order that opens is accepted and acknowledged
  with the depth it reaches. A run of a batch that has a fair settlement under the request's
  own reference price and tolerance finds one: it empties the batch and releases the settlement's
  encoding under a 65-byte signature, or, if that cannot be encoded or signed, keeps the
  batch and releases nothing. A batch that has none is abandoned and reported as not settled.
  Nothing else changes a batch, and doing nothing is possible only where nothing was asked.\<close>

theorem enclave_refines_auction:
  "\<exists>acts. path auction_step (\<lambda>_. {#}) (map asked evs) acts (batches (history evs)) \<and> length acts = length evs
    \<and> list_all2 (\<lambda>(ev, c) reply. shows_act ev c reply) (zip evs acts) (snd (run_events enclave_step evs New))"
proof -
  have "batches New = (\<lambda>_. {#})" by (simp add: batches_def [abs_def])
  then show ?thesis
    using auction.run_simulates [OF book_ok_New, of evs "history evs" "snd (run_events enclave_step evs New)"]
    by (simp add: history_def)
qed

text \<open>(C5) The engine decides the declarative question. On a batch of orders of positive size it
  returns a settlement exactly where a fair one exists, what it returns is fair, and it
  fails exactly where the batch is hopeless: nothing crosses, or the one clearing price is out of band.\<close>

theorem Clear_decides_fairness:
  assumes "sizes_pos orders"
  shows "(\<forall>s. Clear orders ref bps = Inr s \<longrightarrow> fair (mset orders) ref bps s)
    \<and> ((\<exists>s. Clear orders ref bps = Inr s) \<longleftrightarrow> (\<exists>s. fair (mset orders) ref bps s))
    \<and> ((\<exists>ce. Clear orders ref bps = Inl ce) \<longleftrightarrow> hopeless (mset orders) ref bps)"
proof (cases "Clear orders ref bps")
  case (Inl ce)
  then show ?thesis using Clear_hopeless [OF assms Inl] fair_not_hopeless by auto
next
  case (Inr s)
  then show ?thesis using Clear_fair [OF assms Inr] fair_not_hopeless by auto
qed

theorem Clear_decides_fairness_witness:
  "fair (mset demo_book) (Some (2 * PriceScale)) 500 demo_settlement \<and> \<not> hopeless (mset demo_book) (Some (2 * PriceScale)) 500"
  using Clear_decides_fairness [of demo_book "Some (2 * PriceScale)" 500] demo_book_ok(1) demo_clear by auto

end
