(* ===== verification/Spec2Isabelle.thy ===== *)
theory Spec2Isabelle
  imports Nightjar_Base Go_Std Go_Json Json_Facts Wire_Types Ext_Config Matching Auction Allocation Clearing
    Tee_Client Extension Sealing Enclave Extension_Conc Report Checks Check_Facts Revert Registration Registration_Facts
    Transactions Setup Setup_Facts Venue_Calls Client_Wire Decimals Demos Demo_Facts
    Support Fxrp_Depth Depth_Facts Xrpl_Fund Fund_Facts
    Start_Up Inspect Commands Protocol Sealed_Auction
begin

text \<open>
  Nightjar is a sealed-bid batch auction run inside a TEE as a Flare compute extension.
  Traders encrypt orders to the node's key and submit the ciphertext through a contract;
  the extension decrypts them in the enclave, keeps them in a book per batch, and on request
  clears the batch at one price and signs the settlement, which the contract executes. Around
  the extension stand Go tools that register it, check a deployment and drive the demos.

  Parts and theories (file names are under \<^verbatim>\<open>src/\<close>).

  \<^item> \<^verbatim>\<open>Nightjar_Base\<close>: types shared by all (addresses, hashes, machine words, errors), sequencing
    of fallible calls, list lemmas, and the contract of \<^verbatim>\<open>sort.Slice\<close> as the locale \<open>slice_sort\<close>,
    interpreted by \<open>go_sort\<close>.
  \<^item> \<^verbatim>\<open>Go_Std\<close>, \<^verbatim>\<open>Go_Json\<close>, \<^verbatim>\<open>Json_Facts\<close>: what the program uses of Go's library: decimal and
    hexadecimal text, big integers, \<^verbatim>\<open>strings\<close>, \<^verbatim>\<open>bufio.Scanner\<close>, base64, and a JSON decoder
    (a lexer and a stack machine) with the encoders of the replies.
  \<^item> \<^verbatim>\<open>Wire_Types\<close>: \<^verbatim>\<open>go/pkg/types/types.go\<close>. \<^verbatim>\<open>Ext_Config\<close>: \<^verbatim>\<open>go/internal/config\<close> and the ports
    of \<^verbatim>\<open>go/cmd/docker\<close>.
  \<^item> \<^verbatim>\<open>Matching\<close>: \<^verbatim>\<open>go/internal/matching/matching.go\<close>, function by function. \<^verbatim>\<open>Auction\<close>,
    \<^verbatim>\<open>Allocation\<close> and \<^verbatim>\<open>Clearing\<close> prove what \<open>Clear\<close> achieves: the choice of the price, its
    ties and band, conservation of base, the rounding of quote, the terms each trader gets,
    price-time priority, independence of arrival, and the bounds of the ABI layout.
  \<^item> \<^verbatim>\<open>Tee_Client\<close>: \<^verbatim>\<open>go/internal/extension/teeclient.go\<close>; the locale \<open>tee_service\<close> states what the
    handlers rely on. \<^verbatim>\<open>Extension\<close>: \<^verbatim>\<open>extension.go\<close> and \<^verbatim>\<open>utils.go\<close>, every handler as a function
    of the state. \<^verbatim>\<open>Sealing\<close>: the client's side of a sealed order, and its round trip.
    \<^verbatim>\<open>Enclave\<close>: invariants of histories of actions through the locale \<open>machine\<close>.
    \<^verbatim>\<open>Extension_Conc\<close>: the critical sections of the handlers as an inductive step relation, with
    and without the serialisation the contract document promises, and which accepted orders its
    settlements spend.
  \<^item> \<^verbatim>\<open>Report\<close>, \<^verbatim>\<open>Checks\<close>, \<^verbatim>\<open>Check_Facts\<close>: \<^verbatim>\<open>tools/pkg/validate\<close> and \<^verbatim>\<open>tools/cmd/verify-deploy\<close>: the
    report, the checks of the six steps and the command; the locale \<open>registrar\<close> is the contract
    of a group of checks.
  \<^item> \<^verbatim>\<open>Sealed_Auction\<close>: the abstract auction over multisets of orders, whose step the request and the
    batch decide, and its fair settlements; the locale \<open>simulation\<close> carries the refinement from one action to every history.
    \<^verbatim>\<open>Protocol\<close>: the types of the replies, after section 4 of \<^verbatim>\<open>docs/extension-contract.md\<close>.
  \<^item> \<^verbatim>\<open>Revert\<close>: revert reasons and \<^verbatim>\<open>CheckTx\<close>. \<^verbatim>\<open>Registration\<close>, \<^verbatim>\<open>Registration_Facts\<close>:
    \<^verbatim>\<open>tools/pkg/fccutils/registration.go\<close> with the state file, the policy gate, governance and the
    commands around them; the locale \<open>one_tx\<close> is the contract of an operation that sends at
    most one transaction, \<open>checked_tx\<close> of one that is mined with success where it succeeds. \<^verbatim>\<open>Commands\<close>: \<^verbatim>\<open>allow-tee-version\<close>, \<^verbatim>\<open>set-governance\<close> and
    \<^verbatim>\<open>register-tee\<close> from their flags on.
  \<^item> \<^verbatim>\<open>Transactions\<close>: sequencing, sending and waiting, shared by the tools below. \<^verbatim>\<open>Setup\<close>,
    \<^verbatim>\<open>Setup_Facts\<close>: \<^verbatim>\<open>fccutils/extension.go\<close> and \<^verbatim>\<open>register-extension\<close>; the locale \<open>grant\<close> is the
    contract of a step that checks what is held before it sends. \<^verbatim>\<open>Venue_Calls\<close>:
    \<^verbatim>\<open>tools/pkg/utils/instructions.go\<close> and \<^verbatim>\<open>deploy-contract\<close>.
  \<^item> \<^verbatim>\<open>Client_Wire\<close>: what the demo clients decode of a reply. \<^verbatim>\<open>Decimals\<close>: their prices and amounts as
    text. \<^verbatim>\<open>Demos\<close>, \<^verbatim>\<open>Demo_Facts\<close>: \<^verbatim>\<open>make-market\<close>, \<^verbatim>\<open>run-test\<close> and \<^verbatim>\<open>run-comparison\<close>, and what
    their batches and checks establish about the engine and the venue.
  \<^item> \<^verbatim>\<open>Support\<close>: \<^verbatim>\<open>tools/pkg/support\<close> and \<^verbatim>\<open>tools/pkg/configs\<close>: addresses, keys, bindings.
    \<^verbatim>\<open>Fxrp_Depth\<close>, \<^verbatim>\<open>Depth_Facts\<close>: \<^verbatim>\<open>fxrp-depth\<close>. \<^verbatim>\<open>Xrpl_Fund\<close>, \<^verbatim>\<open>Fund_Facts\<close>: \<^verbatim>\<open>xrpl-fund\<close>,
    with its calls in a small Hoare logic over the transactions sent.
  \<^item> \<^verbatim>\<open>Start_Up\<close>: the entry points of \<^verbatim>\<open>go/cmd\<close>, \<^verbatim>\<open>go/pkg/server\<close> and \<^verbatim>\<open>start-proxy\<close>. \<^verbatim>\<open>Inspect\<close>:
    \<^verbatim>\<open>fccutils/diag.go\<close>, \<^verbatim>\<open>audit-deploy\<close>, \<^verbatim>\<open>query-tee\<close> and \<^verbatim>\<open>inspect-tee\<close>, and what explains a revert.

  State and operations. The enclave's state is the record \<open>extension\<close> (the map of books, the
  current batch, the counters); a handler takes it and returns it updated with the reply. The
  chain of the tools is a function of the transactions sent so far: an operation takes the list
  of transactions and returns it extended, and every view of the chain takes it. The state file
  of a registration is a field of \<open>world_state\<close>. Machine integers are words of their width; Go's
  \<^verbatim>\<open>big.Int\<close> is \<open>int\<close>; a nil pointer is \<open>None\<close>; an error is the left side of a sum, and so is a
  panic or a fatal exit where one ends a command.

  What the lemmas show. Of the engine: the price, the trades and the payments it chooses, as
  single properties and as a declarative specification it decides. Of the enclave: invariants of
  every history, the refinement of the abstract auction, what a reply may reveal, and what goes
  wrong when handlers interleave. Of the tools: which transactions a command may send, in which
  order, and what its success means for the chain. Between them: that what one side writes the
  other reads, for sealed orders, replies, decimals and version names.

  Parameters. Code that is not under \<^verbatim>\<open>src/\<close> is an argument of the definitions that use it:
  go-ethereum's ABI packing, address syntax and contract bindings, the node's parsing, hashing
  and signing, HTTP and RPC exchanges, files and the process environment.

  Bounds and fuel. The lexer of \<^verbatim>\<open>Go_Json\<close> has fuel, the length of its input plus one, and
  \<open>lex_fuel_enough\<close> shows that any larger amount gives the same tokens. The polling loops have
  the bounds of the code: fifteen attempts for a proxy, thirty and forty for a result of the
  demos, forty for an attestation. Every other recursion is structural or has a measure.
  Books are assumed shorter than 2 to the 63 where their length is printed as an \<^verbatim>\<open>int\<close>.

  Not modelled. Log lines (but for the numbers of reports and the diagnosis of a revert),
  waiting times, the goroutines and signals beyond their outcome, flags and their defaults, the
  ABI descriptions handed to go-ethereum, conversions between byte arrays of the same content, the
  fatal exit of \<^verbatim>\<open>FatalWithCause\<close> (an error result of the command instead), and the wrappers of \<^verbatim>\<open>fccutils/encoding.go\<close>, which no
  other file calls and which only pass their argument to a codec outside the repository. The
  Solidity contracts, the front end and the ports to other languages are not Go. They are listed
  in the manifest with the reason.
\<close>

end
